(* ===== verification/Prelude.thy ===== *)
theory Prelude
  imports Main "HOL-Library.Char_ord" "HOL-Library.List_Lexorder"
begin

text \<open>
  Shared vocabulary of the development: the errors the Go code returns as sentinel values,
  the outcome type of a Go call, the two ways in which the code sequences calls
  (``if err != nil { return err }'' and ``if err != nil { handle it }''), and the rewrite
  rules that let the component proofs run by simplification.
\<close>

named_theorems outcome_simps \<open>evaluation of sequenced calls\<close>
named_theorems go_string_simps \<open>facts on Go strings and paths\<close>
named_theorems persister_defs \<open>definitions of the metadata persister\<close>

section \<open>Errors and outcomes\<close>

text \<open>
  The sentinel errors of pkg/config/error.go, the ones the code takes from os, io, database/sql
  and archive/tar, and the errors of libraries the code only passes on (an unreadable drive, a
  violated table constraint, a cryptographic or codec failure).
\<close>

datatype format_err =
    EncryptionFormatUnknown | SignatureFormatUnknown | CompressionFormatUnknown |
    EncryptionFormatUnsupported | SignatureFormatUnsupported | CompressionFormatUnsupported |
    SignatureFormatRegularOnly | SignatureInvalid | SignatureMissing |
    CompressionFormatRegularOnly | CompressionFormatRequiresLargerRecordSize |
    CompressionLevelUnsupported | CompressionLevelUnknown

datatype config_err =
    IdentityUnparsable | RecipientUnparsable | KeygenFormatUnsupported | TarHeaderMissing |
    TarHeaderEmbeddedMissing | TapeDrivesUnsupported | STFSVersionUnsupported |
    STFSActionUnsupported | NotImplemented | IsDirectory | IsFile |
    FileSystemCacheTypeUnsupported | FileSystemCacheTypeUnknown | WriteCacheTypeUnsupported |
    WriteCacheTypeUnknown | NoRootDirectory | DirectoryNotEmpty

datatype os_err =
    NotExist | Exist | Permission | Invalid | Closed | EndOfFile | UnexpectedEOF | ClosedPipe
    | KeyNotAccessible | NoTLS

datatype lib_err =
    NoRows | Constraint | BadHeader | WriteTooLong | MissedWriting | SocketsNotSupported |
    UnknownFileMode | Syntax | Range | JSON | Base64

datatype err =
    ErrFormat format_err | ErrConfig config_err | ErrOS os_err | ErrLib lib_err
  | ErrExternal string

text \<open>The names the code uses.\<close>

abbreviation ErrEncryptionFormatUnknown :: err where "ErrEncryptionFormatUnknown \<equiv> ErrFormat EncryptionFormatUnknown"
abbreviation ErrSignatureFormatUnknown :: err where "ErrSignatureFormatUnknown \<equiv> ErrFormat SignatureFormatUnknown"
abbreviation ErrCompressionFormatUnknown :: err where "ErrCompressionFormatUnknown \<equiv> ErrFormat CompressionFormatUnknown"
abbreviation ErrEncryptionFormatUnsupported :: err where "ErrEncryptionFormatUnsupported \<equiv> ErrFormat EncryptionFormatUnsupported"
abbreviation ErrSignatureFormatUnsupported :: err where "ErrSignatureFormatUnsupported \<equiv> ErrFormat SignatureFormatUnsupported"
abbreviation ErrCompressionFormatUnsupported :: err where "ErrCompressionFormatUnsupported \<equiv> ErrFormat CompressionFormatUnsupported"
abbreviation ErrSignatureFormatRegularOnly :: err where "ErrSignatureFormatRegularOnly \<equiv> ErrFormat SignatureFormatRegularOnly"
abbreviation ErrSignatureInvalid :: err where "ErrSignatureInvalid \<equiv> ErrFormat SignatureInvalid"
abbreviation ErrSignatureMissing :: err where "ErrSignatureMissing \<equiv> ErrFormat SignatureMissing"
abbreviation ErrCompressionFormatRegularOnly :: err where "ErrCompressionFormatRegularOnly \<equiv> ErrFormat CompressionFormatRegularOnly"
abbreviation ErrCompressionFormatRequiresLargerRecordSize :: err where "ErrCompressionFormatRequiresLargerRecordSize \<equiv> ErrFormat CompressionFormatRequiresLargerRecordSize"
abbreviation ErrCompressionLevelUnsupported :: err where "ErrCompressionLevelUnsupported \<equiv> ErrFormat CompressionLevelUnsupported"
abbreviation ErrCompressionLevelUnknown :: err where "ErrCompressionLevelUnknown \<equiv> ErrFormat CompressionLevelUnknown"
abbreviation ErrIdentityUnparsable :: err where "ErrIdentityUnparsable \<equiv> ErrConfig IdentityUnparsable"
abbreviation ErrRecipientUnparsable :: err where "ErrRecipientUnparsable \<equiv> ErrConfig RecipientUnparsable"
abbreviation ErrKeygenFormatUnsupported :: err where "ErrKeygenFormatUnsupported \<equiv> ErrConfig KeygenFormatUnsupported"
abbreviation ErrTarHeaderMissing :: err where "ErrTarHeaderMissing \<equiv> ErrConfig TarHeaderMissing"
abbreviation ErrTarHeaderEmbeddedMissing :: err where "ErrTarHeaderEmbeddedMissing \<equiv> ErrConfig TarHeaderEmbeddedMissing"
abbreviation ErrTapeDrivesUnsupported :: err where "ErrTapeDrivesUnsupported \<equiv> ErrConfig TapeDrivesUnsupported"
abbreviation ErrSTFSVersionUnsupported :: err where "ErrSTFSVersionUnsupported \<equiv> ErrConfig STFSVersionUnsupported"
abbreviation ErrSTFSActionUnsupported :: err where "ErrSTFSActionUnsupported \<equiv> ErrConfig STFSActionUnsupported"
abbreviation ErrNotImplemented :: err where "ErrNotImplemented \<equiv> ErrConfig NotImplemented"
abbreviation ErrIsDirectory :: err where "ErrIsDirectory \<equiv> ErrConfig IsDirectory"
abbreviation ErrIsFile :: err where "ErrIsFile \<equiv> ErrConfig IsFile"
abbreviation ErrFileSystemCacheTypeUnsupported :: err where "ErrFileSystemCacheTypeUnsupported \<equiv> ErrConfig FileSystemCacheTypeUnsupported"
abbreviation ErrFileSystemCacheTypeUnknown :: err where "ErrFileSystemCacheTypeUnknown \<equiv> ErrConfig FileSystemCacheTypeUnknown"
abbreviation ErrWriteCacheTypeUnsupported :: err where "ErrWriteCacheTypeUnsupported \<equiv> ErrConfig WriteCacheTypeUnsupported"
abbreviation ErrWriteCacheTypeUnknown :: err where "ErrWriteCacheTypeUnknown \<equiv> ErrConfig WriteCacheTypeUnknown"
abbreviation ErrNoRootDirectory :: err where "ErrNoRootDirectory \<equiv> ErrConfig NoRootDirectory"
abbreviation ErrDirectoryNotEmpty :: err where "ErrDirectoryNotEmpty \<equiv> ErrConfig DirectoryNotEmpty"
abbreviation ErrNotExist :: err where "ErrNotExist \<equiv> ErrOS NotExist"
abbreviation ErrExist :: err where "ErrExist \<equiv> ErrOS Exist"
abbreviation ErrPermission :: err where "ErrPermission \<equiv> ErrOS Permission"
abbreviation ErrInvalid :: err where "ErrInvalid \<equiv> ErrOS Invalid"
abbreviation ErrClosed :: err where "ErrClosed \<equiv> ErrOS Closed"
abbreviation EOF :: err where "EOF \<equiv> ErrOS EndOfFile"
abbreviation ErrUnexpectedEOF :: err where "ErrUnexpectedEOF \<equiv> ErrOS UnexpectedEOF"
abbreviation ErrClosedPipe :: err where "ErrClosedPipe \<equiv> ErrOS ClosedPipe"
abbreviation ErrKeyNotAccessible :: err where "ErrKeyNotAccessible \<equiv> ErrOS KeyNotAccessible"
abbreviation ErrNoTLS :: err where "ErrNoTLS \<equiv> ErrOS NoTLS"
abbreviation ErrNoRows :: err where "ErrNoRows \<equiv> ErrLib NoRows"
abbreviation ErrConstraint :: err where "ErrConstraint \<equiv> ErrLib Constraint"
abbreviation ErrHeader :: err where "ErrHeader \<equiv> ErrLib BadHeader"
abbreviation ErrWriteTooLong :: err where "ErrWriteTooLong \<equiv> ErrLib WriteTooLong"
abbreviation ErrMissedWriting :: err where "ErrMissedWriting \<equiv> ErrLib MissedWriting"
abbreviation ErrSocketsNotSupported :: err where "ErrSocketsNotSupported \<equiv> ErrLib SocketsNotSupported"
abbreviation ErrUnknownFileMode :: err where "ErrUnknownFileMode \<equiv> ErrLib UnknownFileMode"
abbreviation ErrSyntax :: err where "ErrSyntax \<equiv> ErrLib Syntax"
abbreviation ErrRange :: err where "ErrRange \<equiv> ErrLib Range"
abbreviation ErrJSON :: err where "ErrJSON \<equiv> ErrLib JSON"
abbreviation ErrBase64 :: err where "ErrBase64 \<equiv> ErrLib Base64"

text \<open>
  The outcome of a call: a value, an error return, a panic, or a call that never returns
  because it waits for a mutex nobody will release. Only the second can be inspected by the
  caller.
\<close>

datatype 'a res = Ok 'a | Err err | Panic | Hang

definition rbind :: "'a res \<Rightarrow> ('a \<Rightarrow> 'b res) \<Rightarrow> 'b res" where
  "rbind r f = (case r of Ok x \<Rightarrow> f x | Err e \<Rightarrow> Err e | Panic \<Rightarrow> Panic | Hang \<Rightarrow> Hang)"

text \<open>
  A stateful call is a pair of its outcome and the state it leaves behind, so that an error
  return still shows what had been changed by then. \<open>attempt\<close> goes on according to the
  outcome; \<open>andThen\<close> is the ordinary ``return the error''.
\<close>

definition attempt ::
  "'a res \<times> 's \<Rightarrow> ('a \<Rightarrow> 's \<Rightarrow> 'b res \<times> 't) \<Rightarrow> (err \<Rightarrow> 's \<Rightarrow> 'b res \<times> 't) \<Rightarrow> ('s \<Rightarrow> 't)
   \<Rightarrow> 'b res \<times> 't" where
  "attempt p f g lift =
     (case p of (Ok x, s) \<Rightarrow> f x s | (Err e, s) \<Rightarrow> g e s
      | (Panic, s) \<Rightarrow> (Panic, lift s) | (Hang, s) \<Rightarrow> (Hang, lift s))"

definition andThen :: "'a res \<times> 's \<Rightarrow> ('a \<Rightarrow> 's \<Rightarrow> 'b res \<times> 's) \<Rightarrow> 'b res \<times> 's" where
  "andThen p f = attempt p f (\<lambda>e s. (Err e, s)) (\<lambda>s. s)"

definition orElse :: "'a res \<times> 's \<Rightarrow> (err \<Rightarrow> 's \<Rightarrow> 'a res \<times> 's) \<Rightarrow> 'a res \<times> 's" where
  "orElse p g = attempt p (\<lambda>x s. (Ok x, s)) g (\<lambda>s. s)"

lemma rbind_simps [simp, outcome_simps]:
  "rbind (Ok x) f = f x" "rbind (Err e) f = Err e" "rbind Panic f = Panic" "rbind Hang f = Hang"
  by (simp_all add: rbind_def)

lemma rbind_if:
  "rbind (if b then x else y) f = (if b then rbind x f else rbind y f)"
  by simp

lemma attempt_simps [simp, outcome_simps]:
  "attempt (Ok x, s) f g l = f x s" "attempt (Err e, s) f g l = g e s"
  "attempt (Panic, s) f g l = (Panic, l s)" "attempt (Hang, s) f g l = (Hang, l s)"
  by (simp_all add: attempt_def)

lemma andThen_simps [simp, outcome_simps]:
  "andThen (Ok x, s) k = k x s" "andThen (Err e, s) k = (Err e, s)"
  "andThen (Panic, s) k = (Panic, s)" "andThen (Hang, s) k = (Hang, s)"
  by (simp_all add: andThen_def)

lemma orElse_simps [simp, outcome_simps]:
  "orElse (Ok x, s) h = (Ok x, s)" "orElse (Err e, s) h = h e s"
  "orElse (Panic, s) h = (Panic, s)" "orElse (Hang, s) h = (Hang, s)"
  by (simp_all add: orElse_def)

lemma rbind_Ok_iff: "rbind r f = Ok y \<longleftrightarrow> (\<exists>x. r = Ok x \<and> f x = Ok y)"
  by (cases r) auto

lemma andThen_Ok_iff: "andThen p k = (Ok y, t) \<longleftrightarrow> (\<exists>x s. p = (Ok x, s) \<and> k x s = (Ok y, t))"
  by (cases p; case_tac a) auto

lemma andThen_Ok_E:
  assumes "andThen p k = (Ok y, t)"
  obtains x s where "p = (Ok x, s)" and "k x s = (Ok y, t)"
  using assms by (auto simp: andThen_Ok_iff)

text \<open>
  Invariants of the state left behind: whatever the outcome, the final state satisfies what
  every intermediate state does.
\<close>

lemma attempt_post:
  assumes "P (snd p)"
    and "\<And>x s. p = (Ok x, s) \<Longrightarrow> P s \<Longrightarrow> P (snd (f x s))"
    and "\<And>e s. p = (Err e, s) \<Longrightarrow> P s \<Longrightarrow> P (snd (g e s))"
  shows "P (snd (attempt p f g (\<lambda>s. s)))"
proof (cases p)
  case (Pair r s)
  with assms show ?thesis by (cases r) simp_all
qed

lemma andThen_post:
  assumes "P (snd p)" and "\<And>x s. p = (Ok x, s) \<Longrightarrow> P s \<Longrightarrow> P (snd (k x s))"
  shows "P (snd (andThen p k))"
proof (cases p)
  case (Pair r s)
  with assms show ?thesis by (cases r) simp_all
qed

lemma orElse_post:
  assumes "P (snd p)" and "\<And>e s. p = (Err e, s) \<Longrightarrow> P s \<Longrightarrow> P (snd (h e s))"
  shows "P (snd (orElse p h))"
proof (cases p)
  case (Pair r s)
  with assms show ?thesis by (cases r) simp_all
qed

lemma andThen_cong:
  "p = q \<Longrightarrow> (\<And>x s. q = (Ok x, s) \<Longrightarrow> k x s = k' x s) \<Longrightarrow> andThen p k = andThen q k'"
  by (cases q; case_tac a) simp_all

text \<open>The same for calls as functions of the state: what every part of a call keeps, the call keeps.\<close>

definition envKeeps :: "('e \<Rightarrow> bool) \<Rightarrow> ('e \<Rightarrow> 'a \<times> 'e) \<Rightarrow> bool" where
  "envKeeps P f = (\<forall>ev. P ev \<longrightarrow> P (snd (f ev)))"

lemma envKeepsD: "envKeeps P f \<Longrightarrow> P ev \<Longrightarrow> P (snd (f ev))"
  by (simp add: envKeeps_def)

lemma envKeeps_pair: "envKeeps P f \<Longrightarrow> P ev \<Longrightarrow> f ev = (r, ev') \<Longrightarrow> P ev'"
  by (metis envKeepsD snd_conv)

lemma envKeeps_andThen:
  "envKeeps P f \<Longrightarrow> (\<And>x. envKeeps P (k x)) \<Longrightarrow> envKeeps P (\<lambda>s. andThen (f s) k)"
  unfolding envKeeps_def by (intro allI impI andThen_post [where P = P]) auto

lemma envKeeps_const: "envKeeps P (\<lambda>s. (r, s))" "envKeeps P (Pair r)"
  by (simp_all add: envKeeps_def)

lemma envKeeps_if: "(b \<Longrightarrow> envKeeps P f) \<Longrightarrow> (\<not> b \<Longrightarrow> envKeeps P g) \<Longrightarrow> envKeeps P (\<lambda>s. if b then f s else g s)"
  by (cases b) simp_all

lemma envKeeps_choice:
  "envKeeps P f \<Longrightarrow> envKeeps P g \<Longrightarrow> envKeeps P (\<lambda>s. if c s then f s else g s)"
  by (simp add: envKeeps_def)

lemma envKeeps_pairs:
  "(\<And>a b. envKeeps P (k a b)) \<Longrightarrow> envKeeps P (case v of (a, b) \<Rightarrow> k a b)"
  "(\<And>a b. envKeeps P (k a b)) \<Longrightarrow> envKeeps P (\<lambda>s. case v of (a, b) \<Rightarrow> k a b s)"
  by (cases v, simp)+

lemma envKeeps_option:
  "(\<And>c. v = Some c \<Longrightarrow> envKeeps P (j c)) \<Longrightarrow> envKeeps P n
   \<Longrightarrow> envKeeps P (\<lambda>s. case v of None \<Rightarrow> n s | Some c \<Rightarrow> j c s)"
  by (cases v) simp_all

lemma envKeeps_attempt:
  assumes "envKeeps P f" "\<And>x. envKeeps P (g x)" "\<And>e. envKeeps P (h e)"
  shows "envKeeps P (\<lambda>s. attempt (f s) g h (\<lambda>s. s))"
  using assms unfolding envKeeps_def by (intro allI impI attempt_post [where P = P]) auto

lemma envKeeps_orElse:
  "envKeeps P f \<Longrightarrow> (\<And>e. envKeeps P (h e)) \<Longrightarrow> envKeeps P (\<lambda>s. orElse (f s) h)"
  unfolding orElse_def by (intro envKeeps_attempt envKeeps_const)

lemmas keeps_intros =
  envKeeps_andThen envKeeps_orElse envKeeps_attempt envKeeps_const envKeeps_if envKeeps_pairs
  envKeeps_option

text \<open>A call that returns, with a value or an error.\<close>

definition returns :: "'a res \<Rightarrow> bool" where
  "returns r = (r \<noteq> Panic \<and> r \<noteq> Hang)"

lemma returns_simps [simp, outcome_simps]:
  "returns (Ok x)" "returns (Err e)" "\<not> returns Panic" "\<not> returns Hang"
  by (simp_all add: returns_def)

lemma returns_cases:
  assumes "returns r"
  obtains x where "r = Ok x" | e where "r = Err e"
  using assms by (cases r) auto

lemma returns_rbind: "returns r \<Longrightarrow> (\<And>x. r = Ok x \<Longrightarrow> returns (f x)) \<Longrightarrow> returns (rbind r f)"
  by (cases r) auto

lemma returns_attempt:
  assumes "returns (fst p)"
    and "\<And>x s. p = (Ok x, s) \<Longrightarrow> returns (fst (f x s))"
    and "\<And>e s. p = (Err e, s) \<Longrightarrow> returns (fst (g e s))"
  shows "returns (fst (attempt p f g l))"
proof (cases p)
  case (Pair r s)
  with assms show ?thesis by (cases r) simp_all
qed

lemma returns_andThen:
  assumes "returns (fst p)" "\<And>x s. p = (Ok x, s) \<Longrightarrow> returns (fst (k x s))"
  shows "returns (fst (andThen p k))"
  unfolding andThen_def using assms by (rule returns_attempt) auto

section \<open>Lists\<close>

text \<open>The least element by a string key, the first one where keys tie.\<close>

fun least_by :: "('a \<Rightarrow> string) \<Rightarrow> 'a list \<Rightarrow> 'a option" where
  "least_by key [] = None"
| "least_by key (x # xs) =
     (case least_by key xs of None \<Rightarrow> Some x
      | Some y \<Rightarrow> if key x \<le> key y then Some x else Some y)"

lemma least_by_None [simp]: "least_by key xs = None \<longleftrightarrow> xs = []"
  by (cases xs) (auto split: option.splits)

lemma least_by_mem: "least_by key xs = Some x \<Longrightarrow> x \<in> set xs"
  by (induction xs arbitrary: x) (auto split: option.splits if_splits)

lemma least_by_le: "least_by key xs = Some x \<Longrightarrow> y \<in> set xs \<Longrightarrow> key x \<le> key y"
proof (induction xs arbitrary: x)
  case (Cons a xs)
  then show ?case
    by (cases "least_by key xs") (force split: if_splits)+
qed simp

lemma least_by_ex: "xs \<noteq> [] \<Longrightarrow> \<exists>x. least_by key xs = Some x"
  by (cases "least_by key xs") auto

lemma least_by_single: "xs \<noteq> [] \<Longrightarrow> (\<And>y. y \<in> set xs \<Longrightarrow> y = x) \<Longrightarrow> least_by key xs = Some x"
  by (metis least_by_ex least_by_mem)

lemma distinct_map_filter: "distinct (map f xs) \<Longrightarrow> distinct (map f (filter P xs))"
  by (induction xs) auto

lemma distinct_map_eq:
  "distinct (map f xs) \<Longrightarrow> x \<in> set xs \<Longrightarrow> y \<in> set xs \<Longrightarrow> f x = f y \<Longrightarrow> x = y"
  by (induction xs) (auto simp: image_iff)

end
