(* ===== verification/GoStd.thy ===== *)
theory GoStd
  imports Prelude
begin

text \<open>
  The functions of Go's strings, path, path/filepath (Unix) and strconv packages that the code
  calls, and internal/pathext. A Go string is a sequence of bytes, as a HOL \<open>string\<close> is.
\<close>

section \<open>Package strings\<close>

fun HasPrefix :: "string \<Rightarrow> string \<Rightarrow> bool" where
  "HasPrefix s [] = True"
| "HasPrefix [] (p # ps) = False"
| "HasPrefix (c # s) (p # ps) = (c = p \<and> HasPrefix s ps)"

definition HasSuffix :: "string \<Rightarrow> string \<Rightarrow> bool" where
  "HasSuffix s p = HasPrefix (rev s) (rev p)"

definition TrimPrefix :: "string \<Rightarrow> string \<Rightarrow> string" where
  "TrimPrefix s p = (if HasPrefix s p then drop (length p) s else s)"

definition TrimSuffix :: "string \<Rightarrow> string \<Rightarrow> string" where
  "TrimSuffix s p = (if HasSuffix s p then take (length s - length p) s else s)"

lemma HasPrefix_iff: "HasPrefix s p \<longleftrightarrow> (\<exists>t. s = p @ t)"
  by (induction s p rule: HasPrefix.induct) auto

lemma HasSuffix_iff: "HasSuffix s p \<longleftrightarrow> (\<exists>t. s = t @ p)"
proof
  assume "HasSuffix s p"
  then obtain t where "rev s = rev p @ t" by (auto simp: HasSuffix_def HasPrefix_iff)
  then have "s = rev t @ p" by (metis rev_append rev_rev_ident)
  then show "\<exists>t. s = t @ p" ..
qed (auto simp: HasSuffix_def HasPrefix_iff)

lemma HasPrefix_append [simp, go_string_simps]: "HasPrefix (p @ t) p"
  by (auto simp: HasPrefix_iff)

lemma HasSuffix_append [simp, go_string_simps]: "HasSuffix (t @ p) p"
  by (auto simp: HasSuffix_iff)

lemma TrimPrefix_append [simp, go_string_simps]: "TrimPrefix (p @ t) p = t"
  by (simp add: TrimPrefix_def)

lemma TrimSuffix_append [simp, go_string_simps]: "TrimSuffix (t @ p) p = t"
  by (simp add: TrimSuffix_def)

lemma TrimSuffix_other: "\<not> HasSuffix s p \<Longrightarrow> TrimSuffix s p = s"
  by (simp add: TrimSuffix_def)

lemma TrimPrefix_other: "\<not> HasPrefix s p \<Longrightarrow> TrimPrefix s p = s"
  by (simp add: TrimPrefix_def)

text \<open>\<open>strings.Split\<close> by a single byte; never the empty list.\<close>

fun splitOn :: "char \<Rightarrow> string \<Rightarrow> string list" where
  "splitOn d [] = [[]]"
| "splitOn d (c # s) =
     (if c = d then [] # splitOn d s
      else (case splitOn d s of [] \<Rightarrow> [[c]] | w # ws \<Rightarrow> (c # w) # ws))"

fun joinWith :: "char \<Rightarrow> string list \<Rightarrow> string" where
  "joinWith d [] = []"
| "joinWith d [w] = w"
| "joinWith d (w # v # ws) = w @ d # joinWith d (v # ws)"

lemma splitOn_nonempty [simp]: "splitOn d s \<noteq> []"
  by (induction s) (auto split: list.splits)

lemma splitOn_no_sep: "d \<notin> set s \<Longrightarrow> splitOn d s = [s]"
  by (induction s) auto

lemma splitOn_words: "w \<in> set (splitOn d s) \<Longrightarrow> d \<notin> set w"
proof (induction s arbitrary: w)
  case (Cons c s)
  then show ?case by (cases "splitOn d s") (auto split: if_splits)
qed simp

lemma splitOn_append_sep: "d \<notin> set w \<Longrightarrow> splitOn d (w @ d # s) = w # splitOn d s"
  by (induction w) auto

lemma splitOn_joinWith:
  "ws \<noteq> [] \<Longrightarrow> (\<And>w. w \<in> set ws \<Longrightarrow> d \<notin> set w) \<Longrightarrow> splitOn d (joinWith d ws) = ws"
  by (induction d ws rule: joinWith.induct) (auto simp: splitOn_no_sep splitOn_append_sep)

lemma joinWith_splitOn: "joinWith d (splitOn d s) = s"
proof (induction s)
  case (Cons c s)
  then show ?case
    by (cases "splitOn d s"; cases "tl (splitOn d s)") auto
qed simp

definition isSpace :: "char \<Rightarrow> bool" where
  "isSpace c = (c \<in> {CHR '' '', CHR 0x09, CHR 0x0A, CHR 0x0B, CHR 0x0C, CHR 0x0D})"

section \<open>Packages path and path/filepath\<close>

text \<open>
  \<open>Clean\<close> is the lexical normalisation of both packages: components are read from left to
  right, the stack of components kept so far is the second argument.
\<close>

fun cleanComps :: "bool \<Rightarrow> string list \<Rightarrow> string list \<Rightarrow> string list" where
  "cleanComps rooted st [] = rev st"
| "cleanComps rooted st (c # cs) =
     (if c = [] \<or> c = ''.'' then cleanComps rooted st cs
      else if c = ''..'' then
        (case st of
           t # ts \<Rightarrow> if t \<noteq> ''..'' then cleanComps rooted ts cs
                     else cleanComps rooted (c # st) cs
         | [] \<Rightarrow> if rooted then cleanComps rooted st cs else cleanComps rooted (c # st) cs)
      else cleanComps rooted (c # st) cs)"

definition Clean :: "string \<Rightarrow> string" where
  "Clean p =
     (if p = [] then ''.''
      else
        let rooted = HasPrefix p ''/'';
            body = joinWith (CHR ''/'') (cleanComps rooted [] (splitOn (CHR ''/'') p))
        in if rooted then CHR ''/'' # body else if body = [] then ''.'' else body)"

definition Join2 :: "string \<Rightarrow> string \<Rightarrow> string" where
  "Join2 a b =
     (if a = [] \<and> b = [] then []
      else if a = [] then Clean b else Clean (a @ CHR ''/'' # b))"

definition stripSlashes :: "string \<Rightarrow> string" where
  "stripSlashes p = rev (dropWhile (\<lambda>c. c = CHR ''/'') (rev p))"

definition Base :: "string \<Rightarrow> string" where
  "Base p =
     (if p = [] then ''.''
      else let q = stripSlashes p;
               b = rev (takeWhile (\<lambda>c. c \<noteq> CHR ''/'') (rev q))
           in if b = [] then ''/'' else b)"

definition Dir :: "string \<Rightarrow> string" where
  "Dir p = Clean (rev (dropWhile (\<lambda>c. c \<noteq> CHR ''/'') (rev p)))"

definition IsAbs :: "string \<Rightarrow> bool" where
  "IsAbs p = HasPrefix p ''/''"

text \<open>
  \<open>filepath.SplitList\<close> splits a list of paths joined by the list separator of the system,
  a colon on Unix.
\<close>

definition SplitList :: "string \<Rightarrow> string list" where
  "SplitList p = (if p = [] then [] else splitOn (CHR '':'') p)"

definition ToSlash :: "string \<Rightarrow> string" where
  "ToSlash p = p"

section \<open>Package internal/pathext\<close>

definition IsRoot :: "string \<Rightarrow> bool \<Rightarrow> bool" where
  "IsRoot path trim =
     (if trim \<and> list_all isSpace path then True
      else path = [] \<or> path = ''.'' \<or> path = ''/'' \<or> path = ''./'')"

section \<open>Package strconv\<close>

definition digit :: "nat \<Rightarrow> char" where
  "digit n = char_of (48 + n)"

definition isDigit :: "char \<Rightarrow> bool" where
  "isDigit c = (48 \<le> (of_char c :: nat) \<and> (of_char c :: nat) \<le> 57)"

definition digitVal :: "char \<Rightarrow> nat" where
  "digitVal c = of_char c - 48"

fun natToA :: "nat \<Rightarrow> string" where
  "natToA n = (if n < 10 then [digit n] else natToA (n div 10) @ [digit (n mod 10)])"

declare natToA.simps [simp del]

definition Itoa :: "int \<Rightarrow> string" where
  "Itoa i = (if i < 0 then CHR ''-'' # natToA (nat (- i)) else natToA (nat i))"

definition aToNat :: "string \<Rightarrow> nat" where
  "aToNat s = foldl (\<lambda>n c. 10 * n + digitVal c) 0 s"

definition int64_ok :: "int \<Rightarrow> bool" where
  "int64_ok i = (- (2 ^ 63) \<le> i \<and> i < 2 ^ 63)"

text \<open>\<open>strconv.Atoi\<close>: an optional sign, decimal digits, within the range of int.\<close>

definition Atoi :: "string \<Rightarrow> int res" where
  "Atoi s =
     (let neg = HasPrefix s ''-'';
          ds = (if neg \<or> HasPrefix s ''+'' then tl s else s);
          v = (if neg then - int (aToNat ds) else int (aToNat ds))
      in if ds = [] \<or> \<not> list_all isDigit ds then Err ErrSyntax
         else if \<not> int64_ok v then Err ErrRange
         else Ok v)"

lemma digit_props: "n < 10 \<Longrightarrow> isDigit (digit n) \<and> digitVal (digit n) = n"
  by (simp add: digit_def isDigit_def digitVal_def)

lemma natToA_digits: "list_all isDigit (natToA n)"
proof (induction n rule: natToA.induct)
  case (1 n)
  then show ?case
    by (subst natToA.simps) (auto simp: digit_props)
qed

lemma natToA_nonempty [simp]: "natToA n \<noteq> []"
  by (subst natToA.simps) simp

lemma aToNat_snoc: "aToNat (s @ [c]) = 10 * aToNat s + digitVal c"
  by (simp add: aToNat_def)

lemma aToNat_natToA: "aToNat (natToA n) = n"
proof (induction n rule: natToA.induct)
  case (1 n)
  show ?case
  proof (cases "n < 10")
    case True
    then show ?thesis by (subst natToA.simps) (simp add: aToNat_def digit_props)
  next
    case False
    with "1" have "aToNat (natToA (n div 10)) = n div 10" by simp
    with False show ?thesis
      by (subst natToA.simps) (simp add: aToNat_snoc digit_props)
  qed
qed

lemma natToA_no_sign: "\<not> HasPrefix (natToA n) ''-'' \<and> \<not> HasPrefix (natToA n) ''+''"
proof -
  obtain c s where cs: "natToA n = c # s" by (cases "natToA n") auto
  then have "isDigit c" using natToA_digits [of n] by simp
  then have "c \<noteq> CHR ''-''" "c \<noteq> CHR ''+''" by (auto simp: isDigit_def)
  with cs show ?thesis by simp
qed

lemma Atoi_Itoa: "int64_ok i \<Longrightarrow> Atoi (Itoa i) = Ok i"
  using natToA_no_sign [of "nat i"] natToA_digits
  by (auto simp: Atoi_def Itoa_def Let_def aToNat_natToA)

end
