(* ===== verification/Config.thy ===== *)
theory Config
  imports GoStd
begin

text \<open>
  pkg/config (constants, the index header, the pipe and cryptographic configuration) and
  internal/check (validation of the configured formats).
\<close>

section \<open>Constants (pkg/config/constants.go)\<close>

abbreviation (input) NoneKey :: string where "NoneKey \<equiv> []"

definition CompressionFormatGZipKey :: string where
  "CompressionFormatGZipKey = ''gzip''"
definition CompressionFormatParallelGZipKey :: string where
  "CompressionFormatParallelGZipKey = ''parallelgzip''"
definition CompressionFormatLZ4Key :: string where
  "CompressionFormatLZ4Key = ''lz4''"
definition CompressionFormatZStandardKey :: string where
  "CompressionFormatZStandardKey = ''zstandard''"
definition CompressionFormatBrotliKey :: string where
  "CompressionFormatBrotliKey = ''brotli''"
definition CompressionFormatBzip2Key :: string where
  "CompressionFormatBzip2Key = ''bzip2''"
definition CompressionFormatBzip2ParallelKey :: string where
  "CompressionFormatBzip2ParallelKey = ''parallelbzip2''"

definition EncryptionFormatAgeKey :: string where
  "EncryptionFormatAgeKey = ''age''"
definition EncryptionFormatPGPKey :: string where
  "EncryptionFormatPGPKey = ''pgp''"

definition SignatureFormatMinisignKey :: string where
  "SignatureFormatMinisignKey = ''minisign''"
definition SignatureFormatPGPKey :: string where
  "SignatureFormatPGPKey = ''pgp''"

definition CompressionLevelFastestKey :: string where
  "CompressionLevelFastestKey = ''fastest''"
definition CompressionLevelBalancedKey :: string where
  "CompressionLevelBalancedKey = ''balanced''"
definition CompressionLevelSmallestKey :: string where
  "CompressionLevelSmallestKey = ''smallest''"

definition FileSystemNameSTFS :: string where
  "FileSystemNameSTFS = ''STFS''"

definition FileSystemCacheTypeMemory :: string where
  "FileSystemCacheTypeMemory = ''memory''"
definition FileSystemCacheTypeDir :: string where
  "FileSystemCacheTypeDir = ''dir''"

definition WriteCacheTypeMemory :: string where
  "WriteCacheTypeMemory = ''memory''"
definition WriteCacheTypeFile :: string where
  "WriteCacheTypeFile = ''file''"

definition MagneticTapeBlockSize :: nat where
  "MagneticTapeBlockSize = 512"

definition KnownCompressionLevels :: "string list" where
  "KnownCompressionLevels =
     [CompressionLevelFastestKey, CompressionLevelBalancedKey, CompressionLevelSmallestKey]"

definition KnownCompressionFormats :: "string list" where
  "KnownCompressionFormats =
     [NoneKey, CompressionFormatGZipKey, CompressionFormatParallelGZipKey,
      CompressionFormatLZ4Key, CompressionFormatZStandardKey, CompressionFormatBrotliKey,
      CompressionFormatBzip2Key, CompressionFormatBzip2ParallelKey]"

definition KnownEncryptionFormats :: "string list" where
  "KnownEncryptionFormats = [NoneKey, EncryptionFormatAgeKey, EncryptionFormatPGPKey]"

definition KnownSignatureFormats :: "string list" where
  "KnownSignatureFormats = [NoneKey, SignatureFormatMinisignKey, SignatureFormatPGPKey]"

definition KnownFileSystemCacheTypes :: "string list" where
  "KnownFileSystemCacheTypes = [NoneKey, FileSystemCacheTypeMemory, FileSystemCacheTypeDir]"

definition KnownWriteCacheTypes :: "string list" where
  "KnownWriteCacheTypes = [WriteCacheTypeMemory, WriteCacheTypeFile]"

lemmas compression_keys =
  CompressionFormatGZipKey_def CompressionFormatParallelGZipKey_def CompressionFormatLZ4Key_def
  CompressionFormatZStandardKey_def CompressionFormatBrotliKey_def CompressionFormatBzip2Key_def
  CompressionFormatBzip2ParallelKey_def

lemmas level_keys =
  CompressionLevelFastestKey_def CompressionLevelBalancedKey_def CompressionLevelSmallestKey_def

lemmas crypto_keys =
  EncryptionFormatAgeKey_def EncryptionFormatPGPKey_def SignatureFormatMinisignKey_def
  SignatureFormatPGPKey_def

lemmas cache_keys =
  FileSystemCacheTypeMemory_def FileSystemCacheTypeDir_def WriteCacheTypeMemory_def
  WriteCacheTypeFile_def

lemma keys_nonempty [simp]:
  "CompressionFormatGZipKey \<noteq> []" "CompressionFormatParallelGZipKey \<noteq> []"
  "CompressionFormatLZ4Key \<noteq> []" "CompressionFormatZStandardKey \<noteq> []"
  "CompressionFormatBrotliKey \<noteq> []" "CompressionFormatBzip2Key \<noteq> []"
  "CompressionFormatBzip2ParallelKey \<noteq> []" "EncryptionFormatAgeKey \<noteq> []"
  "EncryptionFormatPGPKey \<noteq> []" "SignatureFormatMinisignKey \<noteq> []" "SignatureFormatPGPKey \<noteq> []"
  by (simp_all add: compression_keys crypto_keys)

lemmas keys_nonempty_sym [simp] = keys_nonempty [symmetric]

lemma crypto_keys_distinct [simp]:
  "EncryptionFormatAgeKey \<noteq> EncryptionFormatPGPKey"
  "EncryptionFormatPGPKey \<noteq> EncryptionFormatAgeKey"
  "SignatureFormatMinisignKey \<noteq> SignatureFormatPGPKey"
  "SignatureFormatPGPKey \<noteq> SignatureFormatMinisignKey"
  by (simp_all add: crypto_keys)

section \<open>Validation (internal/check)\<close>

text \<open>Every check is the same loop: a flag set when a candidate matches.\<close>

fun isKnown :: "string \<Rightarrow> string list \<Rightarrow> bool \<Rightarrow> bool" where
  "isKnown f [] known = known"
| "isKnown f (c # cs) known = isKnown f cs (if f = c then True else known)"

definition CheckCompressionFormat :: "string \<Rightarrow> unit res" where
  "CheckCompressionFormat f =
     (if \<not> isKnown f KnownCompressionFormats False then Err ErrCompressionFormatUnknown else Ok ())"

definition CheckCompressionLevel :: "string \<Rightarrow> unit res" where
  "CheckCompressionLevel l =
     (if \<not> isKnown l KnownCompressionLevels False then Err ErrCompressionLevelUnknown else Ok ())"

definition CheckEncryptionFormat :: "string \<Rightarrow> unit res" where
  "CheckEncryptionFormat f =
     (if \<not> isKnown f KnownEncryptionFormats False then Err ErrEncryptionFormatUnknown else Ok ())"

definition CheckSignatureFormat :: "string \<Rightarrow> unit res" where
  "CheckSignatureFormat f =
     (if \<not> isKnown f KnownSignatureFormats False then Err ErrSignatureFormatUnknown else Ok ())"

definition CheckFileSystemCacheType :: "string \<Rightarrow> unit res" where
  "CheckFileSystemCacheType t =
     (if \<not> isKnown t KnownFileSystemCacheTypes False then Err ErrFileSystemCacheTypeUnknown
      else Ok ())"

definition CheckWriteCacheType :: "string \<Rightarrow> unit res" where
  "CheckWriteCacheType t =
     (if \<not> isKnown t KnownWriteCacheTypes False then Err ErrWriteCacheTypeUnknown else Ok ())"

text \<open>\<open>exists\<close> is the outcome of \<open>os.Stat\<close> on the path.\<close>

definition CheckKeyAccessible :: "(string \<Rightarrow> bool) \<Rightarrow> string \<Rightarrow> string \<Rightarrow> unit res" where
  "CheckKeyAccessible exists fmt path =
     (if fmt = NoneKey then Ok () else if \<not> exists path then Err ErrKeyNotAccessible else Ok ())"

lemma isKnown_iff [simp]: "isKnown f cs b \<longleftrightarrow> b \<or> f \<in> set cs"
  by (induction f cs b rule: isKnown.induct) auto

section \<open>The index header (pkg/config/config.go)\<close>

text \<open>
  A point in time is the number of nanoseconds since the Unix epoch. The same fields are those
  of the table row (internal/db/sqlite/models/metadata/headers.go).
\<close>

type_synonym gotime = int

record header =
  Record :: int
  Lastknownrecord :: int
  Block :: int
  Lastknownblock :: int
  Deleted :: int
  Typeflag :: int
  Name :: string
  Linkname :: string
  Size :: int
  Mode :: int
  UID :: int
  Gid :: int
  Uname :: string
  Gname :: string
  Modtime :: gotime
  Accesstime :: gotime
  Changetime :: gotime
  Devmajor :: int
  Devminor :: int
  Paxrecords :: string
  Format :: int

record header_event =
  EventType :: string
  Indexed :: bool
  EventHeader :: header

definition HeaderEventTypeArchive :: string where "HeaderEventTypeArchive = ''archive''"
definition HeaderEventTypeDelete :: string where "HeaderEventTypeDelete = ''delete''"
definition HeaderEventTypeMove :: string where "HeaderEventTypeMove = ''move''"
definition HeaderEventTypeRestore :: string where "HeaderEventTypeRestore = ''restore''"
definition HeaderEventTypeUpdate :: string where "HeaderEventTypeUpdate = ''update''"

lemmas event_types =
  HeaderEventTypeArchive_def HeaderEventTypeDelete_def HeaderEventTypeMove_def
  HeaderEventTypeRestore_def HeaderEventTypeUpdate_def

section \<open>Pipe and cryptographic configuration\<close>

record pipe_config =
  Compression :: string
  Encryption :: string
  Signature :: string
  RecordSize :: nat

text \<open>
  A key is an untyped Go value; the code tells the key types of the libraries apart by type
  assertions. What a library's key holds is opaque: a name.
\<close>

type_synonym bytes = string

datatype key =
    KNil
  | KBytes bytes
  | KAgeIdentity string
  | KAgeRecipient string
  | KPGP "string list"
  | KMinisignPrivate string
  | KMinisignPublic string

record crypto_config =
  Recipient :: key
  Identity :: key
  Password :: string

record password_config =
  PasswordOnly :: string

end
