(* ===== verification/Base64.thy ===== *)
theory Base64
  imports Prelude
begin

text \<open>
  encoding/base64, standard alphabet with padding (\<open>base64.StdEncoding\<close>), in which the code
  stores ciphertexts and signatures of headers. As in Go, the decoder skips carriage returns
  and line feeds.
\<close>

definition b64Char :: "nat \<Rightarrow> char" where
  "b64Char n =
     (if n < 26 then char_of (65 + n)
      else if n < 52 then char_of (71 + n)
      else if n < 62 then char_of (n - 4)
      else if n = 62 then CHR ''+'' else CHR ''/'')"

definition b64Val :: "char \<Rightarrow> nat option" where
  "b64Val c =
     (let n = of_char c :: nat in
      if 65 \<le> n \<and> n \<le> 90 then Some (n - 65)
      else if 97 \<le> n \<and> n \<le> 122 then Some (n - 71)
      else if 48 \<le> n \<and> n \<le> 57 then Some (n + 4)
      else if n = 43 then Some 62
      else if n = 47 then Some 63
      else None)"

fun b64Encode :: "string \<Rightarrow> string" where
  "b64Encode [] = []"
| "b64Encode [a] =
     (let x = of_char a in [b64Char (x div 4), b64Char (x mod 4 * 16), CHR ''='', CHR ''=''])"
| "b64Encode [a, b] =
     (let x = of_char a; y = of_char b
      in [b64Char (x div 4), b64Char (x mod 4 * 16 + y div 16), b64Char (y mod 16 * 4), CHR ''=''])"
| "b64Encode (a # b # c # s) =
     (let x = of_char a; y = of_char b; z = of_char c
      in b64Char (x div 4) # b64Char (x mod 4 * 16 + y div 16)
         # b64Char (y mod 16 * 4 + z div 64) # b64Char (z mod 64) # b64Encode s)"

fun b64Quads :: "string \<Rightarrow> string option" where
  "b64Quads [] = Some []"
| "b64Quads (a # b # c # d # s) =
     (case (b64Val a, b64Val b) of
        (Some w, Some x) \<Rightarrow>
          (if c = CHR ''='' \<and> d = CHR ''='' \<and> s = [] then Some [char_of (w * 4 + x div 16)]
           else case b64Val c of
             None \<Rightarrow> None
           | Some y \<Rightarrow>
               if d = CHR ''='' \<and> s = []
               then Some [char_of (w * 4 + x div 16), char_of (x mod 16 * 16 + y div 4)]
               else case (b64Val d, b64Quads s) of
                 (Some z, Some r) \<Rightarrow>
                   Some (char_of (w * 4 + x div 16) # char_of (x mod 16 * 16 + y div 4)
                         # char_of (y mod 4 * 64 + z) # r)
               | _ \<Rightarrow> None)
      | _ \<Rightarrow> None)"
| "b64Quads _ = None"

definition b64Decode :: "string \<Rightarrow> string res" where
  "b64Decode s =
     (case b64Quads (filter (\<lambda>c. c \<noteq> CHR 0x0A \<and> c \<noteq> CHR 0x0D) s) of
        None \<Rightarrow> Err ErrBase64 | Some r \<Rightarrow> Ok r)"

section \<open>Decoding inverts encoding\<close>

lemma of_char_lt: "(of_char c :: nat) < 256"
  by simp

lemma b64Val_special [simp]:
  "b64Val (CHR ''='') = None" "b64Val (CHR 0x0A) = None" "b64Val (CHR 0x0D) = None"
  by (simp_all add: b64Val_def)

lemma b64Val_Char [simp]: "n < 64 \<Longrightarrow> b64Val (b64Char n) = Some n"
  by (cases "n = 62"; cases "n = 63") (auto simp: b64Char_def b64Val_def Let_def)

lemma b64Char_clean [simp]:
  assumes "n < 64"
  shows "b64Char n \<noteq> CHR ''=''" "b64Char n \<noteq> CHR 0x0A" "b64Char n \<noteq> CHR 0x0D"
  using b64Val_Char [OF assms] by auto

lemma b64_join:
  fixes x y z :: nat
  assumes "x < 256" "y < 256" "z < 256"
  shows "x div 4 < 64" "x mod 4 * 16 + y div 16 < 64" "y mod 16 * 4 + z div 64 < 64" "z mod 64 < 64"
    "x div 4 * 4 + (x mod 4 * 16 + y div 16) div 16 = x"
    "(x mod 4 * 16 + y div 16) mod 16 * 16 + (y mod 16 * 4 + z div 64) div 4 = y"
    "(y mod 16 * 4 + z div 64) mod 4 * 64 + z mod 64 = z"
proof -
  have y: "y div 16 < 16" and z: "z div 64 < 4" and x: "x div 4 < 64" using assms by simp_all
  show "x div 4 < 64" "z mod 64 < 64" using x by simp_all
  have "x mod 4 < 4" "y mod 16 < 16" by simp_all
  then show "x mod 4 * 16 + y div 16 < 64" "y mod 16 * 4 + z div 64 < 64" using y z by linarith+
  show "x div 4 * 4 + (x mod 4 * 16 + y div 16) div 16 = x"
    using y by simp
  show "(x mod 4 * 16 + y div 16) mod 16 * 16 + (y mod 16 * 4 + z div 64) div 4 = y"
    using y z by (simp add: mod_add_left_eq [symmetric])
  show "(y mod 16 * 4 + z div 64) mod 4 * 64 + z mod 64 = z"
    using z by (simp add: mod_add_left_eq [symmetric])
qed

lemmas b64_bounds = b64_join(1-4)

lemma b64Encode_clean: "list_all (\<lambda>c. c \<noteq> CHR 0x0A \<and> c \<noteq> CHR 0x0D) (b64Encode s)"
proof (induction s rule: b64Encode.induct)
  case (2 a)
  then show ?case
    using b64_bounds [OF of_char_lt [of a], of 0 0] by (simp add: Let_def)
next
  case (3 a b)
  then show ?case
    using b64_bounds [OF of_char_lt [of a] of_char_lt [of b], of 0] by (simp add: Let_def)
next
  case (4 a b c s)
  then show ?case
    using b64_bounds [OF of_char_lt [of a] of_char_lt [of b] of_char_lt [of c]]
    by (simp add: Let_def)
qed simp

lemma b64Quads_step:
  assumes "p < 64" "q < 64" "r < 64" "t < 64" "b64Quads s' = Some u"
  shows "b64Quads (b64Char p # b64Char q # b64Char r # b64Char t # s') =
    Some (char_of (p * 4 + q div 16) # char_of (q mod 16 * 16 + r div 4) # char_of (r mod 4 * 64 + t) # u)"
  using assms by simp

lemma b64Quads_Encode: "b64Quads (b64Encode s) = Some s"
proof (induction s rule: b64Encode.induct)
  case (2 a)
  show ?case
    using b64_join [OF of_char_lt [of a], of 0 0] by (simp add: Let_def)
next
  case (3 a b)
  show ?case
    using b64_join [OF of_char_lt [of a] of_char_lt [of b], of 0] by (simp add: Let_def)
next
  case (4 a b c s)
  note j = b64_join [OF of_char_lt [of a] of_char_lt [of b] of_char_lt [of c]]
  show ?case
    by (simp only: b64Encode.simps Let_def b64Quads_step [OF j(1-4) 4] j(5-7) char_of_char)
qed simp

lemma b64Decode_Encode [simp]: "b64Decode (b64Encode s) = Ok s"
proof -
  have "filter (\<lambda>c. c \<noteq> CHR 0x0A \<and> c \<noteq> CHR 0x0D) (b64Encode s) = b64Encode s"
    using b64Encode_clean [of s] by (intro filter_True) (simp add: list_all_iff)
  then show ?thesis by (simp add: b64Decode_def b64Quads_Encode)
qed

end
