(* ===== verification/Pax.thy ===== *)
theory Pax
  imports Config
begin

text \<open>
  The string maps of PAX records and their JSON text. A Go \<open>map[string]string\<close> is an association
  list kept strictly sorted by key (\<open>None\<close> for the nil map), which makes equal maps equal lists
  and is the order in which encoding/json writes the keys. The writer and reader of the JSON
  text are those of encoding/json for this type; the index stores the text in its
  \<open>paxrecords\<close> column. Bytes above 0x7f are taken to be valid UTF-8 and are copied.
\<close>

section \<open>Maps from strings to strings\<close>

type_synonym strmap = "(string \<times> string) list"
type_synonym paxmap = "strmap option"

fun smInsert :: "string \<Rightarrow> string \<Rightarrow> strmap \<Rightarrow> strmap" where
  "smInsert k v [] = [(k, v)]"
| "smInsert k v ((k', v') # m) =
     (if k < k' then (k, v) # (k', v') # m
      else if k = k' then (k, v) # m
      else (k', v') # smInsert k v m)"

definition smWf :: "strmap \<Rightarrow> bool" where
  "smWf m = sorted_wrt (<) (map fst m)"

definition paxGet :: "paxmap \<Rightarrow> string \<Rightarrow> string option" where
  "paxGet p k = (case p of None \<Rightarrow> None | Some m \<Rightarrow> map_of m k)"

definition paxOrEmpty :: "paxmap \<Rightarrow> strmap" where
  "paxOrEmpty p = (case p of None \<Rightarrow> [] | Some m \<Rightarrow> m)"

lemma map_of_smInsert [simp]: "map_of (smInsert k v m) = (map_of m)(k \<mapsto> v)"
  by (induction k v m rule: smInsert.induct) (auto simp: fun_eq_iff)

lemma set_smInsert: "fst ` set (smInsert k v m) = insert k (fst ` set m)"
  by (induction k v m rule: smInsert.induct) auto

lemma smWf_Nil [simp]: "smWf []"
  by (simp add: smWf_def)

lemma smWf_Cons: "smWf ((k, v) # m) \<longleftrightarrow> (\<forall>k' \<in> fst ` set m. k < k') \<and> smWf m"
  by (auto simp: smWf_def)

lemma smWf_smInsert: "smWf m \<Longrightarrow> smWf (smInsert k v m)"
  by (induction k v m rule: smInsert.induct) (auto simp: smWf_Cons set_smInsert)

lemma smInsert_front: "(\<And>k'. k' \<in> fst ` set m \<Longrightarrow> k < k') \<Longrightarrow> smInsert k v m = (k, v) # m"
  by (cases m) force+

section \<open>JSON strings\<close>

definition hexDigit :: "nat \<Rightarrow> char" where
  "hexDigit n = (if n < 10 then char_of (48 + n) else char_of (87 + n))"

definition hexVal :: "char \<Rightarrow> nat option" where
  "hexVal c =
     (let n = (of_char c :: nat)
      in if 48 \<le> n \<and> n \<le> 57 then Some (n - 48)
         else if 97 \<le> n \<and> n \<le> 102 then Some (n - 87)
         else if 65 \<le> n \<and> n \<le> 70 then Some (n - 55)
         else None)"

abbreviation (input) quote :: char where "quote \<equiv> CHR 0x22"
abbreviation (input) backslash :: char where "backslash \<equiv> CHR 0x5C"

definition jsonChar :: "char \<Rightarrow> string" where
  "jsonChar c =
     (let n = (of_char c :: nat)
      in if c = quote \<or> c = backslash then [backslash, c]
         else if n = 8 then [backslash, CHR ''b'']
         else if n = 12 then [backslash, CHR ''f'']
         else if n = 10 then [backslash, CHR ''n'']
         else if n = 13 then [backslash, CHR ''r'']
         else if n = 9 then [backslash, CHR ''t'']
         else if n < 32 \<or> c = CHR ''<'' \<or> c = CHR ''>'' \<or> c = CHR ''&''
         then [backslash, CHR ''u'', CHR ''0'', CHR ''0'', hexDigit (n div 16), hexDigit (n mod 16)]
         else [c])"

definition jsonString :: "string \<Rightarrow> string" where
  "jsonString s = quote # concat (map jsonChar s) @ [quote]"

definition utf8 :: "nat \<Rightarrow> string" where
  "utf8 n =
     (if n < 128 then [char_of n]
      else if n < 2048 then [char_of (192 + n div 64), char_of (128 + n mod 64)]
      else [char_of (224 + n div 4096), char_of (128 + n div 64 mod 64), char_of (128 + n mod 64)])"

definition hex4 :: "char \<Rightarrow> char \<Rightarrow> char \<Rightarrow> char \<Rightarrow> nat option" where
  "hex4 a b c d =
     Option.bind (hexVal a) (\<lambda>a. Option.bind (hexVal b) (\<lambda>b. Option.bind (hexVal c) (\<lambda>c.
       Option.bind (hexVal d) (\<lambda>d. Some (((a * 16 + b) * 16 + c) * 16 + d)))))"

definition unescape :: "char \<Rightarrow> char option" where
  "unescape c =
     (if c = quote \<or> c = backslash \<or> c = CHR ''/'' then Some c
      else if c = CHR ''b'' then Some (char_of (8 :: nat))
      else if c = CHR ''f'' then Some (char_of (12 :: nat))
      else if c = CHR ''n'' then Some (char_of (10 :: nat))
      else if c = CHR ''r'' then Some (char_of (13 :: nat))
      else if c = CHR ''t'' then Some (char_of (9 :: nat))
      else None)"

text \<open>
  The body of a string up to its closing quote: the bytes it stands for and the rest of the
  text. The first argument bounds the number of characters read.
\<close>

fun jsonBody :: "nat \<Rightarrow> string \<Rightarrow> (string \<times> string) option" where
  "jsonBody 0 s = None"
| "jsonBody (Suc n) [] = None"
| "jsonBody (Suc n) (c # s) =
     (if c = quote then Some ([], s)
      else if (of_char c :: nat) < 32 then None
      else if c = backslash then
        (case s of
           [] \<Rightarrow> None
         | e # t \<Rightarrow>
             if e = CHR ''u'' then
               (case t of
                  a # b # x # y # r \<Rightarrow>
                    Option.bind (hex4 a b x y)
                      (\<lambda>v. map_option (\<lambda>(w, q). (utf8 v @ w, q)) (jsonBody n r))
                | _ \<Rightarrow> None)
             else Option.bind (unescape e)
                    (\<lambda>d. map_option (\<lambda>(w, q). (d # w, q)) (jsonBody n t)))
      else map_option (\<lambda>(w, q). (c # w, q)) (jsonBody n s))"

lemma hexVal_hexDigit: "n < 16 \<Longrightarrow> hexVal (hexDigit n) = Some n"
  by (auto simp: hexVal_def hexDigit_def Let_def)

lemma jsonBody_char:
  "jsonBody (Suc n) (jsonChar c @ t) = map_option (\<lambda>(w, q). (c # w, q)) (jsonBody n t)"
proof -
  have esc: "(of_char c :: nat) = k \<Longrightarrow> char_of k = c" for k
    by (metis char_of_char)
  have lt: "(of_char c :: nat) < 256" using of_char_mod_256 [of c, where 'a = nat]
    by (metis mod_less_divisor zero_less_numeral)
  define m where "m = (of_char c :: nat)"
  show ?thesis
  proof (cases "c = quote \<or> c = backslash \<or> m \<in> {8, 9, 10, 12, 13}")
    case True
    then show ?thesis
      by (auto simp: jsonChar_def Let_def unescape_def m_def
          esc [of 8] esc [of 9] esc [of 10] esc [of 12] esc [of 13])
  next
    case False
    show ?thesis
    proof (cases "m < 32 \<or> c = CHR ''<'' \<or> c = CHR ''>'' \<or> c = CHR ''&''")
      case True
      with lt have m: "m < 128" by (auto simp: m_def)
      have "hex4 (CHR ''0'') (CHR ''0'') (hexDigit (m div 16)) (hexDigit (m mod 16)) = Some m"
        using m by (simp add: hex4_def hexVal_hexDigit) (simp add: hexVal_def)
      with True False m show ?thesis
        by (simp add: jsonChar_def Let_def utf8_def flip: m_def) (simp add: m_def)
    next
      case F2: False
      with False show ?thesis
        by (auto simp: jsonChar_def Let_def m_def)
    qed
  qed
qed

lemma jsonBody_string:
  "length s < n \<Longrightarrow> jsonBody n (concat (map jsonChar s) @ quote # t) = Some (s, t)"
proof (induction s arbitrary: n)
  case Nil
  then show ?case by (cases n) auto
next
  case (Cons c s)
  then obtain k where k: "n = Suc k" "length s < k" by (cases n) auto
  then show ?case using Cons.IH [of k] by (simp add: jsonBody_char)
qed

section \<open>JSON objects of strings\<close>

fun jsonMembers :: "strmap \<Rightarrow> string" where
  "jsonMembers [] = []"
| "jsonMembers [(k, v)] = jsonString k @ CHR '':'' # jsonString v"
| "jsonMembers ((k, v) # m) = jsonString k @ CHR '':'' # jsonString v @ CHR '','' # jsonMembers m"

definition jsonMarshal :: "paxmap \<Rightarrow> string" where
  "jsonMarshal p =
     (case p of None \<Rightarrow> ''null'' | Some m \<Rightarrow> CHR ''{'' # jsonMembers m @ ''}'')"

definition isJsonSpace :: "char \<Rightarrow> bool" where
  "isJsonSpace c = (c \<in> {CHR '' '', CHR 0x09, CHR 0x0A, CHR 0x0D})"

definition skipWs :: "string \<Rightarrow> string" where
  "skipWs s = dropWhile isJsonSpace s"

text \<open>A string value or \<open>null\<close>, which leaves the zero value of the element.\<close>

definition jsonValue :: "string \<Rightarrow> (string \<times> string) option" where
  "jsonValue s =
     (case s of
        [] \<Rightarrow> None
      | c # t \<Rightarrow> if c = quote then jsonBody (length s) t
                 else if HasPrefix s ''null'' then Some ([], drop 4 s)
                 else None)"

definition jsonKey :: "string \<Rightarrow> (string \<times> string) option" where
  "jsonKey s = (case s of [] \<Rightarrow> None | c # t \<Rightarrow> if c = quote then jsonBody (length s) t else None)"

definition jsonPair :: "string \<Rightarrow> ((string \<times> string) \<times> string) option" where
  "jsonPair s =
     Option.bind (jsonKey s) (\<lambda>(k, r).
       case skipWs r of
         [] \<Rightarrow> None
       | c # r1 \<Rightarrow>
           if c \<noteq> CHR '':'' then None
           else map_option (\<lambda>(v, r2). ((k, v), r2)) (jsonValue (skipWs r1)))"

fun jsonPairs :: "nat \<Rightarrow> strmap \<Rightarrow> string \<Rightarrow> (strmap \<times> string) option" where
  "jsonPairs 0 acc s = None"
| "jsonPairs (Suc n) acc s =
     Option.bind (jsonPair s) (\<lambda>((k, v), r).
       case skipWs r of
         [] \<Rightarrow> None
       | c # r1 \<Rightarrow>
           if c = CHR '','' then jsonPairs n (smInsert k v acc) (skipWs r1)
           else if c = CHR ''}'' then Some (smInsert k v acc, r1)
           else None)"

definition jsonUnmarshal :: "string \<Rightarrow> paxmap res" where
  "jsonUnmarshal s =
     (let t = skipWs s
      in if HasPrefix t ''null'' \<and> skipWs (drop 4 t) = [] then Ok None
         else case t of
             [] \<Rightarrow> Err ErrJSON
           | c # r \<Rightarrow>
               if c \<noteq> CHR ''{'' then Err ErrJSON
               else (case skipWs r of
                       [] \<Rightarrow> Err ErrJSON
                     | d # q \<Rightarrow>
                         if d = CHR ''}'' \<and> skipWs q = [] then Ok (Some [])
                         else (case jsonPairs (length s) [] (d # q) of
                                 Some (m, rest) \<Rightarrow>
                                   if skipWs rest = [] then Ok (Some m) else Err ErrJSON
                               | None \<Rightarrow> Err ErrJSON)))"

lemma skipWs_quote [simp]: "skipWs (quote # s) = quote # s"
  and skipWs_colon [simp]: "skipWs (CHR '':'' # s) = CHR '':'' # s"
  and skipWs_comma [simp]: "skipWs (CHR '','' # s) = CHR '','' # s"
  and skipWs_open [simp]: "skipWs (CHR ''{'' # s) = CHR ''{'' # s"
  and skipWs_close [simp]: "skipWs (CHR ''}'' # s) = CHR ''}'' # s"
  and skipWs_Nil [simp]: "skipWs [] = []"
  by (simp_all add: skipWs_def isJsonSpace_def)

lemma length_jsonChar: "1 \<le> length (jsonChar c)"
  by (simp add: jsonChar_def Let_def)

lemma length_concat_jsonChar: "length s \<le> length (concat (map jsonChar s))"
proof (induction s)
  case (Cons c s)
  then show ?case using length_jsonChar [of c] by simp
qed simp

lemma jsonKey_string [simp]: "jsonKey (jsonString k @ t) = Some (k, t)"
  using length_concat_jsonChar [of k]
  by (simp add: jsonKey_def jsonString_def jsonBody_string)

lemma jsonValue_string [simp]: "jsonValue (jsonString k @ t) = Some (k, t)"
  using length_concat_jsonChar [of k]
  by (simp add: jsonValue_def jsonString_def jsonBody_string)

lemma skipWs_jsonString [simp]: "skipWs (jsonString k @ t) = jsonString k @ t"
  by (simp add: jsonString_def)

lemma jsonPair_members [simp]:
  "jsonPair (jsonString k @ CHR '':'' # jsonString v @ t) = Some ((k, v), t)"
  by (simp add: jsonPair_def)

lemma length_jsonMembers: "m \<noteq> [] \<Longrightarrow> length m \<le> length (jsonMembers m)"
  by (induction m rule: jsonMembers.induct) (auto simp: jsonString_def)

text \<open>Reading the members of a sorted map back inserts them one after the other.\<close>

fun smInserts :: "strmap \<Rightarrow> strmap \<Rightarrow> strmap" where
  "smInserts acc [] = acc"
| "smInserts acc ((k, v) # m) = smInserts (smInsert k v acc) m"

lemma jsonPairs_members:
  "m \<noteq> [] \<Longrightarrow> length m \<le> n \<Longrightarrow>
   jsonPairs n acc (jsonMembers m @ CHR ''}'' # t) = Some (smInserts acc m, t)"
proof (induction m arbitrary: n acc rule: jsonMembers.induct)
  case (2 k v)
  then obtain j where "n = Suc j" by (cases n) auto
  then show ?case by simp
next
  case (3 k v p m)
  then obtain j where j: "n = Suc j" "length (p # m) \<le> j" by (cases n) auto
  have *: "skipWs (jsonMembers (p # m) @ CHR ''}'' # t) = jsonMembers (p # m) @ CHR ''}'' # t"
    by (cases p; cases m) (auto simp: jsonString_def)
  show ?case using 3(1) [of j] j by (simp add: *)
qed simp

lemma smInserts_append:
  "smWf (acc @ m) \<Longrightarrow> smInserts acc m = acc @ m"
proof (induction m arbitrary: acc)
  case (Cons p m)
  obtain k v where p: "p = (k, v)" by force
  have "smInsert k v a = a @ [(k, v)]" if "\<forall>k' \<in> fst ` set a. k' < k" for a
    using that by (induction k v a rule: smInsert.induct) auto
  moreover have "\<forall>k' \<in> fst ` set acc. k' < k"
    using Cons.prems by (auto simp: smWf_def sorted_wrt_append p)
  ultimately show ?case using Cons.IH [of "acc @ [(k, v)]"] Cons.prems by (simp add: p)
qed simp

lemma jsonUnmarshal_Marshal:
  assumes "case p of None \<Rightarrow> True | Some m \<Rightarrow> smWf m"
  shows "jsonUnmarshal (jsonMarshal p) = Ok p"
proof (cases p)
  case None
  then show ?thesis
    by (simp add: jsonMarshal_def jsonUnmarshal_def skipWs_def isJsonSpace_def)
next
  case (Some m)
  show ?thesis
  proof (cases m)
    case Nil
    with Some show ?thesis
      by (simp add: jsonMarshal_def jsonUnmarshal_def Let_def)
  next
    case (Cons q ms)
    obtain k v where q: "q = (k, v)" by force
    obtain r where r: "jsonMembers m @ ''}'' = quote # r"
      by (cases ms) (auto simp: Cons q jsonString_def)
    have "jsonPairs (length (jsonMarshal p)) [] (jsonMembers m @ ''}'') = Some (smInserts [] m, [])"
      using length_jsonMembers [of m]
      by (intro jsonPairs_members) (auto simp: Cons Some jsonMarshal_def)
    moreover have "smInserts [] m = m"
      using smInserts_append [of "[]" m] assms Some by simp
    ultimately show ?thesis
      using Some by (simp add: jsonMarshal_def jsonUnmarshal_def Let_def r)
  qed
qed

end
