(* ===== verification/Tar.thy ===== *)
theory Tar
  imports Pax "HOL-Library.Word"
begin

text \<open>
  The parts of archive/tar and io/fs the code computes with: the tar header, file modes, the
  file information a header gives and the header made from file information; the STFS records
  (internal/records) and the conversions between tar headers and index rows
  (internal/converters).
\<close>

unbundle bit_operations_syntax

section \<open>Headers\<close>

type_synonym byte = "8 word"
type_synonym filemode = "32 word"

record tar_header =
  tTypeflag :: byte
  tName :: string
  tLinkname :: string
  tSize :: int
  tMode :: int
  tUid :: int
  tGid :: int
  tUname :: string
  tGname :: string
  tModTime :: gotime
  tAccessTime :: gotime
  tChangeTime :: gotime
  tDevmajor :: int
  tDevminor :: int
  tPAXRecords :: paxmap
  tFormat :: int

definition TypeReg :: byte where "TypeReg = 48"
definition TypeRegA :: byte where "TypeRegA = 0"
definition TypeLink :: byte where "TypeLink = 49"
definition TypeSymlink :: byte where "TypeSymlink = 50"
definition TypeChar :: byte where "TypeChar = 51"
definition TypeBlock :: byte where "TypeBlock = 52"
definition TypeDir :: byte where "TypeDir = 53"
definition TypeFifo :: byte where "TypeFifo = 54"

lemmas type_defs = TypeReg_def TypeRegA_def TypeLink_def TypeSymlink_def TypeChar_def
  TypeBlock_def TypeDir_def TypeFifo_def

definition FormatPAX :: int where "FormatPAX = 4"

text \<open>Go's zero value of \<open>tar.Header\<close>; the zero time is 1 January of year 1.\<close>

definition zeroTime :: gotime where "zeroTime = - 62135596800 * 10 ^ 9"

definition zero_tar_header :: tar_header where
  "zero_tar_header =
     \<lparr>tTypeflag = 0, tName = [], tLinkname = [], tSize = 0, tMode = 0, tUid = 0, tGid = 0,
      tUname = [], tGname = [], tModTime = zeroTime, tAccessTime = zeroTime,
      tChangeTime = zeroTime, tDevmajor = 0, tDevminor = 0, tPAXRecords = None, tFormat = 0\<rparr>"

section \<open>File modes\<close>

definition ModeDir :: filemode where "ModeDir = 0x80000000"
definition ModeSymlink :: filemode where "ModeSymlink = 0x08000000"
definition ModeDevice :: filemode where "ModeDevice = 0x04000000"
definition ModeNamedPipe :: filemode where "ModeNamedPipe = 0x02000000"
definition ModeSocket :: filemode where "ModeSocket = 0x01000000"
definition ModeSetuid :: filemode where "ModeSetuid = 0x00800000"
definition ModeSetgid :: filemode where "ModeSetgid = 0x00400000"
definition ModeCharDevice :: filemode where "ModeCharDevice = 0x00200000"
definition ModeSticky :: filemode where "ModeSticky = 0x00100000"
definition ModeIrregular :: filemode where "ModeIrregular = 0x00080000"
definition ModePerm :: filemode where "ModePerm = 0x1FF"
definition ModeType :: filemode where "ModeType = 0x8F280000"

lemmas mode_defs = ModeDir_def ModeSymlink_def ModeDevice_def ModeNamedPipe_def ModeSocket_def
  ModeSetuid_def ModeSetgid_def ModeCharDevice_def ModeSticky_def ModeIrregular_def ModePerm_def
  ModeType_def

definition IsRegularMode :: "filemode \<Rightarrow> bool" where
  "IsRegularMode m = (m AND ModeType = 0)"

definition IsDirMode :: "filemode \<Rightarrow> bool" where
  "IsDirMode m = (m AND ModeDir \<noteq> 0)"

definition Perm :: "filemode \<Rightarrow> filemode" where
  "Perm m = m AND ModePerm"

text \<open>The mode \<open>hdr.FileInfo().Mode()\<close>: permission bits, set-id bits, the file type bits of
  the header's mode and its type flag.\<close>

definition typeModeBits :: "filemode \<Rightarrow> filemode" where
  "typeModeBits m =
     (if m = 0x4000 then ModeDir
      else if m = 0x1000 then ModeNamedPipe
      else if m = 0xA000 then ModeSymlink
      else if m = 0x6000 then ModeDevice
      else if m = 0x2000 then ModeDevice OR ModeCharDevice
      else if m = 0xC000 then ModeSocket
      else 0)"

definition flagModeBits :: "byte \<Rightarrow> filemode" where
  "flagModeBits t =
     (if t = TypeSymlink then ModeSymlink
      else if t = TypeChar then ModeDevice OR ModeCharDevice
      else if t = TypeBlock then ModeDevice
      else if t = TypeDir then ModeDir
      else if t = TypeFifo then ModeNamedPipe
      else 0)"

definition hdrMode :: "tar_header \<Rightarrow> filemode" where
  "hdrMode h =
     (let m = word_of_int (tMode h) :: filemode
      in Perm m
         OR (if m AND 0x800 \<noteq> 0 then ModeSetuid else 0)
         OR (if m AND 0x400 \<noteq> 0 then ModeSetgid else 0)
         OR (if m AND 0x200 \<noteq> 0 then ModeSticky else 0)
         OR typeModeBits (m AND NOT 0xFFF)
         OR flagModeBits (tTypeflag h))"

section \<open>File information\<close>

text \<open>
  What \<open>Sys()\<close> of a file information holds: the tar header it was made from, the stat of the
  operating system (with the user and group names looked up for it), or anything else, such as
  the \<open>*fs.Stat\<close> that the STFS file information returns.
\<close>

datatype sysinfo =
    SysHeader tar_header
  | SysUnix int int string string gotime gotime int int
  | SysOther

record file_info =
  fiName :: string
  fiSize :: int
  fiMode :: filemode
  fiModTime :: gotime
  fiSys :: sysinfo

definition hdrIsDir :: "tar_header \<Rightarrow> bool" where
  "hdrIsDir h = IsDirMode (hdrMode h)"

definition hdrFileInfo :: "tar_header \<Rightarrow> file_info" where
  "hdrFileInfo h =
     \<lparr>fiName = (if hdrIsDir h then Base (Clean (tName h)) else Base (tName h)),
      fiSize = tSize h, fiMode = hdrMode h, fiModTime = tModTime h, fiSys = SysHeader h\<rparr>"

definition fileInfoKind :: "file_info \<Rightarrow> string \<Rightarrow> tar_header \<Rightarrow> tar_header res" where
  "fileInfoKind fi link h =
     (let fm = fiMode fi
      in if IsRegularMode fm then Ok (h\<lparr>tTypeflag := TypeReg, tSize := fiSize fi\<rparr>)
         else if IsDirMode fm then Ok (h\<lparr>tTypeflag := TypeDir, tName := tName h @ ''/''\<rparr>)
         else if fm AND ModeSymlink \<noteq> 0
           then Ok (h\<lparr>tTypeflag := TypeSymlink, tLinkname := link\<rparr>)
         else if fm AND ModeDevice \<noteq> 0
           then Ok (h\<lparr>tTypeflag := (if fm AND ModeCharDevice \<noteq> 0 then TypeChar else TypeBlock)\<rparr>)
         else if fm AND ModeNamedPipe \<noteq> 0 then Ok (h\<lparr>tTypeflag := TypeFifo\<rparr>)
         else if fm AND ModeSocket \<noteq> 0 then Err ErrSocketsNotSupported
         else Err ErrUnknownFileMode)"

definition fileInfoSys :: "file_info \<Rightarrow> tar_header \<Rightarrow> tar_header" where
  "fileInfoSys fi h =
     (case fiSys fi of
        SysHeader s \<Rightarrow>
          (let h = h\<lparr>tUid := tUid s, tGid := tGid s, tUname := tUname s, tGname := tGname s,
                     tAccessTime := tAccessTime s, tChangeTime := tChangeTime s\<rparr>;
               h = (if tTypeflag s = TypeLink
                    then h\<lparr>tTypeflag := TypeLink, tSize := 0, tLinkname := tLinkname s\<rparr> else h)
           in (case tPAXRecords s of None \<Rightarrow> h | Some m \<Rightarrow> h\<lparr>tPAXRecords := Some m\<rparr>))
      | SysUnix uid gid un gn at ct mj mn \<Rightarrow>
          (let h = h\<lparr>tUid := uid, tGid := gid, tUname := un, tGname := gn,
                     tAccessTime := at, tChangeTime := ct\<rparr>
           in if tTypeflag h = TypeChar \<or> tTypeflag h = TypeBlock
              then h\<lparr>tDevmajor := mj, tDevminor := mn\<rparr> else h)
      | SysOther \<Rightarrow> h)"

text \<open>\<open>tar.FileInfoHeader(fi, link)\<close>.\<close>

definition FileInfoHeader :: "file_info \<Rightarrow> string \<Rightarrow> tar_header res" where
  "FileInfoHeader fi link =
     (let fm = fiMode fi;
          h0 = zero_tar_header\<lparr>tName := fiName fi, tModTime := fiModTime fi,
                               tMode := uint (Perm fm)\<rparr>
      in rbind (fileInfoKind fi link h0)
           (\<lambda>h. Ok (fileInfoSys fi
              (h\<lparr>tMode := tMode h OR (if fm AND ModeSetuid \<noteq> 0 then 0x800 else 0)
                                   OR (if fm AND ModeSetgid \<noteq> 0 then 0x400 else 0)
                                   OR (if fm AND ModeSticky \<noteq> 0 then 0x200 else 0)\<rparr>))))"

section \<open>STFS records (internal/records)\<close>

definition STFSRecordVersion :: string where "STFSRecordVersion = ''STFS.Version''"
definition STFSRecordVersion1 :: string where "STFSRecordVersion1 = ''1''"
definition STFSRecordAction :: string where "STFSRecordAction = ''STFS.Action''"
definition STFSRecordActionCreate :: string where "STFSRecordActionCreate = ''CREATE''"
definition STFSRecordActionDelete :: string where "STFSRecordActionDelete = ''DELETE''"
definition STFSRecordActionUpdate :: string where "STFSRecordActionUpdate = ''UPDATE''"
definition STFSRecordReplacesContent :: string where
  "STFSRecordReplacesContent = ''STFS.ReplacesContent''"
definition STFSRecordReplacesContentTrue :: string where
  "STFSRecordReplacesContentTrue = ''true''"
definition STFSRecordReplacesContentFalse :: string where
  "STFSRecordReplacesContentFalse = ''false''"
definition STFSRecordReplacesName :: string where
  "STFSRecordReplacesName = ''STFS.ReplacesName''"
definition STFSRecordUncompressedSize :: string where
  "STFSRecordUncompressedSize = ''STFS.UncompressedSize''"
definition STFSRecordSignature :: string where "STFSRecordSignature = ''STFS.Signature''"
definition STFSRecordEmbeddedHeader :: string where
  "STFSRecordEmbeddedHeader = ''STFS.EmbeddedHeader''"

lemmas stfs_records =
  STFSRecordVersion_def STFSRecordVersion1_def STFSRecordAction_def STFSRecordActionCreate_def
  STFSRecordActionDelete_def STFSRecordActionUpdate_def STFSRecordReplacesContent_def
  STFSRecordReplacesContentTrue_def STFSRecordReplacesContentFalse_def
  STFSRecordReplacesName_def STFSRecordUncompressedSize_def STFSRecordSignature_def
  STFSRecordEmbeddedHeader_def

section \<open>Conversions (internal/converters)\<close>

text \<open>
  The index row and the exported header have the same fields, so the two conversions between
  them copy every field.
\<close>

definition ConfigHeaderToDBHeader :: "header \<Rightarrow> header" where
  "ConfigHeaderToDBHeader c =
     \<lparr>Record = Record c, Lastknownrecord = Lastknownrecord c, Block = Block c,
      Lastknownblock = Lastknownblock c, Deleted = Deleted c, Typeflag = Typeflag c,
      Name = Name c, Linkname = Linkname c, Size = Size c, Mode = Mode c, UID = UID c,
      Gid = Gid c, Uname = Uname c, Gname = Gname c, Modtime = Modtime c,
      Accesstime = Accesstime c, Changetime = Changetime c, Devmajor = Devmajor c,
      Devminor = Devminor c, Paxrecords = Paxrecords c, Format = Format c\<rparr>"

definition DBHeaderToConfigHeader :: "header \<Rightarrow> header" where
  "DBHeaderToConfigHeader d =
     \<lparr>Record = Record d, Lastknownrecord = Lastknownrecord d, Block = Block d,
      Lastknownblock = Lastknownblock d, Deleted = Deleted d, Typeflag = Typeflag d,
      Name = Name d, Linkname = Linkname d, Size = Size d, Mode = Mode d, UID = UID d,
      Gid = Gid d, Uname = Uname d, Gname = Gname d, Modtime = Modtime d,
      Accesstime = Accesstime d, Changetime = Changetime d, Devmajor = Devmajor d,
      Devminor = Devminor d, Paxrecords = Paxrecords d, Format = Format d\<rparr>"

definition DBHeaderToTarHeader :: "header \<Rightarrow> tar_header res" where
  "DBHeaderToTarHeader d =
     rbind (jsonUnmarshal (Paxrecords d))
       (\<lambda>pax. Ok
         \<lparr>tTypeflag = word_of_int (Typeflag d), tName = Name d, tLinkname = Linkname d,
          tSize = Size d, tMode = Mode d, tUid = UID d, tGid = Gid d, tUname = Uname d,
          tGname = Gname d, tModTime = Modtime d, tAccessTime = Accesstime d,
          tChangeTime = Changetime d, tDevmajor = Devmajor d, tDevminor = Devminor d,
          tPAXRecords = Some (paxOrEmpty pax), tFormat = Format d\<rparr>)"

definition TarHeaderToDBHeader :: "int \<Rightarrow> int \<Rightarrow> int \<Rightarrow> int \<Rightarrow> tar_header \<Rightarrow> header" where
  "TarHeaderToDBHeader record lastKnownRecord block lastKnownBlock t =
     \<lparr>Record = record, Lastknownrecord = lastKnownRecord, Block = block,
      Lastknownblock = lastKnownBlock, Deleted = 0, Typeflag = uint (tTypeflag t),
      Name = tName t, Linkname = tLinkname t, Size = tSize t, Mode = tMode t, UID = tUid t,
      Gid = tGid t, Uname = tUname t, Gname = tGname t, Modtime = tModTime t,
      Accesstime = tAccessTime t, Changetime = tChangeTime t, Devmajor = tDevmajor t,
      Devminor = tDevminor t, Paxrecords = jsonMarshal (tPAXRecords t), Format = tFormat t\<rparr>"

lemma config_db_id [simp]:
  "ConfigHeaderToDBHeader c = c" "DBHeaderToConfigHeader d = d"
  by (simp_all add: ConfigHeaderToDBHeader_def DBHeaderToConfigHeader_def)

definition tarWf :: "tar_header \<Rightarrow> bool" where
  "tarWf t = (case tPAXRecords t of None \<Rightarrow> True | Some m \<Rightarrow> smWf m)"

lemma DBHeaderToTarHeader_TarHeaderToDBHeader:
  "tarWf t \<Longrightarrow> DBHeaderToTarHeader (TarHeaderToDBHeader r lr b lb t)
    = Ok (t\<lparr>tPAXRecords := Some (paxOrEmpty (tPAXRecords t))\<rparr>)"
  by (cases t) (simp add: DBHeaderToTarHeader_def TarHeaderToDBHeader_def tarWf_def
      jsonUnmarshal_Marshal)

section \<open>Facts on modes\<close>

lemma hdrMode_dir_flag: "tTypeflag h = TypeDir \<Longrightarrow> hdrIsDir h"
  by (simp add: hdrIsDir_def IsDirMode_def hdrMode_def Let_def flagModeBits_def type_defs
      ModeDir_def word_bw_comms bit.conj_disj_distrib)

text \<open>A header made for a regular file has a regular mode: none of the type bits are set.\<close>

lemma regular_bits:
  fixes fm :: filemode
  assumes "a \<in> {0, 0x800}" "b \<in> {0, 0x400}" "c \<in> {0, 0x200}"
  shows "(Perm fm OR a OR b OR c) AND NOT 0xFFF = 0"
  using assms
  by (auto simp: Perm_def ModePerm_def bit.conj_disj_distrib2 and.assoc)

definition fileModeBits :: "filemode \<Rightarrow> filemode" where
  "fileModeBits fm = Perm fm OR (if fm AND ModeSetuid \<noteq> 0 then 0x800 else 0)
     OR (if fm AND ModeSetgid \<noteq> 0 then 0x400 else 0) OR (if fm AND ModeSticky \<noteq> 0 then 0x200 else 0)"

lemma FileInfoHeader_regular:
  assumes "FileInfoHeader fi link = Ok h" "IsRegularMode (fiMode fi)"
  shows "tTypeflag h = TypeReg \<or> tTypeflag h = TypeLink" "word_of_int (tMode h) = fileModeBits (fiMode fi)"
proof -
  obtain h0 where h0: "h = fileInfoSys fi h0" "tTypeflag h0 = TypeReg" "tMode h0 = uint (Perm (fiMode fi)) OR (if fiMode fi AND ModeSetuid \<noteq> 0 then 0x800 else 0)
        OR (if fiMode fi AND ModeSetgid \<noteq> 0 then 0x400 else 0) OR (if fiMode fi AND ModeSticky \<noteq> 0 then 0x200 else 0)"
    using assms by (auto simp: FileInfoHeader_def fileInfoKind_def Let_def)
  have "tMode h = tMode h0" "tTypeflag h = TypeReg \<or> tTypeflag h = TypeLink"
    using h0(1,2) by (auto simp: fileInfoSys_def Let_def type_defs split: sysinfo.split option.split)
  then show "tTypeflag h = TypeReg \<or> tTypeflag h = TypeLink" "word_of_int (tMode h) = fileModeBits (fiMode fi)"
    using h0(3) by (simp_all add: fileModeBits_def of_int_or_eq)
qed

lemma hdrMode_regular:
  assumes "FileInfoHeader fi link = Ok h" "IsRegularMode (fiMode fi)"
    and "tTypeflag h' = tTypeflag h" "tMode h' = tMode h"
  shows "IsRegularMode (hdrMode h')"
proof -
  have "fileModeBits fm AND NOT 0xFFF = 0" for fm
    unfolding fileModeBits_def by (rule regular_bits) auto
  then have "typeModeBits (word_of_int (tMode h') AND NOT 0xFFF) = 0"
    by (simp add: assms(4) FileInfoHeader_regular(2) [OF assms(1,2)] typeModeBits_def)
  moreover have "flagModeBits (tTypeflag h') = 0"
    using FileInfoHeader_regular(1) [OF assms(1,2)] by (auto simp: assms(3) flagModeBits_def type_defs)
  ultimately show ?thesis
    by (auto simp: hdrMode_def IsRegularMode_def Perm_def mode_defs bit.conj_disj_distrib2 and.assoc Let_def)
qed



end
