(* ===== verification/External.thy ===== *)
theory External
  imports Config Base64 Tar
begin

text \<open>
  Code that is not part of the repository, as one record of functions over which every theorem
  is quantified: the compression codecs, age, OpenPGP and minisign, the JSON text of a tar
  header, and what archive/tar makes of a header when it writes it and reads it back. A function
  that draws randomness takes a number that stands for it. What the code relies on is stated as
  predicates on this record, which a theorem has as hypotheses where it needs them.
\<close>

text \<open>How a codec is set up: the library, its level, and the block or window size.\<close>

datatype codec_level = LevelFastest | LevelBalanced | LevelSmallest

datatype lz4_block = Block64Kb | Block256Kb | Block1Mb | Block4Mb

datatype compressor =
    CGzip codec_level
  | CPgzip codec_level
  | CLz4 codec_level "lz4_block option"
  | CZstd codec_level "nat option"
  | CBrotli codec_level
  | CBzip2 codec_level
  | CNone

datatype decompressor = DGzip | DPgzip | DLz4 | DZstd | DBrotli | DBzip2 | DPbzip2 | DNone

record external =
  xCompress :: "compressor \<Rightarrow> bytes \<Rightarrow> bytes res"
  xDecompress :: "decompressor \<Rightarrow> bytes \<Rightarrow> bytes res"
  xAgeEncrypt :: "string \<Rightarrow> nat \<Rightarrow> bytes \<Rightarrow> bytes res"
  xAgeDecrypt :: "string \<Rightarrow> bytes \<Rightarrow> bytes res"
  xAgeScryptDecrypt :: "string \<Rightarrow> bytes \<Rightarrow> bytes res"
  xAgeScryptEncrypt :: "string \<Rightarrow> nat \<Rightarrow> bytes \<Rightarrow> bytes res"
  xAgeGenerate :: "nat \<Rightarrow> (bytes \<times> bytes) res"
  xAgeParseIdentity :: "bytes \<Rightarrow> string res"
  xAgeParseRecipient :: "bytes \<Rightarrow> string res"
  xPGPOpen :: "string list \<Rightarrow> unit res"
  xPGPEncrypt :: "string list \<Rightarrow> nat \<Rightarrow> bytes \<Rightarrow> bytes res"
  xPGPDecrypt :: "string list \<Rightarrow> bytes \<Rightarrow> bytes res"
  xPGPReadKeyRing :: "bytes \<Rightarrow> string list res"
  xPGPHasPrivateKey :: "string \<Rightarrow> bool"
  xPGPUnlock :: "string \<Rightarrow> string \<Rightarrow> string res"
  xPGPHasSigningKey :: "string \<Rightarrow> bool"
  xPGPSign :: "string \<Rightarrow> nat \<Rightarrow> bytes \<Rightarrow> bytes res"
  xPGPPacket :: "bytes \<Rightarrow> bytes option res"
  xPGPVerify :: "string \<Rightarrow> bytes \<Rightarrow> bytes \<Rightarrow> unit res"
  xPGPGenerate :: "string \<Rightarrow> nat \<Rightarrow> (bytes \<times> bytes) res"
  xMinisignSign :: "string \<Rightarrow> bytes \<Rightarrow> bytes"
  xMinisignVerify :: "string \<Rightarrow> bytes \<Rightarrow> bytes \<Rightarrow> bool"
  xMinisignDecryptKey :: "string \<Rightarrow> bytes \<Rightarrow> string res"
  xMinisignParsePublic :: "bytes \<Rightarrow> string res"
  xMinisignGenerate :: "nat \<Rightarrow> (bytes \<times> bytes) res"
  xMinisignEncryptKey :: "string \<Rightarrow> bytes \<Rightarrow> bytes res"
  xMarshalHeader :: "tar_header \<Rightarrow> string res"
  xUnmarshalHeader :: "string \<Rightarrow> tar_header res"
  xWireHeader :: "tar_header \<Rightarrow> (tar_header \<times> nat) res"

text \<open>
  Randomness: the sizing pass of a file, its writing pass, and the header are encrypted
  separately.
\<close>

definition rndSizing :: nat where "rndSizing = 0"
definition rndWriting :: nat where "rndWriting = 1"
definition rndHeader :: nat where "rndHeader = 2"

text \<open>
  \<open>PAXRecords\<close> of the wrapper headers of encryption and signature: a map literal that is then
  assigned to.
\<close>

definition wrapperHeader :: "int \<Rightarrow> strmap \<Rightarrow> tar_header" where
  "wrapperHeader sz m =
     zero_tar_header\<lparr>tFormat := FormatPAX, tSize := sz, tPAXRecords := Some m\<rparr>"

lemma zero_tar_header_simps [simp]:
  "tSize zero_tar_header = 0" "tName zero_tar_header = []" "tTypeflag zero_tar_header = 0"
  "tPAXRecords zero_tar_header = None" "tLinkname zero_tar_header = []"
  by (simp_all add: zero_tar_header_def)

lemma wrapperHeader_simps [simp]:
  "tSize (wrapperHeader s m) = s" "tPAXRecords (wrapperHeader s m) = Some m"
  "tTypeflag (wrapperHeader s m) = 0" "tFormat (wrapperHeader s m) = FormatPAX"
  by (simp_all add: wrapperHeader_def zero_tar_header_def)

text \<open>The documented behaviour of the JSON package on a tar header: \<open>Unmarshal\<close> reads back what
  \<open>Marshal\<close> wrote.\<close>

definition jsonLaw :: "external \<Rightarrow> tar_header \<Rightarrow> bool" where
  "jsonLaw x h =
     (case xMarshalHeader x h of Ok s \<Rightarrow> xUnmarshalHeader x s = Ok h | _ \<Rightarrow> True)"

end
