(* ===== verification/Drive.thy ===== *)
theory Drive
  imports External
begin

text \<open>
  A tar archive on a regular-file drive, as archive/tar writes and reads it: a list of blocks of
  512 bytes. An entry is a header (with its PAX extended header, if any) in one or more blocks
  and its contents, padded to whole blocks; an archive ends with two zero blocks. The reader is
  a position in the list, counted in blocks, because every position the code computes with is
  rounded up to one. What a header becomes on its way through the writer and the reader is
  \<open>xWireHeader\<close>; a read that starts inside an entry finds no valid header.
\<close>

section \<open>The medium\<close>

datatype block =
    BHead tar_header nat
  | BCont
  | BData bytes
  | BZero

type_synonym medium = "block list"

fun isZeroBlock :: "block \<Rightarrow> bool" where
  "isZeroBlock BZero = True"
| "isZeroBlock (BData s) = list_all (\<lambda>c. c = CHR 0x00) s"
| "isZeroBlock _ = False"

definition isHeaderOnly :: "byte \<Rightarrow> bool" where
  "isHeaderOnly t = (t \<in> {TypeLink, TypeSymlink, TypeChar, TypeBlock, TypeDir, TypeFifo})"

text \<open>The number of bytes of contents that follow a header, and of the blocks they take.\<close>

definition payload :: "tar_header \<Rightarrow> nat" where
  "payload h = (if isHeaderOnly (tTypeflag h) then 0 else nat (tSize h))"

definition blocksOf :: "nat \<Rightarrow> nat" where
  "blocksOf n = (n + MagneticTapeBlockSize - 1) div MagneticTapeBlockSize"

function dataBlocks :: "bytes \<Rightarrow> medium" where
  "dataBlocks s =
     (if s = [] then []
      else BData (take MagneticTapeBlockSize s) # dataBlocks (drop MagneticTapeBlockSize s))"
  by auto
termination
  by (relation "measure length") (auto simp: MagneticTapeBlockSize_def)

declare dataBlocks.simps [simp del]

fun blockBytes :: "block \<Rightarrow> bytes" where
  "blockBytes (BData s) = s @ replicate (MagneticTapeBlockSize - length s) (CHR 0x00)"
| "blockBytes _ = replicate MagneticTapeBlockSize (CHR 0x00)"

section \<open>The writer\<close>

text \<open>
  The state of a tar writer: the medium it appends to and the contents still owed to the last
  header. The padding of an entry is written along with its contents.
\<close>

record tar_writer =
  twMedium :: medium
  twOwed :: nat

definition twWriteHeader :: "external \<Rightarrow> tar_header \<Rightarrow> tar_writer \<Rightarrow> unit res \<times> tar_writer" where
  "twWriteHeader x hdr tw =
     (if twOwed tw \<noteq> 0 then (Err ErrMissedWriting, tw)
      else case xWireHeader x hdr of
             Ok (h, n) \<Rightarrow> (Ok (), \<lparr>twMedium = twMedium tw @ BHead h n # replicate n BCont,
                                  twOwed = payload h\<rparr>)
           | Err e \<Rightarrow> (Err e, tw) | Panic \<Rightarrow> (Panic, tw) | Hang \<Rightarrow> (Hang, tw))"

definition twWrite :: "bytes \<Rightarrow> tar_writer \<Rightarrow> unit res \<times> tar_writer" where
  "twWrite s tw =
     (let s' = take (twOwed tw) s;
          tw' = \<lparr>twMedium = twMedium tw @ dataBlocks s', twOwed = twOwed tw - length s'\<rparr>
      in (if length s > twOwed tw then Err ErrWriteTooLong else Ok (), tw'))"

definition twClose :: "tar_writer \<Rightarrow> unit res \<times> tar_writer" where
  "twClose tw =
     (if twOwed tw \<noteq> 0 then (Err ErrMissedWriting, tw)
      else (Ok (), tw\<lparr>twMedium := twMedium tw @ [BZero, BZero]\<rparr>))"

section \<open>The reader\<close>

text \<open>\<open>tr.Next()\<close> on a reader that has consumed the contents of the last entry and has met no
  error so far: its outcome and the position it leaves.\<close>

definition tarNext :: "medium \<Rightarrow> nat \<Rightarrow> tar_header res \<times> nat" where
  "tarNext m p =
     (if length m \<le> p then (Err EOF, p)
      else if isZeroBlock (m ! p) then
        (if length m \<le> p + 1 then (Err EOF, p + 1)
         else if isZeroBlock (m ! (p + 1)) then (Err EOF, p + 2)
         else (Err ErrHeader, p + 2))
      else case m ! p of
             BHead h n \<Rightarrow> if p + 1 + n \<le> length m then (Ok h, p + 1 + n)
                          else (Err ErrUnexpectedEOF, length m)
           | _ \<Rightarrow> (Err ErrHeader, p + 1))"

text \<open>\<open>io.Copy(ioutil.Discard, tr)\<close> and the rounding up to the next block.\<close>

definition tarSkip :: "medium \<Rightarrow> nat \<Rightarrow> tar_header \<Rightarrow> nat res" where
  "tarSkip m p h =
     (let q = p + blocksOf (payload h) in if q \<le> length m then Ok q else Err ErrUnexpectedEOF)"

definition tarContents :: "medium \<Rightarrow> nat \<Rightarrow> tar_header \<Rightarrow> bytes res" where
  "tarContents m p h =
     rbind (tarSkip m p h)
       (\<lambda>q. Ok (take (payload h) (concat (map blockBytes (take (q - p) (drop p m))))))"

section \<open>Locations\<close>

text \<open>
  A location on the tape is a record and a block in it. Three pieces of the code convert between
  a location and a position: the seek, the step to the next header, and the search for a header
  after an error. The record size is not negative; a division by a record size of 0 panics.
\<close>

definition seekPosition :: "nat \<Rightarrow> int \<Rightarrow> int \<Rightarrow> nat res" where
  "seekPosition recordSize record block =
     (let p = int recordSize * record + block in if p < 0 then Err ErrInvalid else Ok (nat p))"

definition nextLocation :: "nat \<Rightarrow> nat \<Rightarrow> int \<times> int" where
  "nextLocation recordSize nextTotalBlocks =
     (let record = int nextTotalBlocks div int recordSize;
          block = int nextTotalBlocks - record * int recordSize
      in if block > int recordSize then (record + 1, 0) else (record, block))"

definition resyncLocation :: "nat \<Rightarrow> nat \<Rightarrow> int \<times> int" where
  "resyncLocation recordSize nextTotalBlocks =
     (let record = int nextTotalBlocks div int recordSize;
          block = int nextTotalBlocks - record * int recordSize
      in if block < 0 then (record - 1, int recordSize - 1)
         else if block \<ge> int recordSize then (record + 1, 0)
         else (record, block))"

text \<open>The location the three of them agree on.\<close>

definition locate :: "nat \<Rightarrow> nat \<Rightarrow> int \<times> int" where
  "locate rs p = (int (p div rs), int (p mod rs))"

lemma location_eqs:
  assumes "0 < rs"
  shows "nextLocation rs p = locate rs p" "resyncLocation rs p = locate rs p"
    "seekPosition rs (fst (locate rs p)) (snd (locate rs p)) = Ok p"
proof -
  have *: "int p - int p div int rs * int rs = int (p mod rs)"
    by (metis minus_div_mult_eq_mod zdiv_int zmod_int)
  have "0 \<le> int (p mod rs)" "int (p mod rs) < int rs" using assms by simp_all
  then show "nextLocation rs p = locate rs p" "resyncLocation rs p = locate rs p"
    unfolding nextLocation_def resyncLocation_def locate_def Let_def * by (simp_all add: zdiv_int)
  have "int rs * int (p div rs) + int (p mod rs) = int p"
    by (metis mult_div_mod_eq of_nat_add of_nat_mult)
  then show "seekPosition rs (fst (locate rs p)) (snd (locate rs p)) = Ok p"
    by (simp add: seekPosition_def locate_def)
qed

text \<open>Locations are ordered as positions are.\<close>

lemma locate_order:
  "0 < rs \<Longrightarrow> fst (locate rs p) * int rs + snd (locate rs p) = int p"
  by (simp only: locate_def fst_conv snd_conv div_mult_mod_eq flip: of_nat_mult of_nat_add)

lemma locate_inj: "0 < rs \<Longrightarrow> locate rs p = locate rs q \<Longrightarrow> p = q"
  by (metis locate_order of_nat_eq_iff)

section \<open>Facts on the reader and the writer\<close>

lemma tarNext_Ok: "tarNext m p = (Ok h, q) \<Longrightarrow> p < length m \<and> p < q \<and> q \<le> length m"
  by (auto simp: tarNext_def split: if_splits block.splits)

lemma tarNext_Err:
  "tarNext m p = (Err e, q) \<Longrightarrow> p \<le> q \<and> (e = EOF \<or> p < length m \<and> p < q)"
  by (auto simp: tarNext_def split: if_splits block.splits)

lemma tarNext_total: "fst (tarNext m p) \<noteq> Panic \<and> fst (tarNext m p) \<noteq> Hang"
  by (auto simp: tarNext_def split: block.splits)

lemma tarSkip_Ok: "tarSkip m p h = Ok q \<Longrightarrow> p \<le> q \<and> q \<le> length m"
  by (auto simp: tarSkip_def Let_def split: if_splits)

text \<open>The layout of an entry and what the reader finds at it.\<close>

definition entryBlocks :: "tar_header \<Rightarrow> nat \<Rightarrow> bytes \<Rightarrow> medium" where
  "entryBlocks h n s = BHead h n # replicate n BCont @ dataBlocks s"

lemma length_dataBlocks [simp]: "length (dataBlocks s) = blocksOf (length s)"
proof (induction s rule: dataBlocks.induct)
  case (1 s)
  show ?case
  proof (cases "s = []")
    case False
    then have "length (dataBlocks s) = Suc (blocksOf (length s - 512))"
      using 1 by (simp add: dataBlocks.simps [of s] MagneticTapeBlockSize_def)
    also have "\<dots> = blocksOf (length s)"
    proof (cases "length s \<le> 512")
      case True
      have "(length s + 511) div 512 = 1"
        using False True by (intro div_nat_eqI) (auto simp: Suc_le_eq)
      with True show ?thesis by (simp add: blocksOf_def MagneticTapeBlockSize_def)
    next
      case False
      then have "length s + 511 = (length s - 512 + 511) + 512" by simp
      then show ?thesis by (simp add: blocksOf_def MagneticTapeBlockSize_def)
    qed
    finally show ?thesis .
  qed (simp add: dataBlocks.simps blocksOf_def MagneticTapeBlockSize_def)
qed

lemma length_entryBlocks [simp]: "length (entryBlocks h n s) = 1 + n + blocksOf (length s)"
  by (simp add: entryBlocks_def)

lemma bytes_dataBlocks:
  "\<exists>pad. concat (map blockBytes (dataBlocks s)) = s @ pad"
proof (induction s rule: dataBlocks.induct)
  case (1 s)
  show ?case
  proof (cases "length s \<le> MagneticTapeBlockSize")
    case True
    then show ?thesis
      by (cases "s = []") (simp_all add: dataBlocks.simps [of s] dataBlocks.simps [of "[]"])
  next
    case False
    then have "s \<noteq> []" by auto
    then obtain pad where pad: "concat (map blockBytes (dataBlocks (drop MagneticTapeBlockSize s)))
        = drop MagneticTapeBlockSize s @ pad" using 1 by blast
    have "concat (map blockBytes (dataBlocks s)) = s @ pad"
      using \<open>s \<noteq> []\<close> False pad by (simp add: dataBlocks.simps [of s] flip: append_assoc)
    then show ?thesis ..
  qed
qed

lemma tarNext_entry:
  "m = pre @ entryBlocks h n s @ post \<Longrightarrow> tarNext m (length pre) = (Ok h, length pre + 1 + n)"
  by (simp add: tarNext_def entryBlocks_def nth_append)

lemma tarSkip_entry:
  "m = pre @ entryBlocks h n s @ post \<Longrightarrow> payload h = length s \<Longrightarrow>
   tarSkip m (length pre + 1 + n) h = Ok (length pre + length (entryBlocks h n s))"
  by (simp add: tarSkip_def)

lemma tarContents_entry:
  assumes "m = pre @ entryBlocks h n s @ post" "payload h = length s"
  shows "tarContents m (length pre + 1 + n) h = Ok s"
proof -
  let ?p = "length pre + 1 + n"
  have "drop ?p m = dataBlocks s @ post" by (simp add: assms(1) entryBlocks_def)
  then have "take (length pre + length (entryBlocks h n s) - ?p) (drop ?p m) = dataBlocks s"
    by simp
  moreover obtain pad where "concat (map blockBytes (dataBlocks s)) = s @ pad"
    using bytes_dataBlocks by blast
  ultimately show ?thesis
    using tarSkip_entry [OF assms] assms(2) by (simp add: tarContents_def del: length_entryBlocks)
qed

lemma tarNext_trailer:
  "m = pre @ BZero # BZero # post \<Longrightarrow> tarNext m (length pre) = (Err EOF, length pre + 2)"
  by (simp add: tarNext_def nth_append)

lemma tarNext_end: "tarNext m (length m) = (Err EOF, length m)"
  by (simp add: tarNext_def)

text \<open>Writing an entry whose contents have the announced size appends its blocks.\<close>

lemma tw_entry:
  assumes "twOwed tw = 0" "xWireHeader x hdr = Ok (h, n)" "payload h = length s"
  shows "twWriteHeader x hdr tw = (Ok (), \<lparr>twMedium = twMedium tw @ BHead h n # replicate n BCont,
      twOwed = length s\<rparr>)"
    and "twWrite s \<lparr>twMedium = twMedium tw @ BHead h n # replicate n BCont, twOwed = length s\<rparr>
      = (Ok (), \<lparr>twMedium = twMedium tw @ entryBlocks h n s, twOwed = 0\<rparr>)"
  using assms by (simp_all add: twWriteHeader_def twWrite_def Let_def entryBlocks_def)

end
