(* ===== verification/MetadataStore.thy ===== *)
theory MetadataStore
  imports Tar
begin

text \<open>
  The interface \<open>config.MetadataPersister\<close>, which the recovery, inventory, operations and file
  system packages use: a record of its methods over any type of state, and the contract their
  lemmas rest on. The methods that only read may change caches, but not what the index holds;
  every method keeps the invariant of the index, whatever its outcome.
\<close>

record 'p metadata_persister =
  mpUpsertHeader :: "header \<Rightarrow> bool \<Rightarrow> 'p \<Rightarrow> unit res \<times> 'p"
  mpUpdateHeaderMetadata :: "header \<Rightarrow> 'p \<Rightarrow> unit res \<times> 'p"
  mpMoveHeader :: "string \<Rightarrow> string \<Rightarrow> int \<Rightarrow> int \<Rightarrow> 'p \<Rightarrow> unit res \<times> 'p"
  mpGetHeaders :: "'p \<Rightarrow> header list res \<times> 'p"
  mpGetHeader :: "string \<Rightarrow> 'p \<Rightarrow> header res \<times> 'p"
  mpGetHeaderByLinkname :: "string \<Rightarrow> 'p \<Rightarrow> header res \<times> 'p"
  mpGetHeaderChildren :: "string \<Rightarrow> 'p \<Rightarrow> header list res \<times> 'p"
  mpGetRootPath :: "'p \<Rightarrow> string res \<times> 'p"
  mpGetHeaderDirectChildren :: "string \<Rightarrow> int \<Rightarrow> 'p \<Rightarrow> header list res \<times> 'p"
  mpDeleteHeader :: "string \<Rightarrow> int \<Rightarrow> int \<Rightarrow> 'p \<Rightarrow> header res \<times> 'p"
  mpGetLastIndexedRecordAndBlock :: "int \<Rightarrow> 'p \<Rightarrow> (int \<times> int) res \<times> 'p"
  mpPurgeAllHeaders :: "'p \<Rightarrow> unit res \<times> 'p"

locale metadata_reader =
  fixes mp :: "'p metadata_persister"
    and inv :: "'p \<Rightarrow> bool"
    and view :: "'p \<Rightarrow> 'v"
  assumes read_inv:
      "inv p \<Longrightarrow> inv (snd (mpGetHeaders mp p))"
      "inv p \<Longrightarrow> inv (snd (mpGetHeader mp n p))"
      "inv p \<Longrightarrow> inv (snd (mpGetHeaderByLinkname mp n p))"
      "inv p \<Longrightarrow> inv (snd (mpGetHeaderChildren mp n p))"
      "inv p \<Longrightarrow> inv (snd (mpGetRootPath mp p))"
      "inv p \<Longrightarrow> inv (snd (mpGetHeaderDirectChildren mp n l p))"
      "inv p \<Longrightarrow> inv (snd (mpGetLastIndexedRecordAndBlock mp rs p))"
    and read_view:
      "view (snd (mpGetHeaders mp p)) = view p"
      "view (snd (mpGetHeader mp n p)) = view p"
      "view (snd (mpGetHeaderByLinkname mp n p)) = view p"
      "view (snd (mpGetHeaderChildren mp n p)) = view p"
      "view (snd (mpGetRootPath mp p)) = view p"
      "view (snd (mpGetHeaderDirectChildren mp n l p)) = view p"
      "view (snd (mpGetLastIndexedRecordAndBlock mp rs p)) = view p"

locale metadata_store = metadata_reader mp inv view
  for mp :: "'p metadata_persister" and inv :: "'p \<Rightarrow> bool" and view :: "'p \<Rightarrow> 'v" +
  assumes write_inv:
      "inv p \<Longrightarrow> inv (snd (mpUpsertHeader mp h i p))"
      "inv p \<Longrightarrow> inv (snd (mpUpdateHeaderMetadata mp h p))"
      "inv p \<Longrightarrow> inv (snd (mpMoveHeader mp old new lr lb p))"
      "inv p \<Longrightarrow> inv (snd (mpDeleteHeader mp n lr lb p))"
      "inv p \<Longrightarrow> inv (snd (mpPurgeAllHeaders mp p))"
begin

lemmas store_inv = read_inv write_inv

end

text \<open>A persister all of whose methods return.\<close>

locale metadata_total = metadata_store mp inv view
  for mp :: "'p metadata_persister" and inv :: "'p \<Rightarrow> bool" and view :: "'p \<Rightarrow> 'v" +
  assumes read_returns:
      "returns (fst (mpGetHeaders mp p))"
      "returns (fst (mpGetHeader mp n p))"
      "returns (fst (mpGetHeaderByLinkname mp n p))"
      "returns (fst (mpGetHeaderChildren mp n p))"
      "returns (fst (mpGetRootPath mp p))"
      "returns (fst (mpGetHeaderDirectChildren mp n l p))"
      "returns (fst (mpGetLastIndexedRecordAndBlock mp rs p))"
    and write_returns:
      "returns (fst (mpUpsertHeader mp h i p))"
      "returns (fst (mpUpdateHeaderMetadata mp h p))"
      "returns (fst (mpMoveHeader mp old new lr lb p))"
      "returns (fst (mpDeleteHeader mp n lr lb p))"
      "returns (fst (mpPurgeAllHeaders mp p))"
begin

lemmas store_returns = read_returns write_returns

end

end
