(* ===== verification/Suffix.thy ===== *)
theory Suffix
  imports Config
begin

text \<open>
  internal/suffix: the file name suffixes an archived regular file carries on the tape for its
  compression and encryption format. \<open>AddSuffix\<close> and \<open>RemoveSuffix\<close> are inverse to each other
  (in that order) and reject the same formats; the codec locale states that contract once, for
  the two places that rely on it (archiving and indexing).
\<close>

section \<open>The operations\<close>

definition CompressionFormatGZipSuffix :: string where "CompressionFormatGZipSuffix = ''.gz''"
definition CompressionFormatLZ4Suffix :: string where "CompressionFormatLZ4Suffix = ''.lz4''"
definition CompressionFormatZStandardSuffix :: string where
  "CompressionFormatZStandardSuffix = ''.zst''"
definition CompressionFormatBrotliSuffix :: string where
  "CompressionFormatBrotliSuffix = ''.br''"
definition CompressionFormatBzip2Suffix :: string where
  "CompressionFormatBzip2Suffix = ''.bz2''"
definition EncryptionFormatAgeSuffix :: string where "EncryptionFormatAgeSuffix = ''.age''"
definition EncryptionFormatPGPSuffix :: string where "EncryptionFormatPGPSuffix = ''.pgp''"

lemmas suffix_defs =
  CompressionFormatGZipSuffix_def CompressionFormatLZ4Suffix_def
  CompressionFormatZStandardSuffix_def CompressionFormatBrotliSuffix_def
  CompressionFormatBzip2Suffix_def EncryptionFormatAgeSuffix_def EncryptionFormatPGPSuffix_def

definition AddSuffix :: "string \<Rightarrow> string \<Rightarrow> string \<Rightarrow> string res" where
  "AddSuffix name compressionFormat encryptionFormat =
     rbind
       (if compressionFormat = CompressionFormatGZipKey
           \<or> compressionFormat = CompressionFormatParallelGZipKey
        then Ok (name @ CompressionFormatGZipSuffix)
        else if compressionFormat = CompressionFormatLZ4Key
        then Ok (name @ CompressionFormatLZ4Suffix)
        else if compressionFormat = CompressionFormatZStandardKey
        then Ok (name @ CompressionFormatZStandardSuffix)
        else if compressionFormat = CompressionFormatBrotliKey
        then Ok (name @ CompressionFormatBrotliSuffix)
        else if compressionFormat = CompressionFormatBzip2Key
           \<or> compressionFormat = CompressionFormatBzip2ParallelKey
        then Ok (name @ CompressionFormatBzip2Suffix)
        else if compressionFormat = NoneKey then Ok name
        else Err ErrCompressionFormatUnsupported)
       (\<lambda>name.
         if encryptionFormat = EncryptionFormatAgeKey
         then Ok (name @ EncryptionFormatAgeSuffix)
         else if encryptionFormat = EncryptionFormatPGPKey
         then Ok (name @ EncryptionFormatPGPSuffix)
         else if encryptionFormat = NoneKey then Ok name
         else Err ErrEncryptionFormatUnsupported)"

definition RemoveSuffix :: "string \<Rightarrow> string \<Rightarrow> string \<Rightarrow> string res" where
  "RemoveSuffix name compressionFormat encryptionFormat =
     rbind
       (if encryptionFormat = EncryptionFormatAgeKey
        then Ok (TrimSuffix name EncryptionFormatAgeSuffix)
        else if encryptionFormat = EncryptionFormatPGPKey
        then Ok (TrimSuffix name EncryptionFormatPGPSuffix)
        else if encryptionFormat = NoneKey then Ok name
        else Err ErrEncryptionFormatUnsupported)
       (\<lambda>name.
         if compressionFormat = CompressionFormatGZipKey
            \<or> compressionFormat = CompressionFormatParallelGZipKey
         then Ok (TrimSuffix name CompressionFormatGZipSuffix)
         else if compressionFormat = CompressionFormatLZ4Key
         then Ok (TrimSuffix name CompressionFormatLZ4Suffix)
         else if compressionFormat = CompressionFormatZStandardKey
         then Ok (TrimSuffix name CompressionFormatZStandardSuffix)
         else if compressionFormat = CompressionFormatBrotliKey
         then Ok (TrimSuffix name CompressionFormatBrotliSuffix)
         else if compressionFormat = CompressionFormatBzip2Key
            \<or> compressionFormat = CompressionFormatBzip2ParallelKey
         then Ok (TrimSuffix name CompressionFormatBzip2Suffix)
         else if compressionFormat = NoneKey then Ok name
         else Err ErrCompressionFormatUnsupported)"

text \<open>Both read the suffix off the same two tables.\<close>

definition compressionSuffix :: "string \<Rightarrow> string res" where
  "compressionSuffix c =
     (if c = CompressionFormatGZipKey \<or> c = CompressionFormatParallelGZipKey
      then Ok CompressionFormatGZipSuffix
      else if c = CompressionFormatLZ4Key then Ok CompressionFormatLZ4Suffix
      else if c = CompressionFormatZStandardKey then Ok CompressionFormatZStandardSuffix
      else if c = CompressionFormatBrotliKey then Ok CompressionFormatBrotliSuffix
      else if c = CompressionFormatBzip2Key \<or> c = CompressionFormatBzip2ParallelKey
      then Ok CompressionFormatBzip2Suffix
      else if c = NoneKey then Ok [] else Err ErrCompressionFormatUnsupported)"

definition encryptionSuffix :: "string \<Rightarrow> string res" where
  "encryptionSuffix e =
     (if e = EncryptionFormatAgeKey then Ok EncryptionFormatAgeSuffix
      else if e = EncryptionFormatPGPKey then Ok EncryptionFormatPGPSuffix
      else if e = NoneKey then Ok [] else Err ErrEncryptionFormatUnsupported)"

lemma TrimSuffix_Nil [simp]: "TrimSuffix s [] = s"
  by (simp add: TrimSuffix_def)

lemma AddSuffix_eq:
  "AddSuffix n c e =
     rbind (compressionSuffix c) (\<lambda>s. rbind (encryptionSuffix e) (\<lambda>t. Ok (n @ s @ t)))"
  by (simp add: AddSuffix_def compressionSuffix_def encryptionSuffix_def rbind_if
           split del: if_split cong: if_cong)

lemma RemoveSuffix_eq:
  "RemoveSuffix n c e =
     rbind (encryptionSuffix e)
       (\<lambda>t. rbind (compressionSuffix c) (\<lambda>s. Ok (TrimSuffix (TrimSuffix n t) s)))"
  by (simp add: RemoveSuffix_def compressionSuffix_def encryptionSuffix_def rbind_if
           split del: if_split cong: if_cong)

lemma compressionSuffix_cases:
  "(c \<in> set KnownCompressionFormats \<and> (\<exists>s. compressionSuffix c = Ok s))
   \<or> (c \<notin> set KnownCompressionFormats \<and> compressionSuffix c = Err ErrCompressionFormatUnsupported)"
  by (simp add: compressionSuffix_def KnownCompressionFormats_def)

lemma encryptionSuffix_cases:
  "(e \<in> set KnownEncryptionFormats \<and> (\<exists>s. encryptionSuffix e = Ok s))
   \<or> (e \<notin> set KnownEncryptionFormats \<and> encryptionSuffix e = Err ErrEncryptionFormatUnsupported)"
  by (simp add: encryptionSuffix_def KnownEncryptionFormats_def)

section \<open>The contract of a name codec\<close>

locale name_codec =
  fixes add :: "string \<Rightarrow> string \<Rightarrow> string \<Rightarrow> string res"
    and remove :: "string \<Rightarrow> string \<Rightarrow> string \<Rightarrow> string res"
    and compressions :: "string list"
    and encryptions :: "string list"
  assumes remove_add: "add n c e = Ok n' \<Longrightarrow> remove n' c e = Ok n"
    and add_known: "c \<in> set compressions \<Longrightarrow> e \<in> set encryptions \<Longrightarrow> \<exists>n'. add n c e = Ok n'"
    and remove_known:
      "c \<in> set compressions \<Longrightarrow> e \<in> set encryptions \<Longrightarrow> \<exists>n'. remove n c e = Ok n'"
    and add_unknown: "c \<notin> set compressions \<or> e \<notin> set encryptions \<Longrightarrow> \<exists>x. add n c e = Err x"
    and remove_unknown:
      "c \<notin> set compressions \<or> e \<notin> set encryptions \<Longrightarrow> \<exists>x. remove n c e = Err x"
begin

lemma add_inj: "add n c e = Ok m \<Longrightarrow> add n' c e = Ok m \<Longrightarrow> n = n'"
  by (drule remove_add, drule remove_add) simp

lemma add_Ok_iff: "(\<exists>m. add n c e = Ok m) \<longleftrightarrow> c \<in> set compressions \<and> e \<in> set encryptions"
  using add_known [of c e n] add_unknown [of c e n] by fastforce

lemma remove_Ok_iff:
  "(\<exists>m. remove n c e = Ok m) \<longleftrightarrow> c \<in> set compressions \<and> e \<in> set encryptions"
  using remove_known [of c e n] remove_unknown [of c e n] by fastforce

lemma roundtrip:
  "c \<in> set compressions \<Longrightarrow> e \<in> set encryptions \<Longrightarrow> rbind (add n c e) (\<lambda>m. remove m c e) = Ok n"
  using add_known [of c e n] remove_add by auto

end

text \<open>The suffix package is such a codec on the formats pkg/config knows.\<close>

lemma RemoveSuffix_AddSuffix: "AddSuffix n c e = Ok n' \<Longrightarrow> RemoveSuffix n' c e = Ok n"
  by (auto simp: AddSuffix_eq RemoveSuffix_eq rbind_Ok_iff append_assoc [symmetric]
           simp del: append_assoc)

interpretation suffix: name_codec AddSuffix RemoveSuffix KnownCompressionFormats
  KnownEncryptionFormats
proof
  show "AddSuffix n c e = Ok n' \<Longrightarrow> RemoveSuffix n' c e = Ok n" for n c e n'
    by (rule RemoveSuffix_AddSuffix)
next
  fix n c e
  show "c \<in> set KnownCompressionFormats \<Longrightarrow> e \<in> set KnownEncryptionFormats
      \<Longrightarrow> \<exists>n'. AddSuffix n c e = Ok n'"
    and "c \<in> set KnownCompressionFormats \<Longrightarrow> e \<in> set KnownEncryptionFormats
      \<Longrightarrow> \<exists>n'. RemoveSuffix n c e = Ok n'"
    and "c \<notin> set KnownCompressionFormats \<or> e \<notin> set KnownEncryptionFormats
      \<Longrightarrow> \<exists>x. AddSuffix n c e = Err x"
    and "c \<notin> set KnownCompressionFormats \<or> e \<notin> set KnownEncryptionFormats
      \<Longrightarrow> \<exists>x. RemoveSuffix n c e = Err x"
    using compressionSuffix_cases [of c] encryptionSuffix_cases [of e]
    by (auto simp: AddSuffix_eq RemoveSuffix_eq)
qed

text \<open>
  C39: on every known pair of formats the name of a file survives the tape: removing the suffixes
  of the pipes from a name they were added to gives the name back, and adding never maps two
  names to one; with an unknown format both fail.
\<close>

theorem suffix_roundtrip:
  "(if c \<in> set KnownCompressionFormats \<and> e \<in> set KnownEncryptionFormats
    then rbind (AddSuffix n c e) (\<lambda>m. RemoveSuffix m c e) = Ok n
      \<and> (AddSuffix n c e = AddSuffix n' c e) = (n = n')
    else (\<exists>x. AddSuffix n c e = Err x) \<and> (\<exists>x. RemoveSuffix n c e = Err x))"
proof (cases "c \<in> set KnownCompressionFormats \<and> e \<in> set KnownEncryptionFormats")
  case True
  obtain m where m: "AddSuffix n c e = Ok m" using True suffix.add_known by blast
  have "AddSuffix n c e = AddSuffix n' c e \<Longrightarrow> n = n'" using suffix.add_inj [OF m, of n'] m by simp
  then show ?thesis using True suffix.roundtrip [of c e n] by auto
next
  case False
  then have "(\<exists>x. AddSuffix n c e = Err x) \<and> (\<exists>x. RemoveSuffix n c e = Err x)"
    using suffix.add_unknown [of c e n] suffix.remove_unknown [of c e n] by blast
  with False show ?thesis by (simp only: if_False simp_thms)
qed

text \<open>
  The suffixes are stripped from names they were never added to: under gzip, a name that itself
  ends in the suffix (as that of an empty file, to which none is added) is indexed without it, so
  two different files share one name in the index.
\<close>

theorem suffix_strips_own_name:
  "RemoveSuffix ''/logs.gz'' CompressionFormatGZipKey NoneKey = Ok ''/logs''
    \<and> rbind (AddSuffix ''/logs'' CompressionFormatGZipKey NoneKey)
        (\<lambda>m. RemoveSuffix m CompressionFormatGZipKey NoneKey) = Ok ''/logs''"
  by (simp add: RemoveSuffix_def AddSuffix_def suffix_defs TrimSuffix_def HasSuffix_def)

end
