(* ===== verification/Encryption.thy ===== *)
theory Encryption
  imports External
begin

text \<open>
  pkg/encryption: encryption and decryption of file contents, of strings (base64 of the
  ciphertext) and of tar headers, whose encrypted form is embedded in a wrapper header. A key is
  accepted or refused by its type.
\<close>

section \<open>Contents\<close>

datatype encryptor = EAge string | EPGP "string list" | ENone

definition Encrypt :: "external \<Rightarrow> string \<Rightarrow> key \<Rightarrow> encryptor res" where
  "Encrypt x encryptionFormat recipient =
     (if encryptionFormat = EncryptionFormatAgeKey then
        (case recipient of KAgeRecipient r \<Rightarrow> Ok (EAge r) | _ \<Rightarrow> Err ErrRecipientUnparsable)
      else if encryptionFormat = EncryptionFormatPGPKey then
        (case recipient of KPGP es \<Rightarrow> rbind (xPGPOpen x es) (\<lambda>_. Ok (EPGP es))
         | _ \<Rightarrow> Err ErrRecipientUnparsable)
      else if encryptionFormat = NoneKey then Ok ENone
      else Err ErrEncryptionFormatUnsupported)"

text \<open>Writing everything through the encryptor and closing it.\<close>

fun runEncryptor :: "external \<Rightarrow> encryptor \<Rightarrow> nat \<Rightarrow> bytes \<Rightarrow> bytes res" where
  "runEncryptor x (EAge r) rnd s = xAgeEncrypt x r rnd s"
| "runEncryptor x (EPGP es) rnd s = xPGPEncrypt x es rnd s"
| "runEncryptor x ENone rnd s = Ok s"

definition Decrypt :: "external \<Rightarrow> string \<Rightarrow> key \<Rightarrow> bytes \<Rightarrow> bytes res" where
  "Decrypt x encryptionFormat identity src =
     (if encryptionFormat = EncryptionFormatAgeKey then
        (case identity of KAgeIdentity i \<Rightarrow> xAgeDecrypt x i src | _ \<Rightarrow> Err ErrIdentityUnparsable)
      else if encryptionFormat = EncryptionFormatPGPKey then
        (case identity of KPGP es \<Rightarrow> xPGPDecrypt x es src | _ \<Rightarrow> Err ErrIdentityUnparsable)
      else if encryptionFormat = NoneKey then Ok src
      else Err ErrEncryptionFormatUnsupported)"

section \<open>Strings and headers\<close>

definition EncryptString :: "external \<Rightarrow> nat \<Rightarrow> string \<Rightarrow> string \<Rightarrow> key \<Rightarrow> string res" where
  "EncryptString x rnd src encryptionFormat recipient =
     (if encryptionFormat = EncryptionFormatAgeKey then
        (case recipient of
           KAgeRecipient r \<Rightarrow> rbind (xAgeEncrypt x r rnd src) (\<lambda>out. Ok (b64Encode out))
         | _ \<Rightarrow> Err ErrRecipientUnparsable)
      else if encryptionFormat = EncryptionFormatPGPKey then
        (case recipient of
           KPGP es \<Rightarrow> rbind (xPGPOpen x es)
             (\<lambda>_. rbind (xPGPEncrypt x es rnd src) (\<lambda>out. Ok (b64Encode out)))
         | _ \<Rightarrow> Err ErrRecipientUnparsable)
      else if encryptionFormat = NoneKey then Ok src
      else Err ErrEncryptionFormatUnsupported)"

definition DecryptString :: "external \<Rightarrow> string \<Rightarrow> string \<Rightarrow> key \<Rightarrow> string res" where
  "DecryptString x src encryptionFormat identity =
     (if encryptionFormat = EncryptionFormatAgeKey then
        (case identity of
           KAgeIdentity i \<Rightarrow> rbind (b64Decode src) (\<lambda>decoded. xAgeDecrypt x i decoded)
         | _ \<Rightarrow> Err ErrIdentityUnparsable)
      else if encryptionFormat = EncryptionFormatPGPKey then
        (case identity of
           KPGP es \<Rightarrow> rbind (b64Decode src) (\<lambda>decoded. xPGPDecrypt x es decoded)
         | _ \<Rightarrow> Err ErrIdentityUnparsable)
      else if encryptionFormat = NoneKey then Ok src
      else Err ErrEncryptionFormatUnsupported)"

definition EncryptHeader :: "external \<Rightarrow> tar_header \<Rightarrow> string \<Rightarrow> key \<Rightarrow> tar_header res" where
  "EncryptHeader x hdr encryptionFormat recipient =
     (if encryptionFormat = NoneKey then Ok hdr
      else rbind (xMarshalHeader x hdr)
        (\<lambda>wrappedHeader.
           rbind (EncryptString x rndHeader wrappedHeader encryptionFormat recipient)
             (\<lambda>s. Ok (wrapperHeader (tSize hdr) [(STFSRecordEmbeddedHeader, s)]))))"

definition DecryptHeader :: "external \<Rightarrow> tar_header \<Rightarrow> string \<Rightarrow> key \<Rightarrow> tar_header res" where
  "DecryptHeader x hdr encryptionFormat identity =
     (if encryptionFormat = NoneKey then Ok hdr
      else case tPAXRecords hdr of
        None \<Rightarrow> Err ErrTarHeaderEmbeddedMissing
      | Some m \<Rightarrow>
          (case paxGet (Some m) STFSRecordEmbeddedHeader of
             None \<Rightarrow> Err ErrTarHeaderEmbeddedMissing
           | Some encryptedEmbeddedHeader \<Rightarrow>
               rbind (DecryptString x encryptedEmbeddedHeader encryptionFormat identity)
                 (\<lambda>embeddedHeader. xUnmarshalHeader x embeddedHeader)))"

section \<open>Facts\<close>

text \<open>The documented behaviour of the libraries: what was encrypted to a recipient is what the
  matching identity decrypts.\<close>

definition encryptionLaw :: "external \<Rightarrow> key \<Rightarrow> key \<Rightarrow> bool" where
  "encryptionLaw x recipient identity =
     (case (recipient, identity) of
        (KAgeRecipient r, KAgeIdentity i) \<Rightarrow>
          (\<forall>n s t. xAgeEncrypt x r n s = Ok t \<longrightarrow> xAgeDecrypt x i t = Ok s)
      | (KPGP rs, KPGP is) \<Rightarrow> (\<forall>n s t. xPGPEncrypt x rs n s = Ok t \<longrightarrow> xPGPDecrypt x is t = Ok s)
      | _ \<Rightarrow> False)"

lemma Decrypt_Encrypt:
  assumes "encryptionLaw x recipient identity \<or> fmt = NoneKey"
    and "Encrypt x fmt recipient = Ok e" "runEncryptor x e rnd s = Ok t"
  shows "Decrypt x fmt identity t = Ok s"
  using assms
  by (auto simp: Encrypt_def Decrypt_def encryptionLaw_def rbind_Ok_iff
      split: if_splits key.splits)

lemma DecryptString_EncryptString:
  assumes "encryptionLaw x recipient identity \<or> fmt = NoneKey"
    and "EncryptString x rnd s fmt recipient = Ok t"
  shows "DecryptString x t fmt identity = Ok s"
  using assms
  by (auto simp: EncryptString_def DecryptString_def encryptionLaw_def rbind_Ok_iff
      split: if_splits key.splits)

lemma DecryptHeader_wrapper:
  "fmt \<noteq> NoneKey \<Longrightarrow>
   DecryptHeader x (wrapperHeader n [(STFSRecordEmbeddedHeader, s)]) fmt identity =
     rbind (DecryptString x s fmt identity) (xUnmarshalHeader x)"
  by (simp add: DecryptHeader_def paxGet_def)

lemma DecryptHeader_EncryptHeader:
  assumes "encryptionLaw x recipient identity \<or> fmt = NoneKey" "jsonLaw x hdr"
    and "EncryptHeader x hdr fmt recipient = Ok h'"
  shows "DecryptHeader x h' fmt identity = Ok hdr"
proof (cases "fmt = NoneKey")
  case True
  then show ?thesis using assms by (simp add: EncryptHeader_def DecryptHeader_def)
next
  case False
  then obtain w s where "xMarshalHeader x hdr = Ok w"
    and s: "EncryptString x rndHeader w fmt recipient = Ok s"
    and "h' = wrapperHeader (tSize hdr) [(STFSRecordEmbeddedHeader, s)]"
    using assms(3) by (auto simp: EncryptHeader_def rbind_Ok_iff)
  then show ?thesis
    using False assms(2) DecryptString_EncryptString [OF assms(1) s]
    by (simp add: DecryptHeader_wrapper jsonLaw_def)
qed

lemma EncryptHeader_size: "EncryptHeader x hdr fmt recipient = Ok h' \<Longrightarrow> tSize h' = tSize hdr"
  by (auto simp: EncryptHeader_def rbind_Ok_iff split: if_splits)

end
