(* ===== verification/Signature.thy ===== *)
theory Signature
  imports External
begin

text \<open>
  pkg/signature: detached signatures of file contents and signed tar headers. The reader that
  the code wraps around a file computes the signature of everything read through it; here the
  signer is applied to the contents.
\<close>

section \<open>Contents\<close>

datatype signer = SMinisign string | SPGP string | SNone

definition Sign :: "external \<Rightarrow> bool \<Rightarrow> string \<Rightarrow> key \<Rightarrow> signer res" where
  "Sign x isRegular signatureFormat identity =
     (if signatureFormat = SignatureFormatMinisignKey then
        (if \<not> isRegular then Err ErrSignatureFormatRegularOnly
         else case identity of KMinisignPrivate k \<Rightarrow> Ok (SMinisign k) | _ \<Rightarrow> Err ErrIdentityUnparsable)
      else if signatureFormat = SignatureFormatPGPKey then
        (case identity of
           KPGP [] \<Rightarrow> Err ErrIdentityUnparsable
         | KPGP (e # _) \<Rightarrow>
             if \<not> xPGPHasSigningKey x e then Err ErrIdentityUnparsable else Ok (SPGP e)
         | _ \<Rightarrow> Err ErrIdentityUnparsable)
      else if signatureFormat = NoneKey then Ok SNone
      else Err ErrSignatureFormatUnsupported)"

fun runSigner :: "external \<Rightarrow> signer \<Rightarrow> nat \<Rightarrow> bytes \<Rightarrow> string res" where
  "runSigner x (SMinisign k) rnd s = Ok (b64Encode (xMinisignSign x k s))"
| "runSigner x (SPGP e) rnd s = rbind (xPGPSign x e rnd s) (\<lambda>out. Ok (b64Encode out))"
| "runSigner x SNone rnd s = Ok []"

datatype verifier = VMinisign string string | VPGP string bytes | VNone

definition Verify :: "external \<Rightarrow> bool \<Rightarrow> string \<Rightarrow> key \<Rightarrow> string \<Rightarrow> verifier res" where
  "Verify x isRegular signatureFormat recipient signature =
     (if signatureFormat = SignatureFormatMinisignKey then
        (if \<not> isRegular then Err ErrSignatureFormatRegularOnly
         else case recipient of
                KMinisignPublic k \<Rightarrow> Ok (VMinisign k signature) | _ \<Rightarrow> Err ErrRecipientUnparsable)
      else if signatureFormat = SignatureFormatPGPKey then
        (case recipient of
           KPGP [] \<Rightarrow> Err ErrIdentityUnparsable
         | KPGP (e # _) \<Rightarrow>
             rbind (b64Decode signature)
               (\<lambda>decodedSignature. rbind (xPGPPacket x decodedSignature)
                  (\<lambda>pkt. case pkt of None \<Rightarrow> Err ErrSignatureInvalid | Some sig \<Rightarrow> Ok (VPGP e sig)))
         | _ \<Rightarrow> Err ErrIdentityUnparsable)
      else if signatureFormat = NoneKey then Ok VNone
      else Err ErrSignatureFormatUnsupported)"

fun runVerifier :: "external \<Rightarrow> verifier \<Rightarrow> bytes \<Rightarrow> unit res" where
  "runVerifier x (VMinisign k signature) s =
     rbind (b64Decode signature)
       (\<lambda>decodedSignature. if xMinisignVerify x k s decodedSignature then Ok ()
                           else Err ErrSignatureInvalid)"
| "runVerifier x (VPGP e sig) s = xPGPVerify x e sig s"
| "runVerifier x VNone s = Ok ()"

section \<open>Strings and headers\<close>

definition SignString :: "external \<Rightarrow> nat \<Rightarrow> string \<Rightarrow> bool \<Rightarrow> string \<Rightarrow> key \<Rightarrow> string res" where
  "SignString x rnd src isRegular signatureFormat identity =
     (if signatureFormat = SignatureFormatMinisignKey then
        (if \<not> isRegular then Err ErrSignatureFormatRegularOnly
         else case identity of
                KMinisignPrivate k \<Rightarrow> Ok (b64Encode (xMinisignSign x k src))
              | _ \<Rightarrow> Err ErrIdentityUnparsable)
      else if signatureFormat = SignatureFormatPGPKey then
        (case identity of
           KPGP [] \<Rightarrow> Err ErrIdentityUnparsable
         | KPGP (e # _) \<Rightarrow> rbind (xPGPSign x e rnd src) (\<lambda>out. Ok (b64Encode out))
         | _ \<Rightarrow> Err ErrIdentityUnparsable)
      else if signatureFormat = NoneKey then Ok src
      else Err ErrSignatureFormatUnsupported)"

text \<open>
  In the OpenPGP case, every way in which the key or the signature fails to parse is a
  \<open>return nil\<close>: the string passes as verified.
\<close>

definition VerifyString ::
  "external \<Rightarrow> string \<Rightarrow> bool \<Rightarrow> string \<Rightarrow> key \<Rightarrow> string \<Rightarrow> unit res" where
  "VerifyString x src isRegular signatureFormat recipient signature =
     (if signatureFormat = SignatureFormatMinisignKey then
        (if \<not> isRegular then Err ErrSignatureFormatRegularOnly
         else case recipient of
                KMinisignPublic k \<Rightarrow>
                  rbind (b64Decode signature)
                    (\<lambda>decodedSignature. if xMinisignVerify x k src decodedSignature then Ok ()
                                        else Err ErrSignatureInvalid)
              | _ \<Rightarrow> Err ErrRecipientUnparsable)
      else if signatureFormat = SignatureFormatPGPKey then
        (case recipient of
           KPGP [] \<Rightarrow> Ok ()
         | KPGP (e # _) \<Rightarrow>
             (case b64Decode signature of
                Ok decodedSignature \<Rightarrow>
                  (case xPGPPacket x decodedSignature of
                     Ok (Some sig) \<Rightarrow> xPGPVerify x e sig src
                   | _ \<Rightarrow> Ok ())
              | _ \<Rightarrow> Ok ())
         | _ \<Rightarrow> Ok ())
      else if signatureFormat = NoneKey then Ok ()
      else Err ErrSignatureFormatUnsupported)"

definition SignHeader :: "external \<Rightarrow> tar_header \<Rightarrow> bool \<Rightarrow> string \<Rightarrow> key \<Rightarrow> tar_header res" where
  "SignHeader x hdr isRegular signatureFormat identity =
     (if signatureFormat = NoneKey then Ok hdr
      else rbind (xMarshalHeader x hdr)
        (\<lambda>wrappedHeader.
           rbind (SignString x rndHeader wrappedHeader isRegular signatureFormat identity)
             (\<lambda>s. Ok (wrapperHeader (tSize hdr)
                   (smInsert STFSRecordSignature s [(STFSRecordEmbeddedHeader, wrappedHeader)])))))"

definition VerifyHeader :: "external \<Rightarrow> tar_header \<Rightarrow> bool \<Rightarrow> string \<Rightarrow> key \<Rightarrow> tar_header res" where
  "VerifyHeader x hdr isRegular signatureFormat recipient =
     (if signatureFormat = NoneKey then Ok hdr
      else case tPAXRecords hdr of
        None \<Rightarrow> Err ErrTarHeaderEmbeddedMissing
      | Some m \<Rightarrow>
          (case paxGet (Some m) STFSRecordEmbeddedHeader of
             None \<Rightarrow> Err ErrTarHeaderEmbeddedMissing
           | Some embeddedHeader \<Rightarrow>
               (case paxGet (Some m) STFSRecordSignature of
                  None \<Rightarrow> Err ErrSignatureMissing
                | Some signature \<Rightarrow>
                    rbind (VerifyString x embeddedHeader isRegular signatureFormat recipient signature)
                      (\<lambda>_. xUnmarshalHeader x embeddedHeader))))"

section \<open>Facts\<close>

text \<open>The documented behaviour of the libraries: the public key accepts what the private key
  signed.\<close>

definition signatureLaw :: "external \<Rightarrow> key \<Rightarrow> key \<Rightarrow> bool" where
  "signatureLaw x identity recipient =
     (case (identity, recipient) of
        (KMinisignPrivate k, KMinisignPublic q) \<Rightarrow> (\<forall>s. xMinisignVerify x q s (xMinisignSign x k s))
      | (KPGP (e # _), KPGP (q # _)) \<Rightarrow>
          (\<forall>n s t. xPGPSign x e n s = Ok t \<longrightarrow>
             (\<exists>sig. xPGPPacket x t = Ok (Some sig) \<and> xPGPVerify x q sig s = Ok ()))
      | _ \<Rightarrow> False)"

lemma signatureLaw_PGP:
  "signatureLaw x (KPGP (e # es)) (KPGP (q # qs)) \<Longrightarrow> xPGPSign x e n s = Ok t \<Longrightarrow>
   \<exists>sig. xPGPPacket x t = Ok (Some sig) \<and> xPGPVerify x q sig s = Ok ()"
  by (simp add: signatureLaw_def)

lemma Verify_Sign:
  assumes "signatureLaw x identity recipient \<or> fmt = NoneKey"
    and "Sign x isRegular fmt identity = Ok g" "runSigner x g rnd s = Ok t"
  shows "\<exists>v. Verify x isRegular fmt recipient t = Ok v \<and> runVerifier x v s = Ok ()"
proof -
  consider "fmt = SignatureFormatMinisignKey" | "fmt = SignatureFormatPGPKey" | "fmt = NoneKey"
    using assms(2) by (auto simp: Sign_def split: if_splits)
  then show ?thesis
  proof cases
    case 1
    then show ?thesis
      using assms by (auto simp: Sign_def Verify_def signatureLaw_def split: if_splits key.splits)
  next
    case 2
    then obtain e es where e: "identity = KPGP (e # es)" "g = SPGP e"
      using assms(2) by (auto simp: Sign_def split: if_splits key.splits list.splits)
    then obtain q qs where q: "recipient = KPGP (q # qs)"
      using assms(1) 2 by (auto simp: signatureLaw_def split: key.splits list.splits)
    obtain out where out: "xPGPSign x e rnd s = Ok out" "t = b64Encode out"
      using assms(3) e by (auto simp: rbind_Ok_iff)
    then obtain sig where "xPGPPacket x out = Ok (Some sig)" "xPGPVerify x q sig s = Ok ()"
      using assms(1) 2 e q signatureLaw_PGP by (metis keys_nonempty(11))
    then show ?thesis using 2 q out by (simp add: Verify_def)
  qed (use assms in \<open>auto simp: Sign_def Verify_def\<close>)
qed

lemma VerifyString_SignString:
  assumes "signatureLaw x identity recipient \<or> fmt = NoneKey"
    and "SignString x rnd s isRegular fmt identity = Ok t"
  shows "VerifyString x s isRegular fmt recipient t = Ok ()"
proof -
  consider "fmt = SignatureFormatMinisignKey" | "fmt = SignatureFormatPGPKey" | "fmt = NoneKey"
    using assms(2) by (auto simp: SignString_def split: if_splits)
  then show ?thesis
  proof cases
    case 1
    then show ?thesis
      using assms by (auto simp: SignString_def VerifyString_def signatureLaw_def
          split: if_splits key.splits)
  next
    case 2
    then obtain e es out where e: "identity = KPGP (e # es)" "xPGPSign x e rnd s = Ok out"
        "t = b64Encode out"
      using assms(2) by (auto simp: SignString_def rbind_Ok_iff split: key.splits list.splits)
    then obtain q qs where q: "recipient = KPGP (q # qs)"
      using assms(1) 2 by (auto simp: signatureLaw_def split: key.splits list.splits)
    then obtain sig where "xPGPPacket x out = Ok (Some sig)" "xPGPVerify x q sig s = Ok ()"
      using assms(1) 2 e signatureLaw_PGP by (metis keys_nonempty(11))
    then show ?thesis using 2 e q by (simp add: VerifyString_def)
  qed (use assms in \<open>auto simp: SignString_def VerifyString_def\<close>)
qed

lemma signed_records:
  "paxGet (Some (smInsert STFSRecordSignature s [(STFSRecordEmbeddedHeader, w)]))
     STFSRecordEmbeddedHeader = Some w"
  "paxGet (Some (smInsert STFSRecordSignature s [(STFSRecordEmbeddedHeader, w)]))
     STFSRecordSignature = Some s"
  by (simp_all add: paxGet_def stfs_records del: smInsert.simps)

lemma VerifyHeader_SignHeader:
  assumes "signatureLaw x identity recipient \<or> fmt = NoneKey" "jsonLaw x hdr"
    and "SignHeader x hdr isRegular fmt identity = Ok h'"
  shows "VerifyHeader x h' isRegular fmt recipient = Ok hdr"
proof (cases "fmt = NoneKey")
  case True
  then show ?thesis using assms by (simp add: SignHeader_def VerifyHeader_def)
next
  case False
  then obtain w s where w: "xMarshalHeader x hdr = Ok w"
    and s: "SignString x rndHeader w isRegular fmt identity = Ok s"
    and h': "h' = wrapperHeader (tSize hdr)
        (smInsert STFSRecordSignature s [(STFSRecordEmbeddedHeader, w)])"
    using assms(3) by (auto simp: SignHeader_def rbind_Ok_iff)
  have "xUnmarshalHeader x w = Ok hdr" using assms(2) w by (simp add: jsonLaw_def)
  then show ?thesis
    using False VerifyString_SignString [OF assms(1) s]
    by (simp add: VerifyHeader_def h' signed_records del: smInsert.simps)
qed

lemma SignHeader_size: "SignHeader x hdr r fmt identity = Ok h' \<Longrightarrow> tSize h' = tSize hdr"
  by (auto simp: SignHeader_def rbind_Ok_iff split: if_splits)

end
