(* ===== verification/Compression.thy ===== *)
theory Compression
  imports External
begin

text \<open>
  pkg/compression: the choice of the codec, its level and, on a tape drive, the restrictions
  that the record size puts on it.
\<close>

text \<open>
  \<open>int(math.Log2(float64(n)))\<close> and \<open>int(math.Pow(2, ...))\<close>. Of 0, the logarithm is minus
  infinity and the power 0. Floating-point rounding, which starts to matter beyond \<open>2 ^ 47\<close>
  bytes, is left out.
\<close>

fun getNearestLogOf2Lower :: "nat \<Rightarrow> nat" where
  "getNearestLogOf2Lower n = (if n < 2 then 0 else Suc (getNearestLogOf2Lower (n div 2)))"

declare getNearestLogOf2Lower.simps [simp del]

definition getNearestPowerOf2Lower :: "nat \<Rightarrow> nat" where
  "getNearestPowerOf2Lower n = (if n = 0 then 0 else 2 ^ getNearestLogOf2Lower n)"

definition compressionLevelOf :: "string \<Rightarrow> codec_level res" where
  "compressionLevelOf level =
     (if level = CompressionLevelFastestKey then Ok LevelFastest
      else if level = CompressionLevelBalancedKey then Ok LevelBalanced
      else if level = CompressionLevelSmallestKey then Ok LevelSmallest
      else Err ErrCompressionLevelUnsupported)"

text \<open>\<open>uint32(maxSize)\<close> keeps the low 32 bits.\<close>

definition lz4BlockSize :: "nat \<Rightarrow> lz4_block res" where
  "lz4BlockSize maxSize =
     (let m = maxSize mod 2 ^ 32
      in if m < 2 ^ 16 then Err ErrCompressionFormatRequiresLargerRecordSize
         else if m < 2 ^ 18 then Ok Block64Kb
         else if m < 2 ^ 20 then Ok Block256Kb
         else if m < 2 ^ 22 then Ok Block1Mb
         else Ok Block4Mb)"

definition Compress :: "string \<Rightarrow> string \<Rightarrow> bool \<Rightarrow> nat \<Rightarrow> compressor res" where
  "Compress compressionFormat compressionLevel isRegular recordSize =
     (let maxSize = getNearestPowerOf2Lower (MagneticTapeBlockSize * recordSize)
      in if compressionFormat = CompressionFormatGZipKey then
           (if \<not> isRegular \<and> maxSize < 65535
            then Err ErrCompressionFormatRequiresLargerRecordSize
            else rbind (compressionLevelOf compressionLevel) (\<lambda>l. Ok (CGzip l)))
         else if compressionFormat = CompressionFormatParallelGZipKey then
           (if \<not> isRegular then Err ErrCompressionFormatRegularOnly
            else rbind (compressionLevelOf compressionLevel) (\<lambda>l. Ok (CPgzip l)))
         else if compressionFormat = CompressionFormatLZ4Key then
           rbind (compressionLevelOf compressionLevel)
             (\<lambda>l. if isRegular then Ok (CLz4 l None)
                  else rbind (lz4BlockSize maxSize) (\<lambda>b. Ok (CLz4 l (Some b))))
         else if compressionFormat = CompressionFormatZStandardKey then
           rbind (compressionLevelOf compressionLevel)
             (\<lambda>l. Ok (CZstd l (if isRegular then None else Some maxSize)))
         else if compressionFormat = CompressionFormatBrotliKey then
           (if \<not> isRegular then Err ErrCompressionFormatRegularOnly
            else rbind (compressionLevelOf compressionLevel) (\<lambda>l. Ok (CBrotli l)))
         else if compressionFormat = CompressionFormatBzip2Key
                 \<or> compressionFormat = CompressionFormatBzip2ParallelKey then
           rbind (compressionLevelOf compressionLevel) (\<lambda>l. Ok (CBzip2 l))
         else if compressionFormat = NoneKey then Ok CNone
         else Err ErrCompressionFormatUnsupported)"

definition Decompress :: "string \<Rightarrow> decompressor res" where
  "Decompress compressionFormat =
     (if compressionFormat = CompressionFormatGZipKey then Ok DGzip
      else if compressionFormat = CompressionFormatParallelGZipKey then Ok DPgzip
      else if compressionFormat = CompressionFormatLZ4Key then Ok DLz4
      else if compressionFormat = CompressionFormatZStandardKey then Ok DZstd
      else if compressionFormat = CompressionFormatBrotliKey then Ok DBrotli
      else if compressionFormat = CompressionFormatBzip2Key then Ok DBzip2
      else if compressionFormat = CompressionFormatBzip2ParallelKey then Ok DPbzip2
      else if compressionFormat = NoneKey then Ok DNone
      else Err ErrCompressionFormatUnsupported)"

text \<open>Writing everything through the compressor and closing it; reading everything back.\<close>

definition runCompressor :: "external \<Rightarrow> compressor \<Rightarrow> bytes \<Rightarrow> bytes res" where
  "runCompressor x c s = (if c = CNone then Ok s else xCompress x c s)"

definition runDecompressor :: "external \<Rightarrow> decompressor \<Rightarrow> bytes \<Rightarrow> bytes res" where
  "runDecompressor x d s = (if d = DNone then Ok s else xDecompress x d s)"

section \<open>Facts\<close>

text \<open>Which decompressors read the output of which compressor: the two gzip and the two bzip2
  implementations share their format.\<close>

fun reads :: "decompressor \<Rightarrow> compressor \<Rightarrow> bool" where
  "reads d (CGzip _) = (d = DGzip \<or> d = DPgzip)"
| "reads d (CPgzip _) = (d = DGzip \<or> d = DPgzip)"
| "reads d (CLz4 _ _) = (d = DLz4)"
| "reads d (CZstd _ _) = (d = DZstd)"
| "reads d (CBrotli _) = (d = DBrotli)"
| "reads d (CBzip2 _) = (d = DBzip2 \<or> d = DPbzip2)"
| "reads d CNone = (d = DNone)"

text \<open>The documented behaviour of the codecs: a decompressor of the format reads back what the
  compressor wrote.\<close>

definition codecLaw :: "external \<Rightarrow> bool" where
  "codecLaw x = (\<forall>c d s t. reads d c \<longrightarrow> xCompress x c s = Ok t \<longrightarrow> xDecompress x d t = Ok s)"

lemma getNearestLogOf2Lower_bounds:
  "0 < n \<Longrightarrow> 2 ^ getNearestLogOf2Lower n \<le> n \<and> n < 2 * 2 ^ getNearestLogOf2Lower n"
proof (induction n rule: getNearestLogOf2Lower.induct)
  case (1 n)
  show ?case
  proof (cases "n < 2")
    case True
    with 1 have "n = 1" by simp
    then show ?thesis by (simp add: getNearestLogOf2Lower.simps)
  next
    case False
    then have "2 ^ getNearestLogOf2Lower (n div 2) \<le> n div 2
        \<and> n div 2 < 2 * 2 ^ getNearestLogOf2Lower (n div 2)"
      using 1 by simp
    with False show ?thesis by (simp add: getNearestLogOf2Lower.simps [of n]) linarith
  qed
qed

lemma nearestPowerOf2_le: "0 < n \<Longrightarrow> getNearestPowerOf2Lower n \<le> n"
  using getNearestLogOf2Lower_bounds [of n] by (simp add: getNearestPowerOf2Lower_def)

lemma nearestPowerOf2_max:
  assumes "0 < n" "2 ^ k \<le> n"
  shows "2 ^ k \<le> getNearestPowerOf2Lower n"
proof -
  have "(2::nat) ^ k < 2 ^ Suc (getNearestLogOf2Lower n)"
    using assms getNearestLogOf2Lower_bounds [of n] by simp
  then have "k < Suc (getNearestLogOf2Lower n)" by (rule power_less_imp_less_exp [rotated]) simp
  with assms show ?thesis by (simp add: getNearestPowerOf2Lower_def power_increasing)
qed

lemma compressionLevelOf_Ok:
  "level \<in> set KnownCompressionLevels \<Longrightarrow> \<exists>l. compressionLevelOf level = Ok l"
  by (auto simp: KnownCompressionLevels_def compressionLevelOf_def)

lemma compression_keys_distinct: "distinct KnownCompressionFormats"
  by (simp add: KnownCompressionFormats_def compression_keys)

lemmas compression_keys_neq = compression_keys_distinct [unfolded KnownCompressionFormats_def, simplified]

lemma Compress_Known:
  assumes "Compress fmt level isRegular rs = Ok c"
  shows "fmt \<in> set KnownCompressionFormats"
proof (rule ccontr)
  assume "fmt \<notin> set KnownCompressionFormats"
  then have "Compress fmt level isRegular rs = Err ErrCompressionFormatUnsupported"
    by (simp add: Compress_def KnownCompressionFormats_def Let_def)
  with assms show False by simp
qed

lemma Compress_reads:
  assumes "Compress fmt level isRegular rs = Ok c"
  shows "\<exists>d. Decompress fmt = Ok d \<and> reads d c"
proof -
  consider "fmt = []" | "fmt = CompressionFormatGZipKey" | "fmt = CompressionFormatParallelGZipKey"
    | "fmt = CompressionFormatLZ4Key" | "fmt = CompressionFormatZStandardKey"
    | "fmt = CompressionFormatBrotliKey" | "fmt = CompressionFormatBzip2Key"
    | "fmt = CompressionFormatBzip2ParallelKey"
    using Compress_Known [OF assms] by (auto simp: KnownCompressionFormats_def)
  then show ?thesis
    using assms compression_keys_neq
    by cases (auto simp: Compress_def Decompress_def Let_def rbind_Ok_iff split: if_splits)
qed

lemma reads_CNone: "reads d c \<Longrightarrow> (c = CNone) = (d = DNone)"
  by (cases c) auto

lemma runDecompressor_runCompressor:
  assumes "codecLaw x" "reads d c" "runCompressor x c s = Ok t"
  shows "runDecompressor x d t = Ok s"
  using assms reads_CNone [OF assms(2)]
  by (auto simp: runCompressor_def runDecompressor_def codecLaw_def split: if_splits)

section \<open>Properties\<close>

text \<open>
  The power of two the codecs of a tape drive are set up with is the largest one that is not
  greater than the record in bytes.
\<close>

theorem nearest_power_of_2:
  assumes "0 < n"
  shows "getNearestPowerOf2Lower n \<le> n \<and> n < 2 * getNearestPowerOf2Lower n
    \<and> (2 ^ k \<le> n \<longrightarrow> 2 ^ k \<le> getNearestPowerOf2Lower n)"
  using assms getNearestLogOf2Lower_bounds [OF assms] nearestPowerOf2_le [OF assms]
    nearestPowerOf2_max [OF assms]
  by (simp add: getNearestPowerOf2Lower_def)

theorem nearest_power_of_2_witness:
  "getNearestPowerOf2Lower 10240 \<le> 10240 \<and> 10240 < 2 * getNearestPowerOf2Lower 10240"
  using nearest_power_of_2 [of 10240] by simp

text \<open>
  Which pipes the compression configuration accepts: on a regular file every known format at
  every known level; on a tape drive never the parallel gzip and brotli formats, and gzip only
  where a record holds at least 64 KiB. An unknown level is refused for every format but the
  empty one, which ignores it.
\<close>

theorem compress_accepts:
  assumes "level \<in> set KnownCompressionLevels"
  shows "((\<exists>c. Compress fmt level True rs = Ok c) \<longleftrightarrow> fmt \<in> set KnownCompressionFormats)
    \<and> Compress CompressionFormatParallelGZipKey level False rs = Err ErrCompressionFormatRegularOnly
    \<and> Compress CompressionFormatBrotliKey level False rs = Err ErrCompressionFormatRegularOnly
    \<and> ((\<exists>c. Compress CompressionFormatGZipKey level False rs = Ok c) \<longleftrightarrow> 128 \<le> rs)
    \<and> Compress NoneKey unknown regular rs = Ok CNone"
proof -
  obtain l where l: "compressionLevelOf level = Ok l" using compressionLevelOf_Ok [OF assms] ..
  have gz: "getNearestPowerOf2Lower (512 * rs) < 65535 \<longleftrightarrow> rs < 128"
  proof (cases "rs = 0")
    case False
    then have n: "0 < 512 * rs" by simp
    have "(2::nat) ^ 16 \<le> getNearestPowerOf2Lower (512 * rs)" if "128 \<le> rs"
      using nearestPowerOf2_max [OF n, of 16] that by simp
    moreover have "getNearestPowerOf2Lower (512 * rs) \<le> 512 * rs"
      using n by (rule nearestPowerOf2_le)
    ultimately show ?thesis by (cases "rs < 128") auto
  qed (simp add: getNearestPowerOf2Lower_def)
  show ?thesis
    using l gz
    by (auto simp: Compress_def Let_def KnownCompressionFormats_def compression_keys
        MagneticTapeBlockSize_def)
qed

end
