(* ===== verification/Recovery.thy ===== *)
theory Recovery
  imports Drive MetadataStore Suffix Encryption Signature Compression
begin

text \<open>
  pkg/recovery on a regular-file drive: \<open>Index\<close>, which walks over an archive and applies every
  header to the index, \<open>Query\<close>, which lists the headers, and \<open>Fetch\<close>, which restores one entry.
  Both walks find the next header the same way: by the tar reader, and after an error or the
  end of an archive by a new reader at the rounded position. The state a walk passes along is
  the metadata persister and whatever the event callback changes.
\<close>

section \<open>The next header\<close>

text \<open>
  The inner loop after an error of \<open>tr.Next()\<close>: new readers until a header or the end of an
  archive is found. The outcome holds the header, the position after it and its location.
\<close>

function resync :: "medium \<Rightarrow> nat \<Rightarrow> nat \<Rightarrow> (tar_header option \<times> nat \<times> int \<times> int) res" where
  "resync m rs p =
     (if rs = 0 then Panic
      else let (record, block) = resyncLocation rs p
           in case seekPosition rs record block of
                Ok q \<Rightarrow>
                  (case tarNext m q of
                     (Ok hdr, q') \<Rightarrow> Ok (Some hdr, q', record, block)
                   | (Err e, q') \<Rightarrow> if e = EOF then Ok (None, q', record, block)
                                  else resync m rs q'
                   | (Panic, q') \<Rightarrow> Panic | (Hang, q') \<Rightarrow> Hang)
              | Err e \<Rightarrow> Err e | Panic \<Rightarrow> Panic | Hang \<Rightarrow> Hang)"
  by auto
termination
proof (relation "measure (\<lambda>(m, rs, p). length m - p)", goal_cases)
  case (2 m rs p x rc bl q y q' e)
  then have rs: "0 < rs" by simp
  have "(rc, bl) = locate rs p" using 2 location_eqs(2) [OF rs, of p] by simp
  then have "q = p" using 2 location_eqs(3) [OF rs, of p] by (metis fst_conv snd_conv res.inject(1))
  with 2 tarNext_Err [of m q e q'] show ?case by auto
qed simp

declare resync.simps [simp del]

text \<open>
  \<open>tr.Next()\<close> and the recovery from its error. \<open>sticky\<close>: the reader has met the end of the
  archive before and keeps answering so.
\<close>

definition nextHeader ::
  "medium \<Rightarrow> nat \<Rightarrow> nat \<Rightarrow> int \<Rightarrow> int \<Rightarrow> bool \<Rightarrow> (tar_header option \<times> nat \<times> int \<times> int) res" where
  "nextHeader m rs p record block sticky =
     (if sticky then resync m rs p
      else case tarNext m p of
             (Ok hdr, q) \<Rightarrow> Ok (Some hdr, q, record, block)
           | (_, q) \<Rightarrow> resync m rs q)"

lemma resync_eq:
  "0 < rs \<Longrightarrow> resync m rs p =
     (case tarNext m p of
        (Ok hdr, q) \<Rightarrow> Ok (Some hdr, q, locate rs p)
      | (Err e, q) \<Rightarrow> if e = EOF then Ok (None, q, locate rs p) else resync m rs q
      | (Panic, q) \<Rightarrow> Panic | (Hang, q) \<Rightarrow> Hang)"
  using location_eqs(3) [of rs p]
  by (subst resync.simps) (auto simp: location_eqs(2) split: prod.splits res.splits)

lemma resync_rs: "resync m rs p = Ok x \<Longrightarrow> 0 < rs"
  by (auto simp: resync.simps [of m rs p] split: if_splits)

lemma resync_bounds:
  "resync m rs p = Ok (h, q, rb) \<Longrightarrow> p \<le> q \<and> (h \<noteq> None \<longrightarrow> p < q \<and> q \<le> length m)"
proof (induction "length m - p" arbitrary: p rule: less_induct)
  case less
  then have rs: "0 < rs" by (blast dest: resync_rs)
  obtain r' q' where n: "tarNext m p = (r', q')" by force
  show ?case
  proof (cases r')
    case (Ok hdr)
    then show ?thesis using less(2) n rs tarNext_Ok [of m p hdr q'] by (auto simp: resync_eq)
  next
    case (Err e)
    then have p: "p \<le> q'" "e = EOF \<or> p < length m \<and> p < q'" using tarNext_Err [of m p e q'] n by auto
    show ?thesis
    proof (cases "e = EOF")
      case True
      then show ?thesis using less(2) n rs Err p by (auto simp: resync_eq)
    next
      case False
      then have "resync m rs q' = Ok (h, q, rb)" using less(2) n rs Err by (simp add: resync_eq)
      moreover have "length m - q' < length m - p" using p False by auto
      ultimately have "q' \<le> q \<and> (h \<noteq> None \<longrightarrow> q' < q \<and> q \<le> length m)" using less(1) by blast
      then show ?thesis using p by auto
    qed
  qed (use tarNext_total [of m p] n in auto)
qed

lemma nextHeader_bounds:
  "nextHeader m rs p r b st = Ok (h, q, rb) \<Longrightarrow> p \<le> q \<and> (h \<noteq> None \<longrightarrow> p < q \<and> q \<le> length m)"
  using resync_bounds [of m rs p h q rb] tarNext_Ok [of m p] tarNext_Err [of m p]
    resync_bounds [of m rs _ h q rb] tarNext_total [of m p]
  by (fastforce simp: nextHeader_def split: if_splits prod.splits res.splits)

section \<open>Walking over the archive (Index)\<close>

text \<open>
  The loop of \<open>Index\<close>; \<open>handle i record block hdr\<close> is what it does with header \<open>i\<close>. At the end
  of an archive it reads over two more blocks and goes on, until there is nothing left to read.
\<close>

function indexLoop ::
  "medium \<Rightarrow> nat \<Rightarrow> (nat \<Rightarrow> int \<Rightarrow> int \<Rightarrow> tar_header \<Rightarrow> 's \<Rightarrow> unit res \<times> 's)
   \<Rightarrow> nat \<Rightarrow> int \<Rightarrow> int \<Rightarrow> nat \<Rightarrow> bool \<Rightarrow> 's \<Rightarrow> unit res \<times> 's" where
  "indexLoop m rs handle p record block i sticky s =
     (case nextHeader m rs p record block sticky of
        Ok (None, q, r, b) \<Rightarrow>
          if length m \<le> q then (Ok (), s)
          else indexLoop m rs handle (min (q + 2) (length m)) r b i True s
      | Ok (Some hdr, q, r, b) \<Rightarrow>
          (case handle i r b hdr s of
             (Ok _, s') \<Rightarrow>
               (case tarSkip m q hdr of
                  Ok q' \<Rightarrow>
                    if rs = 0 then (Panic, s')
                    else let (r', b') = nextLocation rs q'
                         in indexLoop m rs handle q' r' b' (i + 1) False s'
                | Err e \<Rightarrow> (Err e, s') | Panic \<Rightarrow> (Panic, s') | Hang \<Rightarrow> (Hang, s'))
           | (Err e, s') \<Rightarrow> (Err e, s') | (Panic, s') \<Rightarrow> (Panic, s') | (Hang, s') \<Rightarrow> (Hang, s'))
      | Err e \<Rightarrow> (Err e, s) | Panic \<Rightarrow> (Panic, s) | Hang \<Rightarrow> (Hang, s))"
  by pat_completeness auto
termination
  by (relation "measure (\<lambda>(m, rs, handle, p, r, b, i, st, s). length m - p)")
    (auto dest!: nextHeader_bounds tarSkip_Ok)

declare indexLoop.simps [simp del]

text \<open>The persister as one part of the state.\<close>

definition onMeta :: "('p \<Rightarrow> 'a res \<times> 'p) \<Rightarrow> 'p \<times> 'e \<Rightarrow> 'a res \<times> ('p \<times> 'e)" where
  "onMeta f s = (let (r, p) = f (fst s) in (r, (p, snd s)))"

definition onEvents :: "('e \<Rightarrow> 'a res \<times> 'e) \<Rightarrow> 'p \<times> 'e \<Rightarrow> 'a res \<times> ('p \<times> 'e)" where
  "onEvents f s = (let (r, e) = f (snd s) in (r, (fst s, e)))"


section \<open>Applying a header to the index (indexHeader)\<close>

text \<open>The header as it is to be indexed: its size before compression and its name without the
  suffixes of the pipes.\<close>

definition indexedHeader :: "tar_header \<Rightarrow> string \<Rightarrow> string \<Rightarrow> tar_header res" where
  "indexedHeader hdr compressionFormat encryptionFormat =
     rbind (case paxGet (tPAXRecords hdr) STFSRecordUncompressedSize of
              None \<Rightarrow> Ok hdr
            | Some uncompressedSize \<Rightarrow> rbind (Atoi uncompressedSize) (\<lambda>sz. Ok (hdr\<lparr>tSize := sz\<rparr>)))
       (\<lambda>hdr. if IsRegularMode (hdrMode hdr)
              then rbind (RemoveSuffix (tName hdr) compressionFormat encryptionFormat)
                     (\<lambda>newName. Ok (hdr\<lparr>tName := newName\<rparr>))
              else Ok hdr)"

definition indexUpdate ::
  "'p metadata_persister \<Rightarrow> int \<Rightarrow> int \<Rightarrow> tar_header \<Rightarrow> 'p \<Rightarrow> unit res \<times> 'p" where
  "indexUpdate mp rec blk hdr p =
     (let replacesName = paxGet (tPAXRecords hdr) STFSRecordReplacesName;
          oldName = (case replacesName of Some n \<Rightarrow> n | None \<Rightarrow> tName hdr);
          move = (\<lambda>p. if replacesName \<noteq> None then mpMoveHeader mp oldName (tName hdr) rec blk p
                      else (Ok (), p))
      in if paxGet (tPAXRecords hdr) STFSRecordReplacesContent = Some STFSRecordReplacesContentTrue
         then andThen (mpUpdateHeaderMetadata mp (TarHeaderToDBHeader rec rec blk blk hdr) p)
                (\<lambda>_ p. move p)
         else attempt (mpGetHeader mp oldName p)
                (\<lambda>oldHdr p.
                   andThen (mpUpdateHeaderMetadata mp
                              (TarHeaderToDBHeader (Record oldHdr) rec (Block oldHdr) blk hdr) p)
                     (\<lambda>_ p. move p))
                (\<lambda>e p. if e \<noteq> ErrNoRows then (Err e, p) else move p)
                (\<lambda>p. p))"

definition indexAction ::
  "'p metadata_persister \<Rightarrow> int \<Rightarrow> int \<Rightarrow> tar_header \<Rightarrow> bool \<Rightarrow> 'p \<Rightarrow> unit res \<times> 'p" where
  "indexAction mp rec blk hdr initializing p =
     (let stfsVersion = (case paxGet (tPAXRecords hdr) STFSRecordVersion of
                           Some v \<Rightarrow> v | None \<Rightarrow> STFSRecordVersion1);
          stfsAction = (case paxGet (tPAXRecords hdr) STFSRecordAction of
                          Some a \<Rightarrow> a | None \<Rightarrow> STFSRecordActionCreate)
      in if stfsVersion = STFSRecordVersion1 then
           (if stfsAction = STFSRecordActionCreate then
              mpUpsertHeader mp (TarHeaderToDBHeader rec rec blk blk hdr) initializing p
            else if stfsAction = STFSRecordActionDelete then
              andThen (mpDeleteHeader mp (tName hdr) rec blk p) (\<lambda>_ p. (Ok (), p))
            else if stfsAction = STFSRecordActionUpdate then indexUpdate mp rec blk hdr p
            else (Err ErrSTFSActionUnsupported, p))
         else (Err ErrSTFSVersionUnsupported, p))"

definition indexHeader ::
  "'p metadata_persister \<Rightarrow> int \<Rightarrow> int \<Rightarrow> tar_header \<Rightarrow> string \<Rightarrow> string \<Rightarrow> bool
   \<Rightarrow> (header \<Rightarrow> 'e \<Rightarrow> unit res \<times> 'e) option \<Rightarrow> 'p \<times> 'e \<Rightarrow> unit res \<times> ('p \<times> 'e)" where
  "indexHeader mp rec blk hdr compressionFormat encryptionFormat initializing onHeader s =
     andThen (indexedHeader hdr compressionFormat encryptionFormat, s)
       (\<lambda>hdr s.
          andThen
            (case onHeader of
               None \<Rightarrow> (Ok (), s)
             | Some f \<Rightarrow> onEvents (f (DBHeaderToConfigHeader
                           (TarHeaderToDBHeader rec (- 1) blk (- 1) hdr))) s)
            (\<lambda>_ s. onMeta (indexAction mp rec blk hdr initializing) s))"

section \<open>Index\<close>

text \<open>What \<open>Index\<close> does with header \<open>i\<close> of the walk.\<close>

definition indexEntry ::
  "'p metadata_persister \<Rightarrow> pipe_config \<Rightarrow> bool \<Rightarrow> nat
   \<Rightarrow> (tar_header \<Rightarrow> nat \<Rightarrow> tar_header res) \<Rightarrow> (tar_header \<Rightarrow> bool \<Rightarrow> tar_header res)
   \<Rightarrow> (header \<Rightarrow> 'e \<Rightarrow> unit res \<times> 'e) option
   \<Rightarrow> nat \<Rightarrow> int \<Rightarrow> int \<Rightarrow> tar_header \<Rightarrow> 'p \<times> 'e \<Rightarrow> unit res \<times> ('p \<times> 'e)" where
  "indexEntry mp pipes initializing offset decryptHeader verifyHeader onHeader i rec blk hdr s =
     (if i \<ge> offset then
        andThen (decryptHeader hdr (i - offset), s)
          (\<lambda>hdr s. andThen (verifyHeader hdr True, s)
             (\<lambda>hdr s. indexHeader mp rec blk hdr (Compression pipes) (Encryption pipes)
                        initializing onHeader s))
      else (Ok (), s))"

definition Index ::
  "medium \<Rightarrow> 'p metadata_persister \<Rightarrow> pipe_config \<Rightarrow> int \<Rightarrow> int \<Rightarrow> bool \<Rightarrow> bool \<Rightarrow> nat
   \<Rightarrow> (tar_header \<Rightarrow> nat \<Rightarrow> tar_header res) \<Rightarrow> (tar_header \<Rightarrow> bool \<Rightarrow> tar_header res)
   \<Rightarrow> (header \<Rightarrow> 'e \<Rightarrow> unit res \<times> 'e) option \<Rightarrow> 'p \<times> 'e \<Rightarrow> unit res \<times> ('p \<times> 'e)" where
  "Index m mp pipes rec blk overwrite initializing offset decryptHeader verifyHeader onHeader s =
     andThen (if overwrite then onMeta (mpPurgeAllHeaders mp) s else (Ok (), s))
       (\<lambda>_ s. andThen (seekPosition (RecordSize pipes) rec blk, s)
          (\<lambda>p s. indexLoop m (RecordSize pipes)
                   (indexEntry mp pipes initializing offset decryptHeader verifyHeader onHeader)
                   p rec blk 0 False s))"

section \<open>Query\<close>

text \<open>The loop of \<open>Query\<close>, which stops at the end of the first archive.\<close>

function queryLoop ::
  "medium \<Rightarrow> nat \<Rightarrow> (int \<Rightarrow> int \<Rightarrow> tar_header \<Rightarrow> 's \<Rightarrow> tar_header res \<times> 's)
   \<Rightarrow> nat \<Rightarrow> int \<Rightarrow> int \<Rightarrow> tar_header list \<Rightarrow> 's \<Rightarrow> tar_header list res \<times> 's" where
  "queryLoop m rs handle p record block headers s =
     (case nextHeader m rs p record block False of
        Ok (None, q, r, b) \<Rightarrow> (Ok headers, s)
      | Ok (Some hdr, q, r, b) \<Rightarrow>
          (case handle r b hdr s of
             (Ok hdr', s') \<Rightarrow>
               (case tarSkip m q hdr of
                  Ok q' \<Rightarrow>
                    if rs = 0 then (Panic, s')
                    else let (r', b') = nextLocation rs q'
                         in queryLoop m rs handle q' r' b' (headers @ [hdr']) s'
                | Err e \<Rightarrow> (Err e, s') | Panic \<Rightarrow> (Panic, s') | Hang \<Rightarrow> (Hang, s'))
           | (Err e, s') \<Rightarrow> (Err e, s') | (Panic, s') \<Rightarrow> (Panic, s') | (Hang, s') \<Rightarrow> (Hang, s'))
      | Err e \<Rightarrow> (Err e, s) | Panic \<Rightarrow> (Panic, s) | Hang \<Rightarrow> (Hang, s))"
  by pat_completeness auto
termination
  by (relation "measure (\<lambda>(m, rs, handle, p, r, b, hs, s). length m - p)")
    (auto dest!: nextHeader_bounds tarSkip_Ok)

declare queryLoop.simps [simp del]

definition queryEntry ::
  "external \<Rightarrow> pipe_config \<Rightarrow> crypto_config \<Rightarrow> (header \<Rightarrow> 'e \<Rightarrow> unit res \<times> 'e) option
   \<Rightarrow> int \<Rightarrow> int \<Rightarrow> tar_header \<Rightarrow> 'e \<Rightarrow> tar_header res \<times> 'e" where
  "queryEntry x pipes crypto onHeader rec blk hdr e =
     andThen (DecryptHeader x hdr (Encryption pipes) (Identity crypto), e)
       (\<lambda>hdr e. andThen (VerifyHeader x hdr True (Signature pipes) (Recipient crypto), e)
          (\<lambda>hdr e. andThen
             (case onHeader of
                None \<Rightarrow> (Ok (), e)
              | Some f \<Rightarrow> f (DBHeaderToConfigHeader
                             (TarHeaderToDBHeader rec (- 1) blk (- 1) hdr)) e)
             (\<lambda>_ e. (Ok hdr, e))))"

definition Query ::
  "external \<Rightarrow> medium \<Rightarrow> pipe_config \<Rightarrow> crypto_config \<Rightarrow> int \<Rightarrow> int
   \<Rightarrow> (header \<Rightarrow> 'e \<Rightarrow> unit res \<times> 'e) option \<Rightarrow> 'e \<Rightarrow> tar_header list res \<times> 'e" where
  "Query x m pipes crypto rec blk onHeader e =
     andThen (seekPosition (RecordSize pipes) rec blk, e)
       (\<lambda>p e. queryLoop m (RecordSize pipes) (queryEntry x pipes crypto onHeader) p rec blk [] e)"

section \<open>Fetch\<close>

text \<open>The destination of a restore: the callbacks \<open>getDst\<close> and \<open>mkdirAll\<close>, and the methods of
  the file that \<open>getDst\<close> returns.\<close>

record 'd restore_dst =
  rdGetDst :: "string \<Rightarrow> filemode \<Rightarrow> 'd \<Rightarrow> nat res \<times> 'd"
  rdWrite :: "nat \<Rightarrow> bytes \<Rightarrow> 'd \<Rightarrow> unit res \<times> 'd"
  rdClose :: "nat \<Rightarrow> 'd \<Rightarrow> unit res \<times> 'd"
  rdMkdirAll :: "string \<Rightarrow> filemode \<Rightarrow> 'd \<Rightarrow> unit res \<times> 'd"

text \<open>
  The contents of the entry at the reader, decrypted, decompressed, written to the file and then
  verified. A pipe that fails midway is taken to have written nothing.
\<close>

definition fetchContents ::
  "external \<Rightarrow> medium \<Rightarrow> pipe_config \<Rightarrow> crypto_config \<Rightarrow> 'd restore_dst \<Rightarrow> nat \<Rightarrow> nat
   \<Rightarrow> tar_header \<Rightarrow> tar_header \<Rightarrow> 'd \<Rightarrow> unit res \<times> 'd" where
  "fetchContents x m pipes crypto dst dstFile q raw hdr d =
     andThen (rbind (tarContents m q raw) (Decrypt x (Encryption pipes) (Identity crypto)), d)
       (\<lambda>decrypted d. andThen (Decompress (Compression pipes), d)
          (\<lambda>decompressor d.
             let sig = (case paxGet (tPAXRecords hdr) STFSRecordSignature of
                          Some s \<Rightarrow> s | None \<Rightarrow> [])
             in andThen (Verify x True (Signature pipes) (Recipient crypto) sig, d)
                  (\<lambda>verifier d. andThen (runDecompressor x decompressor decrypted, d)
                     (\<lambda>contents d. andThen (rdWrite dst dstFile contents d)
                        (\<lambda>_ d. andThen (runVerifier x verifier contents, d)
                           (\<lambda>_ d. rdClose dst dstFile d))))))"

definition Fetch ::
  "external \<Rightarrow> medium \<Rightarrow> pipe_config \<Rightarrow> crypto_config \<Rightarrow> 'd restore_dst \<Rightarrow> int \<Rightarrow> int \<Rightarrow> string
   \<Rightarrow> bool \<Rightarrow> (header \<Rightarrow> 'e \<Rightarrow> unit res \<times> 'e) option \<Rightarrow> 'd \<times> 'e \<Rightarrow> unit res \<times> ('d \<times> 'e)" where
  "Fetch x m pipes crypto dst rec blk to preview onHeader s =
     andThen (seekPosition (RecordSize pipes) rec blk, s)
       (\<lambda>p s. let (next, q) = tarNext m p in andThen (next, s)
       (\<lambda>raw s. andThen (DecryptHeader x raw (Encryption pipes) (Identity crypto), s)
       (\<lambda>hdr s. andThen (VerifyHeader x hdr True (Signature pipes) (Recipient crypto), s)
       (\<lambda>hdr s. andThen
          (case onHeader of
             None \<Rightarrow> (Ok (), s)
           | Some f \<Rightarrow> onEvents (f (DBHeaderToConfigHeader
                         (TarHeaderToDBHeader rec (- 1) blk (- 1) hdr))) s)
       (\<lambda>_ s. if preview then (Ok (), s)
               else let to = (if to = [] then Base (tName hdr) else to)
                    in if tTypeflag hdr = TypeDir then onMeta (rdMkdirAll dst to (hdrMode hdr)) s
                       else andThen (onMeta (rdGetDst dst to (hdrMode hdr)) s)
                         (\<lambda>dstFile s.
                            if \<not> IsRegularMode (hdrMode hdr) then
                              andThen (tarContents m q raw, s)
                                (\<lambda>contents s. onMeta (rdWrite dst dstFile contents) s)
                            else onMeta (fetchContents x m pipes crypto dst dstFile q raw hdr) s))))))"


section \<open>What Index relies on\<close>

lemma tarSkip_returns: "returns (tarSkip m p h)"
  by (simp add: tarSkip_def Let_def)

lemma tarNext_returns: "returns (fst (tarNext m p))"
  using tarNext_total [of m p] by (simp add: returns_def)

lemma resync_returns: "0 < rs \<Longrightarrow> \<exists>h q rb. resync m rs p = Ok (h, q, rb)"
proof (induction "length m - p" arbitrary: p rule: less_induct)
  case less
  obtain r q where n: "tarNext m p = (r, q)" by force
  show ?case
  proof (cases r)
    case (Err e)
    show ?thesis
    proof (cases "e = EOF")
      case False
      then have "length m - q < length m - p" using tarNext_Err [of m p e q] n Err by auto
      then have "\<exists>h q' rb. resync m rs q = Ok (h, q', rb)" using less by blast
      with less n Err False show ?thesis by (simp add: resync_eq)
    qed (use less n Err in \<open>simp add: resync_eq\<close>)
  qed (use less n tarNext_total [of m p] in \<open>auto simp: resync_eq\<close>)
qed

lemma nextHeader_returns: "0 < rs \<Longrightarrow> \<exists>h q rb. nextHeader m rs p r b st = Ok (h, q, rb)"
  using resync_returns [of rs m p] resync_returns [of rs m "snd (tarNext m p)"]
  by (auto simp: nextHeader_def split: prod.splits res.splits)

text \<open>An invariant of the handler is an invariant of the walk, and a walk whose handler returns
  returns.\<close>

lemma indexLoop_body:
  assumes "nextHeader m rs p r b st = Ok (Some hdr, q, r', b')" "0 < rs"
  shows "indexLoop m rs handle p r b i st s =
    andThen (handle i r' b' hdr s)
      (\<lambda>_ s'. andThen (tarSkip m q hdr, s')
         (\<lambda>q' s'. indexLoop m rs handle q' (fst (locate rs q')) (snd (locate rs q')) (i + 1) False s'))"
proof -
  obtain v s' where "handle i r' b' hdr s = (v, s')" by force
  then show ?thesis
    using assms by (subst indexLoop.simps)
      (cases v; cases "tarSkip m q hdr"; simp add: location_eqs case_prod_beta)
qed

lemma indexLoop_stop:
  assumes "nextHeader m rs p r b st = Ok (None, q, r', b')"
  shows "indexLoop m rs handle p r b i st s =
    (if length m \<le> q then (Ok (), s)
     else indexLoop m rs handle (min (q + 2) (length m)) r' b' i True s)"
  using assms by (subst indexLoop.simps) simp

text \<open>Induction over the steps of a walk.\<close>

lemma indexLoop_induct [case_names stop go entry]:
  fixes m :: medium
  assumes "\<And>p r b st q r' b'. nextHeader m rs p r b st = Ok (None, q, r', b') \<Longrightarrow> length m \<le> q
      \<Longrightarrow> P p r b st"
    and "\<And>p r b st q r' b'. nextHeader m rs p r b st = Ok (None, q, r', b') \<Longrightarrow> q < length m
      \<Longrightarrow> P (min (q + 2) (length m)) r' b' True \<Longrightarrow> P p r b st"
    and "\<And>p r b st hdr q r' b'. nextHeader m rs p r b st = Ok (Some hdr, q, r', b')
      \<Longrightarrow> (\<And>q'. tarSkip m q hdr = Ok q' \<Longrightarrow> P q' (fst (locate rs q')) (snd (locate rs q')) False)
      \<Longrightarrow> P p r b st"
    and "0 < rs"
  shows "P p r b st"
proof (induction "length m - p" arbitrary: p r b st rule: less_induct)
  case (less p r b st)
  obtain h q r' b' where n: "nextHeader m rs p r b st = Ok (h, q, r', b')"
    using nextHeader_returns [OF assms(4), of m p r b st] by (metis prod.collapse)
  note bounds = nextHeader_bounds [OF n]
  show ?case
  proof (cases h)
    case None
    show ?thesis
    proof (cases "length m \<le> q")
      case True
      then show ?thesis using n None assms(1) by blast
    next
      case False
      then have "length m - min (q + 2) (length m) < length m - p" using bounds by auto
      then have "P (min (q + 2) (length m)) r' b' True" by (rule less)
      then show ?thesis using n None False assms(2) by force
    qed
  next
    case (Some hdr)
    have "P q' (fst (locate rs q')) (snd (locate rs q')) False" if "tarSkip m q hdr = Ok q'" for q'
    proof (rule less)
      show "length m - q' < length m - p" using tarSkip_Ok [OF that] bounds Some by auto
    qed
    then show ?thesis using n Some assms(3) by blast
  qed
qed

lemma indexLoop_inv:
  assumes "0 < rs" "\<And>i r b h s. I s \<Longrightarrow> I (snd (handle i r b h s))" "I s"
  shows "I (snd (indexLoop m rs handle p r b i st s))"
  using assms(3)
proof (induction p r b st arbitrary: i s rule: indexLoop_induct [where m = m and rs = rs])
  case (entry p r b st hdr q r' b')
  then show ?case
    using assms(2) by (auto simp: indexLoop_body [OF entry(1) assms(1)] intro!: andThen_post [where P = I])
qed (simp_all add: indexLoop_stop assms(1))

lemma indexLoop_returns:
  assumes "0 < rs" "\<And>i r b h s. returns (fst (handle i r b h s))"
  shows "returns (fst (indexLoop m rs handle p r b i st s))"
proof (induction p r b st arbitrary: i s rule: indexLoop_induct [where m = m and rs = rs])
  case (entry p r b st hdr q r' b')
  then show ?case
    using assms(2) tarSkip_returns
    by (auto simp: indexLoop_body [OF entry(1) assms(1)] intro!: returns_andThen)
qed (simp_all add: indexLoop_stop assms(1))

end
