(* ===== verification/Tape.thy ===== *)
theory Tape
  imports Recovery
begin

text \<open>
  The abstract view of an archive: the list of archives that were appended to it one after the
  other, each a non-empty list of entries; the position and header of every entry; and the
  specification of a walk, which visits the entries in their order, each at its location. The
  loops of pkg/recovery implement this specification.
\<close>

type_synonym entry = "tar_header \<times> nat \<times> bytes"

definition entryWf :: "entry \<Rightarrow> bool" where
  "entryWf e = (case e of (h, n, s) \<Rightarrow> payload h = length s)"

fun entriesBlocks :: "entry list \<Rightarrow> medium" where
  "entriesBlocks [] = []"
| "entriesBlocks ((h, n, s) # es) = entryBlocks h n s @ entriesBlocks es"

fun tapeBlocks :: "entry list list \<Rightarrow> medium" where
  "tapeBlocks [] = []"
| "tapeBlocks (es # ess) = entriesBlocks es @ BZero # BZero # tapeBlocks ess"

definition tapeWf :: "entry list list \<Rightarrow> bool" where
  "tapeWf ess = (list_all (\<lambda>es. es \<noteq> [] \<and> list_all entryWf es) ess)"

fun entriesAt :: "nat \<Rightarrow> entry list \<Rightarrow> (nat \<times> tar_header) list" where
  "entriesAt p [] = []"
| "entriesAt p ((h, n, s) # es) = (p, h) # entriesAt (p + length (entryBlocks h n s)) es"

fun tapeAt :: "nat \<Rightarrow> entry list list \<Rightarrow> (nat \<times> tar_header) list" where
  "tapeAt p [] = []"
| "tapeAt p (es # ess) = entriesAt p es @ tapeAt (p + length (entriesBlocks es) + 2) ess"

text \<open>The specification of a walk.\<close>

fun visit :: "nat \<Rightarrow> (nat \<Rightarrow> int \<Rightarrow> int \<Rightarrow> tar_header \<Rightarrow> 's \<Rightarrow> unit res \<times> 's)
    \<Rightarrow> nat \<Rightarrow> (nat \<times> tar_header) list \<Rightarrow> 's \<Rightarrow> unit res \<times> 's" where
  "visit rs handle i [] s = (Ok (), s)"
| "visit rs handle i ((p, h) # xs) s =
     andThen (handle i (fst (locate rs p)) (snd (locate rs p)) h s)
       (\<lambda>_ s. visit rs handle (i + 1) xs s)"

lemma visit_append:
  "visit rs handle i (xs @ ys) s =
     andThen (visit rs handle i xs s) (\<lambda>_ s. visit rs handle (i + length xs) ys s)"
proof (induction xs arbitrary: i s)
  case (Cons x xs)
  obtain p h where x: "x = (p, h)" by force
  obtain r s' where "handle i (fst (locate rs p)) (snd (locate rs p)) h s = (r, s')" by force
  with x Cons show ?case by (cases r) simp_all
qed simp

lemma visit_cong:
  assumes "\<And>k p h s. k < length xs \<Longrightarrow> xs ! k = (p, h) \<Longrightarrow>
      handle (i + k) (fst (locate rs p)) (snd (locate rs p)) h s
        = handle' (j + k) (fst (locate rs p)) (snd (locate rs p)) h s"
  shows "visit rs handle i xs s = visit rs handle' j xs s"
  using assms
proof (induction xs arbitrary: i j s)
  case (Cons x xs)
  obtain p h where x: "x = (p, h)" by force
  have "handle i (fst (locate rs p)) (snd (locate rs p)) h s
      = handle' j (fst (locate rs p)) (snd (locate rs p)) h s"
    using Cons.prems [of 0 p h] x by simp
  moreover have "visit rs handle (i + 1) xs = visit rs handle' (j + 1) xs"
    using Cons.prems [of "Suc k" for k] by (intro ext Cons.IH) auto
  ultimately show ?case using x by simp
qed simp

lemma entriesAt_append:
  "entriesAt p (es @ fs) = entriesAt p es @ entriesAt (p + length (entriesBlocks es)) fs"
  by (induction p es rule: entriesAt.induct) (simp_all add: add.assoc)

lemma entriesBlocks_append [simp]: "entriesBlocks (es @ fs) = entriesBlocks es @ entriesBlocks fs"
  by (induction es rule: entriesBlocks.induct) simp_all

lemma tapeBlocks_append [simp]: "tapeBlocks (ess @ fss) = tapeBlocks ess @ tapeBlocks fss"
  by (induction ess) simp_all

lemma tapeAt_append: "tapeAt p (ess @ fss) = tapeAt p ess @ tapeAt (p + length (tapeBlocks ess)) fss"
  by (induction p ess rule: tapeAt.induct) (simp_all add: add.assoc add.left_commute)

section \<open>The loops implement the specification\<close>

lemma nextHeader_entry:
  "m = pre @ entryBlocks h n s @ post \<Longrightarrow>
   nextHeader m rs (length pre) r b False = Ok (Some h, length pre + 1 + n, r, b)"
  by (simp add: nextHeader_def tarNext_entry)

lemma resync_entry:
  "0 < rs \<Longrightarrow> m = pre @ entryBlocks h n s @ post \<Longrightarrow>
   resync m rs (length pre) = Ok (Some h, length pre + 1 + n, locate rs (length pre))"
  by (simp add: resync_eq tarNext_entry)

text \<open>Behind the two zero blocks at the end of an archive, the search finds what a new reader
  finds there.\<close>

lemma nextHeader_trailer:
  assumes "0 < rs" "m = pre @ BZero # BZero # post"
  shows "nextHeader m rs (length pre) r b False = resync m rs (length pre + 2)"
  using tarNext_trailer [OF assms(2)] by (simp add: nextHeader_def)

lemma resync_next:
  assumes "0 < rs" "tarNext m p = (Ok h, q)"
  shows "resync m rs p = nextHeader m rs p (fst (locate rs p)) (snd (locate rs p)) False"
  using assms by (simp add: resync_eq nextHeader_def)

lemma indexLoop_next:
  "nextHeader m rs p r b st = nextHeader m rs p' r' b' st' \<Longrightarrow>
   indexLoop m rs handle p r b i st s = indexLoop m rs handle p' r' b' i st' s"
  by (simp only: indexLoop.simps [of m rs handle p] indexLoop.simps [of m rs handle p'])

lemma indexLoop_entry:
  assumes "0 < rs" "m = pre @ entryBlocks h n c @ post" "payload h = length c"
  shows "indexLoop m rs handle (length pre) r b i False s =
    andThen (handle i r b h s)
      (\<lambda>_ s. indexLoop m rs handle (length pre + length (entryBlocks h n c))
         (fst (locate rs (length pre + length (entryBlocks h n c))))
         (snd (locate rs (length pre + length (entryBlocks h n c)))) (i + 1) False s)"
proof -
  obtain v s' where "handle i r b h s = (v, s')" by force
  then show ?thesis
    using assms nextHeader_entry [OF assms(2)] tarSkip_entry [OF assms(2,3)]
    by (subst indexLoop.simps) (cases v; simp add: location_eqs case_prod_beta)
qed

lemma indexLoop_end:
  assumes "0 < rs" "nextHeader m rs p r b st = Ok (None, length m, rb)"
  shows "indexLoop m rs handle p r b i st s = (Ok (), s)"
  using assms by (subst indexLoop.simps) (simp add: case_prod_beta)

lemma resync_end: "0 < rs \<Longrightarrow> resync m rs (length m) = Ok (None, length m, locate rs (length m))"
  by (simp add: resync_eq tarNext_end)

text \<open>From an entry of an archive, or from its end, the loop visits everything that follows.\<close>

lemma indexLoop_visits_from:
  assumes "0 < rs" "m = pre @ entriesBlocks es @ BZero # BZero # tapeBlocks ess"
    and "list_all entryWf es" "tapeWf ess"
  shows "indexLoop m rs handle (length pre) (fst (locate rs (length pre)))
      (snd (locate rs (length pre))) i False s
    = visit rs handle i (entriesAt (length pre) es
        @ tapeAt (length pre + length (entriesBlocks es) + 2) ess) s"
  using assms(2-4)
proof (induction ess arbitrary: pre es i s)
  case Nil
  then show ?case
  proof (induction es arbitrary: pre i s)
    case Nil
    then have m: "m = pre @ BZero # BZero # []" by simp
    have "nextHeader m rs (length pre) (fst (locate rs (length pre))) (snd (locate rs (length pre))) False
        = Ok (None, length m, locate rs (length m))"
      using nextHeader_trailer [OF assms(1) m] resync_end [OF assms(1), of m] m by simp
    then show ?case using indexLoop_end [OF assms(1)] by simp
  next
    case (Cons e es)
    obtain h n c where e: "e = (h, n, c)" by (cases e)
    have m: "m = pre @ entryBlocks h n c @ entriesBlocks es @ BZero # BZero # tapeBlocks []"
      using Cons.prems e by simp
    have p: "payload h = length c" using Cons.prems e by (simp add: entryWf_def)
    let ?pre = "pre @ entryBlocks h n c"
    have IH: "indexLoop m rs handle (length ?pre) (fst (locate rs (length ?pre)))
        (snd (locate rs (length ?pre))) (i + 1) False
      = visit rs handle (i + 1) (entriesAt (length ?pre) es
          @ tapeAt (length ?pre + length (entriesBlocks es) + 2) [])"
      using Cons.prems m by (intro ext Cons.IH) auto
    show ?case
      using indexLoop_entry [OF assms(1) m p, of handle _ _ i s] IH
      by (simp add: e add.assoc del: length_entryBlocks)
  qed
next
  case (Cons fs ess)
  note outer = Cons.IH
  from Cons.prems show ?case
  proof (induction es arbitrary: pre i s)
    case Nil
    let ?pre = "pre @ [BZero, BZero]"
    obtain h n c fs' where fs: "fs = (h, n, c) # fs'"
      using Nil.prems(3) by (cases fs) (auto simp: tapeWf_def)
    have m: "m = ?pre @ entriesBlocks fs @ BZero # BZero # tapeBlocks ess" using Nil.prems by simp
    have "tarNext m (length ?pre) = (Ok h, length ?pre + 1 + n)"
      by (rule tarNext_entry) (use m fs in simp)
    then have "resync m rs (length ?pre) = nextHeader m rs (length ?pre)
        (fst (locate rs (length ?pre))) (snd (locate rs (length ?pre))) False"
      by (rule resync_next [OF assms(1)])
    then have "nextHeader m rs (length pre) (fst (locate rs (length pre))) (snd (locate rs (length pre))) False
        = nextHeader m rs (length ?pre) (fst (locate rs (length ?pre))) (snd (locate rs (length ?pre))) False"
      using nextHeader_trailer [OF assms(1), of m pre] Nil.prems(1) by simp
    then have "indexLoop m rs handle (length pre) (fst (locate rs (length pre)))
          (snd (locate rs (length pre))) i False s
        = indexLoop m rs handle (length ?pre) (fst (locate rs (length ?pre)))
          (snd (locate rs (length ?pre))) i False s"
      by (rule indexLoop_next)
    also have "\<dots> = visit rs handle i (entriesAt (length ?pre) fs
        @ tapeAt (length ?pre + length (entriesBlocks fs) + 2) ess) s"
      using m Nil.prems(3) by (intro outer) (auto simp: tapeWf_def)
    finally show ?case by simp
  next
    case (Cons e es)
    obtain h n c where e: "e = (h, n, c)" by (cases e)
    have m: "m = pre @ entryBlocks h n c @ entriesBlocks es @ BZero # BZero # tapeBlocks (fs # ess)"
      using Cons.prems e by simp
    have p: "payload h = length c" using Cons.prems e by (simp add: entryWf_def)
    let ?pre = "pre @ entryBlocks h n c"
    have IH: "indexLoop m rs handle (length ?pre) (fst (locate rs (length ?pre)))
        (snd (locate rs (length ?pre))) (i + 1) False
      = visit rs handle (i + 1) (entriesAt (length ?pre) es
          @ tapeAt (length ?pre + length (entriesBlocks es) + 2) (fs # ess))"
      using Cons.prems m by (intro ext Cons.IH) auto
    show ?case
      using indexLoop_entry [OF assms(1) m p, of handle _ _ i s] IH
      by (simp add: e add.assoc del: length_entryBlocks tapeAt.simps)
  qed
qed

lemma indexLoop_visits:
  assumes "0 < rs" "m = pre @ tapeBlocks ess" "tapeWf ess"
  shows "indexLoop m rs handle (length pre) (fst (locate rs (length pre)))
      (snd (locate rs (length pre))) i False s
    = visit rs handle i (tapeAt (length pre) ess) s"
proof (cases ess)
  case Nil
  then have "nextHeader m rs (length pre) r b False = Ok (None, length m, locate rs (length m))" for r b
    using assms resync_end [OF assms(1), of m] by (simp add: nextHeader_def tarNext_end)
  then show ?thesis using indexLoop_end [OF assms(1)] Nil by (metis tapeAt.simps(1) visit.simps(1))
next
  case (Cons es ess')
  then show ?thesis
    using assms indexLoop_visits_from [OF assms(1), of m pre es ess' handle i s]
    by (simp add: tapeWf_def)
qed

end
