(* ===== verification/IndexWalk.thy ===== *)
theory IndexWalk
  imports Tape
begin

text \<open>
  \<open>Index\<close> as a walk over the abstract tape: from any entry on, it is the specification \<open>visit\<close> of the
  entries that follow, without the parts before it.
\<close>

section \<open>Index as a walk\<close>

text \<open>From a location of the tape, without the parts before it.\<close>

lemma Index_visits_from:
  assumes "0 < RecordSize pipes" "m = pre @ entriesBlocks es @ BZero # BZero # tapeBlocks ess"
    and "list_all entryWf es" "tapeWf ess" "(rec, blk) = locate (RecordSize pipes) (length pre)"
  shows "Index m mp pipes rec blk False init off dec ver f s =
    visit (RecordSize pipes) (indexEntry mp pipes init off dec ver f) 0
      (entriesAt (length pre) es @ tapeAt (length pre + length (entriesBlocks es) + 2) ess) s"
  using indexLoop_visits_from [OF assms(1-4)] location_eqs(3) [OF assms(1), of "length pre"]
    assms(5) [symmetric]
  by (simp add: Index_def)

lemma locate_0: "locate rs 0 = (0, 0)"
  by (simp add: locate_def)

lemma Index_visits_all:
  assumes "0 < RecordSize pipes" "tapeWf ess"
  shows "Index (tapeBlocks ess) mp pipes 0 0 False init off dec ver f s =
    visit (RecordSize pipes) (indexEntry mp pipes init off dec ver f) 0 (tapeAt 0 ess) s"
  using indexLoop_visits [OF assms(1), of "tapeBlocks ess" "[]" ess] assms(2)
  by (simp add: Index_def locate_0 seekPosition_def)

lemma Index_overwrite:
  "Index m mp pipes r b True init off dec ver f s =
     andThen (onMeta (mpPurgeAllHeaders mp) s)
       (\<lambda>_ s. Index m mp pipes r b False init off dec ver f s)"
  by (simp add: Index_def)

lemma indexEntry_before:
  "i < off \<Longrightarrow> indexEntry mp pipes init off dec ver f i r b h s = (Ok (), s)"
  by (simp add: indexEntry_def)

text \<open>From the last entry of a tape on, which is skipped.\<close>

lemma Index_after_last:
  assumes "0 < RecordSize pipes" "tapeWf (ess @ [es @ [e]])" "tapeWf new"
    and "(rec, blk) = locate (RecordSize pipes) (length (tapeBlocks ess @ entriesBlocks es))"
  shows "Index (tapeBlocks (ess @ [es @ [e]] @ new)) mp pipes rec blk False init 1 dec ver f s =
    visit (RecordSize pipes) (indexEntry mp pipes init 1 dec ver f) 1
      (tapeAt (length (tapeBlocks (ess @ [es @ [e]]))) new) s"
proof -
  let ?pre = "tapeBlocks ess @ entriesBlocks es"
  obtain h n c where e: "e = (h, n, c)" by (cases e)
  have m: "tapeBlocks (ess @ [es @ [e]] @ new) = ?pre @ entriesBlocks [e] @ BZero # BZero # tapeBlocks new"
    by simp
  have wf: "list_all entryWf [e]" using assms(2) by (simp add: tapeWf_def)
  have q: "length ?pre + length (entriesBlocks [e]) + 2 = length (tapeBlocks (ess @ [es @ [e]]))" by simp
  have "Index (tapeBlocks (ess @ [es @ [e]] @ new)) mp pipes rec blk False init 1 dec ver f s
      = visit (RecordSize pipes) (indexEntry mp pipes init 1 dec ver f) 0
          (entriesAt (length ?pre) [e] @ tapeAt (length (tapeBlocks (ess @ [es @ [e]]))) new) s"
    using Index_visits_from [OF assms(1) m wf assms(3,4), of mp init 1 dec ver f s] unfolding q .
  then show ?thesis by (simp add: e indexEntry_before)
qed

end
