(* ===== verification/Sql.thy ===== *)
theory Sql
  imports GoStd
begin

text \<open>
  The SQLite functions and operators that occur in the queries of the metadata persister:
  \<open>like\<close> (ASCII case-insensitive, with its wildcards), \<open>replace\<close>, and the number of slashes that
  \<open>length(x) - length(replace(x, '/', ''))\<close> counts.
\<close>

definition lowerChar :: "char \<Rightarrow> char" where
  "lowerChar c =
     (let n = (of_char c :: nat) in if 65 \<le> n \<and> n \<le> 90 then char_of (n + 32) else c)"

text \<open>\<open>sqlLike pattern s\<close> is \<open>s like pattern\<close>.\<close>

fun sqlLike :: "string \<Rightarrow> string \<Rightarrow> bool" where
  "sqlLike [] s = (s = [])"
| "sqlLike (p # ps) [] = (p = CHR ''%'' \<and> sqlLike ps [])"
| "sqlLike (p # ps) (c # s) =
     (if p = CHR ''%'' then sqlLike ps (c # s) \<or> sqlLike (p # ps) s
      else if p = CHR ''_'' then sqlLike ps s
      else lowerChar p = lowerChar c \<and> sqlLike ps s)"

function sqlReplace :: "string \<Rightarrow> string \<Rightarrow> string \<Rightarrow> string" where
  "sqlReplace [] old new = []"
| "sqlReplace (c # s) old new =
     (if old \<noteq> [] \<and> HasPrefix (c # s) old
      then new @ sqlReplace (drop (length old) (c # s)) old new
      else c # sqlReplace s old new)"
  by pat_completeness auto
termination
  by (relation "measure (\<lambda>(s, old, new). length s)") auto

definition slashes :: "string \<Rightarrow> int" where
  "slashes s = int (length s) - int (length (sqlReplace s ''/'' []))"

section \<open>Facts\<close>

lemma sqlReplace_empty [simp]: "sqlReplace s [] new = s"
  by (induction s) auto

lemma sqlReplace_char: "sqlReplace s [c] [] = filter (\<lambda>x. x \<noteq> c) s"
  by (induction s) auto

lemma slashes_count: "slashes s = int (length (filter (\<lambda>x. x = CHR ''/'') s))"
  using sum_length_filter_compl [of "\<lambda>x. x = CHR ''/''" s]
  by (simp add: slashes_def sqlReplace_char)

lemma slashes_nonneg [simp]: "0 \<le> slashes s"
  by (simp add: slashes_count)

lemma slashes_append [simp]: "slashes (s @ t) = slashes s + slashes t"
  by (simp add: slashes_count)

lemma slashes_0_iff: "slashes s = 0 \<longleftrightarrow> CHR ''/'' \<notin> set s"
  by (auto simp: slashes_count filter_empty_conv)

lemma sqlLike_percent [simp]: "sqlLike ''%'' s"
  by (induction s) auto

lemma sqlLike_skip: "sqlLike ps s \<Longrightarrow> sqlLike (CHR ''%'' # ps) s"
  by (cases s) auto

lemma sqlLike_Cons_self: "sqlLike ps s \<Longrightarrow> sqlLike (c # ps) (c # s)"
  by (auto simp: sqlLike_skip)

text \<open>A pattern that ends in \<open>%\<close> matches everything that starts with the literal prefix.\<close>

lemma sqlLike_prefix: "sqlLike (p @ ''%'') (p @ t)"
proof (induction p)
  case (Cons c p)
  then show ?case using sqlLike_Cons_self [of "p @ ''%''" "p @ t" c] by simp
qed simp

text \<open>
  Conversely, a pattern without wildcards before the final \<open>%\<close> matches a name only if the name
  starts with that prefix up to the case of ASCII letters.
\<close>

lemma sqlLike_prefix_iff:
  assumes "CHR ''%'' \<notin> set p" "CHR ''_'' \<notin> set p"
  shows "sqlLike (p @ ''%'') s \<longleftrightarrow>
    (length p \<le> length s \<and> map lowerChar (take (length p) s) = map lowerChar p)"
  using assms
proof (induction p arbitrary: s)
  case (Cons a p)
  then show ?case by (cases s) auto
qed simp

lemma sqlLike_refl: "sqlLike p p"
  by (induction p) (simp_all add: sqlLike_Cons_self del: sqlLike.simps(3))

lemma sqlLike_suffix: "HasSuffix s p \<Longrightarrow> sqlLike (CHR ''%'' # p) s"
proof -
  have "sqlLike (CHR ''%'' # p) (t @ p)" for t
    by (induction t) (auto simp: sqlLike_refl intro: sqlLike_skip)
  then show "HasSuffix s p \<Longrightarrow> ?thesis" by (auto simp: HasSuffix_iff)
qed

end
