(* ===== verification/Persister.thy ===== *)
theory Persister
  imports MetadataStore Sql
begin

text \<open>
  pkg/persisters: the metadata persister, the index of a tape in an SQLite table \<open>headers\<close> with
  primary key (name, linkname). The state is the list of rows and the two fields that cache the
  root path. Each method is a state transformer that returns its outcome and the new state (the
  root cache changes in methods that only read). A row is selected by name through the primary
  key index, so that of several rows with one name the least link name comes first; other
  queries return rows in table order. Failures of the database itself are not modelled,
  violations of the primary key are.
\<close>

section \<open>State\<close>

record persister =
  rows :: "header list"
  root :: string
  rootIsEmptyString :: bool

definition NewMetadataPersister :: persister where
  "NewMetadataPersister = \<lparr>rows = [], root = [], rootIsEmptyString = False\<rparr>"

abbreviation key_of :: "header \<Rightarrow> string \<times> string" where
  "key_of h \<equiv> (Name h, Linkname h)"

abbreviation live :: "header \<Rightarrow> bool" where
  "live h \<equiv> Deleted h \<noteq> 1"

section \<open>Statements on the table\<close>

definition selectByName :: "header list \<Rightarrow> string \<Rightarrow> header option" where
  "selectByName rs name = least_by Linkname (filter (\<lambda>r. Name r = name \<and> live r) rs)"

definition selectByLinkname :: "header list \<Rightarrow> string \<Rightarrow> header option" where
  "selectByLinkname rs linkname = List.find (\<lambda>r. Linkname r = linkname \<and> live r) rs"

definition selectByKey :: "header list \<Rightarrow> string \<Rightarrow> string \<Rightarrow> header option" where
  "selectByKey rs name linkname = List.find (\<lambda>r. Name r = name \<and> Linkname r = linkname) rs"

definition insertRow :: "header list \<Rightarrow> header \<Rightarrow> header list option" where
  "insertRow rs h = (if key_of h \<in> key_of ` set rs then None else Some (rs @ [h]))"

definition updateRow :: "header list \<Rightarrow> header \<Rightarrow> header list" where
  "updateRow rs h = map (\<lambda>r. if key_of r = key_of h then h else r) rs"

definition moveRows ::
  "header list \<Rightarrow> string \<Rightarrow> string \<Rightarrow> int \<Rightarrow> int \<Rightarrow> (header list \<times> nat) option" where
  "moveRows rs oldName newName lr lb =
     (let hit = (\<lambda>r. Name r = oldName);
          taken = (\<lambda>r. newName \<noteq> oldName \<and> (newName, Linkname r) \<in> key_of ` set rs)
      in if list_ex (\<lambda>r. hit r \<and> taken r) rs then None
         else Some (map (\<lambda>r. if hit r then r\<lparr>Name := newName, Lastknownrecord := lr,
                                              Lastknownblock := lb\<rparr> else r) rs,
                    length (filter hit rs)))"

fun minDepth :: "header list \<Rightarrow> header option" where
  "minDepth [] = None"
| "minDepth (r # rs) =
     (case minDepth rs of None \<Rightarrow> Some r
      | Some q \<Rightarrow> if slashes (Name r) \<le> slashes (Name q) then Some r else Some q)"

fun maxLocation :: "int \<Rightarrow> header list \<Rightarrow> header option" where
  "maxLocation rs [] = None"
| "maxLocation rs (r # hs) =
     (case maxLocation rs hs of None \<Rightarrow> Some r
      | Some q \<Rightarrow>
          if Lastknownrecord r * rs + Lastknownblock r \<ge> Lastknownrecord q * rs + Lastknownblock q
          then Some r else Some q)"

section \<open>Paths\<close>

definition headerExistsExact :: "string \<Rightarrow> persister \<Rightarrow> unit res" where
  "headerExistsExact name p =
     (if list_ex (\<lambda>r. Name r = name \<and> live r) (rows p) then Ok () else Err ErrNoRows)"

definition sanitizedRelative :: "string \<Rightarrow> string \<Rightarrow> string" where
  "sanitizedRelative rt name =
     (if HasPrefix rt ''/'' \<and> HasPrefix name ''/'' then name
      else if rt = [] then Join2 [] (TrimPrefix name ''/'')
      else if rt = ''.'' then Join2 ''.'' (TrimPrefix name ''/'')
      else if rt = ''./'' then ''./'' @ TrimPrefix (TrimPrefix name ''./'') ''/''
      else if rt = ''/'' then Join2 ''/'' (TrimPrefix name ''/'')
      else if \<not> (HasPrefix rt ''/'' \<or> HasPrefix rt ''./'') then name
      else ''./'' @ Clean (TrimPrefix name ''/''))"

definition getSanitizedPath :: "string \<Rightarrow> persister \<Rightarrow> string \<times> persister" where
  "getSanitizedPath name p =
     (if IsRoot name False \<or> name = root p then (root p, p)
      else if root p = [] \<and> HasPrefix name ''/'' \<and> \<not> rootIsEmptyString p then
        (case headerExistsExact [] p of
           Err e \<Rightarrow> (name, p\<lparr>root := name\<rparr>)
         | _ \<Rightarrow> (let p = p\<lparr>rootIsEmptyString := True\<rparr> in (sanitizedRelative (root p) name, p)))
      else (sanitizedRelative (root p) name, p))"

definition GetRootPath :: "persister \<Rightarrow> string res \<times> persister" where
  "GetRootPath p =
     (if root p \<noteq> [] then (Ok (root p), p)
      else (case minDepth (filter live (rows p)) of
              None \<Rightarrow> (Err ErrNoRootDirectory, p)
            | Some r \<Rightarrow> (Ok (Name r), p\<lparr>root := Name r\<rparr>)))"

definition Open :: "persister \<Rightarrow> unit res \<times> persister" where
  "Open p =
     attempt (GetRootPath p)
       (\<lambda>rt p. (Ok (), p\<lparr>root := rt\<rparr>))
       (\<lambda>e p. if e = ErrNoRootDirectory then (Ok (), p) else (Err e, p))
       (\<lambda>p. p)"

section \<open>Writing methods\<close>

definition UpsertHeader :: "header \<Rightarrow> bool \<Rightarrow> persister \<Rightarrow> unit res \<times> persister" where
  "UpsertHeader dbhdr initializing p =
     (let idbhdr = ConfigHeaderToDBHeader dbhdr;
          (hdr, p) = (if initializing then (idbhdr, p)
                      else let (n, p) = getSanitizedPath (Name idbhdr) p
                           in (idbhdr\<lparr>Name := n\<rparr>, p))
      in case selectByKey (rows p) (Name hdr) (Linkname hdr) of
           Some r \<Rightarrow> (Ok (), p\<lparr>rows := updateRow (rows p) hdr\<rparr>)
         | None \<Rightarrow>
             (case insertRow (rows p) hdr of
                None \<Rightarrow> (Err ErrConstraint, p)
              | Some rs \<Rightarrow> (Ok (), p\<lparr>rows := updateRow rs hdr\<rparr>)))"

definition UpdateHeaderMetadata :: "header \<Rightarrow> persister \<Rightarrow> unit res \<times> persister" where
  "UpdateHeaderMetadata dbhdr p =
     (let idbhdr = ConfigHeaderToDBHeader dbhdr;
          (n, p) = getSanitizedPath (Name idbhdr) p;
          hdr = idbhdr\<lparr>Name := n\<rparr>
      in (Ok (), p\<lparr>rows := updateRow (rows p) hdr\<rparr>))"

definition MoveHeader :: "string \<Rightarrow> string \<Rightarrow> int \<Rightarrow> int \<Rightarrow> persister \<Rightarrow> unit res \<times> persister" where
  "MoveHeader oldName newName lastknownrecord lastknownblock p =
     (let (newName, p) = getSanitizedPath newName p;
          (oldName, p) = getSanitizedPath oldName p
      in case moveRows (rows p) oldName newName lastknownrecord lastknownblock of
           None \<Rightarrow> (Err ErrConstraint, p)
         | Some (rs, written) \<Rightarrow>
             if written < 1 then
               (case moveRows rs oldName newName lastknownrecord lastknownblock of
                  None \<Rightarrow> (Err ErrConstraint, p\<lparr>rows := rs\<rparr>)
                | Some (rs', _) \<Rightarrow> (Ok (), p\<lparr>rows := rs'\<rparr>))
             else (Ok (), p\<lparr>rows := rs\<rparr>))"

definition DeleteHeader :: "string \<Rightarrow> int \<Rightarrow> int \<Rightarrow> persister \<Rightarrow> header res \<times> persister" where
  "DeleteHeader name lastknownrecord lastknownblock p =
     (let (name, p) = getSanitizedPath name p
      in case selectByName (rows p) name of
           None \<Rightarrow> (Err ErrNoRows, p)
         | Some hdr \<Rightarrow>
             (let hdr = hdr\<lparr>Deleted := 1, Lastknownrecord := lastknownrecord,
                            Lastknownblock := lastknownblock\<rparr>
              in (Ok (DBHeaderToConfigHeader hdr), p\<lparr>rows := updateRow (rows p) hdr\<rparr>)))"

definition PurgeAllHeaders :: "persister \<Rightarrow> unit res \<times> persister" where
  "PurgeAllHeaders p = (Ok (), p\<lparr>rows := [], root := [], rootIsEmptyString := False\<rparr>)"

section \<open>Reading methods\<close>

definition GetHeaders :: "persister \<Rightarrow> header list res \<times> persister" where
  "GetHeaders p = (Ok (map DBHeaderToConfigHeader (filter live (rows p))), p)"

definition GetHeader :: "string \<Rightarrow> persister \<Rightarrow> header res \<times> persister" where
  "GetHeader name p =
     (let (name, p) = getSanitizedPath name p
      in case selectByName (rows p) name of
           None \<Rightarrow> (Err ErrNoRows, p)
         | Some hdr \<Rightarrow> (Ok (DBHeaderToConfigHeader hdr), p))"

definition GetHeaderByLinkname :: "string \<Rightarrow> persister \<Rightarrow> header res \<times> persister" where
  "GetHeaderByLinkname linkname p =
     (let (linkname, p) = getSanitizedPath linkname p
      in case selectByLinkname (rows p) linkname of
           None \<Rightarrow> (Err ErrNoRows, p)
         | Some hdr \<Rightarrow> (Ok (DBHeaderToConfigHeader hdr), p))"

text \<open>The last filter of both listing methods: the directory is not its own child.\<close>

definition notSelf :: "string \<Rightarrow> header \<Rightarrow> bool" where
  "notSelf name hdr =
     (let prefix = TrimSuffix (Name hdr) ''/'' in name \<noteq> prefix \<and> name \<noteq> prefix @ ''/'')"

definition GetHeaderChildren :: "string \<Rightarrow> persister \<Rightarrow> header list res \<times> persister" where
  "GetHeaderChildren name p =
     (let (name, p) = getSanitizedPath name p;
          headers = filter (\<lambda>r. sqlLike (TrimSuffix name ''/'' @ ''/%'') (Name r) \<and> live r) (rows p)
      in (Ok (map DBHeaderToConfigHeader (filter (notSelf name) headers)), p))"

definition GetLastIndexedRecordAndBlock :: "int \<Rightarrow> persister \<Rightarrow> (int \<times> int) res \<times> persister" where
  "GetLastIndexedRecordAndBlock recordSize p =
     (case maxLocation recordSize (rows p) of
        None \<Rightarrow> (Ok (0, 0), p)
      | Some r \<Rightarrow> (Ok (Lastknownrecord r, Lastknownblock r), p))"

text \<open>
  The query of \<open>GetHeaderDirectChildren\<close>, by name or by link name. Its select list names one of
  the two columns only, so the other one is empty in the headers it binds. \<open>replace\<close> removes
  every occurrence of the prefix, not only the leading one.
\<close>

definition directDepth :: "string \<Rightarrow> string \<Rightarrow> int" where
  "directDepth prefix n = slashes (sqlReplace n prefix [])"

definition directMatch :: "bool \<Rightarrow> string \<Rightarrow> int \<Rightarrow> header \<Rightarrow> bool" where
  "directMatch useLinkname prefix rootDepth r =
     (let pk = (if useLinkname then Linkname r else Name r);
          depth = directDepth prefix pk
      in sqlLike (prefix @ ''%'') pk
         \<and> (depth = rootDepth \<or> (sqlLike ''%/'' pk \<and> depth = rootDepth + 1))
         \<and> live r
         \<and> (useLinkname \<or> Linkname r = [])
         \<and> pk \<notin> {[], ''.'', ''/'', ''./''})"

definition getHeaders ::
  "header list \<Rightarrow> string \<Rightarrow> int \<Rightarrow> int \<Rightarrow> bool \<Rightarrow> header list" where
  "getHeaders rs prefix rootDepth limit useLinkname =
     (let hits = filter (directMatch useLinkname prefix rootDepth) rs;
          hits = map (\<lambda>r. if useLinkname then r\<lparr>Name := []\<rparr> else r\<lparr>Linkname := []\<rparr>) hits
      in if limit > 0 then take (nat (limit + 1)) hits else hits)"

fun resolveLinks :: "header list \<Rightarrow> persister \<Rightarrow> header list res \<times> persister" where
  "resolveLinks [] p = (Ok [], p)"
| "resolveLinks (link # links) p =
     (let name = Name link; linkname = Linkname link
      in attempt
           (attempt (GetHeader name p)
              (\<lambda>target p. (Ok (target\<lparr>Name := linkname, Linkname := name\<rparr>), p))
              (\<lambda>e p. if e = ErrNoRows then (Ok (link\<lparr>Name := linkname, Linkname := name\<rparr>), p)
                     else (Err e, p))
              (\<lambda>p. p))
           (\<lambda>h p. andThen (resolveLinks links p) (\<lambda>hs p. (Ok (h # hs), p)))
           (\<lambda>e p. (Err e, p))
           (\<lambda>p. p))"

text \<open>The last step, on a limit that has been increased by one.\<close>

definition cutToLimit :: "int \<Rightarrow> header list \<Rightarrow> header list" where
  "cutToLimit limit outhdrs =
     (if limit \<le> 0 \<or> int (length outhdrs) < limit \<or> outhdrs = [] then outhdrs
      else take (nat (limit - 1)) outhdrs)"

definition GetHeaderDirectChildren ::
  "string \<Rightarrow> int \<Rightarrow> persister \<Rightarrow> header list res \<times> persister" where
  "GetHeaderDirectChildren name limit p =
     (let (name, p) = getSanitizedPath name p;
          limit = (if limit > 0 then limit + 1 else limit);
          depth = (if IsRoot name False
                   then map_option (\<lambda>r. ([], slashes (Name r))) (minDepth (filter live (rows p)))
                   else Some (TrimSuffix name ''/'' @ ''/'', 0))
      in case depth of
           None \<Rightarrow> (Err (ErrExternal ''converting NULL to int64 is unsupported''), p)
         | Some (prefix, rootDepth) \<Rightarrow>
             (let nameHeaders = getHeaders (rows p) prefix rootDepth limit False;
                  rawLinknameHeaders = getHeaders (rows p) prefix rootDepth limit True
              in andThen (resolveLinks rawLinknameHeaders p)
                   (\<lambda>linknameHeaders p.
                      (Ok (cutToLimit limit (filter (notSelf name)
                             (nameHeaders @ linknameHeaders))), p))))"

section \<open>The persister as an implementation of the interface\<close>

definition sqliteMetadata :: "persister metadata_persister" where
  "sqliteMetadata =
     \<lparr>mpUpsertHeader = UpsertHeader, mpUpdateHeaderMetadata = UpdateHeaderMetadata,
      mpMoveHeader = MoveHeader, mpGetHeaders = GetHeaders, mpGetHeader = GetHeader,
      mpGetHeaderByLinkname = GetHeaderByLinkname, mpGetHeaderChildren = GetHeaderChildren,
      mpGetRootPath = GetRootPath, mpGetHeaderDirectChildren = GetHeaderDirectChildren,
      mpDeleteHeader = DeleteHeader,
      mpGetLastIndexedRecordAndBlock = GetLastIndexedRecordAndBlock,
      mpPurgeAllHeaders = PurgeAllHeaders\<rparr>"

text \<open>The primary key of the table.\<close>

definition pkUnique :: "persister \<Rightarrow> bool" where
  "pkUnique p = distinct (map key_of (rows p))"

lemma getSanitizedPath_rows [simp]: "rows (snd (getSanitizedPath n p)) = rows p"
  by (auto simp: getSanitizedPath_def Let_def split: res.splits)

lemma getSanitizedPath_rowsE: "getSanitizedPath n p = (m, q) \<Longrightarrow> rows q = rows p"
  using getSanitizedPath_rows [of n p] by simp

lemma map_key_updateRow [simp]: "map key_of (updateRow rs h) = map key_of rs"
  by (auto simp: updateRow_def)

lemma distinct_insertRow:
  "distinct (map key_of rs) \<Longrightarrow> insertRow rs h = Some rs' \<Longrightarrow> distinct (map key_of rs')"
  by (auto simp: insertRow_def split: if_splits)

lemma distinct_moveRows:
  assumes "distinct (map key_of rs)" "moveRows rs old new lr lb = Some (rs', n)"
  shows "distinct (map key_of rs')"
proof -
  have ok: "\<not> list_ex (\<lambda>r. Name r = old \<and> new \<noteq> old \<and> (new, Linkname r) \<in> key_of ` set rs) rs"
    and rs': "rs' = map (\<lambda>r. if Name r = old then r\<lparr>Name := new, Lastknownrecord := lr,
                                                Lastknownblock := lb\<rparr> else r) rs"
    using assms(2) by (auto simp: moveRows_def Let_def split: if_splits)
  have *: "map key_of rs' =
      map (\<lambda>k. if fst k = old then (new, snd k) else k) (map key_of rs)"
    by (simp add: rs')
  have "inj_on (\<lambda>k. if fst k = old then (new, snd k) else k) (set (map key_of rs))"
    using ok by (auto simp: inj_on_def list_ex_iff image_iff split: if_splits) metis+
  with assms(1) show ?thesis by (simp add: * distinct_map del: map_map)
qed

lemma GetRootPath_rows [simp]: "rows (snd (GetRootPath p)) = rows p"
  by (simp add: GetRootPath_def split: option.splits)

lemma GetHeader_rows [simp]: "rows (snd (GetHeader n p)) = rows p"
  by (auto simp: GetHeader_def Let_def getSanitizedPath_rowsE split: prod.splits option.splits)

lemma GetHeaderByLinkname_rows [simp]: "rows (snd (GetHeaderByLinkname n p)) = rows p"
  by (auto simp: GetHeaderByLinkname_def Let_def getSanitizedPath_rowsE
           split: prod.splits option.splits)

lemma GetHeaderChildren_rows [simp]: "rows (snd (GetHeaderChildren n p)) = rows p"
  by (auto simp: GetHeaderChildren_def Let_def getSanitizedPath_rowsE split: prod.splits)

lemma GetHeaders_rows [simp]: "rows (snd (GetHeaders p)) = rows p"
  by (simp add: GetHeaders_def)

lemma GetLast_rows [simp]: "rows (snd (GetLastIndexedRecordAndBlock l p)) = rows p"
  by (simp add: GetLastIndexedRecordAndBlock_def split: option.splits)

lemma resolveLinks_rows [simp]: "rows (snd (resolveLinks links p)) = rows p"
proof (induction links arbitrary: p)
  case (Cons l links)
  obtain r q where g: "GetHeader (Name l) p = (r, q)" by force
  then have q: "rows q = rows p" using GetHeader_rows [of "Name l" p] by simp
  have "rows (snd (resolveLinks links q)) = rows q" by (rule Cons.IH)
  then show ?case
    using q by (cases r; cases "resolveLinks links q"; cases "fst (resolveLinks links q)")
      (auto simp: Let_def g)
qed simp

lemma GetHeaderDirectChildren_rows [simp]: "rows (snd (GetHeaderDirectChildren n l p)) = rows p"
proof -
  obtain m q where s: "getSanitizedPath n p = (m, q)" by force
  have q: "rows q = rows p" using s by (rule getSanitizedPath_rowsE)
  have "rows (snd (andThen (resolveLinks ls q) k)) = rows p"
    if "\<And>x s. snd (k x s) = s" for ls and k :: "header list \<Rightarrow> persister \<Rightarrow> header list res \<times> persister"
    using that q resolveLinks_rows [of ls q]
    by (cases "resolveLinks ls q"; cases "fst (resolveLinks ls q)") auto
  then show ?thesis
    using q by (auto simp: GetHeaderDirectChildren_def s Let_def split: option.splits)
qed

lemmas query_rows = GetHeaders_rows GetHeader_rows GetHeaderByLinkname_rows
  GetHeaderChildren_rows GetRootPath_rows GetHeaderDirectChildren_rows GetLast_rows

lemma UpsertHeader_pk: "pkUnique p \<Longrightarrow> pkUnique (snd (UpsertHeader h i p))"
  by (auto simp: UpsertHeader_def pkUnique_def Let_def getSanitizedPath_rowsE distinct_insertRow
           split: prod.splits option.splits if_splits)

lemma MoveHeader_pk: "pkUnique p \<Longrightarrow> pkUnique (snd (MoveHeader old new lr lb p))"
  by (auto simp: MoveHeader_def pkUnique_def Let_def dest!: getSanitizedPath_rowsE
           dest: distinct_moveRows split: prod.splits option.splits)

interpretation sqlite: metadata_store sqliteMetadata pkUnique rows
proof
  fix p :: persister and n old new :: string and l rs lr lb :: int and h :: header and i :: bool
  assume "pkUnique p"
  then show "pkUnique (snd (mpUpsertHeader sqliteMetadata h i p))"
    and "pkUnique (snd (mpMoveHeader sqliteMetadata old new lr lb p))"
    by (simp_all add: sqliteMetadata_def UpsertHeader_pk MoveHeader_pk)
  from \<open>pkUnique p\<close> show "pkUnique (snd (mpUpdateHeaderMetadata sqliteMetadata h p))"
    and "pkUnique (snd (mpDeleteHeader sqliteMetadata n lr lb p))"
    and "pkUnique (snd (mpPurgeAllHeaders sqliteMetadata p))"
    by (auto simp: sqliteMetadata_def UpdateHeaderMetadata_def DeleteHeader_def
        PurgeAllHeaders_def pkUnique_def Let_def getSanitizedPath_rowsE
        split: prod.splits option.splits)
qed (simp_all add: sqliteMetadata_def pkUnique_def)


lemma resolveLinks_returns: "returns (fst (resolveLinks links p))"
proof (induction links arbitrary: p)
  case (Cons l links)
  have "returns (fst (GetHeader n q))" for n q
    by (auto simp: GetHeader_def Let_def split: prod.splits option.splits)
  then show ?case
    using Cons.IH by (auto simp: Let_def intro!: returns_attempt returns_andThen)
qed simp

interpretation sqlite: metadata_total sqliteMetadata pkUnique rows
proof
  fix p :: persister and n :: string and l :: int
  show "returns (fst (mpGetHeaderDirectChildren sqliteMetadata n l p))"
    using resolveLinks_returns
    by (auto simp: sqliteMetadata_def GetHeaderDirectChildren_def Let_def
        split: prod.splits option.splits intro!: returns_andThen)
qed (auto simp: sqliteMetadata_def UpsertHeader_def UpdateHeaderMetadata_def DeleteHeader_def
      MoveHeader_def PurgeAllHeaders_def GetHeaders_def GetHeader_def GetHeaderByLinkname_def
      GetHeaderChildren_def GetRootPath_def GetLastIndexedRecordAndBlock_def Let_def
      split: prod.splits option.splits)

end
