(* ===== verification/PersisterProps.thy ===== *)
theory PersisterProps
  imports Persister
begin

text \<open>
  What the metadata persister does, method by method: the table as a finite map from primary
  keys to rows that the writing methods refine, the lookups that follow a write, the path
  normalisation on an absolute root, and the listing queries with their wildcard and
  replacement behaviour.
\<close>

section \<open>The table as a map\<close>

definition tableOf :: "header list \<Rightarrow> string \<times> string \<Rightarrow> header option" where
  "tableOf rs k = map_of (map (\<lambda>r. (key_of r, r)) rs) k"

text \<open>The abstract operations: the index is a finite map.\<close>

definition absUpsert :: "header \<Rightarrow> (string \<times> string \<Rightarrow> header option) \<Rightarrow> (string \<times> string \<Rightarrow> header option)" where
  "absUpsert h m = m(key_of h \<mapsto> h)"

definition absUpdate :: "header \<Rightarrow> (string \<times> string \<Rightarrow> header option) \<Rightarrow> (string \<times> string \<Rightarrow> header option)" where
  "absUpdate h m = (if m (key_of h) = None then m else m(key_of h \<mapsto> h))"

definition absMove :: "string \<Rightarrow> string \<Rightarrow> int \<Rightarrow> int
    \<Rightarrow> (string \<times> string \<Rightarrow> header option) \<Rightarrow> (string \<times> string \<Rightarrow> header option)" where
  "absMove old new lr lb m =
     (\<lambda>(n, l).
        if n = new \<and> m (old, l) \<noteq> None
        then map_option (\<lambda>r. r\<lparr>Name := new, Lastknownrecord := lr, Lastknownblock := lb\<rparr>)
               (m (old, l))
        else if n = old then None else m (n, l))"

lemma tableOf_eq_Some:
  "distinct (map key_of rs) \<Longrightarrow> tableOf rs k = Some r \<longleftrightarrow> r \<in> set rs \<and> key_of r = k"
  unfolding tableOf_def
  by (subst map_of_eq_Some_iff) (auto simp: comp_def)

lemma tableOf_None: "tableOf rs k = None \<longleftrightarrow> k \<notin> key_of ` set rs"
  unfolding tableOf_def by (simp add: map_of_eq_None_iff image_image)

lemma tableOf_key: "tableOf rs k = Some r \<Longrightarrow> r \<in> set rs \<and> key_of r = k"
  unfolding tableOf_def by (drule map_of_SomeD) auto

lemma tableOf_updateRow: "tableOf (updateRow rs h) = absUpdate h (tableOf rs)"
proof
  fix k
  show "tableOf (updateRow rs h) k = absUpdate h (tableOf rs) k"
    by (induction rs) (auto simp: tableOf_def updateRow_def absUpdate_def fun_upd_def)
qed

lemma tableOf_insertRow:
  "insertRow rs h = Some rs' \<Longrightarrow> tableOf rs' = absUpsert h (tableOf rs)"
proof
  fix k
  assume "insertRow rs h = Some rs'"
  then have rs': "rs' = rs @ [h]" and new: "key_of h \<notin> key_of ` set rs"
    by (auto simp: insertRow_def split: if_splits)
  then show "tableOf rs' k = absUpsert h (tableOf rs) k"
    using tableOf_None [of rs "key_of h"]
    by (auto simp: tableOf_def absUpsert_def map_add_def split: option.splits)
qed

lemma selectByKey_None: "selectByKey rs n l = None \<longleftrightarrow> tableOf rs (n, l) = None"
  by (auto simp: selectByKey_def find_None_iff tableOf_None image_iff)

lemma UpsertHeader_Ok:
  assumes "getSanitizedPath (Name h) p = (n, q)"
  shows "fst (UpsertHeader h False p) = Ok ()"
    and "tableOf (rows (snd (UpsertHeader h False p))) =
      absUpsert (h\<lparr>Name := n\<rparr>) (tableOf (rows p))"
proof -
  have q: "rows q = rows p" using assms by (rule getSanitizedPath_rowsE)
  let ?h = "h\<lparr>Name := n\<rparr>"
  show "fst (UpsertHeader h False p) = Ok ()"
    by (auto simp: UpsertHeader_def assms q selectByKey_None insertRow_def tableOf_None
        split: option.splits)
  show "tableOf (rows (snd (UpsertHeader h False p))) = absUpsert ?h (tableOf (rows p))"
  proof (cases "selectByKey (rows p) n (Linkname h)")
    case None
    then have "key_of ?h \<notin> key_of ` set (rows p)" by (simp add: selectByKey_None tableOf_None)
    then obtain rs where rs: "insertRow (rows p) ?h = Some rs" by (simp add: insertRow_def)
    then have "tableOf rs = absUpsert ?h (tableOf (rows p))" by (rule tableOf_insertRow)
    with None rs show ?thesis
      by (simp add: UpsertHeader_def assms q tableOf_updateRow)
         (simp add: absUpsert_def absUpdate_def)
  next
    case (Some r)
    then obtain y where "tableOf (rows p) (n, Linkname h) = Some y"
      using selectByKey_None [of "rows p" n "Linkname h"] by auto
    then have "absUpdate ?h (tableOf (rows p)) = absUpsert ?h (tableOf (rows p))"
      by (simp add: absUpdate_def absUpsert_def)
    with Some show ?thesis
      by (simp add: UpsertHeader_def assms q tableOf_updateRow)
  qed
qed

lemma UpdateHeaderMetadata_table:
  assumes "getSanitizedPath (Name h) p = (n, q)"
  shows "fst (UpdateHeaderMetadata h p) = Ok ()"
    and "tableOf (rows (snd (UpdateHeaderMetadata h p))) =
      absUpdate (h\<lparr>Name := n\<rparr>) (tableOf (rows p))"
  using getSanitizedPath_rowsE [OF assms]
  by (simp_all add: UpdateHeaderMetadata_def assms tableOf_updateRow)

lemma moveRows_None:
  "moveRows rs old new lr lb = None \<longleftrightarrow>
     new \<noteq> old \<and> (\<exists>l. tableOf rs (old, l) \<noteq> None \<and> tableOf rs (new, l) \<noteq> None)"
proof -
  have "moveRows rs old new lr lb = None \<longleftrightarrow>
      (\<exists>r \<in> set rs. Name r = old \<and> new \<noteq> old \<and> (new, Linkname r) \<in> key_of ` set rs)"
    by (simp add: moveRows_def Let_def list_ex_iff)
  also have "\<dots> \<longleftrightarrow> new \<noteq> old \<and>
      (\<exists>l. (old, l) \<in> key_of ` set rs \<and> (new, l) \<in> key_of ` set rs)"
    by (auto simp: image_iff)
  finally show ?thesis by (simp add: tableOf_None)
qed

lemma tableOf_moveRows:
  assumes d: "distinct (map key_of rs)" and m: "moveRows rs old new lr lb = Some (rs', c)"
  shows "tableOf rs' = absMove old new lr lb (tableOf rs)"
proof
  fix k :: "string \<times> string"
  let ?f = "\<lambda>r. if Name r = old then r\<lparr>Name := new, Lastknownrecord := lr,
                                      Lastknownblock := lb\<rparr> else r"
  have rs': "rs' = map ?f rs"
    using m by (auto simp: moveRows_def Let_def split: if_splits)
  have d': "distinct (map key_of rs')" using d m by (rule distinct_moveRows)
  obtain n l where k: "k = (n, l)" by force
  have mem: "tableOf rs' (key_of (?f q)) = Some (?f q)" if "q \<in> set rs" for q
    using that tableOf_eq_Some [OF d'] by (auto simp: rs')
  have none: "tableOf rs' k = None" if "\<And>q. q \<in> set rs \<Longrightarrow> key_of (?f q) \<noteq> k"
  proof -
    have "k \<notin> (\<lambda>q. key_of (?f q)) ` set rs"
    proof
      assume "k \<in> (\<lambda>q. key_of (?f q)) ` set rs"
      then obtain q where "q \<in> set rs" "k = key_of (?f q)" by (rule imageE)
      with that [of q] show False by blast
    qed
    then show ?thesis unfolding tableOf_None rs' set_map image_image .
  qed
  show "tableOf rs' k = absMove old new lr lb (tableOf rs) k"
  proof (cases "n = new \<and> tableOf rs (old, l) \<noteq> None")
    case True
    then obtain q where q: "tableOf rs (old, l) = Some q" by auto
    then show ?thesis
      using mem [of q] tableOf_key [OF q] True by (simp add: k absMove_def)
  next
    case A: False
    show ?thesis
    proof (cases "n \<noteq> old \<and> tableOf rs (n, l) \<noteq> None")
      case True
      then obtain q where q: "tableOf rs (n, l) = Some q" by auto
      then show ?thesis
        using mem [of q] tableOf_key [OF q] True A by (auto simp: k absMove_def)
    next
      case False
      have "key_of (?f q) \<noteq> k" if "q \<in> set rs" for q
        using that A False tableOf_None [of rs "key_of q"] by (auto simp: k)
      then show ?thesis using none A False by (auto simp: k absMove_def)
    qed
  qed
qed

section \<open>Path normalisation\<close>

text \<open>Normalising a path a second time, whatever the rows are by then, gives the same path.\<close>

lemma getSanitizedPath_stable:
  "getSanitizedPath name p = (n, q) \<Longrightarrow>
   getSanitizedPath name (q\<lparr>rows := rs\<rparr>) = (n, q\<lparr>rows := rs\<rparr>)"
  by (auto simp: getSanitizedPath_def Let_def split: if_splits res.splits)

lemma getSanitizedPath_abs_root:
  "root p = ''/'' \<Longrightarrow> HasPrefix name ''/'' \<Longrightarrow> getSanitizedPath name p = (name, p)"
  by (auto simp: getSanitizedPath_def sanitizedRelative_def IsRoot_def)

lemma getSanitizedPath_rel_root:
  assumes "root p = ''/''" "\<not> HasPrefix name ''/''" "\<not> IsRoot name False"
  shows "getSanitizedPath name p = (Join2 ''/'' name, p)"
  using assms by (auto simp: getSanitizedPath_def sanitizedRelative_def TrimPrefix_def IsRoot_def)

section \<open>Lookups\<close>

lemma selectByName_mem:
  "selectByName rs n = Some r \<Longrightarrow> r \<in> set rs \<and> Name r = n \<and> live r"
  unfolding selectByName_def by (drule least_by_mem) auto

lemma selectByName_None: "selectByName rs n = None \<longleftrightarrow> (\<forall>r \<in> set rs. Name r = n \<longrightarrow> Deleted r = 1)"
  by (auto simp: selectByName_def filter_empty_conv)

lemma selectByName_plain:
  assumes "distinct (map key_of rs)" "r \<in> set rs" "Name r = n" "live r" "Linkname r = []"
  shows "selectByName rs n = Some r"
proof -
  let ?f = "filter (\<lambda>r. Name r = n \<and> live r) rs"
  have "?f \<noteq> []" using assms by (auto simp: filter_empty_conv)
  then obtain y where y: "least_by Linkname ?f = Some y" using least_by_ex by blast
  then have "y \<in> set ?f" by (rule least_by_mem)
  moreover have "Linkname y \<le> Linkname r"
    using least_by_le [OF y, of r] assms by simp
  ultimately have "key_of y = key_of r" "y \<in> set rs" using assms by auto
  then have "y = r" using assms by (intro distinct_map_eq [of key_of rs]) auto
  with y show ?thesis by (simp add: selectByName_def)
qed

lemma GetHeader_after_Upsert:
  assumes "pkUnique p" "getSanitizedPath (Name h) p = (n, q)" "live h" "Linkname h = []"
  shows "fst (GetHeader (Name h) (snd (UpsertHeader h False p))) = Ok (h\<lparr>Name := n\<rparr>)"
proof -
  let ?p' = "snd (UpsertHeader h False p)" and ?h = "h\<lparr>Name := n\<rparr>"
  have "\<exists>rs. ?p' = q\<lparr>rows := rs\<rparr>"
    by (auto simp: UpsertHeader_def assms(2) Let_def insertRow_def selectByKey_None tableOf_None
        getSanitizedPath_rowsE [OF assms(2)] split: option.splits)
  then obtain rs where p': "?p' = q\<lparr>rows := rs\<rparr>" ..
  have pk: "pkUnique ?p'" using assms(1) by (rule UpsertHeader_pk)
  have "tableOf (rows ?p') (key_of ?h) = Some ?h"
    using UpsertHeader_Ok(2) [OF assms(2)] by (simp add: absUpsert_def)
  then have "?h \<in> set (rows ?p')" by (rule tableOf_key [THEN conjunct1])
  then have "selectByName (rows ?p') n = Some ?h"
    using pk assms by (intro selectByName_plain) (auto simp: pkUnique_def)
  then show ?thesis
    using getSanitizedPath_stable [OF assms(2), of rs] by (simp add: p' GetHeader_def)
qed

lemma selectByName_updateRow_other:
  "Name h \<noteq> n \<Longrightarrow> selectByName (updateRow rs h) n = selectByName rs n"
proof -
  assume "Name h \<noteq> n"
  then have "filter (\<lambda>r. Name r = n \<and> live r) (updateRow rs h)
      = filter (\<lambda>r. Name r = n \<and> live r) rs"
    by (induction rs) (auto simp: updateRow_def)
  then show ?thesis by (simp add: selectByName_def)
qed

lemma DeleteHeader_spec:
  assumes "pkUnique p" "DeleteHeader name lr lb p = (Ok hdr, p')" "getSanitizedPath name p = (n, q)"
  obtains r where "r \<in> set (rows p)" "Name r = n" "live r"
    "hdr = r\<lparr>Deleted := 1, Lastknownrecord := lr, Lastknownblock := lb\<rparr>"
    "p' = q\<lparr>rows := updateRow (rows p) hdr\<rparr>"
proof -
  have q: "rows q = rows p" using assms(3) by (rule getSanitizedPath_rowsE)
  obtain r where "selectByName (rows p) n = Some r"
      "hdr = r\<lparr>Deleted := 1, Lastknownrecord := lr, Lastknownblock := lb\<rparr>"
      "p' = q\<lparr>rows := updateRow (rows p) hdr\<rparr>"
    using assms(2) by (auto simp: DeleteHeader_def assms(3) q Let_def split: option.splits)
  with selectByName_mem that show ?thesis by blast
qed

lemma maxLocation_None [simp]: "maxLocation s rs = None \<longleftrightarrow> rs = []"
  by (cases rs) (auto split: option.splits)

lemma maxLocation_Some:
  "maxLocation s rs = Some r \<Longrightarrow> r \<in> set rs \<and>
     (\<forall>q \<in> set rs. Lastknownrecord q * s + Lastknownblock q \<le> Lastknownrecord r * s + Lastknownblock r)"
proof (induction rs arbitrary: r)
  case (Cons a rs)
  then show ?case
    by (cases "maxLocation s rs") (force split: if_splits)+
qed simp

section \<open>Properties of the persister\<close>

text \<open>
  C32: the writing methods refine the operations of a finite map from primary keys to headers:
  on a table with unique keys, \<open>UpsertHeader\<close> stores the header under its normalised name,
  \<open>UpdateHeaderMetadata\<close> replaces an existing row and otherwise does nothing, and \<open>MoveHeader\<close>
  renames every row of the old name or, if a row of the new name is in the way, fails with a
  constraint error and leaves the table as it was.
\<close>

theorem persister_refines_map:
  assumes "pkUnique p" "getSanitizedPath (Name h) p = (n, q)"
    and "getSanitizedPath new p = (new', q1)" "getSanitizedPath old q1 = (old', q2)"
  shows "tableOf (rows (snd (UpsertHeader h False p))) = absUpsert (h\<lparr>Name := n\<rparr>) (tableOf (rows p))
    \<and> tableOf (rows (snd (UpdateHeaderMetadata h p))) = absUpdate (h\<lparr>Name := n\<rparr>) (tableOf (rows p))
    \<and> (if new' \<noteq> old' \<and> (\<exists>l. tableOf (rows p) (old', l) \<noteq> None \<and> tableOf (rows p) (new', l) \<noteq> None)
       then MoveHeader old new lr lb p = (Err ErrConstraint, q2)
         \<and> tableOf (rows q2) = tableOf (rows p)
       else fst (MoveHeader old new lr lb p) = Ok ()
         \<and> tableOf (rows (snd (MoveHeader old new lr lb p))) =
             absMove old' new' lr lb (tableOf (rows p)))"
proof -
  have q2: "rows q2 = rows p" using assms(3,4) by (auto dest!: getSanitizedPath_rowsE)
  have d: "distinct (map key_of (rows p))" using assms(1) by (simp add: pkUnique_def)
  have mv: "fst (MoveHeader old new lr lb p) = Ok ()
      \<and> tableOf (rows (snd (MoveHeader old new lr lb p))) = absMove old' new' lr lb (tableOf (rows p))"
    if m: "moveRows (rows p) old' new' lr lb = Some (rs, c)" for rs c
  proof (cases "c < 1")
    case True
    then have "filter (\<lambda>r. Name r = old') (rows p) = []"
      using m by (auto simp: moveRows_def Let_def split: if_splits)
    then have "\<forall>r \<in> set (rows p). Name r \<noteq> old'" by (simp add: filter_empty_conv)
    then have rs: "rs = rows p" using m
      by (auto simp: moveRows_def Let_def map_idI split: if_splits)
    with m True tableOf_moveRows [OF d m] show ?thesis
      by (simp add: MoveHeader_def assms q2)
  next
    case False
    with m tableOf_moveRows [OF d m] show ?thesis
      by (simp add: MoveHeader_def assms q2)
  qed
  have none: "?thesis" if "moveRows (rows p) old' new' lr lb = None"
  proof -
    have "MoveHeader old new lr lb p = (Err ErrConstraint, q2)"
      using that by (simp add: MoveHeader_def assms q2)
    moreover have "new' \<noteq> old' \<and>
        (\<exists>l. tableOf (rows p) (old', l) \<noteq> None \<and> tableOf (rows p) (new', l) \<noteq> None)"
      using that moveRows_None [of "rows p" old' new' lr lb] by (rule iffD1 [rotated])
    ultimately show ?thesis
      using UpsertHeader_Ok(2) [OF assms(2)] UpdateHeaderMetadata_table(2) [OF assms(2)] q2
      by (simp only: if_True simp_thms)
  qed
  have some: "?thesis" if "moveRows (rows p) old' new' lr lb = Some (rs, c)" for rs c
  proof -
    have "\<not> (new' \<noteq> old' \<and>
        (\<exists>l. tableOf (rows p) (old', l) \<noteq> None \<and> tableOf (rows p) (new', l) \<noteq> None))"
      using that moveRows_None [of "rows p" old' new' lr lb] by (metis option.distinct(1))
    then show ?thesis
      using UpsertHeader_Ok(2) [OF assms(2)] UpdateHeaderMetadata_table(2) [OF assms(2)]
        mv [OF that]
      by (simp only: if_False simp_thms)
  qed
  show ?thesis
  proof (cases "moveRows (rows p) old' new' lr lb")
    case (Some x)
    then have "moveRows (rows p) old' new' lr lb = Some (fst x, snd x)" by simp
    then show ?thesis by (rule some)
  qed (rule none)
qed


text \<open>
  What was written is what a lookup returns: after an upsert of a header that is not a link
  and not deleted, \<open>GetHeader\<close> of the same name, however it was spelled, returns it.
\<close>

theorem upsert_then_get:
  assumes "pkUnique p" "live h" "Linkname h = []"
  shows "fst (GetHeader (Name h) (snd (UpsertHeader h False p)))
    = Ok (h\<lparr>Name := fst (getSanitizedPath (Name h) p)\<rparr>)"
  using GetHeader_after_Upsert [OF assms(1) _ assms(2,3)]
  by (cases "getSanitizedPath (Name h) p") simp

definition exampleHeader :: "string \<Rightarrow> int \<Rightarrow> header" where
  "exampleHeader n d =
     \<lparr>Record = 1, Lastknownrecord = 1, Block = 2, Lastknownblock = 2, Deleted = d, Typeflag = 48,
      Name = n, Linkname = [], Size = 0, Mode = 420, UID = 0, Gid = 0, Uname = [], Gname = [],
      Modtime = 0, Accesstime = 0, Changetime = 0, Devmajor = 0, Devminor = 0,
      Paxrecords = ''null'', Format = 0\<rparr>"

lemma exampleHeader_simps [simp]:
  "Name (exampleHeader n d) = n" "Deleted (exampleHeader n d) = d"
  "Linkname (exampleHeader n d) = []" "Lastknownrecord (exampleHeader n d) = 1"
  "Lastknownblock (exampleHeader n d) = 2"
  by (simp_all add: exampleHeader_def)

definition exampleIndex :: "header list \<Rightarrow> persister" where
  "exampleIndex hs = \<lparr>rows = hs, root = ''/'', rootIsEmptyString = False\<rparr>"

lemma exampleIndex_simps [simp]:
  "rows (exampleIndex hs) = hs" "root (exampleIndex hs) = ''/''"
  by (simp_all add: exampleIndex_def)

theorem upsert_then_get_witness:
  "fst (GetHeader ''/a'' (snd (UpsertHeader (exampleHeader ''/a'' 0) False
     (exampleIndex [exampleHeader ''/'' 0])))) = Ok (exampleHeader ''/a'' 0)"
  using upsert_then_get [of "exampleIndex [exampleHeader ''/'' 0]" "exampleHeader ''/a'' 0"]
  by (simp add: pkUnique_def getSanitizedPath_abs_root exampleHeader_def)

theorem persister_refines_map_witness:
  "MoveHeader ''/a'' ''/b'' 3 4 (exampleIndex [exampleHeader ''/a'' 0, exampleHeader ''/b'' 1])
     = (Err ErrConstraint, exampleIndex [exampleHeader ''/a'' 0, exampleHeader ''/b'' 1])"
  using persister_refines_map [where p = "exampleIndex [exampleHeader ''/a'' 0, exampleHeader ''/b'' 1]"
      and h = "exampleHeader ''/a'' 0" and n = "''/a''"
      and q = "exampleIndex [exampleHeader ''/a'' 0, exampleHeader ''/b'' 1]"
      and new = "''/b''" and new' = "''/b''" and old = "''/a''" and old' = "''/a''"
      and ?q1.0 = "exampleIndex [exampleHeader ''/a'' 0, exampleHeader ''/b'' 1]"
      and ?q2.0 = "exampleIndex [exampleHeader ''/a'' 0, exampleHeader ''/b'' 1]"
      and lr = 3 and lb = 4]
  by (simp add: pkUnique_def getSanitizedPath_abs_root tableOf_def split: if_splits)

text \<open>
  The last known position is the furthest one of the index, deleted rows included, and an
  empty index gives the start of the tape.
\<close>

theorem last_indexed_is_furthest:
  "(case fst (GetLastIndexedRecordAndBlock rs p) of
      Ok (lr, lb) \<Rightarrow>
        (if rows p = [] then lr = 0 \<and> lb = 0
         else (lr, lb) \<in> (\<lambda>r. (Lastknownrecord r, Lastknownblock r)) ` set (rows p))
        \<and> list_all (\<lambda>r. Lastknownrecord r * rs + Lastknownblock r \<le> lr * rs + lb) (rows p)
    | _ \<Rightarrow> False)"
proof (cases "maxLocation rs (rows p)")
  case None
  then show ?thesis by (simp add: GetLastIndexedRecordAndBlock_def)
next
  case (Some r)
  then show ?thesis
    using maxLocation_Some [OF Some] maxLocation_None [of rs "rows p"]
    by (auto simp: GetLastIndexedRecordAndBlock_def list_all_iff)
qed

text \<open>
  Deleting marks a row and moves its last known position, and afterwards the name is gone: on
  an index without links, \<open>GetHeader\<close> and a second \<open>DeleteHeader\<close> of a deleted name fail with
  ``no rows'', while every row of another name is untouched.
\<close>

theorem delete_then_get:
  assumes "pkUnique p" "DeleteHeader name lr lb p = (Ok hdr, p')"
    and "list_all (\<lambda>r. Linkname r = []) (rows p)"
  shows "Deleted hdr = 1 \<and> Lastknownrecord hdr = lr \<and> Lastknownblock hdr = lb
    \<and> fst (GetHeader name p') = Err ErrNoRows \<and> fst (DeleteHeader name lr' lb' p') = Err ErrNoRows
    \<and> filter (\<lambda>r. Name r \<noteq> Name hdr) (rows p') = filter (\<lambda>r. Name r \<noteq> Name hdr) (rows p)"
proof -
  obtain n q where s: "getSanitizedPath name p = (n, q)" by force
  obtain r where r: "r \<in> set (rows p)" "Name r = n" "live r"
      "hdr = r\<lparr>Deleted := 1, Lastknownrecord := lr, Lastknownblock := lb\<rparr>"
    and p': "p' = q\<lparr>rows := updateRow (rows p) hdr\<rparr>"
    using assms(1,2) s by (rule DeleteHeader_spec)
  have "selectByName (updateRow (rows p) hdr) n = None"
    using assms(3) r by (auto simp: selectByName_None updateRow_def list_all_iff)
  moreover have "filter (\<lambda>x. Name x \<noteq> n) (updateRow rs hdr) = filter (\<lambda>x. Name x \<noteq> n) rs" for rs
    using r by (induction rs) (auto simp: updateRow_def)
  ultimately show ?thesis
    using getSanitizedPath_stable [OF s] r by (simp add: GetHeader_def DeleteHeader_def p')
qed

theorem delete_then_get_witness:
  "fst (GetHeader ''/a'' (snd (DeleteHeader ''/a'' 7 1 (exampleIndex [exampleHeader ''/a'' 0]))))
     = Err ErrNoRows"
proof -
  let ?p = "exampleIndex [exampleHeader ''/a'' 0]"
  have d: "DeleteHeader ''/a'' 7 1 ?p = (Ok (exampleHeader ''/a'' 0\<lparr>Deleted := 1,
      Lastknownrecord := 7, Lastknownblock := 1\<rparr>), snd (DeleteHeader ''/a'' 7 1 ?p))"
    by (simp add: DeleteHeader_def getSanitizedPath_abs_root selectByName_def Let_def)
  show ?thesis
    using delete_then_get [OF _ d, of 0 0] by (simp add: pkUnique_def)
qed

lemma moveRows_rows:
  "moveRows rs old new lr lb = Some (rs', c) \<Longrightarrow>
   rs' = map (\<lambda>r. if Name r = old then r\<lparr>Name := new, Lastknownrecord := lr,
                                     Lastknownblock := lb\<rparr> else r) rs
   \<and> c = length (filter (\<lambda>r. Name r = old) rs)"
  by (auto simp: moveRows_def Let_def split: if_splits)

lemma moveRows_absent:
  assumes "list_all (\<lambda>r. Name r \<noteq> old) rs"
  shows "moveRows rs old new lr lb = Some (rs, 0)"
proof -
  have "filter (\<lambda>r. Name r = old) rs = []" using assms by (simp add: filter_empty_conv list_all_iff)
  moreover have "map (\<lambda>r. if Name r = old then r\<lparr>Name := new, Lastknownrecord := lr,
      Lastknownblock := lb\<rparr> else r) rs = rs"
    using assms by (auto simp: list_all_iff intro: map_idI)
  ultimately show ?thesis using assms by (auto simp: moveRows_def Let_def list_ex_iff list_all_iff)
qed

text \<open>
  A move can be replayed: once a name has been moved away, moving it again succeeds and leaves
  the index as it is, as re-indexing a tape needs (on an index rooted at \<open>/\<close>).
\<close>

theorem move_replay:
  assumes "root p = ''/''" "HasPrefix old ''/''" "HasPrefix new ''/''" "new \<noteq> old"
    and "MoveHeader old new lr lb p = (Ok (), p')"
  shows "MoveHeader old new lr' lb' p' = (Ok (), p')"
proof -
  note s [simp] = getSanitizedPath_abs_root
  obtain rs c where m: "moveRows (rows p) old new lr lb = Some (rs, c)"
    using assms by (auto simp: MoveHeader_def split: option.splits)
  have gone: "list_all (\<lambda>r. Name r \<noteq> old) rs"
    using moveRows_rows [OF m] assms(4) by (auto simp: list_all_iff)
  have "p' = p\<lparr>rows := rs\<rparr>"
    using assms moveRows_absent [OF gone]
    by (auto simp: MoveHeader_def m split: if_splits)
  then show ?thesis
    using assms moveRows_absent [OF gone] by (simp add: MoveHeader_def)
qed

theorem move_replay_witness:
  "MoveHeader ''/a'' ''/b'' 9 9 (snd (MoveHeader ''/a'' ''/b'' 3 4 (exampleIndex [exampleHeader ''/a'' 0])))
     = (Ok (), snd (MoveHeader ''/a'' ''/b'' 3 4 (exampleIndex [exampleHeader ''/a'' 0])))"
proof -
  let ?p = "exampleIndex [exampleHeader ''/a'' 0]"
  have m: "MoveHeader ''/a'' ''/b'' 3 4 ?p = (Ok (), snd (MoveHeader ''/a'' ''/b'' 3 4 ?p))"
    by (simp add: MoveHeader_def getSanitizedPath_abs_root moveRows_def)
  show ?thesis using move_replay [OF _ _ _ _ m] by simp
qed

section \<open>The listing queries\<close>

lemma map_config_id: "map DBHeaderToConfigHeader xs = xs"
  by (simp add: map_idI)

lemma take_map_length: "map f (take n s) = xs \<Longrightarrow> length xs = n \<Longrightarrow> n \<le> length s"
  by (auto simp: min_def split: if_splits)

text \<open>
  The recursive listing of a directory whose path has no \<open>%\<close> or \<open>_\<close>, on an index rooted at
  \<open>/\<close>: exactly the live rows whose name starts with the path and a slash, up to the case of ASCII
  letters, in table order.
\<close>

theorem children_of_plain_path:
  assumes "root p = ''/''" "HasPrefix name ''/''" "name \<noteq> ''/''"
    and "CHR ''%'' \<notin> set name" "CHR ''_'' \<notin> set name" "\<not> HasSuffix name ''/''"
  shows "GetHeaderChildren name p = (Ok (filter (\<lambda>r.
      map lowerChar (take (length name + 1) (Name r)) = map lowerChar (name @ ''/'')
      \<and> live r \<and> Name r \<noteq> name @ ''/'') (rows p)), p)"
proof -
  let ?d = "name @ ''/''"
  have t: "TrimSuffix name ''/'' = name" using assms(6) by (rule TrimSuffix_other)
  have like: "sqlLike (name @ ''/%'') s \<longleftrightarrow>
      map lowerChar (take (length name + 1) s) = map lowerChar ?d" for s
  proof -
    have "sqlLike (?d @ ''%'') s \<longleftrightarrow> length ?d \<le> length s
        \<and> map lowerChar (take (length ?d) s) = map lowerChar ?d"
      using assms by (intro sqlLike_prefix_iff) auto
    also have "\<dots> \<longleftrightarrow> map lowerChar (take (length name + 1) s) = map lowerChar ?d"
      using take_map_length [of lowerChar "length name + 1" s "map lowerChar ?d"] by auto
    finally show ?thesis by simp
  qed
  have self: "notSelf name r \<longleftrightarrow> Name r \<noteq> ?d" if "sqlLike (name @ ''/%'') (Name r)" for r
  proof -
    have len: "length (Name r) \<ge> length name + 1"
      using that like [of "Name r"]
        take_map_length [of lowerChar "length name + 1" "Name r" "map lowerChar ?d"] by simp
    have "TrimSuffix (Name r) ''/'' = name \<longleftrightarrow> Name r = ?d"
      using len by (auto simp: TrimSuffix_def HasSuffix_iff split: if_splits)
    then show ?thesis
      using assms(6) len by (auto simp: notSelf_def Let_def TrimSuffix_def HasSuffix_iff split: if_splits)
  qed
  show ?thesis
    using self by (auto simp: GetHeaderChildren_def getSanitizedPath_abs_root assms t like
        map_config_id intro!: filter_cong)
qed

theorem children_of_plain_path_witness:
  "GetHeaderChildren ''/foo'' (exampleIndex [exampleHeader ''/foo'' 0, exampleHeader ''/foo/b'' 0,
       exampleHeader ''/FOO/c'' 0, exampleHeader ''/foo/d'' 1])
     = (Ok [exampleHeader ''/foo/b'' 0, exampleHeader ''/FOO/c'' 0],
        exampleIndex [exampleHeader ''/foo'' 0, exampleHeader ''/foo/b'' 0,
          exampleHeader ''/FOO/c'' 0, exampleHeader ''/foo/d'' 1])"
  using children_of_plain_path [of "exampleIndex [exampleHeader ''/foo'' 0,
      exampleHeader ''/foo/b'' 0, exampleHeader ''/FOO/c'' 0, exampleHeader ''/foo/d'' 1]" "''/foo''"]
  by (simp add: HasSuffix_def lowerChar_def of_char_def char_of_def bit_simps)

text \<open>
  A directory whose name has an underscore lists the children of other directories as its own:
  the pattern of the query does not escape the wildcards of \<open>like\<close>. Deleting \<open>/a_b\<close> therefore
  deletes \<open>/axb/secret\<close>.
\<close>

theorem children_wildcard:
  "fst (GetHeaderChildren ''/a_b'' (exampleIndex [exampleHeader ''/a_b'' 0,
      exampleHeader ''/axb'' 0, exampleHeader ''/axb/secret'' 0]))
     = Ok [exampleHeader ''/axb/secret'' 0]"
  by (simp add: GetHeaderChildren_def getSanitizedPath_abs_root map_config_id notSelf_def
      TrimSuffix_def HasSuffix_def lowerChar_def of_char_def char_of_def)

lemma sqlReplace_once:
  "HasPrefix s d \<Longrightarrow> d \<noteq> [] \<Longrightarrow> sqlReplace s d [] = sqlReplace (drop (length d) s) d []"
  by (cases s) (auto simp: HasPrefix_iff)

text \<open>
  The listing of a directory, where its path occurs in other names only as a proper prefix and
  no link or name with a trailing slash is indexed: exactly the live rows one level below it.
\<close>

theorem direct_children_exact:
  assumes "root p = ''/''" "HasPrefix name ''/''" "name \<noteq> ''/''" "\<not> HasSuffix name ''/''"
    and "list_all (\<lambda>r. Linkname r = [] \<and> \<not> sqlLike ''%/'' (Name r)
      \<and> (sqlLike (name @ ''/%'') (Name r) \<longrightarrow> HasPrefix (Name r) (name @ ''/'')
          \<and> sqlReplace (drop (length name + 1) (Name r)) (name @ ''/'') []
             = drop (length name + 1) (Name r))) (rows p)"
  shows "GetHeaderDirectChildren name (- 1) p =
    (Ok (filter (\<lambda>r. live r \<and> HasPrefix (Name r) (name @ ''/'')
                  \<and> CHR ''/'' \<notin> set (drop (length name + 1) (Name r))) (rows p)), p)"
proof -
  let ?d = "name @ ''/''"
  let ?P = "\<lambda>r. live r \<and> HasPrefix (Name r) ?d \<and> CHR ''/'' \<notin> set (drop (length name + 1) (Name r))"
  have ne: "?d \<noteq> []" by simp
  have root: "\<not> IsRoot name False" using assms(2,3) by (auto simp: IsRoot_def HasPrefix_iff)
  have t: "TrimSuffix name ''/'' = name" using assms(4) by (rule TrimSuffix_other)
  have hit: "directMatch False ?d 0 r \<longleftrightarrow> ?P r"
    and link: "\<not> directMatch True ?d 0 r" if r: "r \<in> set (rows p)" for r
  proof -
    note a = assms(5) [unfolded list_all_iff, rule_format, OF r]
    have like: "HasPrefix (Name r) ?d \<longleftrightarrow> sqlLike (name @ ''/%'') (Name r)"
      using a sqlLike_prefix [of ?d] by (auto simp: HasPrefix_iff)
    have long: "Name r \<notin> {[], ''.'', ''/'', ''./''}" if "HasPrefix (Name r) ?d"
      using that assms(2,3) by (auto simp: HasPrefix_iff append_eq_Cons_conv)
    have dep: "directDepth ?d (Name r) = slashes (drop (length name + 1) (Name r))"
      if "HasPrefix (Name r) ?d"
      using a that like sqlReplace_once [OF that ne] by (simp add: directDepth_def)
    show "directMatch False ?d 0 r \<longleftrightarrow> ?P r"
      using a like long dep
      by (cases "HasPrefix (Name r) ?d") (auto simp: directMatch_def Let_def slashes_0_iff)
    show "\<not> directMatch True ?d 0 r"
      using a by (simp add: directMatch_def Let_def)
  qed
  have names: "getHeaders (rows p) ?d 0 (- 1) False = filter ?P (rows p)"
  proof -
    have "filter (directMatch False ?d 0) (rows p) = filter ?P (rows p)"
      by (rule filter_cong [OF refl hit])
    moreover have "map (\<lambda>r. r\<lparr>Linkname := []\<rparr>) (filter ?P (rows p)) = filter ?P (rows p)"
      using assms(5) by (auto simp: list_all_iff intro!: map_idI)
    ultimately show ?thesis by (simp add: getHeaders_def Let_def)
  qed
  have links: "getHeaders (rows p) ?d 0 (- 1) True = []"
    using link by (simp add: getHeaders_def Let_def filter_empty_conv)
  have self: "notSelf name r" if "?P r" "r \<in> set (rows p)" for r
  proof -
    have "\<not> HasSuffix (Name r) ''/''"
      using assms(5) that(2) sqlLike_suffix [where p = "''/''" and s = "Name r"] by (auto simp: list_all_iff)
    then show ?thesis
      using that(1) by (auto simp: notSelf_def TrimSuffix_def HasPrefix_iff)
  qed
  have "filter (notSelf name) (filter ?P (rows p)) = filter ?P (rows p)"
    by (rule filter_True) (use self in auto)
  then show ?thesis
    using root by (simp add: GetHeaderDirectChildren_def cutToLimit_def getSanitizedPath_abs_root assms(1,2) t
        names links)
qed

theorem direct_children_exact_witness:
  "GetHeaderDirectChildren ''/a'' (- 1) (exampleIndex [exampleHeader ''/a'' 0,
       exampleHeader ''/a/b'' 0, exampleHeader ''/a/b/c'' 0, exampleHeader ''/a/d'' 1])
     = (Ok [exampleHeader ''/a/b'' 0], exampleIndex [exampleHeader ''/a'' 0,
       exampleHeader ''/a/b'' 0, exampleHeader ''/a/b/c'' 0, exampleHeader ''/a/d'' 1])"
  using direct_children_exact [of "exampleIndex [exampleHeader ''/a'' 0,
       exampleHeader ''/a/b'' 0, exampleHeader ''/a/b/c'' 0, exampleHeader ''/a/d'' 1]" "''/a''"]
  by (simp add: HasSuffix_def lowerChar_def of_char_def char_of_def bit_simps)

text \<open>
  A name in which the path of the listed directory occurs twice is listed as a direct child
  although it lies deeper: \<open>replace\<close> strips both occurrences before the slashes are counted.
\<close>

theorem direct_children_nested:
  "fst (GetHeaderDirectChildren ''/a'' (- 1) (exampleIndex [exampleHeader ''/'' 0,
      exampleHeader ''/a'' 0, exampleHeader ''/a/x/a/c'' 0, exampleHeader ''/a/x/b/c'' 0]))
     = Ok [exampleHeader ''/a/x/a/c'' 0]"
  by (simp add: GetHeaderDirectChildren_def cutToLimit_def getSanitizedPath_abs_root getHeaders_def Let_def
      directMatch_def directDepth_def IsRoot_def TrimSuffix_def HasSuffix_def slashes_count
      notSelf_def lowerChar_def of_char_def char_of_def bit_simps exampleHeader_def)

text \<open>
  With a positive limit a listing returns at most that many entries (and may lose entries when
  links and names together exceed it), and every entry passes the ``not itself'' filter.
\<close>

theorem direct_children_limit:
  assumes "0 < limit" "GetHeaderDirectChildren name limit p = (Ok hs, p')"
  shows "int (length hs) \<le> limit
    \<and> list_all (notSelf (fst (getSanitizedPath name p))) hs"
proof -
  obtain n q where s: "getSanitizedPath name p = (n, q)" by force
  obtain xs where "hs = cutToLimit (limit + 1) (filter (notSelf n) xs)"
    using assms by (auto simp: GetHeaderDirectChildren_def s Let_def andThen_Ok_iff
        simp del: filter_append split: option.splits)
  then show ?thesis
    using assms(1) by (auto simp: s list_all_iff cutToLimit_def dest: in_set_takeD)
qed

theorem direct_children_limit_witness:
  "length (case fst (GetHeaderDirectChildren ''/a'' 1 (exampleIndex [exampleHeader ''/a'' 0,
       exampleHeader ''/a/b'' 0, exampleHeader ''/a/c'' 0])) of Ok hs \<Rightarrow> hs | _ \<Rightarrow> []) \<le> 1"
proof -
  let ?p = "exampleIndex [exampleHeader ''/a'' 0, exampleHeader ''/a/b'' 0, exampleHeader ''/a/c'' 0]"
  have d: "GetHeaderDirectChildren ''/a'' 1 ?p = (Ok [exampleHeader ''/a/b'' 0], ?p)"
    by (simp add: GetHeaderDirectChildren_def cutToLimit_def getSanitizedPath_abs_root getHeaders_def Let_def
      directMatch_def directDepth_def IsRoot_def TrimSuffix_def HasSuffix_def slashes_count
      notSelf_def lowerChar_def of_char_def char_of_def bit_simps exampleHeader_def)
  show ?thesis using direct_children_limit [OF _ d] by (simp add: d)
qed

end
