(* ===== verification/Keys.thy ===== *)
theory Keys
  imports External
begin

text \<open>
  pkg/keys, which parses key material into the typed keys the pipes accept, and
  pkg/utility/keygen.go, which generates it.
\<close>

fun unlockAll :: "external \<Rightarrow> string \<Rightarrow> string list \<Rightarrow> string list res" where
  "unlockAll x password [] = Ok []"
| "unlockAll x password (e # es) =
     (if \<not> xPGPHasPrivateKey x e then Err ErrIdentityUnparsable
      else rbind (xPGPUnlock x password e)
        (\<lambda>e'. rbind (unlockAll x password es) (\<lambda>es'. Ok (e' # es'))))"

definition ParseIdentity :: "external \<Rightarrow> string \<Rightarrow> bytes \<Rightarrow> string \<Rightarrow> key res" where
  "ParseIdentity x encryptionFormat privkey password =
     (if encryptionFormat = EncryptionFormatAgeKey then
        rbind (if password \<noteq> [] then xAgeScryptDecrypt x password privkey else Ok privkey)
          (\<lambda>privkey. rbind (xAgeParseIdentity x privkey) (\<lambda>i. Ok (KAgeIdentity i)))
      else if encryptionFormat = EncryptionFormatPGPKey then
        rbind (xPGPReadKeyRing x privkey)
          (\<lambda>identities.
             if password \<noteq> [] then rbind (unlockAll x password identities) (\<lambda>es. Ok (KPGP es))
             else Ok (KPGP identities))
      else if encryptionFormat = NoneKey then Ok (KBytes privkey)
      else Err ErrEncryptionFormatUnsupported)"

definition ParseSignerIdentity :: "external \<Rightarrow> string \<Rightarrow> bytes \<Rightarrow> string \<Rightarrow> key res" where
  "ParseSignerIdentity x signatureFormat privkey password =
     (if signatureFormat = SignatureFormatMinisignKey then
        rbind (xMinisignDecryptKey x password privkey) (\<lambda>k. Ok (KMinisignPrivate k))
      else if signatureFormat = SignatureFormatPGPKey then
        ParseIdentity x signatureFormat privkey password
      else if signatureFormat = NoneKey then Ok (KBytes privkey)
      else Err ErrSignatureFormatUnsupported)"

definition ParseRecipient :: "external \<Rightarrow> string \<Rightarrow> bytes \<Rightarrow> key res" where
  "ParseRecipient x encryptionFormat pubkey =
     (if encryptionFormat = EncryptionFormatAgeKey then
        rbind (xAgeParseRecipient x pubkey) (\<lambda>r. Ok (KAgeRecipient r))
      else if encryptionFormat = EncryptionFormatPGPKey then
        rbind (xPGPReadKeyRing x pubkey) (\<lambda>es. Ok (KPGP es))
      else if encryptionFormat = NoneKey then Ok (KBytes pubkey)
      else Err ErrEncryptionFormatUnsupported)"

definition ParseSignerRecipient :: "external \<Rightarrow> string \<Rightarrow> bytes \<Rightarrow> key res" where
  "ParseSignerRecipient x signatureFormat pubkey =
     (if signatureFormat = SignatureFormatMinisignKey then
        rbind (xMinisignParsePublic x pubkey) (\<lambda>k. Ok (KMinisignPublic k))
      else if signatureFormat = SignatureFormatPGPKey then
        ParseRecipient x signatureFormat pubkey
      else if signatureFormat = NoneKey then Ok (KBytes pubkey)
      else Err ErrSignatureFormatUnsupported)"

definition generateEncryptionKey :: "external \<Rightarrow> nat \<Rightarrow> string \<Rightarrow> string \<Rightarrow> (bytes \<times> bytes) res" where
  "generateEncryptionKey x rnd encryptionFormat password =
     (if encryptionFormat = EncryptionFormatAgeKey then
        rbind (xAgeGenerate x rnd)
          (\<lambda>(priv, pub).
             rbind (if password \<noteq> [] then xAgeScryptEncrypt x password rnd priv else Ok priv)
               (\<lambda>priv. Ok (priv, pub)))
      else if encryptionFormat = EncryptionFormatPGPKey then xPGPGenerate x password rnd
      else Err ErrKeygenFormatUnsupported)"

definition generateSignatureKey :: "external \<Rightarrow> nat \<Rightarrow> string \<Rightarrow> string \<Rightarrow> (bytes \<times> bytes) res" where
  "generateSignatureKey x rnd signatureFormat password =
     (if signatureFormat = SignatureFormatMinisignKey then
        rbind (xMinisignGenerate x rnd)
          (\<lambda>(rawPriv, pub).
             rbind (xMinisignEncryptKey x password rawPriv) (\<lambda>priv. Ok (priv, pub)))
      else if signatureFormat = SignatureFormatPGPKey then
        generateEncryptionKey x rnd signatureFormat password
      else Err ErrKeygenFormatUnsupported)"

definition Keygen :: "external \<Rightarrow> nat \<Rightarrow> pipe_config \<Rightarrow> string \<Rightarrow> (bytes \<times> bytes) res" where
  "Keygen x rnd pipes password =
     (if Encryption pipes \<noteq> NoneKey then generateEncryptionKey x rnd (Encryption pipes) password
      else if Signature pipes \<noteq> NoneKey then generateSignatureKey x rnd (Signature pipes) password
      else Err ErrKeygenFormatUnsupported)"

section \<open>Facts\<close>

text \<open>
  The documented behaviour of the libraries on generated keys: a generated key parses, and a key
  locked with a password unlocks with it.
\<close>

definition ageKeyLaw :: "external \<Rightarrow> bool" where
  "ageKeyLaw x =
     ((\<forall>n priv pub. xAgeGenerate x n = Ok (priv, pub) \<longrightarrow>
         (\<exists>i. xAgeParseIdentity x priv = Ok i) \<and> (\<exists>r. xAgeParseRecipient x pub = Ok r))
      \<and> (\<forall>pw n s t. xAgeScryptEncrypt x pw n s = Ok t \<longrightarrow> xAgeScryptDecrypt x pw t = Ok s))"

definition minisignKeyLaw :: "external \<Rightarrow> bool" where
  "minisignKeyLaw x =
     (\<forall>n priv pub pw t. xMinisignGenerate x n = Ok (priv, pub) \<longrightarrow>
        xMinisignEncryptKey x pw priv = Ok t \<longrightarrow>
        (\<exists>k. xMinisignDecryptKey x pw t = Ok k) \<and> (\<exists>q. xMinisignParsePublic x pub = Ok q))"

lemma unlockAll_length: "unlockAll x pw es = Ok es' \<Longrightarrow> length es' = length es"
  by (induction es arbitrary: es') (auto simp: rbind_Ok_iff split: if_splits)

text \<open>
  A generated age key pair, locked with a password or not, parses under the same format and
  password, to an identity and a recipient of the types the encryption accepts; likewise a
  minisign pair for signatures.
\<close>

theorem keygen_parses:
  assumes "ageKeyLaw x" "minisignKeyLaw x" "Keygen x rnd pipes password = Ok (priv, pub)"
  shows "(Encryption pipes = EncryptionFormatAgeKey \<longrightarrow>
      (\<exists>i r. ParseIdentity x (Encryption pipes) priv password = Ok (KAgeIdentity i)
        \<and> ParseRecipient x (Encryption pipes) pub = Ok (KAgeRecipient r)))
    \<and> (Encryption pipes = NoneKey \<and> Signature pipes = SignatureFormatMinisignKey \<longrightarrow>
      (\<exists>k q. ParseSignerIdentity x (Signature pipes) priv password = Ok (KMinisignPrivate k)
        \<and> ParseSignerRecipient x (Signature pipes) pub = Ok (KMinisignPublic q)))"
proof (intro conjI impI)
  assume e: "Encryption pipes = EncryptionFormatAgeKey"
  then obtain p where g: "xAgeGenerate x rnd = Ok (p, pub)"
    and p: "(if password \<noteq> [] then xAgeScryptEncrypt x password rnd p else Ok p) = Ok priv"
    using assms(3) by (auto simp: Keygen_def generateEncryptionKey_def rbind_Ok_iff split: prod.splits)
  obtain i r where "xAgeParseIdentity x p = Ok i" "xAgeParseRecipient x pub = Ok r"
    using assms(1) g unfolding ageKeyLaw_def by blast
  moreover have "password \<noteq> [] \<Longrightarrow> xAgeScryptDecrypt x password priv = Ok p"
    using assms(1) p by (auto simp: ageKeyLaw_def)
  ultimately show "\<exists>i r. ParseIdentity x (Encryption pipes) priv password = Ok (KAgeIdentity i)
      \<and> ParseRecipient x (Encryption pipes) pub = Ok (KAgeRecipient r)"
    using e p by (auto simp: ParseIdentity_def ParseRecipient_def)
next
  assume e: "Encryption pipes = NoneKey \<and> Signature pipes = SignatureFormatMinisignKey"
  then obtain p where "xMinisignGenerate x rnd = Ok (p, pub)" "xMinisignEncryptKey x password p = Ok priv"
    using assms(3) by (auto simp: Keygen_def generateSignatureKey_def rbind_Ok_iff split: prod.splits)
  then obtain k q where "xMinisignDecryptKey x password priv = Ok k" "xMinisignParsePublic x pub = Ok q"
    using assms(2) unfolding minisignKeyLaw_def by blast
  then show "\<exists>k q. ParseSignerIdentity x (Signature pipes) priv password = Ok (KMinisignPrivate k)
      \<and> ParseSignerRecipient x (Signature pipes) pub = Ok (KMinisignPublic q)"
    using e by (auto simp: ParseSignerIdentity_def ParseSignerRecipient_def)
qed

end
