(* ===== verification/CryptoProps.thy ===== *)
theory CryptoProps
  imports Encryption Signature Compression Keys
begin

text \<open>
  What the pipes of a file system guarantee together: contents and headers come back from the
  tape as they were written, and which signatures are accepted.
\<close>

text \<open>A library in which the parameters are instantiated by functions that compute, for the
  witnesses: the codecs and ciphers tag their input.\<close>

definition tag :: "char \<Rightarrow> bytes \<Rightarrow> bytes res" where
  "tag c s = Ok (c # s)"

definition untag :: "char \<Rightarrow> bytes \<Rightarrow> bytes res" where
  "untag c s = (case s of d # t \<Rightarrow> if c = d then Ok t else Err ErrUnexpectedEOF
                | [] \<Rightarrow> Err ErrUnexpectedEOF)"

definition exampleExternal :: external where
  "exampleExternal =
     \<lparr>xCompress = (\<lambda>c. tag (CHR ''c'')), xDecompress = (\<lambda>d. untag (CHR ''c'')),
      xAgeEncrypt = (\<lambda>r n. tag (CHR ''a'')), xAgeDecrypt = (\<lambda>i. untag (CHR ''a'')),
      xAgeScryptDecrypt = (\<lambda>p. untag (CHR ''s'')), xAgeScryptEncrypt = (\<lambda>p n. tag (CHR ''s'')),
      xAgeGenerate = (\<lambda>n. Ok (''priv'', ''pub'')), xAgeParseIdentity = Ok,
      xAgeParseRecipient = Ok, xPGPOpen = (\<lambda>es. Ok ()), xPGPEncrypt = (\<lambda>es n. tag (CHR ''p'')),
      xPGPDecrypt = (\<lambda>es. untag (CHR ''p'')), xPGPReadKeyRing = (\<lambda>s. Ok [s]),
      xPGPHasPrivateKey = (\<lambda>e. True), xPGPUnlock = (\<lambda>p e. Ok e), xPGPHasSigningKey = (\<lambda>e. True),
      xPGPSign = (\<lambda>e n s. Ok s), xPGPPacket = (\<lambda>s. Ok (Some s)),
      xPGPVerify = (\<lambda>e sig s. if sig = s then Ok () else Err ErrSignatureInvalid),
      xPGPGenerate = (\<lambda>p n. Ok (''priv'', ''pub'')), xMinisignSign = (\<lambda>k s. s),
      xMinisignVerify = (\<lambda>q s sig. sig = s), xMinisignDecryptKey = (\<lambda>p. untag (CHR ''m'')),
      xMinisignParsePublic = Ok, xMinisignGenerate = (\<lambda>n. Ok (''priv'', ''pub'')),
      xMinisignEncryptKey = (\<lambda>p. tag (CHR ''m'')), xMarshalHeader = (\<lambda>h. Ok (tName h)),
      xUnmarshalHeader = (\<lambda>s. Ok (zero_tar_header\<lparr>tName := s\<rparr>)),
      xWireHeader = (\<lambda>h. Ok (h, 0))\<rparr>"

lemma exampleExternal_simps [simp]:
  "xAgeEncrypt exampleExternal r n = tag (CHR ''a'')"
  "xAgeScryptEncrypt exampleExternal pw n = tag (CHR ''s'')"
  "xAgeGenerate exampleExternal n = Ok (''priv'', ''pub'')"
  "xCompress exampleExternal c = tag (CHR ''c'')"
  "xMinisignSign exampleExternal k b = b"
  "xMarshalHeader exampleExternal h = Ok (tName h)"
  "xUnmarshalHeader exampleExternal b = Ok (zero_tar_header\<lparr>tName := b\<rparr>)"
  "xMinisignVerify exampleExternal k b sig \<longleftrightarrow> sig = b"
  "xWireHeader exampleExternal h = Ok (h, 0)"
  "tag d b = Ok (d # b)"
  by (simp_all add: exampleExternal_def tag_def)

lemma exampleExternal_laws:
  "codecLaw exampleExternal" "ageKeyLaw exampleExternal" "minisignKeyLaw exampleExternal"
  "encryptionLaw exampleExternal (KAgeRecipient r) (KAgeIdentity i)"
  "signatureLaw exampleExternal (KMinisignPrivate k) (KMinisignPublic q)"
  "jsonLaw exampleExternal (zero_tar_header\<lparr>tName := n\<rparr>)"
  by (simp_all add: codecLaw_def ageKeyLaw_def minisignKeyLaw_def encryptionLaw_def
      signatureLaw_def jsonLaw_def exampleExternal_def tag_def untag_def zero_tar_header_def)

text \<open>
  C33: contents come back: in every configuration of the pipes that the writer accepts, decrypting
  and decompressing with the matching identity what was compressed and encrypted gives the
  contents, and the signature made over them verifies.
\<close>

theorem content_roundtrip:
  assumes "codecLaw x"
    and "encryptionLaw x recipient identity \<or> enc = NoneKey"
    and "signatureLaw x signIdentity signRecipient \<or> sigf = NoneKey"
    and "Compress cf level isRegular rs = Ok c" "Encrypt x enc recipient = Ok e"
    and "Sign x isRegular sigf signIdentity = Ok g"
    and "runCompressor x c s = Ok t" "runEncryptor x e rnd t = Ok u"
    and "runSigner x g rnd' s = Ok signature"
  shows "\<exists>d v. Decompress cf = Ok d \<and> Verify x isRegular sigf signRecipient signature = Ok v
    \<and> rbind (Decrypt x enc identity u) (runDecompressor x d) = Ok s
    \<and> runVerifier x v s = Ok ()"
proof -
  obtain d where d: "Decompress cf = Ok d" "reads d c" using Compress_reads [OF assms(4)] by blast
  moreover have "runDecompressor x d t = Ok s"
    using assms(1) d(2) assms(7) by (rule runDecompressor_runCompressor)
  moreover have "Decrypt x enc identity u = Ok t"
    using assms(2,5,8) by (rule Decrypt_Encrypt)
  moreover obtain v where "Verify x isRegular sigf signRecipient signature = Ok v"
      "runVerifier x v s = Ok ()"
    using Verify_Sign [OF assms(3,6,9)] by blast
  ultimately show ?thesis by auto
qed

theorem content_roundtrip_witness:
  "\<exists>d v. Decompress CompressionFormatGZipKey = Ok d
    \<and> Verify exampleExternal True SignatureFormatMinisignKey (KMinisignPublic ''q'')
        (b64Encode ''data'') = Ok v
    \<and> rbind (Decrypt exampleExternal EncryptionFormatAgeKey (KAgeIdentity ''i'') ''acdata'')
        (runDecompressor exampleExternal d) = Ok ''data''
    \<and> runVerifier exampleExternal v ''data'' = Ok ()"
  by (rule content_roundtrip [where level = CompressionLevelFastestKey and rs = 20
        and recipient = "KAgeRecipient ''r''" and signIdentity = "KMinisignPrivate ''k''"
        and c = "CGzip LevelFastest" and e = "EAge ''r''" and g = "SMinisign ''k''"
        and t = "''cdata''" and rnd = 1 and rnd' = 2])
    (simp_all add: exampleExternal_laws Compress_def compressionLevelOf_def Encrypt_def Sign_def
      runCompressor_def  Let_def)

text \<open>
  C34: headers come back: a header that was signed and then encrypted for the tape is, decrypted and
  verified with the matching keys, the header again, and the wrapper keeps the size that the tape
  reader skips by.
\<close>

theorem header_roundtrip:
  assumes "encryptionLaw x recipient identity \<or> enc = NoneKey"
    and "signatureLaw x signIdentity signRecipient \<or> sigf = NoneKey"
    and "jsonLaw x hdr" "jsonLaw x h1"
    and "SignHeader x hdr isRegular sigf signIdentity = Ok h1"
    and "EncryptHeader x h1 enc recipient = Ok h2"
  shows "rbind (DecryptHeader x h2 enc identity)
      (\<lambda>h. VerifyHeader x h isRegular sigf signRecipient) = Ok hdr \<and> tSize h2 = tSize hdr"
  using DecryptHeader_EncryptHeader [OF assms(1,4,6)] VerifyHeader_SignHeader [OF assms(2,3,5)]
    SignHeader_size [OF assms(5)] EncryptHeader_size [OF assms(6)]
  by simp

theorem header_roundtrip_witness:
  "rbind (DecryptHeader exampleExternal (wrapperHeader 0 [(STFSRecordEmbeddedHeader, b64Encode ''a/x'')])
       EncryptionFormatAgeKey (KAgeIdentity ''i''))
     (\<lambda>h. VerifyHeader exampleExternal h True NoneKey KNil) = Ok (zero_tar_header\<lparr>tName := ''/x''\<rparr>)"
  using header_roundtrip [of exampleExternal "KAgeRecipient ''r''" "KAgeIdentity ''i''"
      EncryptionFormatAgeKey KNil KNil NoneKey "zero_tar_header\<lparr>tName := ''/x''\<rparr>"
      "zero_tar_header\<lparr>tName := ''/x''\<rparr>" True
      "wrapperHeader 0 [(STFSRecordEmbeddedHeader, b64Encode ''a/x'')]"]
  by (simp add: exampleExternal_laws SignHeader_def EncryptHeader_def EncryptString_def)

text \<open>
  With minisign a header is only accepted if the library verifies its embedded text under the
  configured public key, and then the embedded header replaces the one on the tape.
\<close>

theorem minisign_header_verified:
  assumes "VerifyHeader x hdr isRegular SignatureFormatMinisignKey recipient = Ok h"
  shows "isRegular \<and> (\<exists>k w s sig. recipient = KMinisignPublic k
    \<and> paxGet (tPAXRecords hdr) STFSRecordEmbeddedHeader = Some w
    \<and> paxGet (tPAXRecords hdr) STFSRecordSignature = Some s \<and> b64Decode s = Ok sig
    \<and> xMinisignVerify x k w sig \<and> xUnmarshalHeader x w = Ok h)"
  using assms
  by (auto simp: VerifyHeader_def VerifyString_def rbind_Ok_iff
      split: option.splits if_splits key.splits)

theorem minisign_header_verified_witness:
  "xMinisignVerify exampleExternal ''q'' ''/x'' ''/x''"
proof -
  have "VerifyHeader exampleExternal (wrapperHeader 0
      [(STFSRecordEmbeddedHeader, ''/x''), (STFSRecordSignature, b64Encode ''/x'')])
      True SignatureFormatMinisignKey (KMinisignPublic ''q'') = Ok (zero_tar_header\<lparr>tName := ''/x''\<rparr>)"
    by (simp add: VerifyHeader_def VerifyString_def paxGet_def stfs_records
        del: b64Encode.simps)
  from minisign_header_verified [OF this] show ?thesis
    by (auto simp: paxGet_def stfs_records simp del: b64Encode.simps)
qed



theorem keygen_parses_witness:
  "\<exists>i r. ParseIdentity exampleExternal EncryptionFormatAgeKey ''spriv'' ''pw'' = Ok (KAgeIdentity i)
     \<and> ParseRecipient exampleExternal EncryptionFormatAgeKey ''pub'' = Ok (KAgeRecipient r)"
  using keygen_parses [of exampleExternal 0 "\<lparr>Compression = [], Encryption = EncryptionFormatAgeKey,
      Signature = [], RecordSize = 20\<rparr>" "''pw''" "''spriv''" "''pub''"]
  by (simp add: exampleExternal_laws Keygen_def generateEncryptionKey_def )

theorem compress_accepts_witness:
  "\<exists>c. Compress CompressionFormatGZipKey CompressionLevelFastestKey False 128 = Ok c"
  using compress_accepts [of CompressionLevelFastestKey NoneKey 128]
  by (simp add: KnownCompressionLevels_def)

end
