(* ===== verification/RecoveryProps.thy ===== *)
theory RecoveryProps
  imports IndexWalk PersisterProps CryptoProps
begin

text \<open>
  What \<open>Index\<close>, \<open>Query\<close> and \<open>Fetch\<close> do: the lemmas that hold over any metadata persister that
  keeps the contract of the interface, and the properties of the recovery package on the
  SQLite persister.
\<close>

section \<open>Over any persister\<close>

lemma onMeta_fst: "fst (onMeta f s) = fst (f (fst s))"
  by (simp add: onMeta_def case_prod_beta)

lemma onMeta_snd: "snd (onMeta f s) = (snd (f (fst s)), snd s)"
  by (simp add: onMeta_def case_prod_beta)

lemma onEvents_fst: "fst (onEvents f s) = fst (f (snd s))"
  by (simp add: onEvents_def case_prod_beta)

lemma onEvents_snd: "snd (onEvents f s) = (fst s, snd (f (snd s)))"
  by (simp add: onEvents_def case_prod_beta)

lemmas on_simps [simp] = onMeta_fst onMeta_snd onEvents_fst onEvents_snd

context metadata_store
begin

lemma indexUpdate_inv: "inv p \<Longrightarrow> inv (snd (indexUpdate mp r b hdr p))"
  unfolding indexUpdate_def Let_def
  by (auto intro!: andThen_post [where P = inv] attempt_post [where P = inv] store_inv)

lemma indexAction_inv: "inv p \<Longrightarrow> inv (snd (indexAction mp r b hdr init p))"
  unfolding indexAction_def Let_def
  by (auto intro!: andThen_post [where P = inv] store_inv indexUpdate_inv)

lemma indexHeader_inv:
  "inv (fst s) \<Longrightarrow> inv (fst (snd (indexHeader mp r b hdr c e init f s)))"
  unfolding indexHeader_def
  by (rule andThen_post [where P = "\<lambda>s. inv (fst s)"], simp,
      rule andThen_post [where P = "\<lambda>s. inv (fst s)"])
    (auto simp: indexAction_inv split: option.splits)

lemma indexEntry_inv:
  "inv (fst s) \<Longrightarrow> inv (fst (snd (indexEntry mp pipes init off dec ver f i r b hdr s)))"
  unfolding indexEntry_def
  by (auto intro!: andThen_post [where P = "\<lambda>s. inv (fst s)"] indexHeader_inv)

lemma Index_inv:
  assumes "inv (fst s)" "0 < RecordSize pipes"
  shows "inv (fst (snd (Index m mp pipes r b ov init off dec ver f s)))"
  unfolding Index_def
  using assms
  by (auto intro!: andThen_post [where P = "\<lambda>s. inv (fst s)"] store_inv
      indexLoop_inv [where I = "\<lambda>s. inv (fst s)"] indexEntry_inv)

end

lemma Atoi_returns: "returns (Atoi s)"
  by (simp add: Atoi_def Let_def)

lemma RemoveSuffix_returns: "returns (RemoveSuffix n c e)"
  using suffix.remove_known [of c e n] suffix.remove_unknown [of c e n]
  by (cases "c \<in> set KnownCompressionFormats \<and> e \<in> set KnownEncryptionFormats") auto

lemma indexedHeader_returns: "returns (indexedHeader hdr c e)"
  unfolding indexedHeader_def
  by (intro returns_rbind) (auto intro!: returns_rbind RemoveSuffix_returns Atoi_returns
      split: option.split)

context metadata_total
begin

lemma indexUpdate_returns: "returns (fst (indexUpdate mp r b hdr p))"
  unfolding indexUpdate_def Let_def
  by (auto intro!: returns_andThen returns_attempt store_returns)

lemma indexAction_returns: "returns (fst (indexAction mp r b hdr init p))"
  unfolding indexAction_def Let_def
  by (auto intro!: returns_andThen store_returns indexUpdate_returns)

lemma indexHeader_returns:
  "(\<And>g h ev. f = Some g \<Longrightarrow> returns (fst (g h ev))) \<Longrightarrow>
   returns (fst (indexHeader mp r b hdr c e init f s))"
  unfolding indexHeader_def
  by (cases f) (auto intro!: returns_andThen indexedHeader_returns indexAction_returns)

lemma Index_returns:
  assumes "0 < RecordSize pipes" "0 \<le> r" "0 \<le> b"
    and "\<And>h i. returns (dec h i)" "\<And>h. returns (ver h True)"
    and "\<And>g h ev. f = Some g \<Longrightarrow> returns (fst (g h ev))"
  shows "returns (fst (Index m mp pipes r b ov init off dec ver f s))"
proof -
  have "returns (fst (indexEntry mp pipes init off dec ver f i r b hdr s))" for i r b hdr s
    unfolding indexEntry_def using assms(4-6)
    by (auto intro!: returns_andThen indexHeader_returns)
  then have "returns (fst (indexLoop m (RecordSize pipes)
      (indexEntry mp pipes init off dec ver f) p r b i st s))" for p i st s
    by (rule indexLoop_returns [OF assms(1)])
  then show ?thesis
    unfolding Index_def using assms(2,3)
    by (auto simp: seekPosition_def Let_def intro!: returns_andThen store_returns)
qed

end

section \<open>Index as a walk\<close>

text \<open>
  C29: \<open>Index\<close> visits an archive completely and in order: on a tape made of any number of appended
  archives it applies every header exactly once, at the record and block at which its entry
  starts, stops at the first failure, and reads nothing else as a header.
\<close>

theorem index_visits_every_entry:
  assumes "0 < RecordSize pipes" "tapeWf ess"
  shows "Index (tapeBlocks ess) mp pipes 0 0 True init 0 dec ver f s =
    andThen (onMeta (mpPurgeAllHeaders mp) s)
      (\<lambda>_. visit (RecordSize pipes)
             (\<lambda>i rec blk hdr s.
                andThen (rbind (dec hdr i) (\<lambda>h. ver h True), s)
                  (\<lambda>h. indexHeader mp rec blk h (Compression pipes) (Encryption pipes) init f))
             0 (tapeAt 0 ess))"
proof -
  have "indexEntry mp pipes init 0 dec ver f = (\<lambda>i rec blk hdr s.
      andThen (rbind (dec hdr i) (\<lambda>h. ver h True), s)
        (\<lambda>h. indexHeader mp rec blk h (Compression pipes) (Encryption pipes) init f))"
  proof (intro ext)
    fix i rec blk hdr s
    show "indexEntry mp pipes init 0 dec ver f i rec blk hdr s =
        andThen (rbind (dec hdr i) (\<lambda>h. ver h True), s)
          (\<lambda>h. indexHeader mp rec blk h (Compression pipes) (Encryption pipes) init f)"
      by (cases "dec hdr i") (auto simp: indexEntry_def)
  qed
  then show ?thesis
    using assms by (simp add: Index_overwrite Index_visits_all)
qed

text \<open>
  C28: incremental indexing is re-indexing: after a complete \<open>Index\<close> of a tape, indexing again from
  the location of its last entry and skipping that one, when another archive has been appended,
  gives the outcome and the index that a complete \<open>Index\<close> of the longer tape gives.
\<close>

theorem incremental_index_is_full_index:
  assumes "0 < RecordSize pipes" "tapeWf (ess @ [es @ [e]])" "tapeWf [new]"
    and "\<And>h i. dec h i = dec h 0"
    and "Index (tapeBlocks (ess @ [es @ [e]])) mp pipes 0 0 True init 0 dec ver f s = (Ok (), s1)"
    and "(rec, blk) = locate (RecordSize pipes) (length (tapeBlocks ess @ entriesBlocks es))"
  shows "Index (tapeBlocks (ess @ [es @ [e], new])) mp pipes rec blk False init 1 dec ver f s1
    = Index (tapeBlocks (ess @ [es @ [e], new])) mp pipes 0 0 True init 0 dec ver f s"
proof -
  let ?rs = "RecordSize pipes" and ?old = "ess @ [es @ [e]]"
  let ?pre = "tapeBlocks ess @ entriesBlocks es"
  let ?m = "tapeBlocks (ess @ [es @ [e], new])"
  let ?h0 = "indexEntry mp pipes init 0 dec ver f" and ?h1 = "indexEntry mp pipes init 1 dec ver f"
  obtain h n c where e: "e = (h, n, c)" by (cases e)
  let ?q = "length ?pre + length (entriesBlocks [e]) + 2"
  have m: "?m = ?pre @ entriesBlocks [e] @ BZero # BZero # tapeBlocks [new]" by simp
  have wf: "list_all entryWf [e]" "tapeWf (ess @ [es @ [e], new])"
    using assms(2,3) by (simp_all add: tapeWf_def)
  have q: "?q = length (tapeBlocks ?old)" by simp
  have new: "Index ?m mp pipes rec blk False init 1 dec ver f s1
      = visit ?rs ?h1 1 (tapeAt ?q [new]) s1"
    using Index_visits_from [OF assms(1) m wf(1) assms(3,6), of mp init 1 dec ver f s1]
    by (simp add: e indexEntry_before)
  obtain v s0 where purge: "mpPurgeAllHeaders mp (fst s) = (v, s0)" by force
  have s0: "mpPurgeAllHeaders mp (fst s) = (Ok (), s0)"
    and old: "visit ?rs ?h0 0 (tapeAt 0 ?old) (s0, snd s) = (Ok (), s1)"
    using assms(1,2,5) purge
    by (auto simp: Index_overwrite Index_visits_all andThen_Ok_iff onMeta_def
        simp del: tapeBlocks_append)
  have "Index ?m mp pipes 0 0 True init 0 dec ver f s
      = visit ?rs ?h0 0 (tapeAt 0 ?old @ tapeAt ?q [new]) (s0, snd s)"
  proof -
    have "ess @ [es @ [e], new] = ?old @ [new]" by simp
    then have "tapeAt 0 (ess @ [es @ [e], new]) = tapeAt 0 ?old @ tapeAt ?q [new]"
      by (simp only: tapeAt_append [of 0 ?old] q add_0)
    then show ?thesis
      using Index_visits_all [OF assms(1) wf(2), of mp init 0 dec ver f] s0
      by (simp add: Index_overwrite onMeta_def del: tapeBlocks_append tapeAt.simps)
  qed
  also have "\<dots> = visit ?rs ?h0 (length (tapeAt 0 ?old)) (tapeAt ?q [new]) s1"
    using old by (simp add: visit_append del: tapeAt.simps)
  also have "\<dots> = visit ?rs ?h1 1 (tapeAt ?q [new]) s1"
  proof (rule visit_cong)
    fix k p and h :: tar_header and s
    show "?h0 (length (tapeAt 0 ?old) + k) (fst (locate ?rs p)) (snd (locate ?rs p)) h s
        = ?h1 (1 + k) (fst (locate ?rs p)) (snd (locate ?rs p)) h s"
      using assms(4) [of h "length (tapeAt 0 ?old) + k"] assms(4) [of h k]
      by (simp add: indexEntry_def)
  qed
  finally show ?thesis using new by simp
qed


text \<open>A small tape and index for the witnesses.\<close>

definition exampleDir :: "string \<Rightarrow> tar_header" where
  "exampleDir n = zero_tar_header\<lparr>tName := n, tTypeflag := TypeDir\<rparr>"

definition examplePipes :: pipe_config where
  "examplePipes = \<lparr>Compression = NoneKey, Encryption = NoneKey, Signature = NoneKey, RecordSize = 20\<rparr>"

lemma exampleDir_simps [simp]:
  "tName (exampleDir n) = n" "tTypeflag (exampleDir n) = TypeDir" "tPAXRecords (exampleDir n) = None"
  "tLinkname (exampleDir n) = []" "tSize (exampleDir n) = 0" "payload (exampleDir n) = 0"
  by (simp_all add: exampleDir_def payload_def isHeaderOnly_def)

lemma examplePipes_simps [simp]:
  "Compression examplePipes = NoneKey" "Encryption examplePipes = NoneKey"
  "Signature examplePipes = NoneKey" "RecordSize examplePipes = 20"
  by (simp_all add: examplePipes_def)

lemma exampleDir_mode: "\<not> IsRegularMode (hdrMode (exampleDir n))"
  by (simp add: IsRegularMode_def hdrMode_def exampleDir_def zero_tar_header_def flagModeBits_def
      typeModeBits_def type_defs mode_defs Perm_def)

lemma TarHeaderToDBHeader_simps [simp]:
  "Name (TarHeaderToDBHeader r lr b lb h) = tName h"
  "Linkname (TarHeaderToDBHeader r lr b lb h) = tLinkname h"
  "Deleted (TarHeaderToDBHeader r lr b lb h) = 0"
  "Record (TarHeaderToDBHeader r lr b lb h) = r" "Block (TarHeaderToDBHeader r lr b lb h) = b"
  "Lastknownrecord (TarHeaderToDBHeader r lr b lb h) = lr"
  "Lastknownblock (TarHeaderToDBHeader r lr b lb h) = lb"
  "Typeflag (TarHeaderToDBHeader r lr b lb h) = uint (tTypeflag h)"
  "Size (TarHeaderToDBHeader r lr b lb h) = tSize h"
  by (simp_all add: TarHeaderToDBHeader_def)

lemma indexAction_dir:
  "indexAction mp r b (exampleDir n) init =
     mpUpsertHeader mp (TarHeaderToDBHeader r r b b (exampleDir n)) init"
  by (rule ext) (simp add: indexAction_def paxGet_def)

lemma indexHeader_dir:
  "indexHeader mp r b (exampleDir n) c e init None s =
     onMeta (mpUpsertHeader mp (TarHeaderToDBHeader r r b b (exampleDir n)) init) s"
  by (simp add: indexHeader_def indexedHeader_def paxGet_def exampleDir_mode indexAction_dir)

text \<open>An \<open>Index\<close> that neither decrypts nor verifies, on a new persister.\<close>

abbreviation plainIndex where
  "plainIndex m rec blk ov off \<equiv>
     Index m sqliteMetadata examplePipes rec blk ov True off (\<lambda>h i. Ok h) (\<lambda>h r. Ok h) None"

definition exampleRow :: "int \<Rightarrow> int \<Rightarrow> string \<Rightarrow> header" where
  "exampleRow r b n = TarHeaderToDBHeader r r b b (exampleDir n)"

lemma exampleRow_simps [simp]:
  "Name (exampleRow r b n) = n" "Linkname (exampleRow r b n) = []" "Deleted (exampleRow r b n) = 0"
  by (simp_all add: exampleRow_def)

lemma Upsert_new:
  assumes "key_of h \<notin> key_of ` set (rows p)"
  shows "mpUpsertHeader sqliteMetadata h True p = (Ok (), p\<lparr>rows := rows p @ [h]\<rparr>)"
proof -
  have "selectByKey (rows p) (Name h) (Linkname h) = None"
    using assms by (simp add: selectByKey_None tableOf_None)
  moreover have "updateRow (rows p @ [h]) h = rows p @ [h]"
    using assms by (auto simp: updateRow_def image_iff intro!: map_idI)
  ultimately show ?thesis
    using assms by (simp add: sqliteMetadata_def UpsertHeader_def insertRow_def)
qed

lemma purge_new: "mpPurgeAllHeaders sqliteMetadata p = (Ok (), NewMetadataPersister)"
  by (simp add: sqliteMetadata_def PurgeAllHeaders_def NewMetadataPersister_def)

lemma rows_new [simp]: "rows NewMetadataPersister = []"
  by (simp add: NewMetadataPersister_def)

lemma index_example:
  "plainIndex (tapeBlocks [[(exampleDir ''/'', 0, [])]]) 0 0 True 0 (NewMetadataPersister, ())
     = (Ok (), (NewMetadataPersister\<lparr>rows := [exampleRow 0 0 ''/'']\<rparr>, ()))"
  by (simp add: Index_overwrite Index_visits_all indexEntry_def indexHeader_dir tapeWf_def
      entryWf_def locate_0 Upsert_new purge_new onMeta_def
      flip: exampleRow_def del: tapeBlocks.simps)


theorem index_visits_every_entry_witness:
  "fst (plainIndex (tapeBlocks [[(exampleDir ''/'', 0, [])], [(exampleDir ''/a'', 0, [])]]) 0 0 True 0
      (NewMetadataPersister, ())) = Ok ()"
  using index_visits_every_entry [of examplePipes
      "[[(exampleDir ''/'', 0, [])], [(exampleDir ''/a'', 0, [])]]" sqliteMetadata True
      "\<lambda>h i. Ok h" "\<lambda>h r. Ok h" None "(NewMetadataPersister, ())"]
  by (simp add: indexHeader_dir tapeWf_def entryWf_def Upsert_new purge_new onMeta_def
      flip: exampleRow_def del: tapeBlocks.simps)

theorem incremental_index_is_full_index_witness:
  "plainIndex (tapeBlocks [[(exampleDir ''/'', 0, [])], [(exampleDir ''/a'', 0, [])]]) 0 0 False 1
      (NewMetadataPersister\<lparr>rows := [exampleRow 0 0 ''/'']\<rparr>, ())
    = plainIndex (tapeBlocks [[(exampleDir ''/'', 0, [])], [(exampleDir ''/a'', 0, [])]]) 0 0 True 0
      (NewMetadataPersister, ())"
  using incremental_index_is_full_index [of examplePipes "[]" "[]" "(exampleDir ''/'', 0, [])"
      "[(exampleDir ''/a'', 0, [])]" "\<lambda>h i. Ok h" sqliteMetadata True "\<lambda>h r. Ok h" None
      "(NewMetadataPersister, ())" "(NewMetadataPersister\<lparr>rows := [exampleRow 0 0 ''/'']\<rparr>, ())" 0 0]
    index_example
  by (simp add: tapeWf_def entryWf_def locate_0 del: tapeBlocks.simps(2))

section \<open>Index on the SQLite persister\<close>



text \<open>
  C37: indexing ends, on any medium however damaged: with a positive record size and callbacks that
  return, it comes back with success or an error.
\<close>

theorem index_returns:
  assumes "0 < RecordSize pipes" "0 \<le> rec" "0 \<le> blk"
    and "\<And>h i. returns (dec h i)" "\<And>h. returns (ver h True)"
    and "\<And>g h ev. f = Some g \<Longrightarrow> returns (fst (g h ev))"
  shows "returns (fst (Index m sqliteMetadata pipes rec blk ov init off dec ver f s))"
  using assms by (rule sqlite.Index_returns)

theorem index_returns_witness:
  "returns (fst (plainIndex [BCont, BZero, BHead (exampleDir ''/'') 3, BZero] 0 1 True 0
     (NewMetadataPersister, ())))"
  using index_returns [of examplePipes 0 1 "\<lambda>h i. Ok h" "\<lambda>h r. Ok h" None]
  by simp

text \<open>A header that creates an entry: no action, or the action CREATE, of a known version.\<close>

definition createsEntry :: "tar_header \<Rightarrow> bool" where
  "createsEntry h =
     (paxGet (tPAXRecords h) STFSRecordVersion \<in> {None, Some STFSRecordVersion1}
      \<and> paxGet (tPAXRecords h) STFSRecordAction \<in> {None, Some STFSRecordActionCreate})"

lemma indexHeader_create:
  assumes "pkUnique (fst s)" "createsEntry hdr" "tLinkname hdr = []"
    and "indexedHeader hdr c e = Ok h"
  shows "fst (indexHeader sqliteMetadata rec blk hdr c e False None s) = Ok ()
    \<and> fst (GetHeader (tName h) (fst (snd (indexHeader sqliteMetadata rec blk hdr c e False None s))))
        = Ok (TarHeaderToDBHeader rec rec blk blk h
               \<lparr>Name := fst (getSanitizedPath (tName h) (fst s))\<rparr>)"
proof -
  have h: "tPAXRecords h = tPAXRecords hdr" "tLinkname h = []"
    using assms(3,4) by (auto simp: indexedHeader_def rbind_Ok_iff split: option.splits if_splits)
  let ?h = "TarHeaderToDBHeader rec rec blk blk h"
  have a: "indexAction sqliteMetadata rec blk h False p = UpsertHeader ?h False p" for p
    using assms(2) by (auto simp: createsEntry_def indexAction_def h(1) Let_def sqliteMetadata_def)
  have "indexHeader sqliteMetadata rec blk hdr c e False None s = onMeta (UpsertHeader ?h False) s"
    by (simp add: indexHeader_def assms(4) onMeta_def a)
  moreover obtain n q where s: "getSanitizedPath (Name ?h) (fst s) = (n, q)" by force
  ultimately show ?thesis
    using UpsertHeader_Ok(1) [OF s] GetHeader_after_Upsert [OF assms(1) s] h(2) s by simp
qed



text \<open>
  Versions and actions the index does not know are errors that change nothing.
\<close>

theorem unknown_action_refused:
  assumes "indexedHeader hdr c e = Ok h"
    and "paxGet (tPAXRecords h) STFSRecordVersion = Some v \<and> v \<noteq> STFSRecordVersion1
      \<and> err = ErrSTFSVersionUnsupported
      \<or> paxGet (tPAXRecords h) STFSRecordVersion \<in> {None, Some STFSRecordVersion1}
        \<and> paxGet (tPAXRecords h) STFSRecordAction = Some a
        \<and> a \<notin> {STFSRecordActionCreate, STFSRecordActionDelete, STFSRecordActionUpdate}
        \<and> err = ErrSTFSActionUnsupported"
  shows "indexHeader mp rec blk hdr c e init None s = (Err err, s)"
  using assms by (cases s) (auto simp: indexHeader_def indexAction_def onMeta_def)

theorem unknown_action_refused_witness:
  "indexHeader sqliteMetadata 0 0 (exampleDir ''/a''\<lparr>tPAXRecords := Some [(STFSRecordVersion, ''2'')]\<rparr>)
     NoneKey NoneKey False None (NewMetadataPersister, ())
     = (Err ErrSTFSVersionUnsupported, (NewMetadataPersister, ()))"
  by (rule unknown_action_refused [where v = "''2''" and a = "[]"
        and h = "exampleDir ''/a''\<lparr>tPAXRecords := Some [(STFSRecordVersion, ''2'')]\<rparr>"])
    (simp_all add: indexedHeader_def paxGet_def stfs_records IsRegularMode_def hdrMode_def
      exampleDir_def zero_tar_header_def flagModeBits_def typeModeBits_def type_defs mode_defs Perm_def)

text \<open>
  Behind more than two zero blocks an entry can be lost: where an archive is padded with four
  (as the archives of GNU tar are, to whole records), the loop reads over the header that follows
  as if it were padding, and indexes only what comes later.
\<close>

theorem entry_after_padding_lost:
  "map Name (rows (fst (snd (plainIndex
     (entryBlocks (exampleDir ''/a'') 0 [] @ [BZero, BZero, BZero, BZero]
      @ entryBlocks (exampleDir ''/b'') 0 [] @ entryBlocks (exampleDir ''/c'') 0 []
      @ entryBlocks (exampleDir ''/d'') 0 [] @ [BZero, BZero])
     0 0 True 0 (NewMetadataPersister, ()))))) = [''/a'', ''/d'']"
proof -
  let ?m = "[BHead (exampleDir ''/a'') 0, BZero, BZero, BZero, BZero, BHead (exampleDir ''/b'') 0,
    BHead (exampleDir ''/c'') 0, BHead (exampleDir ''/d'') 0, BZero, BZero]"
  have m: "entryBlocks (exampleDir ''/a'') 0 [] @ [BZero, BZero, BZero, BZero]
      @ entryBlocks (exampleDir ''/b'') 0 [] @ entryBlocks (exampleDir ''/c'') 0 []
      @ entryBlocks (exampleDir ''/d'') 0 [] @ [BZero, BZero] = ?m"
    by (simp add: entryBlocks_def dataBlocks.simps)
  let ?h = "indexEntry sqliteMetadata examplePipes True 0 (\<lambda>h i. Ok h) (\<lambda>h r. Ok h) None"
  have "nextHeader ?m 20 0 0 0 False = Ok (Some (exampleDir ''/a''), 1, 0, 0)"
    by (simp add: nextHeader_def tarNext_def)
  note a = indexLoop_body [OF this]
  have "nextHeader ?m 20 (Suc 0) r b False = Ok (None, 5, 0, 3)" for r b
    by (simp add: nextHeader_def tarNext_def resync_eq locate_def)
  then have pad: "indexLoop ?m 20 h (Suc 0) r b i False s = indexLoop ?m 20 h 7 0 3 i True s"
    for h :: "nat \<Rightarrow> int \<Rightarrow> int \<Rightarrow> tar_header \<Rightarrow> persister \<times> unit \<Rightarrow> unit res \<times> (persister \<times> unit)"
      and r b i s
    by (subst indexLoop_stop) (assumption | simp add: numeral_eq_Suc)+
  have "nextHeader ?m 20 7 r b True = Ok (Some (exampleDir ''/d''), 8, 0, 7)" for r b
    by (simp add: nextHeader_def tarNext_def resync_eq locate_def)
  note d = indexLoop_body [OF this]
  have "nextHeader ?m 20 8 r b False = Ok (None, 10, 0, 10)" for r b
    by (simp add: nextHeader_def tarNext_def resync_eq locate_def)
  note fin = indexLoop_stop [OF this]
  show ?thesis
    unfolding m
    by (simp add: Index_def seekPosition_def a pad d fin tarSkip_def blocksOf_def
        MagneticTapeBlockSize_def indexEntry_def indexHeader_dir onMeta_def purge_new Upsert_new
        flip: exampleRow_def)
qed

end
