(* ===== verification/TapeManager.thy ===== *)
theory TapeManager
  imports Drive
begin

text \<open>
  pkg/tape on a regular-file drive: opening the drive for reading and for writing, and the
  \<open>TapeManager\<close>, which hands out one handle at a time. It holds \<open>physicalLock\<close> from a successful
  or failed attempt to open the drive until \<open>Close\<close> succeeds; asking for the lock while it is
  held waits for a release that, in a sequence of calls, never comes. The interface the
  operations use is \<open>config.BackendConfig\<close>.
\<close>

section \<open>The drive (pkg/tape/read.go, write.go)\<close>

text \<open>
  The file at the path of the drive, and the error with which the operating system answers every
  attempt to open it (no permission, for example), if it does.
\<close>

record drive_file =
  dfMedium :: "medium option"
  dfFault :: "err option"

definition openFile :: "drive_file \<Rightarrow> unit res" where
  "openFile d = (case dfFault d of Some e \<Rightarrow> Err e | None \<Rightarrow> Ok ())"

definition OpenTapeReadOnly :: "drive_file \<Rightarrow> unit res" where
  "OpenTapeReadOnly d = (if dfMedium d = None then Err ErrNotExist else openFile d)"

text \<open>Without the file \<open>os.O_CREATE\<close> makes an empty one; \<open>overwrite\<close> clears its contents.\<close>

definition createIfMissing :: "drive_file \<Rightarrow> drive_file" where
  "createIfMissing d = (if dfMedium d = None then d\<lparr>dfMedium := Some []\<rparr> else d)"

definition OpenTapeWriteOnly :: "bool \<Rightarrow> drive_file \<Rightarrow> unit res \<times> drive_file" where
  "OpenTapeWriteOnly overwrite d =
     andThen (if overwrite
              then andThen (openFile d, d) (\<lambda>_ d. (Ok (), d\<lparr>dfMedium := Some []\<rparr>))
              else (Ok (), d))
       (\<lambda>_ d. andThen (openFile d, d) (\<lambda>_ d. (Ok (), createIfMissing d)))"

section \<open>The manager (pkg/tape/manager.go)\<close>

text \<open>
  \<open>m.closer\<close> is the \<open>Close\<close> method of the file opened last. The reader is the last file opened for
  reading, nil before the first; whether it is open is what \<open>m.reader.Seek\<close> tells.
\<close>

datatype tape_closer = WriterClose | ReaderClose

record tape_manager =
  tmOverwrite :: bool
  tmOverwrote :: bool
  tmLocked :: bool
  tmReader :: "bool option"
  tmWriterOpen :: bool
  tmCloser :: "tape_closer option"
  tmDrive :: drive_file

definition NewTapeManager :: "drive_file \<Rightarrow> bool \<Rightarrow> tape_manager" where
  "NewTapeManager d overwrite =
     \<lparr>tmOverwrite = overwrite, tmOverwrote = False, tmLocked = False, tmReader = None,
      tmWriterOpen = False, tmCloser = None, tmDrive = d\<rparr>"

definition lockPhysical :: "tape_manager \<Rightarrow> unit res \<times> tape_manager" where
  "lockPhysical m = (if tmLocked m then (Hang, m) else (Ok (), m\<lparr>tmLocked := True\<rparr>))"

definition GetWriter :: "tape_manager \<Rightarrow> unit res \<times> tape_manager" where
  "GetWriter m =
     andThen (lockPhysical m)
       (\<lambda>_ m. let overwrite = (if tmOverwrote m then False else tmOverwrite m);
                   m = m\<lparr>tmOverwrote := True\<rparr>;
                   (r, d) = OpenTapeWriteOnly overwrite (tmDrive m)
               in andThen (r, m\<lparr>tmDrive := d\<rparr>)
                    (\<lambda>_ m. (Ok (), m\<lparr>tmCloser := Some WriterClose, tmWriterOpen := True\<rparr>)))"

definition openOrReuseReader :: "tape_manager \<Rightarrow> unit res \<times> tape_manager" where
  "openOrReuseReader m =
     (let reopen = (tmReader m \<noteq> Some True)
      in if reopen
         then andThen (lockPhysical m)
                (\<lambda>_ m. andThen (OpenTapeReadOnly (tmDrive m), m)
                   (\<lambda>_ m. (Ok (), m\<lparr>tmReader := Some True, tmCloser := Some ReaderClose\<rparr>)))
         else (Ok (), m))"

definition GetReader :: "tape_manager \<Rightarrow> unit res \<times> tape_manager" where
  "GetReader m = andThen (openOrReuseReader m) (\<lambda>_ m. (Ok (), m))"

text \<open>Closing a file a second time is an error; unlocking a free mutex is fatal.\<close>

definition runCloser :: "tape_manager \<Rightarrow> unit res \<times> tape_manager" where
  "runCloser m =
     (case tmCloser m of
        None \<Rightarrow> (Ok (), m)
      | Some WriterClose \<Rightarrow>
          if tmWriterOpen m then (Ok (), m\<lparr>tmWriterOpen := False\<rparr>) else (Err ErrClosed, m)
      | Some ReaderClose \<Rightarrow>
          if tmReader m = Some True then (Ok (), m\<lparr>tmReader := Some False\<rparr>)
          else (Err ErrClosed, m))"

definition CloseTape :: "tape_manager \<Rightarrow> unit res \<times> tape_manager" where
  "CloseTape m =
     andThen (runCloser m)
       (\<lambda>_ m. if tmLocked m then (Ok (), m\<lparr>tmLocked := False\<rparr>) else (Panic, m))"

text \<open>Writing through the handle: the file is open for appending.\<close>

definition appendBlocks :: "medium \<Rightarrow> tape_manager \<Rightarrow> tape_manager" where
  "appendBlocks t m =
     m\<lparr>tmDrive := (tmDrive m)\<lparr>dfMedium := map_option (\<lambda>b. b @ t) (dfMedium (tmDrive m))\<rparr>\<rparr>"

section \<open>The interface (config.BackendConfig)\<close>

text \<open>The four functions, and what the handles they return do to the drive.\<close>

record 'b backend_config =
  bcGetWriter :: "'b \<Rightarrow> unit res \<times> 'b"
  bcCloseWriter :: "'b \<Rightarrow> unit res \<times> 'b"
  bcGetReader :: "'b \<Rightarrow> unit res \<times> 'b"
  bcCloseReader :: "'b \<Rightarrow> unit res \<times> 'b"
  bcAppend :: "medium \<Rightarrow> 'b \<Rightarrow> 'b"
  bcMedium :: "'b \<Rightarrow> medium option"

definition tapeBackend :: "tape_manager backend_config" where
  "tapeBackend =
     \<lparr>bcGetWriter = GetWriter, bcCloseWriter = CloseTape, bcGetReader = GetReader,
      bcCloseReader = CloseTape, bcAppend = appendBlocks, bcMedium = (\<lambda>m. dfMedium (tmDrive m))\<rparr>"

lemma tapeBackend_simps [simp]:
  "bcGetWriter tapeBackend = GetWriter" "bcCloseWriter tapeBackend = CloseTape"
  "bcGetReader tapeBackend = GetReader" "bcCloseReader tapeBackend = CloseTape"
  "bcAppend tapeBackend = appendBlocks" "bcMedium tapeBackend m = dfMedium (tmDrive m)"
  by (simp_all add: tapeBackend_def)

text \<open>
  What a client relies on: an idle backend grants a writer; closing it after any output leaves
  the backend idle with the output behind what the writer started from (what was on the drive,
  or nothing where the drive is overwritten, which happens to the first writer only). An idle
  backend with a drive grants a reader, and reading changes nothing.
\<close>

locale drive_backend =
  fixes bc :: "'b backend_config"
    and idle :: "'b \<Rightarrow> bool"
    and starts :: "'b \<Rightarrow> medium"
  assumes writer_session:
      "idle b \<Longrightarrow> bcGetWriter bc b = (Ok (), snd (bcGetWriter bc b))"
      "idle b \<Longrightarrow> fst (bcCloseWriter bc (bcAppend bc t (snd (bcGetWriter bc b)))) = Ok ()"
      "idle b \<Longrightarrow> idle (snd (bcCloseWriter bc (bcAppend bc t (snd (bcGetWriter bc b)))))"
      "idle b \<Longrightarrow> bcMedium bc (snd (bcCloseWriter bc (bcAppend bc t (snd (bcGetWriter bc b)))))
         = Some (starts b @ t)"
      "idle b \<Longrightarrow> bcMedium bc (snd (bcCloseWriter bc (bcAppend bc t (snd (bcGetWriter bc b))))) = Some m
         \<Longrightarrow> starts (snd (bcCloseWriter bc (bcAppend bc t (snd (bcGetWriter bc b))))) = m"
    and reader_session:
      "idle b \<Longrightarrow> bcMedium bc b = Some m \<Longrightarrow> bcGetReader bc b = (Ok (), snd (bcGetReader bc b))"
      "idle b \<Longrightarrow> bcMedium bc b = Some m \<Longrightarrow> bcMedium bc (snd (bcGetReader bc b)) = Some m"
      "idle b \<Longrightarrow> bcMedium bc b = Some m \<Longrightarrow> fst (bcCloseReader bc (snd (bcGetReader bc b))) = Ok ()"
      "idle b \<Longrightarrow> bcMedium bc b = Some m \<Longrightarrow> idle (snd (bcCloseReader bc (snd (bcGetReader bc b))))"
      "idle b \<Longrightarrow> bcMedium bc b = Some m \<Longrightarrow>
         bcMedium bc (snd (bcCloseReader bc (snd (bcGetReader bc b)))) = Some m"
      "idle b \<Longrightarrow> bcMedium bc b = Some m \<Longrightarrow>
         starts (snd (bcCloseReader bc (snd (bcGetReader bc b)))) = starts b"
begin

lemmas session = writer_session reader_session

end

definition tmIdle :: "tape_manager \<Rightarrow> bool" where
  "tmIdle m = (\<not> tmLocked m \<and> \<not> tmWriterOpen m \<and> tmReader m \<noteq> Some True
     \<and> dfFault (tmDrive m) = None)"

definition tmStarts :: "tape_manager \<Rightarrow> medium" where
  "tmStarts m =
     (if tmOverwrite m \<and> \<not> tmOverwrote m then []
      else case dfMedium (tmDrive m) of None \<Rightarrow> [] | Some t \<Rightarrow> t)"

lemmas manager_defs =
  lockPhysical_def GetWriter_def openOrReuseReader_def GetReader_def runCloser_def CloseTape_def
  appendBlocks_def openFile_def OpenTapeReadOnly_def createIfMissing_def OpenTapeWriteOnly_def

lemma GetWriter_idle:
  "tmIdle m \<Longrightarrow> GetWriter m = (Ok (), m\<lparr>tmOverwrote := True, tmLocked := True,
     tmCloser := Some WriterClose, tmWriterOpen := True,
     tmDrive := (tmDrive m)\<lparr>dfMedium := Some (tmStarts m)\<rparr>\<rparr>)"
  by (auto simp: manager_defs tmIdle_def tmStarts_def split: option.split)

lemma GetReader_idle:
  "tmIdle m \<Longrightarrow> dfMedium (tmDrive m) = Some t \<Longrightarrow>
   GetReader m = (Ok (), m\<lparr>tmLocked := True, tmCloser := Some ReaderClose, tmReader := Some True\<rparr>)"
  by (auto simp: manager_defs tmIdle_def)

interpretation tm: drive_backend tapeBackend tmIdle tmStarts
  by unfold_locales
    (auto simp: GetWriter_idle GetReader_idle CloseTape_def runCloser_def
      appendBlocks_def tmStarts_def, auto simp: tmIdle_def)

section \<open>Sequences of calls\<close>

text \<open>
  A call on the manager that returns, output through an open writer, and the environment
  touching the drive (removing it, taking its permissions away, giving them back).
\<close>

inductive tm_step :: "tape_manager \<Rightarrow> tape_manager \<Rightarrow> bool" where
  writer: "GetWriter m = (r, m') \<Longrightarrow> r \<noteq> Hang \<Longrightarrow> tm_step m m'"
| reader: "GetReader m = (r, m') \<Longrightarrow> r \<noteq> Hang \<Longrightarrow> tm_step m m'"
| close: "CloseTape m = (r, m') \<Longrightarrow> r \<noteq> Panic \<Longrightarrow> tm_step m m'"
| wrote: "tmWriterOpen m \<Longrightarrow> tm_step m (appendBlocks t m)"
| drive: "tm_step m (m\<lparr>tmDrive := d\<rparr>)"

inductive tm_reach :: "tape_manager \<Rightarrow> tape_manager \<Rightarrow> bool" where
  start: "tm_reach m m"
| more: "tm_reach m m' \<Longrightarrow> tm_step m' m'' \<Longrightarrow> tm_reach m m''"

text \<open>Calls that are granted, and closings that succeed.\<close>

inductive tm_granted :: "tape_manager \<Rightarrow> bool" where
  new: "dfFault d = None \<Longrightarrow> tm_granted (NewTapeManager d overwrite)"
| writer: "tm_granted m \<Longrightarrow> GetWriter m = (Ok (), m') \<Longrightarrow> tm_granted m'"
| reader: "tm_granted m \<Longrightarrow> GetReader m = (Ok (), m') \<Longrightarrow> tm_granted m'"
| close: "tm_granted m \<Longrightarrow> CloseTape m = (Ok (), m') \<Longrightarrow> tm_granted m'"
| wrote: "tm_granted m \<Longrightarrow> tmWriterOpen m \<Longrightarrow> tm_granted (appendBlocks t m)"

text \<open>What is open is locked, and is what \<open>Close\<close> closes.\<close>

definition tmInv :: "tape_manager \<Rightarrow> bool" where
  "tmInv m =
     ((tmWriterOpen m \<longrightarrow> tmLocked m \<and> tmCloser m = Some WriterClose)
      \<and> (tmReader m = Some True \<longrightarrow> tmLocked m \<and> tmCloser m = Some ReaderClose))"

definition tmOpen :: "tape_manager \<Rightarrow> bool" where
  "tmOpen m = (tmWriterOpen m \<or> tmReader m = Some True)"

lemma OpenTapeWriteOnly_fault:
  "OpenTapeWriteOnly ov d = (r, d') \<Longrightarrow> dfFault d' = dfFault d \<and> (r = Ok () \<or> (\<exists>e. r = Err e))"
  by (auto simp: manager_defs split: if_splits option.splits)

lemma GetWriter_free:
  "\<not> tmLocked m \<Longrightarrow> \<exists>d e. dfFault d = dfFault (tmDrive m) \<and>
     (GetWriter m = (Ok (), m\<lparr>tmLocked := True, tmOverwrote := True, tmDrive := d,
        tmCloser := Some WriterClose, tmWriterOpen := True\<rparr>)
      \<or> GetWriter m = (Err e, m\<lparr>tmLocked := True, tmOverwrote := True, tmDrive := d\<rparr>))"
proof -
  assume free: "\<not> tmLocked m"
  obtain r d where o: "OpenTapeWriteOnly (if tmOverwrote m then False else tmOverwrite m) (tmDrive m)
      = (r, d)" by force
  from OpenTapeWriteOnly_fault [OF this] show ?thesis
    using free o by (auto simp: GetWriter_def lockPhysical_def Let_def)
qed

lemma GetWriter_locked: "tmLocked m \<Longrightarrow> GetWriter m = (Hang, m)"
  by (simp add: GetWriter_def lockPhysical_def)

lemma tmInv_new: "tmInv (NewTapeManager d ov)"
  by (simp add: tmInv_def NewTapeManager_def)

lemma tmInv_step: "tm_step m m' \<Longrightarrow> tmInv m \<Longrightarrow> tmInv m'"
proof (induction rule: tm_step.induct)
  case (writer m r m')
  then show ?case
    using GetWriter_free [of m] GetWriter_locked [of m] by (cases "tmLocked m") (auto simp: tmInv_def)
next
  case (reader m r m')
  then show ?case
    by (auto simp: GetReader_def openOrReuseReader_def lockPhysical_def OpenTapeReadOnly_def
        openFile_def tmInv_def split: if_splits option.splits)
next
  case (close m r m')
  then show ?case
    by (auto simp: CloseTape_def runCloser_def tmInv_def split: if_splits option.splits
        tape_closer.splits)
qed (auto simp: tmInv_def appendBlocks_def)

lemma tmInv_reach: "tm_reach m m' \<Longrightarrow> tmInv m \<Longrightarrow> tmInv m'"
  by (induction rule: tm_reach.induct) (simp_all add: tmInv_step)

text \<open>
  C25: the drive is never open for writing and for reading at once: whatever calls are made on a new
  tape manager, in whatever order, with whatever failures of the drive, at most one of its two
  files is open, and only while the physical lock is held.
\<close>

theorem tape_manager_exclusive:
  assumes "tm_reach (NewTapeManager d overwrite) m"
  shows "\<not> (tmWriterOpen m \<and> tmReader m = Some True) \<and> (tmOpen m \<longrightarrow> tmLocked m)"
  using tmInv_reach [OF assms tmInv_new] by (auto simp: tmInv_def tmOpen_def)

definition exampleManager :: tape_manager where
  "exampleManager = NewTapeManager \<lparr>dfMedium = None, dfFault = None\<rparr> True"

definition exampleWriting :: tape_manager where
  "exampleWriting = snd (GetWriter exampleManager)"

lemma exampleWriting_step: "GetWriter exampleManager = (Ok (), exampleWriting)"
  using GetWriter_idle [of exampleManager]
  by (simp add: exampleWriting_def exampleManager_def NewTapeManager_def tmIdle_def)

theorem tape_manager_exclusive_witness:
  "tmWriterOpen exampleWriting \<and> tmReader exampleWriting \<noteq> Some True \<and> tmLocked exampleWriting"
proof -
  have "tmWriterOpen exampleWriting"
    using GetWriter_idle [of exampleManager]
    by (simp add: exampleWriting_def exampleManager_def NewTapeManager_def tmIdle_def)
  then show ?thesis
    using tape_manager_exclusive [OF tm_reach.more [OF tm_reach.start
        tm_step.writer [OF exampleWriting_step [unfolded exampleManager_def]]]]
    by (simp add: tmOpen_def)
qed

lemma granted_inv:
  "tm_granted m \<Longrightarrow> tmInv m \<and> dfFault (tmDrive m) = None \<and> (tmLocked m \<longrightarrow> tmOpen m)"
proof (induction rule: tm_granted.induct)
  case (new d overwrite)
  then show ?case by (simp add: tmInv_new) (simp add: NewTapeManager_def)
next
  case (writer m m')
  moreover from writer(2) have "tmInv m'"
    using writer(3) tm_step.writer [of m "Ok ()" m'] tmInv_step by simp
  ultimately show ?case
    using GetWriter_free [of m] GetWriter_locked [of m] by (cases "tmLocked m") (auto simp: tmOpen_def)
next
  case (reader m m')
  then show ?case
    by (auto simp: GetReader_def openOrReuseReader_def lockPhysical_def OpenTapeReadOnly_def
        openFile_def tmInv_def tmOpen_def split: if_splits option.splits)
next
  case (close m m')
  then show ?case
    by (auto simp: CloseTape_def runCloser_def tmInv_def tmOpen_def split: if_splits option.splits
        tape_closer.splits)
qed (auto simp: tmInv_def tmOpen_def appendBlocks_def)

text \<open>
  C26: clients that close what they were given never block each other for good: after any sequence
  of granted calls the manager grants a writer at once, or does so after the one \<open>Close\<close> of the
  current holder, which succeeds.
\<close>

theorem tape_manager_grants:
  assumes "tm_granted m"
  shows "\<exists>m'. (m' = m \<or> CloseTape m = (Ok (), m')) \<and> fst (GetWriter m') = Ok ()"
proof (cases "tmLocked m")
  case False
  then have "tmIdle m" using granted_inv [OF assms] by (auto simp: tmIdle_def tmInv_def)
  then show ?thesis using GetWriter_idle [of m] by auto
next
  case True
  then obtain m' where m': "CloseTape m = (Ok (), m')" "tmIdle m'"
    using granted_inv [OF assms]
    by (auto simp: tmOpen_def tmInv_def CloseTape_def runCloser_def tmIdle_def)
  then show ?thesis using GetWriter_idle [of m'] by auto
qed

theorem tape_manager_grants_witness:
  "\<exists>m'. (m' = exampleWriting \<or> CloseTape exampleWriting = (Ok (), m')) \<and> fst (GetWriter m') = Ok ()"
  using tape_manager_grants [OF tm_granted.writer [OF tm_granted.new
      exampleWriting_step [unfolded exampleManager_def]]]
  by simp

text \<open>The states of a manager whose lock was taken for a drive that could not be opened.\<close>

definition tmStuck :: "tape_manager \<Rightarrow> bool" where
  "tmStuck m = (tmLocked m \<and> \<not> tmOpen m \<and> tmCloser m \<noteq> None)"

lemma stuck_hangs:
  "tmStuck m \<Longrightarrow> GetWriter m = (Hang, m) \<and> GetReader m = (Hang, m) \<and> CloseTape m = (Err ErrClosed, m)"
  by (auto simp: tmStuck_def tmOpen_def manager_defs split: option.splits tape_closer.splits)

lemma stuck_step: "tm_step m m' \<Longrightarrow> tmStuck m \<Longrightarrow> tmStuck m'"
proof (induction rule: tm_step.induct)
  case (drive m d)
  then show ?case by (simp add: tmStuck_def tmOpen_def)
qed (use stuck_hangs in \<open>auto simp: tmStuck_def tmOpen_def\<close>)

lemma stuck_reach: "tm_reach m m' \<Longrightarrow> tmStuck m \<Longrightarrow> tmStuck m'"
  by (induction rule: tm_reach.induct) (simp_all add: stuck_step)

text \<open>
  C27: a drive that once could not be opened blocks the manager for good: when a manager that was
  used before asks for a reader while the drive is missing or may not be opened, the error is
  returned with the lock held, and from then on, even when the drive is back, no sequence of
  calls ever makes it grant a writer or a reader again.
\<close>

theorem failed_open_blocks_forever:
  assumes "\<not> tmLocked m" "\<not> tmOpen m" "tmCloser m \<noteq> None"
    and "dfMedium (tmDrive m) = None \<or> dfFault (tmDrive m) \<noteq> None"
  shows "\<exists>e m1. GetReader m = (Err e, m1)
    \<and> (\<forall>m2. tm_reach m1 m2 \<longrightarrow> GetWriter m2 = (Hang, m2) \<and> GetReader m2 = (Hang, m2))"
proof -
  have "\<exists>e. GetReader m = (Err e, m\<lparr>tmLocked := True\<rparr>)"
    using assms by (auto simp: manager_defs tmOpen_def split: option.splits)
  moreover have "tmStuck (m\<lparr>tmLocked := True\<rparr>)" using assms by (simp add: tmStuck_def tmOpen_def)
  ultimately show ?thesis using stuck_reach stuck_hangs by blast
qed

theorem failed_open_blocks_forever_witness:
  "\<exists>e m1. GetReader ((NewTapeManager \<lparr>dfMedium = None, dfFault = None\<rparr> False)
        \<lparr>tmCloser := Some WriterClose\<rparr>) = (Err e, m1)
    \<and> (\<forall>m2. tm_reach m1 m2 \<longrightarrow> GetWriter m2 = (Hang, m2) \<and> GetReader m2 = (Hang, m2))"
  by (rule failed_open_blocks_forever) (simp_all add: NewTapeManager_def tmOpen_def)

end
