(* ===== verification/Operations.thy ===== *)
theory Operations
  imports Recovery TapeManager
begin

text \<open>
  pkg/operations on a regular-file drive. Every operation that writes appends one archive to the
  drive and then indexes what it appended, starting at the last entry the index knows:
  \<open>archive\<close>, \<open>Initialize\<close>, \<open>Update\<close>, \<open>Delete\<close> and \<open>Move\<close>; \<open>Restore\<close> reads. The backend and the metadata
  persister are parameters (\<open>backend_config\<close>, \<open>metadata_persister\<close>); an operation passes on their
  states and that of the event callback.

  \<open>diskOperationLock\<close> is taken on entry and released on every return, so in a sequence of calls
  it is always free and has no state here. The lock of the backend is another matter: it is part
  of the backend's state and stays as an early return leaves it.
\<close>

section \<open>State and configuration (operations.go)\<close>

record 'e operations =
  opPipes :: pipe_config
  opCrypto :: crypto_config
  opOnHeader :: "(header_event \<Rightarrow> 'e \<Rightarrow> unit res \<times> 'e) option"

record ('b, 'p, 'e) ops_state =
  osBackend :: 'b
  osMetadata :: 'p
  osEvents :: 'e

definition onBackend :: "('b \<Rightarrow> 'a res \<times> 'b) \<Rightarrow> ('b, 'p, 'e) ops_state \<Rightarrow> 'a res \<times> ('b, 'p, 'e) ops_state" where
  "onBackend f s = (let (r, b) = f (osBackend s) in (r, s\<lparr>osBackend := b\<rparr>))"

definition onMetadata :: "('p \<Rightarrow> 'a res \<times> 'p) \<Rightarrow> ('b, 'p, 'e) ops_state \<Rightarrow> 'a res \<times> ('b, 'p, 'e) ops_state" where
  "onMetadata f s = (let (r, p) = f (osMetadata s) in (r, s\<lparr>osMetadata := p\<rparr>))"

definition notify ::
  "'e operations \<Rightarrow> string \<Rightarrow> bool \<Rightarrow> header \<Rightarrow> 'e \<Rightarrow> unit res \<times> 'e" where
  "notify op type indexed hdr ev =
     (case opOnHeader op of
        None \<Rightarrow> (Ok (), ev)
      | Some f \<Rightarrow> f \<lparr>EventType = type, Indexed = indexed, EventHeader = hdr\<rparr> ev)"

text \<open>The callback handed to \<open>Index\<close>, which does not look whether there is one to call.\<close>

definition notifyIndexed :: "'e operations \<Rightarrow> string \<Rightarrow> header \<Rightarrow> 'e \<Rightarrow> unit res \<times> 'e" where
  "notifyIndexed op type hdr ev =
     (if opOnHeader op = None then (Panic, ev) else notify op type True hdr ev)"

text \<open>
  A file to archive (\<open>config.FileConfig\<close>). What \<open>GetFile\<close> opens is read twice: from where it
  stands, to size and sign it, and from its start, to write it; for most sources the two agree.
  Opening and closing it may change the state of the environment.
\<close>

record 'e file_config =
  fcInfo :: file_info
  fcPath :: string
  fcLink :: string
  fcGetFile :: "'e \<Rightarrow> (bytes \<times> bytes) res \<times> 'e"
  fcClose :: "'e \<Rightarrow> unit res \<times> 'e"

text \<open>A source without contents: \<open>GetFile\<close> is nil and never called.\<close>

definition headerSource :: "tar_header \<Rightarrow> string \<Rightarrow> 'e file_config" where
  "headerSource hdr name =
     \<lparr>fcInfo = hdrFileInfo hdr, fcPath = ToSlash name, fcLink = ToSlash (tLinkname hdr),
      fcGetFile = (\<lambda>ev. (Panic, ev)), fcClose = (\<lambda>ev. (Panic, ev))\<rparr>"

section \<open>The writing session\<close>

text \<open>The local variables of an operation that writes: the tar writer, with the blocks written so
  far, the headers to index, and whether anything was written.\<close>

record 'e writing =
  wTar :: tar_writer
  wHdrs :: "tar_header list"
  wDirty :: bool
  wEvents :: 'e

definition onTar :: "(tar_writer \<Rightarrow> 'a res \<times> tar_writer) \<Rightarrow> 'e writing \<Rightarrow> 'a res \<times> 'e writing" where
  "onTar f w = (let (r, t) = f (wTar w) in (r, w\<lparr>wTar := t\<rparr>))"

definition onWEvents :: "('e \<Rightarrow> 'a res \<times> 'e) \<Rightarrow> 'e writing \<Rightarrow> 'a res \<times> 'e writing" where
  "onWEvents f w = (let (r, ev) = f (wEvents w) in (r, w\<lparr>wEvents := ev\<rparr>))"

text \<open>The event for a header that is about to be written.\<close>

definition announce :: "'e operations \<Rightarrow> string \<Rightarrow> tar_header \<Rightarrow> 'e writing \<Rightarrow> unit res \<times> 'e writing" where
  "announce op type hdr w =
     onWEvents (notify op type False
       (DBHeaderToConfigHeader (TarHeaderToDBHeader (- 1) (- 1) (- 1) (- 1) hdr))) w"

text \<open>Signing, encrypting and writing a header.\<close>

definition writeHeader ::
  "external \<Rightarrow> 'e operations \<Rightarrow> tar_header \<Rightarrow> 'e writing \<Rightarrow> unit res \<times> 'e writing" where
  "writeHeader x op hdr w =
     andThen (SignHeader x hdr True (Signature (opPipes op)) (Identity (opCrypto op)), w)
       (\<lambda>hdr w. andThen (EncryptHeader x hdr (Encryption (opPipes op)) (Recipient (opCrypto op)), w)
          (\<lambda>hdr w. andThen (onTar (twWriteHeader x hdr) w)
             (\<lambda>_ w. (Ok (), w\<lparr>wDirty := True\<rparr>))))"

text \<open>The trailer of the archive, if anything was written (\<open>cleanup\<close> of \<open>tarext.NewTapeWriter\<close>).\<close>

definition cleanupTape :: "'e writing \<Rightarrow> unit res \<times> 'e writing" where
  "cleanupTape w = (if wDirty w then onTar twClose w else (Ok (), w))"

text \<open>The session on the backend's writer: whatever the outcome, what was written is on the drive.\<close>

definition writeSession ::
  "'b backend_config \<Rightarrow> ('e writing \<Rightarrow> unit res \<times> 'e writing) \<Rightarrow> ('b, 'p, 'e) ops_state
   \<Rightarrow> tar_header list res \<times> ('b, 'p, 'e) ops_state" where
  "writeSession bc f s =
     (let (r, w) = andThen (f \<lparr>wTar = \<lparr>twMedium = [], twOwed = 0\<rparr>, wHdrs = [], wDirty = False,
                              wEvents = osEvents s\<rparr>)
                     (\<lambda>_. cleanupTape)
      in (rbind r (\<lambda>_. Ok (wHdrs w)),
          s\<lparr>osBackend := bcAppend bc (twMedium (wTar w)) (osBackend s), osEvents := wEvents w\<rparr>))"

section \<open>Indexing what was appended\<close>

text \<open>The header to index instead of one read from the drive: the plain one that was written.\<close>

definition pairedHeader :: "tar_header list \<Rightarrow> tar_header \<Rightarrow> nat \<Rightarrow> tar_header res" where
  "pairedHeader hdrs hdr i = (if length hdrs \<le> i then Err ErrTarHeaderMissing else Ok (hdrs ! i))"

text \<open>A deferred \<open>CloseReader\<close>: it runs on return and on panic, and its error is dropped.\<close>

definition deferCloseReader ::
  "'b backend_config \<Rightarrow> 'a res \<times> ('b, 'p, 'e) ops_state \<Rightarrow> 'a res \<times> ('b, 'p, 'e) ops_state" where
  "deferCloseReader bc p =
     (case p of (r, s) \<Rightarrow>
        if r = Hang then (Hang, s)
        else case onBackend (bcCloseReader bc) s of
               (Panic, s) \<Rightarrow> (Panic, s) | (Hang, s) \<Rightarrow> (Hang, s) | (_, s) \<Rightarrow> (r, s))"

definition indexDrive ::
  "'b backend_config \<Rightarrow> 'p metadata_persister \<Rightarrow> 'e operations \<Rightarrow> string \<Rightarrow> tar_header list
   \<Rightarrow> int \<Rightarrow> int \<Rightarrow> bool \<Rightarrow> bool \<Rightarrow> nat \<Rightarrow> ('b, 'p, 'e) ops_state \<Rightarrow> unit res \<times> ('b, 'p, 'e) ops_state" where
  "indexDrive bc mp op type hdrs rec blk overwrite initializing offset s =
     (case bcMedium bc (osBackend s) of
        None \<Rightarrow> (Err ErrClosed, s)
      | Some m \<Rightarrow>
          (let (r, (p, ev)) = Index m mp (opPipes op) rec blk overwrite initializing offset
                 (pairedHeader hdrs) (\<lambda>hdr _. Ok hdr) (Some (notifyIndexed op type))
                 (osMetadata s, osEvents s)
           in (r, s\<lparr>osMetadata := p, osEvents := ev\<rparr>)))"

definition indexAppended ::
  "'b backend_config \<Rightarrow> 'p metadata_persister \<Rightarrow> 'e operations \<Rightarrow> string \<Rightarrow> tar_header list
   \<Rightarrow> int \<Rightarrow> int \<Rightarrow> bool \<Rightarrow> bool \<Rightarrow> ('b, 'p, 'e) ops_state \<Rightarrow> unit res \<times> ('b, 'p, 'e) ops_state" where
  "indexAppended bc mp op type hdrs rec blk overwrite initializing s =
     (let index = (if overwrite then 0 else 1)
      in andThen (onBackend (bcCloseWriter bc) s)
           (\<lambda>_ s. andThen (onBackend (bcGetReader bc) s)
              (\<lambda>_ s. deferCloseReader bc
                 (indexDrive bc mp op type hdrs rec blk overwrite initializing index s))))"

section \<open>Archive\<close>

text \<open>
  The first pass over a file: its size and signature become part of its header, and the suffixes
  of the pipes part of its name.
\<close>

definition sizedHeader ::
  "external \<Rightarrow> 'e operations \<Rightarrow> encryptor \<Rightarrow> compressor \<Rightarrow> bytes \<Rightarrow> tar_header \<Rightarrow> tar_header res" where
  "sizedHeader x op encryptor compressor contents hdr =
     rbind (Sign x True (Signature (opPipes op)) (Identity (opCrypto op))) (\<lambda>signer.
     rbind (runCompressor x compressor contents) (\<lambda>compressed.
     rbind (runEncryptor x encryptor rndSizing compressed) (\<lambda>encrypted.
     rbind (runSigner x signer rndSizing contents) (\<lambda>signature.
     rbind (AddSuffix (tName hdr) (Compression (opPipes op)) (Encryption (opPipes op))) (\<lambda>name.
       let pax = smInsert STFSRecordUncompressedSize (Itoa (tSize hdr)) (paxOrEmpty (tPAXRecords hdr));
           pax = (if signature \<noteq> [] then smInsert STFSRecordSignature signature pax else pax)
       in Ok (hdr\<lparr>tPAXRecords := Some pax, tSize := int (length encrypted), tName := name\<rparr>))))))"

text \<open>The two pipes of a pass, set up in the order of the code.\<close>

definition openPipes ::
  "external \<Rightarrow> 'e operations \<Rightarrow> string \<Rightarrow> (encryptor \<times> compressor) res" where
  "openPipes x op level =
     rbind (Encrypt x (Encryption (opPipes op)) (Recipient (opCrypto op))) (\<lambda>encryptor.
     rbind (Compress (Compression (opPipes op)) level True (RecordSize (opPipes op))) (\<lambda>compressor.
       Ok (encryptor, compressor)))"

text \<open>The second component of the outcome is what the second pass will read.\<close>

definition sizeFile ::
  "external \<Rightarrow> 'e operations \<Rightarrow> string \<Rightarrow> 'e file_config \<Rightarrow> tar_header \<Rightarrow> 'e writing
   \<Rightarrow> (tar_header \<times> bytes) res \<times> 'e writing" where
  "sizeFile x op level file hdr w =
     andThen (openPipes x op level, w)
       (\<lambda>(encryptor, compressor) w. andThen (onWEvents (fcGetFile file) w)
       (\<lambda>(fromHere, fromStart) w. andThen (sizedHeader x op encryptor compressor fromHere hdr, w)
       (\<lambda>hdr w. (Ok (hdr, fromStart), w))))"

text \<open>The second pass: compressing, encrypting and writing the contents, and closing the file.\<close>

definition writeContents ::
  "external \<Rightarrow> 'e operations \<Rightarrow> string \<Rightarrow> 'e file_config \<Rightarrow> bytes \<Rightarrow> 'e writing
   \<Rightarrow> unit res \<times> 'e writing" where
  "writeContents x op level file contents w =
     andThen (rbind (openPipes x op level)
                (\<lambda>(encryptor, compressor). rbind (runCompressor x compressor contents)
                   (runEncryptor x encryptor rndWriting)), w)
       (\<lambda>encrypted w. andThen (onTar (twWrite encrypted) w) (\<lambda>_ w. onWEvents (fcClose file) w))"

definition archiveFile ::
  "external \<Rightarrow> 'e operations \<Rightarrow> string \<Rightarrow> 'e file_config \<Rightarrow> 'e writing \<Rightarrow> unit res \<times> 'e writing" where
  "archiveFile x op level file w =
     (if FileInfoHeader (fcInfo file) (fcLink file) = Err ErrSocketsNotSupported then (Ok (), w)
      else andThen (FileInfoHeader (fcInfo file) (fcLink file), w)
        (\<lambda>hdr w.
           let hdr = hdr\<lparr>tName := fcPath file, tFormat := FormatPAX\<rparr>
           in andThen
                (if IsRegularMode (fiMode (fcInfo file)) \<and> fiSize (fcInfo file) > 0
                 then andThen (sizeFile x op level file hdr w) (\<lambda>(hdr, f) w. (Ok (hdr, Some f), w))
                 else (Ok (hdr, None), w))
           (\<lambda>(hdr, f) w. andThen (announce op HeaderEventTypeArchive hdr w)
           (\<lambda>_ w. andThen (writeHeader x op hdr (w\<lparr>wHdrs := wHdrs w @ [hdr]\<rparr>))
           (\<lambda>_ w. case f of None \<Rightarrow> (Ok (), w)
                          | Some contents \<Rightarrow> writeContents x op level file contents w)))))"

text \<open>The loop over the sources: the calls of \<open>getSrc\<close> run the elements of the list, which may change
  the state of the environment, and then answer with the end of file.\<close>

type_synonym 'e file_source = "'e \<Rightarrow> 'e file_config res \<times> 'e"

definition justFile :: "'e file_config \<Rightarrow> 'e file_source" where
  "justFile file ev = (Ok file, ev)"

fun forSources ::
  "('e file_config \<Rightarrow> 'e writing \<Rightarrow> unit res \<times> 'e writing) \<Rightarrow> 'e file_source list \<Rightarrow> 'e writing
   \<Rightarrow> unit res \<times> 'e writing" where
  "forSources f [] w = (Ok (), w)"
| "forSources f (src # srcs) w =
     (let (r, w) = onWEvents src w
      in if r = Err EOF then (Ok (), w)
         else andThen (r, w) (\<lambda>file w. andThen (f file w) (\<lambda>_ w. forSources f srcs w)))"

definition archive ::
  "external \<Rightarrow> 'b backend_config \<Rightarrow> 'p metadata_persister \<Rightarrow> 'e operations \<Rightarrow> 'e file_source list
   \<Rightarrow> string \<Rightarrow> bool \<Rightarrow> bool \<Rightarrow> ('b, 'p, 'e) ops_state
   \<Rightarrow> tar_header list res \<times> ('b, 'p, 'e) ops_state" where
  "archive x bc mp op srcs level overwrite initializing s =
     andThen (onBackend (bcGetWriter bc) s)
       (\<lambda>_ s. andThen
          (if \<not> overwrite
           then onMetadata (mpGetLastIndexedRecordAndBlock mp (int (RecordSize (opPipes op)))) s
           else (Ok (0, 0), s))
       (\<lambda>(rec, blk) s. andThen (writeSession bc (forSources (archiveFile x op level) srcs) s)
       (\<lambda>hdrs s. andThen
          (indexAppended bc mp op HeaderEventTypeArchive hdrs rec blk overwrite initializing s)
          (\<lambda>_ s. (Ok hdrs, s)))))"

section \<open>Update\<close>

definition updateFile ::
  "external \<Rightarrow> 'e operations \<Rightarrow> string \<Rightarrow> bool \<Rightarrow> bool \<Rightarrow> 'e file_config \<Rightarrow> 'e writing
   \<Rightarrow> unit res \<times> 'e writing" where
  "updateFile x op level replace skipSizeCheck file w =
     (if FileInfoHeader (fcInfo file) (fcLink file) = Err ErrSocketsNotSupported then (Ok (), w)
      else andThen (FileInfoHeader (fcInfo file) (fcLink file), w)
        (\<lambda>hdr w.
           let pax = smInsert STFSRecordAction STFSRecordActionUpdate
                       (smInsert STFSRecordVersion STFSRecordVersion1 (paxOrEmpty (tPAXRecords hdr)));
               hdr = hdr\<lparr>tName := fcPath file, tFormat := FormatPAX, tPAXRecords := Some pax\<rparr>;
               regular = IsRegularMode (fiMode (fcInfo file));
               hasContents = (fiSize (fcInfo file) > 0 \<or> skipSizeCheck)
           in andThen
                (if regular \<and> replace \<and> hasContents
                 then andThen (sizeFile x op level file hdr w) (\<lambda>(hdr, f) w. (Ok (hdr, Some f), w))
                 else (Ok (hdr, None), w))
           (\<lambda>(hdr, f) w.
              let replaces = (if replace then STFSRecordReplacesContentTrue
                              else STFSRecordReplacesContentFalse);
                  hdr = hdr\<lparr>tPAXRecords := Some (smInsert STFSRecordReplacesContent replaces
                                                (paxOrEmpty (tPAXRecords hdr)))\<rparr>;
                  hdr = (if replace then hdr else hdr\<lparr>tSize := 0\<rparr>)
              in andThen (announce op HeaderEventTypeUpdate hdr w)
           (\<lambda>_ w. andThen (writeHeader x op hdr (w\<lparr>wHdrs := wHdrs w @ [hdr]\<rparr>))
           (\<lambda>_ w. case f of None \<Rightarrow> (Ok (), w)
                          | Some contents \<Rightarrow> writeContents x op level file contents w)))))"

definition Update ::
  "external \<Rightarrow> 'b backend_config \<Rightarrow> 'p metadata_persister \<Rightarrow> 'e operations \<Rightarrow> 'e file_source list
   \<Rightarrow> string \<Rightarrow> bool \<Rightarrow> bool \<Rightarrow> ('b, 'p, 'e) ops_state
   \<Rightarrow> tar_header list res \<times> ('b, 'p, 'e) ops_state" where
  "Update x bc mp op srcs level replace skipSizeCheck s =
     andThen (onBackend (bcGetWriter bc) s)
       (\<lambda>_ s. andThen
          (onMetadata (mpGetLastIndexedRecordAndBlock mp (int (RecordSize (opPipes op)))) s)
       (\<lambda>(rec, blk) s. andThen
          (writeSession bc (forSources (updateFile x op level replace skipSizeCheck) srcs) s)
       (\<lambda>hdrs s. andThen
          (indexAppended bc mp op HeaderEventTypeUpdate hdrs rec blk False False s)
          (\<lambda>_ s. (Ok hdrs, s)))))"

section \<open>Delete\<close>

text \<open>A header of an entry found under its name or, failing that, under its link name.\<close>

definition lookupNameOrLink ::
  "'p metadata_persister \<Rightarrow> string \<Rightarrow> ('b, 'p, 'e) ops_state \<Rightarrow> header res \<times> ('b, 'p, 'e) ops_state" where
  "lookupNameOrLink mp name s =
     orElse (onMetadata (mpGetHeader mp name) s)
       (\<lambda>e s. if e = ErrNoRows then onMetadata (mpGetHeaderByLinkname mp name) s else (Err e, s))"

text \<open>The record of an operation on one entry: a header without contents.\<close>

definition appendRecord ::
  "external \<Rightarrow> 'e operations \<Rightarrow> string \<Rightarrow> (tar_header \<Rightarrow> tar_header) \<Rightarrow> header \<Rightarrow> 'e writing
   \<Rightarrow> unit res \<times> 'e writing" where
  "appendRecord x op type edit dbhdr w =
     andThen (DBHeaderToTarHeader (ConfigHeaderToDBHeader dbhdr), w)
       (\<lambda>hdr w. let hdr = edit (hdr\<lparr>tSize := 0\<rparr>)
                in andThen (announce op type hdr (w\<lparr>wHdrs := wHdrs w @ [hdr]\<rparr>))
                     (\<lambda>_. writeHeader x op hdr))"

fun forHeaders ::
  "(header \<Rightarrow> 'e writing \<Rightarrow> unit res \<times> 'e writing) \<Rightarrow> header list \<Rightarrow> 'e writing
   \<Rightarrow> unit res \<times> 'e writing" where
  "forHeaders f [] w = (Ok (), w)"
| "forHeaders f (h # hs) w = andThen (f h w) (\<lambda>_. forHeaders f hs)"

definition putRecord :: "string \<Rightarrow> string \<Rightarrow> tar_header \<Rightarrow> tar_header" where
  "putRecord k v hdr = hdr\<lparr>tPAXRecords := Some (smInsert k v (paxOrEmpty (tPAXRecords hdr)))\<rparr>"

definition deleteRecord :: "tar_header \<Rightarrow> tar_header" where
  "deleteRecord hdr =
     putRecord STFSRecordAction STFSRecordActionDelete
       (putRecord STFSRecordVersion STFSRecordVersion1 hdr)"

definition Delete ::
  "external \<Rightarrow> 'b backend_config \<Rightarrow> 'p metadata_persister \<Rightarrow> 'e operations \<Rightarrow> string
   \<Rightarrow> ('b, 'p, 'e) ops_state \<Rightarrow> unit res \<times> ('b, 'p, 'e) ops_state" where
  "Delete x bc mp op name s =
     (let name = ToSlash name
      in andThen (onBackend (bcGetWriter bc) s)
       (\<lambda>_ s. andThen
          (onMetadata (mpGetLastIndexedRecordAndBlock mp (int (RecordSize (opPipes op)))) s)
       (\<lambda>(rec, blk) s. andThen (lookupNameOrLink mp name s)
       (\<lambda>dbhdr s. andThen
          (if Typeflag dbhdr = uint TypeDir \<and> Linkname dbhdr = []
           then andThen (onMetadata (mpGetHeaderChildren mp name) s)
                  (\<lambda>dbhdrs s. (Ok (dbhdr # dbhdrs), s))
           else (Ok [dbhdr], s))
       (\<lambda>headersToDelete s. andThen
          (writeSession bc (forHeaders (appendRecord x op HeaderEventTypeDelete deleteRecord)
                             headersToDelete) s)
       (\<lambda>hdrs s. indexAppended bc mp op HeaderEventTypeDelete hdrs rec blk False False s))))))"

section \<open>Move\<close>

definition moveRecord :: "string \<Rightarrow> string \<Rightarrow> header \<Rightarrow> tar_header \<Rightarrow> tar_header" where
  "moveRecord from to dbhdr hdr =
     putRecord STFSRecordReplacesName (Name dbhdr)
       (putRecord STFSRecordAction STFSRecordActionUpdate
          (putRecord STFSRecordVersion STFSRecordVersion1
             (hdr\<lparr>tName := Join2 to (TrimPrefix (TrimPrefix (Name dbhdr) ''/'')
                                    (TrimPrefix from ''/''))\<rparr>)))"

definition Move ::
  "external \<Rightarrow> 'b backend_config \<Rightarrow> 'p metadata_persister \<Rightarrow> 'e operations \<Rightarrow> string \<Rightarrow> string
   \<Rightarrow> ('b, 'p, 'e) ops_state \<Rightarrow> unit res \<times> ('b, 'p, 'e) ops_state" where
  "Move x bc mp op from to s =
     (let from = ToSlash from; to = ToSlash to
      in if from = to then (Ok (), s)
      else andThen (onBackend (bcGetWriter bc) s)
       (\<lambda>_ s. andThen
          (onMetadata (mpGetLastIndexedRecordAndBlock mp (int (RecordSize (opPipes op)))) s)
       (\<lambda>(rec, blk) s. andThen (lookupNameOrLink mp from s)
       (\<lambda>dbhdr s.
          let to = (if IsAbs to \<and> \<not> IsAbs (Name dbhdr) then TrimPrefix to ''/'' else to)
          in if from = to then (Ok (), s)
          else andThen
            (if Typeflag dbhdr = uint TypeDir
             then andThen (onMetadata (mpGetHeaderChildren mp from) s)
                    (\<lambda>dbhdrs s. (Ok (dbhdr # dbhdrs), s))
             else (Ok [dbhdr], s))
       (\<lambda>headersToMove s. andThen
          (writeSession bc (forHeaders (\<lambda>h. appendRecord x op HeaderEventTypeMove
                              (moveRecord from to h) h) headersToMove) s)
       (\<lambda>hdrs s. indexAppended bc mp op HeaderEventTypeMove hdrs rec blk False False s))))))"

section \<open>Initialize\<close>

text \<open>The user running the program (\<open>os/user\<close>), and the time.\<close>

record os_user =
  ouUid :: string
  ouGid :: string
  ouUsername :: string
  ouGroups :: "string list res"
  ouNow :: gotime

definition atoiOrZero :: "string \<Rightarrow> int" where
  "atoiOrZero s = (case Atoi s of Ok i \<Rightarrow> i | _ \<Rightarrow> 0)"

definition rootHeader :: "os_user \<Rightarrow> string list \<Rightarrow> string \<Rightarrow> filemode \<Rightarrow> tar_header" where
  "rootHeader usr groups name perm =
     zero_tar_header\<lparr>tTypeflag := TypeDir, tName := name, tMode := uint perm,
       tUid := atoiOrZero (ouUid usr), tGid := atoiOrZero (ouGid usr), tUname := ouUsername usr,
       tGname := (case groups of g # _ \<Rightarrow> g | [] \<Rightarrow> []), tModTime := ouNow usr\<rparr>"

definition InitializeTape ::
  "external \<Rightarrow> 'b backend_config \<Rightarrow> 'p metadata_persister \<Rightarrow> 'e operations \<Rightarrow> os_user res \<Rightarrow> string
   \<Rightarrow> filemode \<Rightarrow> string \<Rightarrow> ('b, 'p, 'e) ops_state \<Rightarrow> unit res \<times> ('b, 'p, 'e) ops_state" where
  "InitializeTape x bc mp op usr name perm level s =
     andThen (usr, s) (\<lambda>usr s. andThen (ouGroups usr, s)
       (\<lambda>groups s. let hdr = rootHeader usr groups name perm
          in andThen
               (archive x bc mp op
                  [justFile (headerSource hdr name)] level True True s)
               (\<lambda>_ s. (Ok (), s))))"

section \<open>Restore\<close>

definition restoreTarget :: "string \<Rightarrow> string \<Rightarrow> bool \<Rightarrow> string \<Rightarrow> string" where
  "restoreTarget from to flatten name =
     (if to \<noteq> [] then
        (if flatten then to
         else let dst = Join2 to (TrimPrefix name from)
              in if TrimSuffix dst ''/'' = TrimSuffix to ''/'' then Join2 dst (Base name) else dst)
      else name)"

text \<open>The state of the destination is passed along with that of the operation.\<close>

definition restoreHeader ::
  "external \<Rightarrow> medium \<Rightarrow> 'e operations \<Rightarrow> 'd restore_dst \<Rightarrow> string \<Rightarrow> string \<Rightarrow> bool \<Rightarrow> header
   \<Rightarrow> 'd \<times> 'e \<Rightarrow> unit res \<times> ('d \<times> 'e)" where
  "restoreHeader x m op dst from to flatten dbhdr s =
     andThen (onEvents (notify op HeaderEventTypeRestore True dbhdr) s)
       (\<lambda>_ s. Fetch x m (opPipes op) (opCrypto op) dst (Record dbhdr) (Block dbhdr)
                (restoreTarget from to flatten (Name dbhdr)) False None s)"

fun restoreLoop ::
  "(header \<Rightarrow> 's \<Rightarrow> unit res \<times> 's) \<Rightarrow> header list \<Rightarrow> 's \<Rightarrow> unit res \<times> 's" where
  "restoreLoop f [] s = (Ok (), s)"
| "restoreLoop f (h # hs) s = andThen (f h s) (\<lambda>_. restoreLoop f hs)"

definition headersToRestore ::
  "'p metadata_persister \<Rightarrow> string \<Rightarrow> ('b, 'p, 'e) ops_state
   \<Rightarrow> header list res \<times> ('b, 'p, 'e) ops_state" where
  "headersToRestore mp from s =
     (let src = TrimSuffix from ''/''
      in andThen
        (orElse (andThen (onMetadata (mpGetHeader mp src) s) (\<lambda>h s. (Ok (src, h), s)))
           (\<lambda>e s. if e = ErrNoRows
                  then andThen (onMetadata (mpGetHeader mp (src @ ''/'')) s)
                         (\<lambda>h s. (Ok (src @ ''/'', h), s))
                  else (Err e, s)))
        (\<lambda>(src, dbhdr) s.
           if Typeflag dbhdr = uint TypeDir
           then andThen (onMetadata (mpGetHeaderChildren mp src) s)
                  (\<lambda>dbhdrs s. (Ok (dbhdr # dbhdrs), s))
           else (Ok [dbhdr], s)))"

definition Restore ::
  "external \<Rightarrow> 'b backend_config \<Rightarrow> 'p metadata_persister \<Rightarrow> 'e operations \<Rightarrow> 'd restore_dst
   \<Rightarrow> string \<Rightarrow> string \<Rightarrow> bool \<Rightarrow> ('b, 'p, 'd \<times> 'e) ops_state
   \<Rightarrow> unit res \<times> ('b, 'p, 'd \<times> 'e) ops_state" where
  "Restore x bc mp op dst from to flatten s =
     (let from = ToSlash from; to = ToSlash to
      in andThen (headersToRestore mp from s)
        (\<lambda>hdrs s. andThen (onBackend (bcGetReader bc) s)
           (\<lambda>_ s. deferCloseReader bc
              (case bcMedium bc (osBackend s) of
                 None \<Rightarrow> (Err ErrClosed, s)
               | Some m \<Rightarrow>
                   (let (r, de) = restoreLoop (restoreHeader x m op dst from to flatten) hdrs
                                    (osEvents s)
                    in (r, s\<lparr>osEvents := de\<rparr>))))))"

end
