(* ===== verification/Inventory.thy ===== *)
theory Inventory
  imports Operations
begin

text \<open>
  pkg/inventory: looking up one header, listing a directory and searching by a regular expression.
  A symbolic link is a row whose name is the target and whose link name is the path of the link;
  \<open>Stat\<close> with \<open>symlink\<close> looks a path up as a link and returns the target's header under the path
  of the link, with the target as its link name.
\<close>

definition onEventsOf ::
  "(header \<Rightarrow> 'e \<Rightarrow> unit res \<times> 'e) option \<Rightarrow> header \<Rightarrow> ('b, 'p, 'e) ops_state
   \<Rightarrow> unit res \<times> ('b, 'p, 'e) ops_state" where
  "onEventsOf onHeader hdr s =
     (case onHeader of
        None \<Rightarrow> (Ok (), s)
      | Some f \<Rightarrow> (let (r, ev) = f hdr (osEvents s) in (r, s\<lparr>osEvents := ev\<rparr>)))"

text \<open>A query by a path, and by the path as a directory if there is nothing.\<close>

definition withSlash ::
  "(string \<Rightarrow> 'p \<Rightarrow> header res \<times> 'p) \<Rightarrow> string \<Rightarrow> ('b, 'p, 'e) ops_state
   \<Rightarrow> header res \<times> ('b, 'p, 'e) ops_state" where
  "withSlash query name s =
     orElse (onMetadata (query name) s)
       (\<lambda>e s. if e = ErrNoRows then onMetadata (query (TrimSuffix name ''/'' @ ''/'')) s
              else (Err e, s))"

definition StatEntry ::
  "'p metadata_persister \<Rightarrow> string \<Rightarrow> bool \<Rightarrow> (header \<Rightarrow> 'e \<Rightarrow> unit res \<times> 'e) option
   \<Rightarrow> ('b, 'p, 'e) ops_state \<Rightarrow> tar_header res \<times> ('b, 'p, 'e) ops_state" where
  "StatEntry mp name symlink onHeader s =
     (let name = ToSlash name; linkname = ToSlash name
      in andThen
        (if symlink
         then andThen (withSlash (mpGetHeaderByLinkname mp) name s)
                (\<lambda>link s. (Ok (Name link, Linkname link), s))
         else (Ok (name, linkname), s))
        (\<lambda>(name, linkname) s. andThen (withSlash (mpGetHeader mp) name s)
           (\<lambda>dbhdr s.
              if \<not> symlink \<and> Linkname dbhdr \<noteq> [] then (Err ErrNoRows, s)
              else let dbhdr = (if symlink then dbhdr\<lparr>Name := linkname, Linkname := name\<rparr> else dbhdr)
                   in andThen (DBHeaderToTarHeader (ConfigHeaderToDBHeader dbhdr), s)
                        (\<lambda>hdr s. andThen (onEventsOf onHeader dbhdr s) (\<lambda>_ s. (Ok hdr, s))))))"

fun collectHeaders ::
  "(header \<Rightarrow> 'e \<Rightarrow> unit res \<times> 'e) option \<Rightarrow> header list \<Rightarrow> ('b, 'p, 'e) ops_state
   \<Rightarrow> tar_header list res \<times> ('b, 'p, 'e) ops_state" where
  "collectHeaders onHeader [] s = (Ok [], s)"
| "collectHeaders onHeader (dbhdr # dbhdrs) s =
     andThen (DBHeaderToTarHeader (ConfigHeaderToDBHeader dbhdr), s)
       (\<lambda>hdr s. andThen (onEventsOf onHeader dbhdr s)
          (\<lambda>_ s. andThen (collectHeaders onHeader dbhdrs s) (\<lambda>hdrs s. (Ok (hdr # hdrs), s))))"

definition ListEntries ::
  "'p metadata_persister \<Rightarrow> string \<Rightarrow> int \<Rightarrow> (header \<Rightarrow> 'e \<Rightarrow> unit res \<times> 'e) option
   \<Rightarrow> ('b, 'p, 'e) ops_state \<Rightarrow> tar_header list res \<times> ('b, 'p, 'e) ops_state" where
  "ListEntries mp name limit onHeader s =
     andThen (onMetadata (mpGetHeaderDirectChildren mp name limit) s)
       (\<lambda>dbhdrs s. collectHeaders onHeader dbhdrs s)"

text \<open>\<open>compile\<close> is \<open>regexp.Compile\<close> with \<open>Match\<close>; an expression that does not compile is only
  noticed when there is a header to match.\<close>

definition Find ::
  "(string \<Rightarrow> (string \<Rightarrow> bool) option) \<Rightarrow> 'p metadata_persister \<Rightarrow> string
   \<Rightarrow> (header \<Rightarrow> 'e \<Rightarrow> unit res \<times> 'e) option \<Rightarrow> ('b, 'p, 'e) ops_state
   \<Rightarrow> tar_header list res \<times> ('b, 'p, 'e) ops_state" where
  "Find compile mp expression onHeader s =
     andThen (onMetadata (mpGetHeaders mp) s)
       (\<lambda>dbhdrs s.
          case compile expression of
            None \<Rightarrow> if dbhdrs = [] then (Ok [], s) else (Panic, s)
          | Some matches \<Rightarrow> collectHeaders onHeader (filter (\<lambda>h. matches (Name h)) dbhdrs) s)"

end
