(* ===== verification/FileSystem.thy ===== *)
theory FileSystem
  imports Inventory
begin

text \<open>
  pkg/fs/filesystem.go: the afero file system on top of the operations. Its state is that of the
  operations (backend, index, events); \<open>readOps\<close> and \<open>writeOps\<close> share the backend and the index, as
  every program of the repository sets them up, and differ in their keys. \<open>ioLock\<close> is taken and
  released by every method, so in a sequence of calls it is free and has no state here.
\<close>

section \<open>Configuration\<close>

record ('b, 'p, 'e) stfs =
  fsBackend :: "'b backend_config"
  fsMetadata :: "'p metadata_persister"
  fsReadOps :: "'e operations"
  fsWriteOps :: "'e operations"
  fsCompressionLevel :: string
  fsReadOnly :: bool
  fsWritePermImpliesReadPerm :: bool
  fsOnHeader :: "(header \<Rightarrow> 'e \<Rightarrow> unit res \<times> 'e) option"
  fsUser :: "os_user res"

definition checkName :: "string \<Rightarrow> bool" where
  "checkName name = (length name = 0)"

definition cleanName :: "string \<Rightarrow> string" where
  "cleanName name = Clean name"

definition FileSystemName :: "('b, 'p, 'e) stfs \<Rightarrow> string" where
  "FileSystemName f = FileSystemNameSTFS"

text \<open>\<open>inventory.Stat\<close> on the index of the file system.\<close>

definition fsStat ::
  "('b, 'p, 'e) stfs \<Rightarrow> string \<Rightarrow> bool \<Rightarrow> ('b, 'p, 'e) ops_state
   \<Rightarrow> tar_header res \<times> ('b, 'p, 'e) ops_state" where
  "fsStat f name symlink s = StatEntry (fsMetadata f) name symlink (fsOnHeader f) s"

text \<open>``No rows'' is reported as a file that does not exist.\<close>

definition notExist :: "'a res \<times> 's \<Rightarrow> 'a res \<times> 's" where
  "notExist p = orElse p (\<lambda>e s. (Err (if e = ErrNoRows then ErrNotExist else e), s))"

definition parentExists ::
  "('b, 'p, 'e) stfs \<Rightarrow> string \<Rightarrow> ('b, 'p, 'e) ops_state \<Rightarrow> unit res \<times> ('b, 'p, 'e) ops_state" where
  "parentExists f name s =
     andThen (notExist (fsStat f (Dir name) False s)) (\<lambda>_ s. (Ok (), s))"

text \<open>An entry under the path, or the entry a link under the path points to.\<close>

definition statOrLink ::
  "('b, 'p, 'e) stfs \<Rightarrow> string \<Rightarrow> ('b, 'p, 'e) ops_state \<Rightarrow> tar_header res \<times> ('b, 'p, 'e) ops_state" where
  "statOrLink f name s =
     orElse (fsStat f name False s)
       (\<lambda>e s. if e = ErrNoRows then notExist (fsStat f name True s) else (Err e, s))"

section \<open>Creating entries\<close>

definition nodeHeader :: "os_user \<Rightarrow> string list \<Rightarrow> bool \<Rightarrow> string \<Rightarrow> filemode \<Rightarrow> string \<Rightarrow> tar_header" where
  "nodeHeader usr groups dir name perm linkname =
     zero_tar_header\<lparr>
       tTypeflag := (if dir then TypeDir else if linkname \<noteq> [] then TypeSymlink else TypeReg),
       tName := name, tLinkname := linkname, tMode := uint perm,
       tUid := atoiOrZero (ouUid usr), tGid := atoiOrZero (ouGid usr), tUname := ouUsername usr,
       tGname := (case groups of g # _ \<Rightarrow> g | [] \<Rightarrow> []), tModTime := ouNow usr\<rparr>"

definition mknodeWithoutLocking ::
  "external \<Rightarrow> ('b, 'p, 'e) stfs \<Rightarrow> bool \<Rightarrow> string \<Rightarrow> filemode \<Rightarrow> bool \<Rightarrow> string \<Rightarrow> bool
   \<Rightarrow> ('b, 'p, 'e) ops_state \<Rightarrow> unit res \<times> ('b, 'p, 'e) ops_state" where
  "mknodeWithoutLocking x f dir name perm overwrite linkname initializing s =
     (if fsReadOnly f then (Err ErrPermission, s)
      else andThen (fsUser f, s) (\<lambda>usr s. andThen (ouGroups usr, s)
        (\<lambda>groups s. let hdr = nodeHeader usr groups dir name perm linkname
           in andThen
                (archive x (fsBackend f) (fsMetadata f) (fsWriteOps f)
                   [justFile (headerSource hdr name)] (fsCompressionLevel f) overwrite initializing s)
                (\<lambda>_ s. (Ok (), s)))))"

text \<open>
  \<open>Initialize\<close>: the root path of the index; for an empty index that of the tape, and for a tape
  that cannot be opened or indexed a new root directory.
\<close>

definition mkdirRoot ::
  "external \<Rightarrow> ('b, 'p, 'e) stfs \<Rightarrow> string \<Rightarrow> filemode \<Rightarrow> ('b, 'p, 'e) ops_state
   \<Rightarrow> string res \<times> ('b, 'p, 'e) ops_state" where
  "mkdirRoot x f rootProposal rootPerm s =
     andThen (onBackend (bcCloseReader (fsBackend f)) s)
       (\<lambda>_ s. if fsReadOnly f then (Err ErrPermission, s)
               else andThen (mknodeWithoutLocking x f True rootProposal rootPerm True [] True s)
                      (\<lambda>_ s. onMetadata (mpGetRootPath (fsMetadata f)) s))"

definition indexAll ::
  "external \<Rightarrow> ('b, 'p, 'e) stfs \<Rightarrow> ('b, 'p, 'e) ops_state \<Rightarrow> unit res \<times> ('b, 'p, 'e) ops_state" where
  "indexAll x f s =
     (case bcMedium (fsBackend f) (osBackend s) of
        None \<Rightarrow> (Err ErrClosed, s)
      | Some m \<Rightarrow>
          (let pipes = opPipes (fsReadOps f); crypto = opCrypto (fsReadOps f);
               (r, (p, ev)) = Index m (fsMetadata f) pipes 0 0 True False 0
                 (\<lambda>hdr i. DecryptHeader x hdr (Encryption pipes) (Identity crypto))
                 (\<lambda>hdr isRegular. VerifyHeader x hdr isRegular (Signature pipes) (Recipient crypto))
                 (fsOnHeader f) (osMetadata s, osEvents s)
           in (r, s\<lparr>osMetadata := p, osEvents := ev\<rparr>)))"

definition InitializeFS ::
  "external \<Rightarrow> ('b, 'p, 'e) stfs \<Rightarrow> string \<Rightarrow> filemode \<Rightarrow> ('b, 'p, 'e) ops_state
   \<Rightarrow> string res \<times> ('b, 'p, 'e) ops_state" where
  "InitializeFS x f rootProposal rootPerm s =
     orElse (onMetadata (mpGetRootPath (fsMetadata f)) s)
       (\<lambda>e s. if e \<noteq> ErrNoRootDirectory then (Err e, s)
              else attempt (onBackend (bcGetReader (fsBackend f)) s)
                (\<lambda>_ s. attempt (indexAll x f s)
                   (\<lambda>_ s. andThen (onBackend (bcCloseReader (fsBackend f)) s)
                      (\<lambda>_ s. onMetadata (mpGetRootPath (fsMetadata f)) s))
                   (\<lambda>e s. mkdirRoot x f rootProposal rootPerm s) (\<lambda>s. s))
                (\<lambda>e s. mkdirRoot x f rootProposal rootPerm s) (\<lambda>s. s))"

definition Mkdir ::
  "external \<Rightarrow> ('b, 'p, 'e) stfs \<Rightarrow> string \<Rightarrow> filemode \<Rightarrow> ('b, 'p, 'e) ops_state
   \<Rightarrow> unit res \<times> ('b, 'p, 'e) ops_state" where
  "Mkdir x f name perm s =
     (if fsReadOnly f then (Err ErrPermission, s)
      else let name = cleanName name
      in andThen (parentExists f name s)
        (\<lambda>_ s. attempt (fsStat f name False s)
           (\<lambda>_ s. (Err ErrExist, s))
           (\<lambda>_ s. attempt (fsStat f name True s)
              (\<lambda>_ s. (Err ErrExist, s))
              (\<lambda>_ s. mknodeWithoutLocking x f True name perm False [] False s) (\<lambda>s. s))
           (\<lambda>s. s)))"

text \<open>The directories of \<open>MkdirAll\<close>; a component that exists must be a directory.\<close>

fun mkdirParts ::
  "external \<Rightarrow> ('b, 'p, 'e) stfs \<Rightarrow> filemode \<Rightarrow> string \<Rightarrow> string list \<Rightarrow> ('b, 'p, 'e) ops_state
   \<Rightarrow> unit res \<times> ('b, 'p, 'e) ops_state" where
  "mkdirParts x f perm currentPath [] s = (Ok (), s)"
| "mkdirParts x f perm currentPath (part # parts) s =
     (let currentPath = (if currentPath = [] then part else Join2 currentPath part);
          dirOnly = (\<lambda>hdr s. if tTypeflag hdr \<noteq> TypeDir then (Err ErrIsFile, s) else (Ok (), s))
      in andThen
        (attempt (fsStat f currentPath False s) dirOnly
           (\<lambda>e s. if e \<noteq> ErrNoRows then (Err e, s)
                  else attempt (fsStat f currentPath True s) dirOnly
                    (\<lambda>e s. if e \<noteq> ErrNoRows then (Err e, s)
                           else mknodeWithoutLocking x f True currentPath perm False [] False s)
                    (\<lambda>s. s))
           (\<lambda>s. s))
        (\<lambda>_ s. mkdirParts x f perm currentPath parts s))"

definition MkdirAll ::
  "external \<Rightarrow> ('b, 'p, 'e) stfs \<Rightarrow> string \<Rightarrow> filemode \<Rightarrow> ('b, 'p, 'e) ops_state
   \<Rightarrow> unit res \<times> ('b, 'p, 'e) ops_state" where
  "MkdirAll x f path perm s =
     (if fsReadOnly f then (Err ErrPermission, s)
      else mkdirParts x f perm [] (SplitList (cleanName path)) s)"

section \<open>Removing and renaming\<close>

definition removeWithoutLocking ::
  "external \<Rightarrow> ('b, 'p, 'e) stfs \<Rightarrow> string \<Rightarrow> ('b, 'p, 'e) ops_state
   \<Rightarrow> unit res \<times> ('b, 'p, 'e) ops_state" where
  "removeWithoutLocking x f name s =
     (if fsReadOnly f then (Err ErrPermission, s)
      else andThen (statOrLink f name s)
        (\<lambda>hdr s. andThen
           (if tTypeflag hdr = TypeDir \<and> tLinkname hdr = []
            then andThen (ListEntries (fsMetadata f) name (- 1) (fsOnHeader f) s)
                   (\<lambda>hdrs s. if length hdrs > 0 then (Err ErrDirectoryNotEmpty, s) else (Ok (), s))
            else (Ok (), s))
           (\<lambda>_ s. Delete x (fsBackend f) (fsMetadata f) (fsWriteOps f) name s)))"

definition Remove ::
  "external \<Rightarrow> ('b, 'p, 'e) stfs \<Rightarrow> string \<Rightarrow> ('b, 'p, 'e) ops_state
   \<Rightarrow> unit res \<times> ('b, 'p, 'e) ops_state" where
  "Remove x f name s =
     (if fsReadOnly f then (Err ErrPermission, s)
      else removeWithoutLocking x f (cleanName name) s)"

definition RemoveAll ::
  "external \<Rightarrow> ('b, 'p, 'e) stfs \<Rightarrow> string \<Rightarrow> ('b, 'p, 'e) ops_state
   \<Rightarrow> unit res \<times> ('b, 'p, 'e) ops_state" where
  "RemoveAll x f path s =
     (if fsReadOnly f then (Err ErrPermission, s)
      else orElse (Delete x (fsBackend f) (fsMetadata f) (fsWriteOps f) (cleanName path) s)
             (\<lambda>e s. if e = ErrNoRows then (Ok (), s) else (Err e, s)))"

text \<open>An error of the last \<open>Stat\<close>, whichever it is, lets the move go ahead.\<close>

definition Rename ::
  "external \<Rightarrow> ('b, 'p, 'e) stfs \<Rightarrow> string \<Rightarrow> string \<Rightarrow> ('b, 'p, 'e) ops_state
   \<Rightarrow> unit res \<times> ('b, 'p, 'e) ops_state" where
  "Rename x f oldname newname s =
     (if fsReadOnly f then (Err ErrPermission, s)
      else if checkName oldname then (Err ErrInvalid, s)
      else if checkName newname then (Err ErrInvalid, s)
      else let oldname = cleanName oldname; newname = cleanName newname
      in attempt (onMetadata (mpGetRootPath (fsMetadata f)) s)
        (\<lambda>root s. if root = oldname then (Err ErrInvalid, s)
           else andThen (statOrLink f oldname s)
             (\<lambda>source s. andThen (parentExists f newname s)
                (\<lambda>_ s. attempt (fsStat f newname False s)
                   (\<lambda>target s. if tTypeflag target \<noteq> tTypeflag source then (Err ErrExist, s)
                               else removeWithoutLocking x f newname s)
                   (\<lambda>_ s. Move x (fsBackend f) (fsMetadata f) (fsWriteOps f) oldname newname s)
                   (\<lambda>s. s))))
        (\<lambda>_ s. (Err ErrInvalid, s)) (\<lambda>s. s))"

section \<open>File information and its changes\<close>

record fileinfo =
  infoName :: string
  infoSize :: int
  infoMode :: filemode
  infoModTime :: gotime
  infoAccessTime :: gotime
  infoChangeTime :: gotime
  infoGid :: int
  infoUid :: int
  infoIsDir :: bool

definition NewFileInfoFromTarHeader :: "tar_header \<Rightarrow> fileinfo" where
  "NewFileInfoFromTarHeader hdr =
     \<lparr>infoName = fiName (hdrFileInfo hdr), infoSize = fiSize (hdrFileInfo hdr),
      infoMode = fiMode (hdrFileInfo hdr), infoModTime = fiModTime (hdrFileInfo hdr),
      infoAccessTime = tAccessTime hdr, infoChangeTime = tChangeTime hdr, infoGid = tGid hdr,
      infoUid = tUid hdr, infoIsDir = hdrIsDir hdr\<rparr>"

definition StatFile ::
  "('b, 'p, 'e) stfs \<Rightarrow> string \<Rightarrow> ('b, 'p, 'e) ops_state \<Rightarrow> fileinfo res \<times> ('b, 'p, 'e) ops_state" where
  "StatFile f name s =
     andThen (statOrLink f (cleanName name) s) (\<lambda>hdr s. (Ok (NewFileInfoFromTarHeader hdr), s))"

definition updateMetadata ::
  "external \<Rightarrow> ('b, 'p, 'e) stfs \<Rightarrow> tar_header \<Rightarrow> ('b, 'p, 'e) ops_state
   \<Rightarrow> unit res \<times> ('b, 'p, 'e) ops_state" where
  "updateMetadata x f hdr s =
     (if fsReadOnly f then (Err ErrPermission, s)
      else andThen
        (Update x (fsBackend f) (fsMetadata f) (fsWriteOps f)
           [justFile (headerSource hdr (tName hdr))] (fsCompressionLevel f) False False s)
        (\<lambda>_ s. (Ok (), s)))"

text \<open>The entry whose metadata a change is for: under the path, or what a link there points to.\<close>

definition statTarget ::
  "('b, 'p, 'e) stfs \<Rightarrow> string \<Rightarrow> ('b, 'p, 'e) ops_state \<Rightarrow> tar_header res \<times> ('b, 'p, 'e) ops_state" where
  "statTarget f name s =
     orElse (fsStat f name False s)
       (\<lambda>e s. if e = ErrNoRows
              then andThen (notExist (fsStat f name True s))
                     (\<lambda>hdr s. notExist (fsStat f (tLinkname hdr) False s))
              else (Err e, s))"

definition changeMetadata ::
  "external \<Rightarrow> ('b, 'p, 'e) stfs \<Rightarrow> (tar_header \<Rightarrow> tar_header) \<Rightarrow> string \<Rightarrow> ('b, 'p, 'e) ops_state
   \<Rightarrow> unit res \<times> ('b, 'p, 'e) ops_state" where
  "changeMetadata x f change name s =
     (if fsReadOnly f then (Err ErrPermission, s)
      else if checkName name then (Err ErrInvalid, s)
      else andThen (statTarget f (cleanName name) s) (\<lambda>hdr s. updateMetadata x f (change hdr) s))"

definition Chmod ::
  "external \<Rightarrow> ('b, 'p, 'e) stfs \<Rightarrow> string \<Rightarrow> filemode \<Rightarrow> ('b, 'p, 'e) ops_state
   \<Rightarrow> unit res \<times> ('b, 'p, 'e) ops_state" where
  "Chmod x f name mode s = changeMetadata x f (\<lambda>hdr. hdr\<lparr>tMode := uint mode\<rparr>) name s"

definition Chown ::
  "external \<Rightarrow> ('b, 'p, 'e) stfs \<Rightarrow> string \<Rightarrow> int \<Rightarrow> int \<Rightarrow> ('b, 'p, 'e) ops_state
   \<Rightarrow> unit res \<times> ('b, 'p, 'e) ops_state" where
  "Chown x f name uid gid s = changeMetadata x f (\<lambda>hdr. hdr\<lparr>tUid := uid, tGid := gid\<rparr>) name s"

definition Chtimes ::
  "external \<Rightarrow> ('b, 'p, 'e) stfs \<Rightarrow> string \<Rightarrow> gotime \<Rightarrow> gotime \<Rightarrow> ('b, 'p, 'e) ops_state
   \<Rightarrow> unit res \<times> ('b, 'p, 'e) ops_state" where
  "Chtimes x f name atime mtime s =
     changeMetadata x f (\<lambda>hdr. hdr\<lparr>tAccessTime := atime, tModTime := mtime\<rparr>) name s"

section \<open>Links\<close>

definition lstatIfPossibleWithoutLocking ::
  "('b, 'p, 'e) stfs \<Rightarrow> string \<Rightarrow> ('b, 'p, 'e) ops_state
   \<Rightarrow> (fileinfo \<times> string) res \<times> ('b, 'p, 'e) ops_state" where
  "lstatIfPossibleWithoutLocking f name s =
     andThen (notExist (fsStat f name True s))
       (\<lambda>hdr s. (Ok (NewFileInfoFromTarHeader hdr, Base (tLinkname hdr)), s))"

definition LstatIfPossible ::
  "('b, 'p, 'e) stfs \<Rightarrow> string \<Rightarrow> ('b, 'p, 'e) ops_state \<Rightarrow> fileinfo res \<times> ('b, 'p, 'e) ops_state" where
  "LstatIfPossible f name s =
     (if checkName name then (Err ErrInvalid, s)
      else andThen (lstatIfPossibleWithoutLocking f (cleanName name) s) (\<lambda>(info, _) s. (Ok info, s)))"

definition ReadlinkIfPossible ::
  "('b, 'p, 'e) stfs \<Rightarrow> string \<Rightarrow> ('b, 'p, 'e) ops_state \<Rightarrow> string res \<times> ('b, 'p, 'e) ops_state" where
  "ReadlinkIfPossible f name s =
     (if checkName name then (Err ErrInvalid, s)
      else andThen (lstatIfPossibleWithoutLocking f (cleanName name) s)
             (\<lambda>(_, linkname) s. (Ok linkname, s)))"

definition resolveCleanName ::
  "('b, 'p, 'e) stfs \<Rightarrow> string \<Rightarrow> bool \<Rightarrow> ('b, 'p, 'e) ops_state \<Rightarrow> string res \<times> ('b, 'p, 'e) ops_state" where
  "resolveCleanName f name aliasRoot s =
     andThen (if IsRoot name True \<and> aliasRoot then onMetadata (mpGetRootPath (fsMetadata f)) s
              else (Ok name, s))
       (\<lambda>name s. (Ok (Clean name), s))"

definition SymlinkIfPossible ::
  "external \<Rightarrow> ('b, 'p, 'e) stfs \<Rightarrow> string \<Rightarrow> string \<Rightarrow> ('b, 'p, 'e) ops_state
   \<Rightarrow> unit res \<times> ('b, 'p, 'e) ops_state" where
  "SymlinkIfPossible x f rawOldName rawNewName s =
     (if fsReadOnly f then (Err ErrPermission, s)
      else if checkName rawOldName then (Err ErrInvalid, s)
      else if checkName rawNewName then (Err ErrInvalid, s)
      else andThen (resolveCleanName f rawOldName True s)
       (\<lambda>oldname s. andThen (resolveCleanName f rawNewName True s)
       (\<lambda>newname s. andThen (parentExists f newname s)
       (\<lambda>_ s. if IsRoot rawNewName False \<and> IsRoot rawOldName False then (Err ErrExist, s)
          else andThen
            (if \<not> IsRoot rawNewName True
             then attempt (fsStat f newname False s) (\<lambda>_ s. (Err ErrExist, s)) (\<lambda>_ s. (Ok (), s)) (\<lambda>s. s)
             else (Ok (), s))
            (\<lambda>_ s. mknodeWithoutLocking x f False oldname 0x1FF False newname False s)))))"

end
