(* ===== verification/WriteCache.thy ===== *)
theory WriteCache
  imports Prelude Config GoStd
begin

text \<open>
  pkg/cache: the buffer a file under \<open>pkg/fs\<close> is written to before it goes to the drive, in memory
  or in a temporary file, and the choice of a cache for whole file systems. A temporary file is
  an \<open>os.File\<close>; the buffer in memory is third-party (\<open>filebuffer\<close>) except for the methods added to it.

  The interface \<open>WriteCache\<close> is a record of functions; \<open>write_cache\<close> is its contract, which the
  temporary file meets.
\<close>

section \<open>The interface (cache.go)\<close>

record 'w write_cache =
  wcRead :: "nat \<Rightarrow> 'w \<Rightarrow> bytes res \<times> 'w"
  wcSeek :: "int \<Rightarrow> int \<Rightarrow> 'w \<Rightarrow> int res \<times> 'w"
  wcWrite :: "bytes \<Rightarrow> 'w \<Rightarrow> nat res \<times> 'w"
  wcTruncate :: "int \<Rightarrow> 'w \<Rightarrow> unit res \<times> 'w"
  wcSize :: "'w \<Rightarrow> int res \<times> 'w"
  wcSync :: "'w \<Rightarrow> unit res \<times> 'w"
  wcClose :: "'w \<Rightarrow> unit res \<times> 'w"

abbreviation SeekStart :: int where "SeekStart \<equiv> 0"
abbreviation SeekCurrent :: int where "SeekCurrent \<equiv> 1"
abbreviation SeekEnd :: int where "SeekEnd \<equiv> 2"

section \<open>Files of the operating system\<close>

text \<open>An open file: its contents, the offset of the next read or write, and whether it is open.\<close>

record os_file =
  ofBytes :: bytes
  ofPos :: nat
  ofOpen :: bool

definition zeroBytes :: "nat \<Rightarrow> bytes" where
  "zeroBytes n = replicate n (char_of (0 :: nat))"

text \<open>Contents cut or filled with zeros to a size, and a write at an offset.\<close>

definition resize :: "nat \<Rightarrow> bytes \<Rightarrow> bytes" where
  "resize n c = take n c @ zeroBytes (n - length c)"

definition overwrite :: "bytes \<Rightarrow> nat \<Rightarrow> bytes \<Rightarrow> bytes" where
  "overwrite c q p = (if p = [] then c else resize q c @ p @ drop (q + length p) c)"

definition whenOpen :: "(os_file \<Rightarrow> 'a res \<times> os_file) \<Rightarrow> os_file \<Rightarrow> 'a res \<times> os_file" where
  "whenOpen f w = (if ofOpen w then f w else (Err ErrClosed, w))"

definition osRead :: "nat \<Rightarrow> os_file \<Rightarrow> bytes res \<times> os_file" where
  "osRead n = whenOpen (\<lambda>w.
     let p = take n (drop (ofPos w) (ofBytes w))
     in (if p = [] \<and> n \<noteq> 0 then Err EOF else Ok p, w\<lparr>ofPos := ofPos w + length p\<rparr>))"

definition osSeek :: "int \<Rightarrow> int \<Rightarrow> os_file \<Rightarrow> int res \<times> os_file" where
  "osSeek offset whence = whenOpen (\<lambda>w.
     let dst = offset + (if whence = SeekStart then 0 else if whence = SeekCurrent then int (ofPos w)
                         else int (length (ofBytes w)))
     in if whence \<notin> {SeekStart, SeekCurrent, SeekEnd} \<or> dst < 0 then (Err ErrInvalid, w)
        else (Ok dst, w\<lparr>ofPos := nat dst\<rparr>))"

definition osWrite :: "bytes \<Rightarrow> os_file \<Rightarrow> nat res \<times> os_file" where
  "osWrite p = whenOpen (\<lambda>w.
     (Ok (length p), w\<lparr>ofBytes := overwrite (ofBytes w) (ofPos w) p, ofPos := ofPos w + length p\<rparr>))"

definition osTruncate :: "int \<Rightarrow> os_file \<Rightarrow> unit res \<times> os_file" where
  "osTruncate sz = whenOpen (\<lambda>w.
     if sz < 0 then (Err ErrInvalid, w)
     else (Ok (), w\<lparr>ofBytes := resize (nat sz) (ofBytes w)\<rparr>))"

definition osSync :: "os_file \<Rightarrow> unit res \<times> os_file" where
  "osSync = whenOpen (\<lambda>w. (Ok (), w))"

definition osClose :: "os_file \<Rightarrow> unit res \<times> os_file" where
  "osClose = whenOpen (\<lambda>w. (Ok (), w\<lparr>ofOpen := False\<rparr>))"

text \<open>\<open>Size\<close> of \<open>fileWithSize\<close>: the size \<open>Stat\<close> reports.\<close>

definition fileSize :: "os_file \<Rightarrow> int res \<times> os_file" where
  "fileSize = whenOpen (\<lambda>w. (Ok (int (length (ofBytes w))), w))"

section \<open>The buffers (write.go)\<close>

text \<open>
  The third-party buffer in memory: a \<open>bytes.Buffer\<close> \<open>Buff\<close> next to its own methods. The methods
  added here reach through to \<open>Buff\<close>, whose \<open>Truncate\<close> panics on a size outside of the buffer.
\<close>

record 'm filebuffer =
  fbNew :: "bytes \<Rightarrow> 'm"
  fbRead :: "nat \<Rightarrow> 'm \<Rightarrow> bytes res \<times> 'm"
  fbSeek :: "int \<Rightarrow> int \<Rightarrow> 'm \<Rightarrow> int res \<times> 'm"
  fbWrite :: "bytes \<Rightarrow> 'm \<Rightarrow> nat res \<times> 'm"
  fbClose :: "'m \<Rightarrow> unit res \<times> 'm"
  fbBuff :: "'m \<Rightarrow> bytes"
  fbSetBuff :: "bytes \<Rightarrow> 'm \<Rightarrow> 'm"

definition bufferSize :: "'m filebuffer \<Rightarrow> 'm \<Rightarrow> int res \<times> 'm" where
  "bufferSize fb b = (Ok (int (length (fbBuff fb b))), b)"

definition bufferSync :: "'m \<Rightarrow> unit res \<times> 'm" where
  "bufferSync b = (Ok (), b)"

definition bufferTruncate :: "'m filebuffer \<Rightarrow> int \<Rightarrow> 'm \<Rightarrow> unit res \<times> 'm" where
  "bufferTruncate fb sz b =
     (if sz < 0 \<or> int (length (fbBuff fb b)) < sz then (Panic, b)
      else (Ok (), fbSetBuff fb (take (nat sz) (fbBuff fb b)) b))"

text \<open>A buffer is one of the two; the file knows its name.\<close>

datatype 'm write_buffer = MemoryBuffer 'm | FileBuffer string os_file

definition onBuffer ::
  "('m \<Rightarrow> 'a res \<times> 'm) \<Rightarrow> (os_file \<Rightarrow> 'a res \<times> os_file) \<Rightarrow> 'm write_buffer \<Rightarrow> 'a res \<times> 'm write_buffer" where
  "onBuffer f g b =
     (case b of
        MemoryBuffer m \<Rightarrow> (let (r, m) = f m in (r, MemoryBuffer m))
      | FileBuffer name w \<Rightarrow> (let (r, w) = g w in (r, FileBuffer name w)))"

definition bufferCache :: "'m filebuffer \<Rightarrow> 'm write_buffer write_cache" where
  "bufferCache fb =
     \<lparr>wcRead = (\<lambda>n. onBuffer (fbRead fb n) (osRead n)),
      wcSeek = (\<lambda>offset whence. onBuffer (fbSeek fb offset whence) (osSeek offset whence)),
      wcWrite = (\<lambda>p. onBuffer (fbWrite fb p) (osWrite p)),
      wcTruncate = (\<lambda>sz. onBuffer (bufferTruncate fb sz) (osTruncate sz)),
      wcSize = onBuffer (bufferSize fb) fileSize, wcSync = onBuffer bufferSync osSync,
      wcClose = onBuffer (fbClose fb) osClose\<rparr>"

text \<open>The operating system, as far as the caches use it, on a state of its own.\<close>

record 'o os_env =
  osMkdirAll :: "string \<Rightarrow> 'o \<Rightarrow> unit res \<times> 'o"
  osRemoveAll :: "string \<Rightarrow> 'o \<Rightarrow> unit res \<times> 'o"
  osTempFile :: "string \<Rightarrow> 'o \<Rightarrow> string res \<times> 'o"
  osRemove :: "string \<Rightarrow> 'o \<Rightarrow> unit res \<times> 'o"

definition NewCacheWrite ::
  "'m filebuffer \<Rightarrow> 'o os_env \<Rightarrow> string \<Rightarrow> string \<Rightarrow> 'o \<Rightarrow> 'm write_buffer res \<times> 'o" where
  "NewCacheWrite fb os root cacheType s =
     (if cacheType = WriteCacheTypeMemory then (Ok (MemoryBuffer (fbNew fb [])), s)
      else if cacheType = WriteCacheTypeFile then
        (let tmpdir = Join2 root ''io''
         in andThen (osMkdirAll os tmpdir s) (\<lambda>_ s. andThen (osTempFile os tmpdir s)
              (\<lambda>name s. (Ok (FileBuffer name \<lparr>ofBytes = [], ofPos = 0, ofOpen = True\<rparr>), s))))
      else (Err ErrWriteCacheTypeUnsupported, s))"

text \<open>The function to clean up after a buffer.\<close>

definition cleanBuffer :: "'o os_env \<Rightarrow> 'm write_buffer \<Rightarrow> 'o \<Rightarrow> unit res \<times> 'o" where
  "cleanBuffer os b s = (case b of MemoryBuffer _ \<Rightarrow> (Ok (), s) | FileBuffer name _ \<Rightarrow> osRemove os name s)"

section \<open>The contract\<close>

text \<open>
  What the files rely on: the buffer holds contents and a position; reads and writes happen at the
  position and move it, a write past the end fills with zeros, \<open>Seek\<close> moves the position anywhere,
  and \<open>Truncate\<close> to a smaller size cuts the contents without moving it.
\<close>

locale cache_contract =
  fixes wc :: "'w write_cache"
    and ok :: "'w \<Rightarrow> bool"
    and contents :: "'w \<Rightarrow> bytes"
    and position :: "'w \<Rightarrow> nat"
  assumes size_is: "ok w \<Longrightarrow> wcSize wc w = (Ok (int (length (contents w))), w)"
    and seek_is: "ok w \<Longrightarrow> \<exists>w'. wcSeek wc (int q) SeekStart w = (Ok (int q), w') \<and> ok w'
      \<and> contents w' = contents w \<and> position w' = q"
    and read_is: "ok w \<Longrightarrow> p = take n (drop (position w) (contents w)) \<Longrightarrow> p \<noteq> []
      \<Longrightarrow> \<exists>w'. wcRead wc n w = (Ok p, w') \<and> ok w' \<and> contents w' = contents w
        \<and> position w' = position w + length p"
    and read_none: "ok w \<Longrightarrow> wcRead wc 0 w = (Ok [], w)"
    and write_is: "ok w \<Longrightarrow> \<exists>w'. wcWrite wc p w = (Ok (length p), w') \<and> ok w'
      \<and> contents w' = overwrite (contents w) (position w) p \<and> position w' = position w + length p"
    and truncate_is: "ok w \<Longrightarrow> n \<le> length (contents w) \<Longrightarrow> \<exists>w'. wcTruncate wc (int n) w = (Ok (), w')
      \<and> ok w' \<and> contents w' = take n (contents w) \<and> position w' = position w"

text \<open>A temporary file that is open meets it.\<close>

fun fileOk :: "'m write_buffer \<Rightarrow> bool" where
  "fileOk (FileBuffer name w) = ofOpen w"
| "fileOk (MemoryBuffer m) = False"

fun fileBytes :: "'m write_buffer \<Rightarrow> bytes" where
  "fileBytes (FileBuffer name w) = ofBytes w"
| "fileBytes (MemoryBuffer m) = []"

fun filePos :: "'m write_buffer \<Rightarrow> nat" where
  "filePos (FileBuffer name w) = ofPos w"
| "filePos (MemoryBuffer m) = 0"

lemmas os_file_defs = osRead_def osSeek_def osWrite_def osTruncate_def fileSize_def whenOpen_def

lemma fileOk_iff: "fileOk b \<longleftrightarrow> (\<exists>name w. b = FileBuffer name w \<and> ofOpen w)"
  by (cases b) auto

interpretation tempfile: cache_contract "bufferCache fb" fileOk fileBytes filePos for fb :: "'m filebuffer"
  by unfold_locales
    (auto simp: fileOk_iff bufferCache_def onBuffer_def os_file_defs Let_def resize_def zeroBytes_def)

section \<open>Caching file systems (filesystem.go)\<close>

text \<open>How \<open>NewCacheFilesystem\<close> stacks the file systems of afero.\<close>

datatype 'f afero_fs =
    BaseFs 'f | MemMapFs | OsFs | BasePathFs "'f afero_fs" string
  | CacheOnReadFs "'f afero_fs" "'f afero_fs" int

definition NewCacheFilesystem ::
  "'o os_env \<Rightarrow> 'f \<Rightarrow> string \<Rightarrow> string \<Rightarrow> int \<Rightarrow> string \<Rightarrow> 'o \<Rightarrow> 'f afero_fs res \<times> 'o" where
  "NewCacheFilesystem os base root cacheType ttl cacheDir s =
     (let under = (if IsRoot root False then BaseFs base else BasePathFs (BaseFs base) root)
      in if cacheType = FileSystemCacheTypeMemory then (Ok (CacheOnReadFs under MemMapFs ttl), s)
         else if cacheType = FileSystemCacheTypeDir then
           andThen (osRemoveAll os cacheDir s) (\<lambda>_ s. andThen (osMkdirAll os cacheDir s)
             (\<lambda>_ s. (Ok (CacheOnReadFs under (BasePathFs OsFs cacheDir) ttl), s)))
         else if cacheType = NoneKey then (Ok under, s)
         else (Err ErrFileSystemCacheTypeUnsupported, s))"

end
