(* ===== verification/File.thy ===== *)
theory File
  imports FileSystem WriteCache
begin

text \<open>
  pkg/fs/file.go and the opening of files. A file is read through a pipe from a goroutine that
  runs \<open>Restore\<close>, and written to a buffer that \<open>Sync\<close> and \<open>Close\<close> hand to \<open>Update\<close>.

  The goroutine is run up to the point where it waits for the pipe: what it will still write is
  kept in the file (\<open>rdRest\<close>), and the backend stays in the state in which it waits, that is,
  locked by the reader. It goes on to its end, which gives the reader back, when everything
  was read or the pipe is closed. An error in it is a panic of the program.
\<close>

section \<open>Files\<close>

record file_flags =
  flagRead :: bool
  flagWrite :: bool
  flagAppend :: bool
  flagTruncate :: bool

record reader =
  rdRest :: bytes
  rdCount :: nat
  rdClosed :: bool
  rdEnd :: "unit res"

record 'w stfs_file =
  flPath :: string
  flLink :: string
  flFlags :: file_flags
  flName :: string
  flInfo :: fileinfo
  flReader :: "reader option"
  flWriteBuf :: "'w option"

definition NewFile :: "string \<Rightarrow> string \<Rightarrow> file_flags \<Rightarrow> string \<Rightarrow> fileinfo \<Rightarrow> 'w stfs_file" where
  "NewFile path link flags name info =
     \<lparr>flPath = path, flLink = link, flFlags = flags, flName = name, flInfo = info,
      flReader = None, flWriteBuf = None\<rparr>"

text \<open>\<open>getFileBuffer\<close>: making a buffer and cleaning up after it may change the environment.\<close>

record ('w, 'e) buffers =
  bufCache :: "'w write_cache"
  bufNew :: "'e \<Rightarrow> 'w res \<times> 'e"
  bufClean :: "'w \<Rightarrow> 'e \<Rightarrow> unit res \<times> 'e"

type_synonym ('w, 'b, 'p, 'e) file_state = "'w stfs_file \<times> ('b, 'p, 'e) ops_state"

section \<open>Running operations from a file\<close>

definition onOps ::
  "(('b, 'p, 'e) ops_state \<Rightarrow> 'a res \<times> ('b, 'p, 'e) ops_state) \<Rightarrow> ('w, 'b, 'p, 'e) file_state
   \<Rightarrow> 'a res \<times> ('w, 'b, 'p, 'e) file_state" where
  "onOps g st = (let (r, s) = g (snd st) in (r, (fst st, s)))"

definition onEnv ::
  "('e \<Rightarrow> 'a res \<times> 'e) \<Rightarrow> ('w, 'b, 'p, 'e) file_state \<Rightarrow> 'a res \<times> ('w, 'b, 'p, 'e) file_state" where
  "onEnv g = onOps (\<lambda>s. let (r, ev) = g (osEvents s) in (r, s\<lparr>osEvents := ev\<rparr>))"

definition onBuf :: "('w \<Rightarrow> 'a res \<times> 'w) \<Rightarrow> 'w stfs_file \<Rightarrow> 'a res \<times> 'w stfs_file" where
  "onBuf g fl =
     (case flWriteBuf fl of
        None \<Rightarrow> (Panic, fl)
      | Some w \<Rightarrow> (let (r, w) = g w in (r, fl\<lparr>flWriteBuf := Some w\<rparr>)))"

definition onFile :: "('w stfs_file \<Rightarrow> 'a res \<times> 'w stfs_file) \<Rightarrow> 'w stfs_file \<times> 's \<Rightarrow> 'a res \<times> ('w stfs_file \<times> 's)" where
  "onFile g st = (let (r, fl) = g (fst st) in (r, (fl, snd st)))"

definition withEvents :: "'f \<Rightarrow> ('b, 'p, 'e) ops_state \<Rightarrow> ('b, 'p, 'f) ops_state" where
  "withEvents ev s = \<lparr>osBackend = osBackend s, osMetadata = osMetadata s, osEvents = ev\<rparr>"

text \<open>Operations that work on something next to the events, like the file and its buffer.\<close>

definition alongside ::
  "'d \<Rightarrow> (('b, 'p, 'd \<times> 'e) ops_state \<Rightarrow> 'a res \<times> ('b, 'p, 'd \<times> 'e) ops_state)
   \<Rightarrow> ('b, 'p, 'e) ops_state \<Rightarrow> 'a res \<times> ('d \<times> ('b, 'p, 'e) ops_state)" where
  "alongside d g s =
     (let (r, s1) = g (withEvents (d, osEvents s) s); (d, ev) = osEvents s1
      in (r, (d, withEvents ev s1)))"

definition fileOps :: "'e operations \<Rightarrow> ('d \<times> 'e) operations" where
  "fileOps op =
     \<lparr>opPipes = opPipes op, opCrypto = opCrypto op,
      opOnHeader = map_option (\<lambda>f h (d, ev). let (r, ev) = f h ev in (r, (d, ev))) (opOnHeader op)\<rparr>"

section \<open>Writing back the buffer\<close>

text \<open>What \<open>Sys\<close> keeps of the ids and times: 32-bit ids, and nanoseconds in 64 bits.\<close>

definition statId :: "int \<Rightarrow> int" where
  "statId i = uint (word_of_int i :: 32 word)"

definition statTime :: "gotime \<Rightarrow> gotime" where
  "statTime t = sint (word_of_int t :: 64 word)"

definition syncedInfo :: "fileinfo \<Rightarrow> int \<Rightarrow> fileinfo" where
  "syncedInfo info sz =
     info\<lparr>infoSize := sz, infoAccessTime := statTime (infoAccessTime info),
          infoChangeTime := statTime (infoChangeTime info), infoGid := statId (infoGid info),
          infoUid := statId (infoUid info)\<rparr>"

definition infoFileInfo :: "fileinfo \<Rightarrow> file_info" where
  "infoFileInfo info =
     \<lparr>fiName = infoName info, fiSize = infoSize info, fiMode = infoMode info,
      fiModTime = infoModTime info, fiSys = SysOther\<rparr>"

text \<open>Reading a buffer to its end, from where it stands.\<close>

definition readAll :: "'w write_cache \<Rightarrow> 'w \<Rightarrow> bytes res \<times> 'w" where
  "readAll wc w =
     andThen (wcSize wc w)
       (\<lambda>n w. orElse (wcRead wc (nat n) w) (\<lambda>e w. if e = EOF then (Ok [], w) else (Err e, w)))"

text \<open>Both passes of \<open>Update\<close> read the buffer from its start.\<close>

definition getBuffer :: "'w write_cache \<Rightarrow> 'w \<Rightarrow> (bytes \<times> bytes) res \<times> 'w" where
  "getBuffer wc w =
     andThen (wcSeek wc 0 SeekStart w) (\<lambda>_ w. andThen (readAll wc w) (\<lambda>c w. (Ok (c, c), w)))"

definition bufferSource :: "'w write_cache \<Rightarrow> ('w stfs_file \<times> 'e) file_source" where
  "bufferSource wc st =
     andThen (onFile (onBuf (wcSize wc)) st)
       (\<lambda>sz (fl, ev).
          let fl = fl\<lparr>flInfo := syncedInfo (flInfo fl) sz\<rparr>
          in (Ok \<lparr>fcInfo = infoFileInfo (flInfo fl), fcPath = flPath fl, fcLink = flLink fl,
                  fcGetFile = onFile (onBuf (getBuffer wc)),
                  fcClose = onFile (onBuf (wcClose wc))\<rparr>, (fl, ev)))"

definition syncWithoutLocking ::
  "external \<Rightarrow> ('b, 'p, 'e) stfs \<Rightarrow> ('w, 'e) buffers \<Rightarrow> ('w, 'b, 'p, 'e) file_state
   \<Rightarrow> unit res \<times> ('w, 'b, 'p, 'e) file_state" where
  "syncWithoutLocking x f bufs st =
     (if infoIsDir (flInfo (fst st)) then (Err ErrIsDirectory, st)
      else if flWriteBuf (fst st) = None then (Ok (), st)
      else andThen
        (alongside (fst st)
           (Update x (fsBackend f) (fsMetadata f) (fileOps (fsWriteOps f))
              [bufferSource (bufCache bufs)] (fsCompressionLevel f) True True)
           (snd st))
        (\<lambda>_ st. (Ok (), st)))"

section \<open>The reading goroutine\<close>

text \<open>The pipe as the destination of \<open>Restore\<close>: what was written to it, and whether it was closed.\<close>

definition pipeDst :: "(bytes \<times> bool) restore_dst" where
  "pipeDst =
     \<lparr>rdGetDst = \<lambda>p mode d. (Ok 0, d), rdWrite = \<lambda>k c (b, closed). (Ok (), (b @ c, closed)),
      rdClose = \<lambda>k (b, closed). (Ok (), (b, True)), rdMkdirAll = \<lambda>p mode d. (Ok (), d)\<rparr>"

text \<open>The end of the goroutine, once nothing keeps it waiting any more.\<close>

definition finishReader ::
  "'b backend_config \<Rightarrow> unit res \<Rightarrow> ('b, 'p, 'e) ops_state \<Rightarrow> unit res \<times> ('b, 'p, 'e) ops_state" where
  "finishReader bc end s =
     (case end of
        Ok _ \<Rightarrow> deferCloseReader bc (Ok (), s)
      | Err e \<Rightarrow> if e = ErrClosedPipe then deferCloseReader bc (Ok (), s) else (Panic, s)
      | Panic \<Rightarrow> (Panic, s)
      | Hang \<Rightarrow> (Ok (), s))"

definition startReader ::
  "external \<Rightarrow> ('b, 'p, 'e) stfs \<Rightarrow> ('w, 'b, 'p, 'e) file_state
   \<Rightarrow> unit res \<times> ('w, 'b, 'p, 'e) file_state" where
  "startReader x f st =
     (let (r, ((c, closed), s)) =
            alongside ([], False)
              (Restore x ((fsBackend f)\<lparr>bcCloseReader := \<lambda>b. (Ok (), b)\<rparr>) (fsMetadata f)
                 (fsReadOps f) pipeDst (flPath (fst st)) [] True)
              (snd st);
          fl = (fst st)\<lparr>flReader := Some \<lparr>rdRest = c, rdCount = 0, rdClosed = closed, rdEnd = r\<rparr>\<rparr>
      in if c = [] then onOps (finishReader (fsBackend f) r) (fl, s) else (Ok (), (fl, s)))"

text \<open>\<open>io.CopyN\<close> from the pipe: the bytes, and whether their end came before \<open>n\<close> of them.\<close>

definition copyN ::
  "('b, 'p, 'e) stfs \<Rightarrow> nat \<Rightarrow> ('w, 'b, 'p, 'e) file_state
   \<Rightarrow> (bytes \<times> bool) res \<times> ('w, 'b, 'p, 'e) file_state" where
  "copyN f n st =
     (case flReader (fst st) of
        None \<Rightarrow> (Panic, st)
      | Some rd \<Rightarrow>
          if n = 0 then (Ok ([], False), st)
          else let p = take n (rdRest rd);
                   rd' = rd\<lparr>rdRest := drop n (rdRest rd), rdCount := rdCount rd + length p\<rparr>;
                   st = ((fst st)\<lparr>flReader := Some rd'\<rparr>, snd st)
               in andThen (if rdRest rd \<noteq> [] \<and> rdRest rd' = []
                           then onOps (finishReader (fsBackend f) (rdEnd rd)) st else (Ok (), st))
                    (\<lambda>_ st. if length p = n then (Ok (p, False), st)
                            else if rdClosed rd then (Ok (p, True), st) else (Hang, st)))"

section \<open>Closing\<close>

text \<open>Closing the pipe makes a goroutine that waits for it end with \<open>ErrClosedPipe\<close>.\<close>

definition closePipe ::
  "('b, 'p, 'e) stfs \<Rightarrow> ('w, 'b, 'p, 'e) file_state \<Rightarrow> unit res \<times> ('w, 'b, 'p, 'e) file_state" where
  "closePipe f st =
     (case flReader (fst st) of
        None \<Rightarrow> (Ok (), st)
      | Some rd \<Rightarrow> if rdRest rd = [] then (Ok (), st)
                   else onOps (finishReader (fsBackend f) (Err ErrClosedPipe)) st)"

definition cleanWriteBuf ::
  "('w, 'e) buffers \<Rightarrow> ('w, 'b, 'p, 'e) file_state \<Rightarrow> unit res \<times> ('w, 'b, 'p, 'e) file_state" where
  "cleanWriteBuf bufs st =
     (case flWriteBuf (fst st) of None \<Rightarrow> (Panic, st) | Some w \<Rightarrow> onEnv (bufClean bufs w) st)"

definition closeWithoutLocking ::
  "external \<Rightarrow> ('b, 'p, 'e) stfs \<Rightarrow> ('w, 'e) buffers \<Rightarrow> ('w, 'b, 'p, 'e) file_state
   \<Rightarrow> unit res \<times> ('w, 'b, 'p, 'e) file_state" where
  "closeWithoutLocking x f bufs st =
     andThen (closePipe f st)
       (\<lambda>_ st. andThen
          (if flWriteBuf (fst st) \<noteq> None
           then andThen (syncWithoutLocking x f bufs st) (\<lambda>_ st. cleanWriteBuf bufs st)
           else (Ok (), st))
          (\<lambda>_ (fl, s). (Ok (), (fl\<lparr>flReader := None, flWriteBuf := None\<rparr>, s))))"

section \<open>Writing\<close>

text \<open>The buffer as the destination of \<open>Restore\<close>; it is not closed.\<close>

definition bufferDst :: "'w write_cache \<Rightarrow> 'w stfs_file restore_dst" where
  "bufferDst wc =
     \<lparr>rdGetDst = \<lambda>p mode fl. (Ok 0, fl),
      rdWrite = \<lambda>k c fl. (let (r, fl) = onBuf (wcWrite wc c) fl in (rbind r (\<lambda>_. Ok ()), fl)),
      rdClose = \<lambda>k fl. (Ok (), fl), rdMkdirAll = \<lambda>p mode fl. (Ok (), fl)\<rparr>"

definition fileExists ::
  "('b, 'p, 'e) stfs \<Rightarrow> ('w, 'b, 'p, 'e) file_state \<Rightarrow> bool res \<times> ('w, 'b, 'p, 'e) file_state" where
  "fileExists f st =
     orElse (andThen (onOps (fsStat f (flPath (fst st)) False) st) (\<lambda>hdr st. (Ok (tSize hdr \<noteq> 0), st)))
       (\<lambda>e st. if e = ErrNoRows then (Ok False, st) else (Err e, st))"

definition enterWriteMode ::
  "external \<Rightarrow> ('b, 'p, 'e) stfs \<Rightarrow> ('w, 'e) buffers \<Rightarrow> ('w, 'b, 'p, 'e) file_state
   \<Rightarrow> unit res \<times> ('w, 'b, 'p, 'e) file_state" where
  "enterWriteMode x f bufs st =
     andThen (if flReader (fst st) \<noteq> None then closeWithoutLocking x f bufs st else (Ok (), st))
       (\<lambda>_ st.
          if flWriteBuf (fst st) \<noteq> None then (Ok (), st)
          else andThen (fileExists f st)
            (\<lambda>exists st. andThen (onEnv (bufNew bufs) st)
            (\<lambda>w (fl, s).
               let st = (fl\<lparr>flWriteBuf := Some w\<rparr>, s); wc = bufCache bufs
               in andThen
                    (if exists
                     then alongside (fst st)
                            (Restore x (fsBackend f) (fsMetadata f) (fsReadOps f) (bufferDst wc)
                               (flPath fl) [] True) s
                     else (Ok (), st))
            (\<lambda>_ st. andThen
                    (if flagTruncate (flFlags (fst st)) then onFile (onBuf (wcTruncate wc 0)) st
                     else (Ok (), st))
            (\<lambda>_ st. if \<not> flagAppend (flFlags (fst st))
                    then andThen (onFile (onBuf (wcSeek wc 0 SeekStart)) st) (\<lambda>_ st. (Ok (), st))
                    else (Ok (), st))))))"

definition whenWritable ::
  "(('w, 'b, 'p, 'e) file_state \<Rightarrow> 'a res \<times> ('w, 'b, 'p, 'e) file_state)
   \<Rightarrow> ('w, 'b, 'p, 'e) file_state \<Rightarrow> 'a res \<times> ('w, 'b, 'p, 'e) file_state" where
  "whenWritable g st =
     (if infoIsDir (flInfo (fst st)) then (Err ErrIsDirectory, st)
      else if \<not> flagWrite (flFlags (fst st)) then (Err ErrPermission, st)
      else g st)"

definition FileWrite ::
  "external \<Rightarrow> ('b, 'p, 'e) stfs \<Rightarrow> ('w, 'e) buffers \<Rightarrow> bytes \<Rightarrow> ('w, 'b, 'p, 'e) file_state
   \<Rightarrow> nat res \<times> ('w, 'b, 'p, 'e) file_state" where
  "FileWrite x f bufs p =
     whenWritable (\<lambda>st. andThen (enterWriteMode x f bufs st)
       (\<lambda>_ st. onFile (onBuf (wcWrite (bufCache bufs) p)) st))"

definition FileWriteString ::
  "external \<Rightarrow> ('b, 'p, 'e) stfs \<Rightarrow> ('w, 'e) buffers \<Rightarrow> string \<Rightarrow> ('w, 'b, 'p, 'e) file_state
   \<Rightarrow> nat res \<times> ('w, 'b, 'p, 'e) file_state" where
  "FileWriteString x f bufs s =
     whenWritable (\<lambda>st. andThen (enterWriteMode x f bufs st)
       (\<lambda>_ st. onFile (onBuf (wcWrite (bufCache bufs) s)) st))"

text \<open>The loop of \<open>Truncate\<close> that makes a file longer.\<close>

fun writeZeros :: "'w write_cache \<Rightarrow> nat \<Rightarrow> 'w \<Rightarrow> unit res \<times> 'w" where
  "writeZeros wc 0 w = (Ok (), w)"
| "writeZeros wc (Suc n) w = andThen (wcWrite wc (zeroBytes 1) w) (\<lambda>_ w. writeZeros wc n w)"

definition truncateBuf :: "'w write_cache \<Rightarrow> int \<Rightarrow> 'w \<Rightarrow> unit res \<times> 'w" where
  "truncateBuf wc sz w =
     andThen (wcSize wc w)
       (\<lambda>oldSize w. if sz > oldSize
                    then andThen (wcTruncate wc 0 w) (\<lambda>_ w. writeZeros wc (nat sz) w)
                    else wcTruncate wc sz w)"

definition FileTruncate ::
  "external \<Rightarrow> ('b, 'p, 'e) stfs \<Rightarrow> ('w, 'e) buffers \<Rightarrow> int \<Rightarrow> ('w, 'b, 'p, 'e) file_state
   \<Rightarrow> unit res \<times> ('w, 'b, 'p, 'e) file_state" where
  "FileTruncate x f bufs sz =
     whenWritable (\<lambda>st. andThen (enterWriteMode x f bufs st)
       (\<lambda>_ st. onFile (onBuf (truncateBuf (bufCache bufs) sz)) st))"

section \<open>Seeking and reading\<close>

definition seekWithoutLocking ::
  "external \<Rightarrow> ('b, 'p, 'e) stfs \<Rightarrow> ('w, 'e) buffers \<Rightarrow> int \<Rightarrow> int \<Rightarrow> ('w, 'b, 'p, 'e) file_state
   \<Rightarrow> int res \<times> ('w, 'b, 'p, 'e) file_state" where
  "seekWithoutLocking x f bufs offset whence st =
     (let bytesRead = (\<lambda>st. case flReader (fst st) of None \<Rightarrow> 0 | Some rd \<Rightarrow> int (rdCount rd))
      in if infoIsDir (flInfo (fst st)) then (Ok 0, st)
         else if flWriteBuf (fst st) \<noteq> None
         then onFile (onBuf (wcSeek (bufCache bufs) offset whence)) st
         else if whence \<notin> {SeekStart, SeekCurrent, SeekEnd} then (Err ErrNotImplemented, st)
         else let dst = (if whence = SeekStart then offset
                         else if whence = SeekCurrent then bytesRead st + offset
                         else infoSize (flInfo (fst st)) - offset)
              in andThen
                (if flReader (fst st) = None \<or> dst < bytesRead st
                 then andThen (orElse (closeWithoutLocking x f bufs st) (\<lambda>_ st. (Ok (), st)))
                        (\<lambda>_ st. startReader x f st)
                 else (Ok (), st))
                (\<lambda>_ st. let n = nat (dst - bytesRead st) in andThen (copyN f n st)
                   (\<lambda>(p, eof) st.
                      if eof then
                        (Ok (if whence = SeekStart then offset
                             else if whence = SeekCurrent then bytesRead st + offset
                             else infoSize (flInfo (fst st)) - offset), st)
                      else (Ok (int n), st))))"

definition FileSeek ::
  "external \<Rightarrow> ('b, 'p, 'e) stfs \<Rightarrow> ('w, 'e) buffers \<Rightarrow> int \<Rightarrow> int \<Rightarrow> ('w, 'b, 'p, 'e) file_state
   \<Rightarrow> int res \<times> ('w, 'b, 'p, 'e) file_state" where
  "FileSeek x f bufs offset whence st = seekWithoutLocking x f bufs offset whence st"

text \<open>The bytes read, and whether \<open>io.EOF\<close> comes with them. \<open>n\<close> is the length of the slice.\<close>

definition FileRead ::
  "external \<Rightarrow> ('b, 'p, 'e) stfs \<Rightarrow> ('w, 'e) buffers \<Rightarrow> nat \<Rightarrow> ('w, 'b, 'p, 'e) file_state
   \<Rightarrow> (bytes \<times> bool) res \<times> ('w, 'b, 'p, 'e) file_state" where
  "FileRead x f bufs n st =
     (if \<not> flagRead (flFlags (fst st)) then (Err ErrPermission, st)
      else if n = 0 then (Ok ([], False), st)
      else if infoIsDir (flInfo (fst st)) then (Err ErrIsDirectory, st)
      else if flWriteBuf (fst st) \<noteq> None then
        orElse (andThen (onFile (onBuf (wcRead (bufCache bufs) n)) st) (\<lambda>p st. (Ok (p, False), st)))
          (\<lambda>e st. if e = EOF then (Ok ([], True), st) else (Err e, st))
      else andThen (if flReader (fst st) = None then startReader x f st else (Ok (), st))
             (\<lambda>_ st. copyN f n st))"

definition FileReadAt ::
  "external \<Rightarrow> ('b, 'p, 'e) stfs \<Rightarrow> ('w, 'e) buffers \<Rightarrow> nat \<Rightarrow> int \<Rightarrow> ('w, 'b, 'p, 'e) file_state
   \<Rightarrow> (bytes \<times> bool) res \<times> ('w, 'b, 'p, 'e) file_state" where
  "FileReadAt x f bufs n off st =
     (if \<not> flagRead (flFlags (fst st)) then (Err ErrPermission, st)
      else if n = 0 then (Ok ([], False), st)
      else if infoIsDir (flInfo (fst st)) then (Err ErrIsDirectory, st)
      else andThen (FileSeek x f bufs off SeekStart st) (\<lambda>_ st. FileRead x f bufs n st))"

definition FileWriteAt ::
  "external \<Rightarrow> ('b, 'p, 'e) stfs \<Rightarrow> ('w, 'e) buffers \<Rightarrow> bytes \<Rightarrow> int \<Rightarrow> ('w, 'b, 'p, 'e) file_state
   \<Rightarrow> nat res \<times> ('w, 'b, 'p, 'e) file_state" where
  "FileWriteAt x f bufs p off =
     whenWritable (\<lambda>st. andThen (enterWriteMode x f bufs st)
       (\<lambda>_ st. andThen (seekWithoutLocking x f bufs off SeekStart st)
          (\<lambda>_ st. onFile (onBuf (wcWrite (bufCache bufs) p)) st)))"

definition FileSync ::
  "external \<Rightarrow> ('b, 'p, 'e) stfs \<Rightarrow> ('w, 'e) buffers \<Rightarrow> ('w, 'b, 'p, 'e) file_state
   \<Rightarrow> unit res \<times> ('w, 'b, 'p, 'e) file_state" where
  "FileSync x f bufs st = syncWithoutLocking x f bufs st"

definition FileClose ::
  "external \<Rightarrow> ('b, 'p, 'e) stfs \<Rightarrow> ('w, 'e) buffers \<Rightarrow> ('w, 'b, 'p, 'e) file_state
   \<Rightarrow> unit res \<times> ('w, 'b, 'p, 'e) file_state" where
  "FileClose x f bufs st = closeWithoutLocking x f bufs st"

section \<open>Names and directories\<close>

definition FileName :: "'w stfs_file \<Rightarrow> string" where
  "FileName fl =
     (if flLink fl \<noteq> [] then (if IsRoot (flLink fl) False then [] else flLink fl)
      else if IsRoot (flPath fl) False then [] else flPath fl)"

text \<open>The information is shared with the file: the size and the name it is given here stay.\<close>

definition FileStat ::
  "('w, 'e) buffers \<Rightarrow> ('w, 'b, 'p, 'e) file_state \<Rightarrow> fileinfo res \<times> ('w, 'b, 'p, 'e) file_state" where
  "FileStat bufs st =
     andThen
       (if flWriteBuf (fst st) \<noteq> None
        then andThen (onFile (onBuf (wcSize (bufCache bufs))) st)
               (\<lambda>sz (fl, s). (Ok (), (fl\<lparr>flInfo := (flInfo fl)\<lparr>infoSize := sz\<rparr>\<rparr>, s)))
        else (Ok (), st))
       (\<lambda>_ (fl, s).
          let fl = (if flLink fl \<noteq> [] then fl\<lparr>flInfo := (flInfo fl)\<lparr>infoName := Base (flLink fl)\<rparr>\<rparr> else fl)
          in (Ok (flInfo fl), (fl, s)))"

definition FileReaddir ::
  "('b, 'p, 'e) stfs \<Rightarrow> int \<Rightarrow> ('w, 'b, 'p, 'e) file_state
   \<Rightarrow> fileinfo list res \<times> ('w, 'b, 'p, 'e) file_state" where
  "FileReaddir f count st =
     (if \<not> infoIsDir (flInfo (fst st)) then (Err ErrIsFile, st)
      else andThen (onOps (ListEntries (fsMetadata f) (flPath (fst st)) count (fsOnHeader f)) st)
             (\<lambda>hdrs st. (Ok (map NewFileInfoFromTarHeader hdrs), st)))"

definition FileReaddirnames ::
  "('b, 'p, 'e) stfs \<Rightarrow> int \<Rightarrow> ('w, 'b, 'p, 'e) file_state
   \<Rightarrow> string list res \<times> ('w, 'b, 'p, 'e) file_state" where
  "FileReaddirnames f n st =
     (if \<not> infoIsDir (flInfo (fst st)) then (Err ErrIsFile, st)
      else andThen (FileReaddir f n st) (\<lambda>dirs st. (Ok (map infoName dirs), st)))"

end
