(* ===== verification/FileLemmas.thy ===== *)
theory FileLemmas
  imports File
begin

text \<open>
  What the methods of a file do to its buffer, over any cache that meets the contract: the facts the
  properties of files rest on.
\<close>

lemma zeroBytes_simps [simp]:
  "length (zeroBytes n) = n" "zeroBytes 0 = []" "zeroBytes n = [] \<longleftrightarrow> n = 0"
  by (simp_all add: zeroBytes_def)

lemma zeroBytes_append: "zeroBytes m @ zeroBytes n = zeroBytes (m + n)"
  by (simp add: zeroBytes_def replicate_add)

text \<open>What a write leaves at the place that was written, before it and behind it.\<close>

lemma take_overwrite: "take (length p) (drop q (overwrite c q p)) = p"
  by (auto simp: overwrite_def resize_def)

lemma length_overwrite: "length (overwrite c q p) = (if p = [] then length c else max (length c) (q + length p))"
  by (auto simp: overwrite_def resize_def)

lemma overwrite_end: "overwrite c (length c) p = c @ p"
  by (simp add: overwrite_def resize_def)

lemma overwrite_empty: "overwrite [] q (zeroBytes n) = (if n = 0 then [] else zeroBytes (q + n))"
  by (simp add: overwrite_def resize_def zeroBytes_append)

context cache_contract
begin

lemma seek_Ok:
  assumes "ok w"
  obtains w' where "wcSeek wc (int q) SeekStart w = (Ok (int q), w')" "ok w'"
    "contents w' = contents w" "position w' = q"
  using seek_is [OF assms, of q] by blast

lemma write_Ok:
  assumes "ok w"
  obtains w' where "wcWrite wc p w = (Ok (length p), w')" "ok w'"
    "contents w' = overwrite (contents w) (position w) p" "position w' = position w + length p"
  using write_is [OF assms, of p] by blast

lemma getBuffer_Ok:
  assumes "ok w"
  obtains w' where "getBuffer wc w = (Ok (contents w, contents w), w')" "ok w'" "contents w' = contents w"
proof -
  obtain w1 where 1: "wcSeek wc (int 0) SeekStart w = (Ok (int 0), w1)" "ok w1" "contents w1 = contents w"
    "position w1 = 0" using assms by (rule seek_Ok)
  obtain w2 where 2: "wcRead wc (length (contents w)) w1 = (Ok (contents w), w2)" "ok w2"
    "contents w2 = contents w"
  proof (cases "contents w = []")
    case True
    then show ?thesis using that read_none [OF 1(2)] 1(2,3) by simp
  next
    case False
    then show ?thesis using that read_is [OF 1(2), of "contents w" "length (contents w)"] 1(3,4) by auto
  qed
  have "getBuffer wc w = (Ok (contents w, contents w), w2)"
    using 1 2(1) size_is [OF 1(2)] by (simp add: getBuffer_def readAll_def orElse_def attempt_def)
  then show ?thesis using 2(2,3) by (rule that)
qed

lemma writeZeros_Ok:
  assumes "ok w" "contents w = [] \<or> contents w = zeroBytes (position w)"
  shows "\<exists>w'. writeZeros wc n w = (Ok (), w') \<and> ok w'
    \<and> contents w' = (if n = 0 then contents w else zeroBytes (position w + n))"
  using assms
proof (induction n arbitrary: w)
  case (Suc n)
  obtain w1 where 1: "wcWrite wc (zeroBytes 1) w = (Ok 1, w1)" "ok w1"
    "contents w1 = overwrite (contents w) (position w) (zeroBytes 1)" "position w1 = position w + 1"
    using write_Ok [OF Suc.prems(1), of "zeroBytes 1"] by (metis zeroBytes_simps(1))
  have c: "contents w1 = zeroBytes (position w1)"
  proof (cases "contents w = []")
    case False
    then have "overwrite (contents w) (length (contents w)) (zeroBytes 1) = zeroBytes (position w + 1)"
      using Suc.prems(2) by (metis overwrite_end zeroBytes_append)
    then show ?thesis using False Suc.prems(2) 1(3,4) by (metis zeroBytes_simps(1))
  qed (simp add: 1(3,4) overwrite_empty)
  obtain w' where w': "writeZeros wc n w1 = (Ok (), w')" "ok w'"
    "contents w' = (if n = 0 then contents w1 else zeroBytes (position w1 + n))"
    using Suc.IH [OF 1(2)] c by auto
  have "contents w' = zeroBytes (position w + Suc n)" using w'(3) 1(4) c by auto
  then show ?case using w'(1,2) 1(1) by (auto simp: andThen_def attempt_def)
qed (simp add: assms)

text \<open>\<open>Truncate\<close>: it cuts the contents, or replaces them by zeros.\<close>

lemma truncateBuf_Ok:
  assumes "ok w"
  shows "\<exists>w'. truncateBuf wc (int n) w = (Ok (), w') \<and> ok w'
    \<and> contents w' = (if n \<le> length (contents w) then take n (contents w) else zeroBytes (position w + n))"
proof (cases "n \<le> length (contents w)")
  case True
  then show ?thesis
    using truncate_is [OF assms True] size_is [OF assms] by (auto simp: truncateBuf_def)
next
  case False
  obtain w1 where 1: "wcTruncate wc 0 w = (Ok (), w1)" "ok w1" "contents w1 = []" "position w1 = position w"
    using truncate_is [OF assms, of 0] by auto
  obtain w' where "writeZeros wc n w1 = (Ok (), w')" "ok w'" "contents w' = zeroBytes (position w + n)"
    using writeZeros_Ok [OF 1(2), of n] 1(3,4) False by auto
  then show ?thesis using 1(1) size_is [OF assms] False by (auto simp: truncateBuf_def)
qed

text \<open>What is written is read back from the place where it was written.\<close>

lemma write_seek_read:
  assumes "ok w" "p \<noteq> []" "wcWrite wc p w = (Ok n, w1)" "wcSeek wc (int (position w)) SeekStart w1 = (Ok k, w2)"
  shows "n = length p \<and> (\<exists>w3. wcRead wc (length p) w2 = (Ok p, w3) \<and> ok w3)"
proof -
  have 1: "n = length p" "ok w1" "contents w1 = overwrite (contents w) (position w) p"
    using write_is [OF assms(1), of p] assms(3) by auto
  have 2: "ok w2" "contents w2 = contents w1" "position w2 = position w"
    using seek_is [OF 1(2), of "position w"] assms(4) by auto
  have "take (length p) (drop (position w2) (contents w2)) = p"
    unfolding 2(2,3) 1(3) by (rule take_overwrite)
  then show ?thesis using read_is [OF 2(1), of p "length p"] assms(2) 1(1) by auto
qed

end

end
