(* ===== verification/Opening.thy ===== *)
theory Opening
  imports File
begin

text \<open>
  The methods of the file system that open files: \<open>OpenFile\<close>, with the flags of the operating
  system, \<open>Open\<close> and \<open>Create\<close>.
\<close>

unbundle bit_operations_syntax

type_synonym open_flag = "64 word"

definition O_ACCMODE :: open_flag where "O_ACCMODE = 3"
definition O_RDONLY :: open_flag where "O_RDONLY = 0"
definition O_WRONLY :: open_flag where "O_WRONLY = 1"
definition O_RDWR :: open_flag where "O_RDWR = 2"
definition O_CREATE :: open_flag where "O_CREATE = 0x40"
definition O_EXCL :: open_flag where "O_EXCL = 0x80"
definition O_TRUNC :: open_flag where "O_TRUNC = 0x200"
definition O_APPEND :: open_flag where "O_APPEND = 0x400"

lemmas open_flag_defs =
  O_ACCMODE_def O_RDONLY_def O_WRONLY_def O_RDWR_def O_CREATE_def O_EXCL_def O_TRUNC_def O_APPEND_def

text \<open>What a file may be used for.\<close>

definition openFlags :: "('b, 'p, 'e) stfs \<Rightarrow> open_flag \<Rightarrow> file_flags" where
  "openFlags f flag =
     (let mode = flag AND O_ACCMODE
      in if fsReadOnly f
         then \<lparr>flagRead = (mode = O_RDONLY \<or> mode = O_RDWR), flagWrite = False,
               flagAppend = False, flagTruncate = False\<rparr>
         else \<lparr>flagRead = (mode = O_RDONLY \<or> mode = O_WRONLY \<and> fsWritePermImpliesReadPerm f
                           \<or> mode = O_RDWR),
               flagWrite = (mode = O_WRONLY \<or> mode = O_RDWR),
               flagAppend = (flag AND O_APPEND \<noteq> 0), flagTruncate = (flag AND O_TRUNC \<noteq> 0)\<rparr>)"

definition mayCreate :: "('b, 'p, 'e) stfs \<Rightarrow> open_flag \<Rightarrow> bool" where
  "mayCreate f flag = (\<not> fsReadOnly f \<and> flag AND O_CREATE \<noteq> 0 \<and> flag AND O_EXCL = 0)"

text \<open>Creating the file that was asked for, where that is allowed.\<close>

definition createFile ::
  "external \<Rightarrow> ('b, 'p, 'e) stfs \<Rightarrow> string \<Rightarrow> open_flag \<Rightarrow> filemode \<Rightarrow> ('b, 'p, 'e) ops_state
   \<Rightarrow> tar_header res \<times> ('b, 'p, 'e) ops_state" where
  "createFile x f name flag perm s =
     (if mayCreate f flag
      then andThen (parentExists f name s)
        (\<lambda>_ s. andThen
           (attempt (fsStat f name True s)
              (\<lambda>target s. if tTypeflag target = TypeDir then (Err ErrIsDirectory, s) else (Ok (), s))
              (\<lambda>_ s. (Ok (), s)) (\<lambda>s. s))
        (\<lambda>_ s. andThen (mknodeWithoutLocking x f False name perm False [] False s)
        (\<lambda>_ s. notExist (fsStat f name False s))))
      else (Err ErrNotExist, s))"

text \<open>
  The entry to open: the one under the path; what a link under the path points to, under the path
  of the link; or a new one. With \<open>O_CREATE\<close> an existing target of a link is looked up once more, as
  a link itself.
\<close>

definition openTarget ::
  "external \<Rightarrow> ('b, 'p, 'e) stfs \<Rightarrow> string \<Rightarrow> open_flag \<Rightarrow> filemode \<Rightarrow> tar_header
   \<Rightarrow> ('b, 'p, 'e) ops_state \<Rightarrow> tar_header res \<times> ('b, 'p, 'e) ops_state" where
  "openTarget x f name flag perm link s =
     andThen
       (orElse
          (andThen (fsStat f (tLinkname link) False s)
             (\<lambda>hdr s. if mayCreate f flag then fsStat f (tLinkname hdr) True s else (Ok hdr, s)))
          (\<lambda>e s. if e = ErrNoRows then createFile x f name flag perm s else (Err e, s)))
       (\<lambda>hdr s. (Ok (hdr\<lparr>tLinkname := tName link\<rparr>), s))"

definition openEntry ::
  "external \<Rightarrow> ('b, 'p, 'e) stfs \<Rightarrow> string \<Rightarrow> open_flag \<Rightarrow> filemode
   \<Rightarrow> ('b, 'p, 'e) ops_state \<Rightarrow> tar_header res \<times> ('b, 'p, 'e) ops_state" where
  "openEntry x f name flag perm s =
     orElse (fsStat f name False s)
       (\<lambda>e s. if e = ErrNoRows
              then attempt (fsStat f name True s)
                     (\<lambda>link s. openTarget x f name flag perm link s)
                     (\<lambda>e s. if e = ErrNoRows then createFile x f name flag perm s else (Err e, s))
                     (\<lambda>s. s)
              else (Err e, s))"

definition OpenFile ::
  "external \<Rightarrow> ('b, 'p, 'e) stfs \<Rightarrow> string \<Rightarrow> open_flag \<Rightarrow> filemode \<Rightarrow> ('b, 'p, 'e) ops_state
   \<Rightarrow> 'w stfs_file res \<times> ('b, 'p, 'e) ops_state" where
  "OpenFile x f name flag perm s =
     (if checkName name then (Err ErrInvalid, s)
      else andThen (openEntry x f (cleanName name) flag perm s)
        (\<lambda>hdr s.
           let flags = openFlags f flag
           in if tTypeflag hdr = TypeDir \<and> (flagWrite flags \<or> flagAppend flags \<or> flagTruncate flags)
              then (Err ErrIsDirectory, s)
              else (Ok (NewFile (tName hdr) (tLinkname hdr) flags (Base (tName hdr))
                          (NewFileInfoFromTarHeader hdr)), s)))"

definition OpenReadOnly ::
  "external \<Rightarrow> ('b, 'p, 'e) stfs \<Rightarrow> string \<Rightarrow> ('b, 'p, 'e) ops_state
   \<Rightarrow> 'w stfs_file res \<times> ('b, 'p, 'e) ops_state" where
  "OpenReadOnly x f name s = OpenFile x f (cleanName name) O_RDONLY 0 s"

definition Create ::
  "external \<Rightarrow> ('b, 'p, 'e) stfs \<Rightarrow> string \<Rightarrow> ('b, 'p, 'e) ops_state
   \<Rightarrow> 'w stfs_file res \<times> ('b, 'p, 'e) ops_state" where
  "Create x f name s =
     (if fsReadOnly f then (Err ErrPermission, s)
      else if checkName name then (Err ErrInvalid, s)
      else let name = cleanName name
           in andThen (parentExists f name s)
                (\<lambda>_ s. OpenFile x f name (O_RDWR OR O_CREATE OR O_TRUNC) 0x1B6 s))"

end
