(* ===== verification/OperationsLemmas.thy ===== *)
theory OperationsLemmas
  imports Operations IndexWalk
begin

text \<open>
  What the parts of an operation do: a successful writing session leaves complete entries, one
  for every header it hands on, and indexing after it applies exactly those headers, each at the
  location of its entry.
\<close>

section \<open>Lifting\<close>

lemma on_ops_simps [simp]:
  "fst (onBackend f s) = fst (f (osBackend s))"
  "snd (onBackend f s) = s\<lparr>osBackend := snd (f (osBackend s))\<rparr>"
  "fst (onMetadata g s) = fst (g (osMetadata s))"
  "snd (onMetadata g s) = s\<lparr>osMetadata := snd (g (osMetadata s))\<rparr>"
  by (simp_all add: onBackend_def onMetadata_def case_prod_beta)

lemma onBackend_Ok: "f (osBackend s) = (r, b) \<Longrightarrow> onBackend f s = (r, s\<lparr>osBackend := b\<rparr>)"
  by (simp add: onBackend_def)

lemma onMetadata_Ok: "f (osMetadata s) = (r, p) \<Longrightarrow> onMetadata f s = (r, s\<lparr>osMetadata := p\<rparr>)"
  by (simp add: onMetadata_def)

lemma onWEvents_justFile [simp]: "onWEvents (justFile file) w = (Ok file, w)"
  by (simp add: onWEvents_def justFile_def)

section \<open>The writing session\<close>

text \<open>The header as it goes to the drive, and an entry that holds it.\<close>

definition encodeHeader :: "external \<Rightarrow> 'e operations \<Rightarrow> tar_header \<Rightarrow> tar_header res" where
  "encodeHeader x op hdr =
     rbind (SignHeader x hdr True (Signature (opPipes op)) (Identity (opCrypto op)))
       (\<lambda>hdr. EncryptHeader x hdr (Encryption (opPipes op)) (Recipient (opCrypto op)))"

definition entryOf :: "external \<Rightarrow> 'e operations \<Rightarrow> tar_header \<Rightarrow> entry \<Rightarrow> bool" where
  "entryOf x op hdr e =
     (entryWf e \<and> rbind (encodeHeader x op hdr) (xWireHeader x) = Ok (fst e, fst (snd e)))"

text \<open>
  The session so far: nothing is dirty before the first header, and unless the last entry still
  misses contents, the blocks written are complete entries of the headers.
\<close>

definition sessionInv :: "external \<Rightarrow> 'e operations \<Rightarrow> 'e writing \<Rightarrow> bool" where
  "sessionInv x op w =
     ((wDirty w \<longleftrightarrow> wHdrs w \<noteq> []) \<and> (wHdrs w = [] \<longrightarrow> twOwed (wTar w) = 0)
      \<and> (twOwed (wTar w) = 0 \<longrightarrow>
           (\<exists>es. twMedium (wTar w) = entriesBlocks es \<and> list_all2 (entryOf x op) (wHdrs w) es)))"

definition keepsSession :: "external \<Rightarrow> 'e operations \<Rightarrow> ('e writing \<Rightarrow> unit res \<times> 'e writing) \<Rightarrow> bool" where
  "keepsSession x op f = (\<forall>w w'. sessionInv x op w \<longrightarrow> f w = (Ok (), w') \<longrightarrow> sessionInv x op w')"

lemma onTar_Ok: "onTar f w = (Ok r, w') \<longleftrightarrow> (\<exists>t. f (wTar w) = (Ok r, t) \<and> w' = w\<lparr>wTar := t\<rparr>)"
  by (auto simp: onTar_def split: prod.splits)

lemma onWEvents_Ok: "onWEvents f w = (r, w') \<Longrightarrow> \<exists>ev. w' = w\<lparr>wEvents := ev\<rparr>"
  by (auto simp: onWEvents_def split: prod.splits)

lemma announce_Ok:
  "announce op ty h w = (Ok (), w') \<Longrightarrow> \<exists>ev. w' = w\<lparr>wEvents := ev\<rparr>"
  by (simp add: announce_def onWEvents_Ok)

lemma sizeFile_events:
  "sizeFile x op level file hdr w = (Ok r, w') \<Longrightarrow> \<exists>ev. w' = w\<lparr>wEvents := ev\<rparr>"
  by (auto simp: sizeFile_def andThen_Ok_iff dest!: onWEvents_Ok split: prod.splits)

lemma writeHeader_Ok:
  assumes "writeHeader x op hdr w = (Ok (), w')"
  shows "\<exists>h n. twOwed (wTar w) = 0 \<and> rbind (encodeHeader x op hdr) (xWireHeader x) = Ok (h, n)
    \<and> w' = w\<lparr>wTar := \<lparr>twMedium = twMedium (wTar w) @ BHead h n # replicate n BCont,
                      twOwed = payload h\<rparr>, wDirty := True\<rparr>"
  using assms
  by (auto simp: writeHeader_def encodeHeader_def onTar_def twWriteHeader_def andThen_Ok_iff
      split: prod.splits if_splits res.splits)

lemma twWrite_complete:
  assumes "twWrite s \<lparr>twMedium = m @ BHead h n # replicate n BCont, twOwed = payload h\<rparr> = (Ok (), tw)"
    and "twOwed tw = 0"
  shows "payload h = length s \<and> twMedium tw = m @ entryBlocks h n s"
  using assms by (auto simp: twWrite_def Let_def entryBlocks_def split: if_splits)

lemma sessionInv_entry:
  assumes "sessionInv x op w" "twOwed (wTar w) = 0" "entryOf x op hdr (h, n, c)"
    and "twMedium (wTar w') = twMedium (wTar w) @ entryBlocks h n c"
    and "wDirty w'" "wHdrs w' = wHdrs w @ [hdr]"
  shows "sessionInv x op w'"
proof -
  obtain es where es: "twMedium (wTar w) = entriesBlocks es" "list_all2 (entryOf x op) (wHdrs w) es"
    using assms(1,2) by (auto simp: sessionInv_def)
  have "twMedium (wTar w') = entriesBlocks (es @ [(h, n, c)])" using es assms(4) by simp
  moreover have "list_all2 (entryOf x op) (wHdrs w') (es @ [(h, n, c)])"
    using es assms(3,6) by (simp add: list_all2_appendI)
  ultimately show ?thesis using assms(5,6) unfolding sessionInv_def by (auto intro!: exI [of _ "es @ [(h, n, c)]"])
qed

lemma entriesBlocks_snoc_header:
  "payload h = 0 \<Longrightarrow> entryBlocks h n [] = BHead h n # replicate n BCont"
  by (simp add: entryBlocks_def dataBlocks.simps)

text \<open>A header alone, and a header with contents.\<close>

lemma header_inv:
  assumes "sessionInv x op w" "writeHeader x op hdr (w\<lparr>wHdrs := wHdrs w @ [hdr]\<rparr>) = (Ok (), w')"
  shows "sessionInv x op w'"
proof -
  obtain h n where h: "twOwed (wTar w) = 0" "rbind (encodeHeader x op hdr) (xWireHeader x) = Ok (h, n)"
    "w' = w\<lparr>wHdrs := wHdrs w @ [hdr], wTar := \<lparr>twMedium = twMedium (wTar w) @ BHead h n # replicate n BCont,
       twOwed = payload h\<rparr>, wDirty := True\<rparr>"
    using writeHeader_Ok [OF assms(2)] by auto
  show ?thesis
  proof (cases "payload h = 0")
    case True
    then have "entryOf x op hdr (h, n, [])" using h(2) by (simp add: entryOf_def entryWf_def)
    then show ?thesis
      by (rule sessionInv_entry [OF assms(1) h(1)]) (simp_all add: h(3) entriesBlocks_snoc_header True)
  qed (simp add: sessionInv_def h(3))
qed

lemma contents_inv:
  assumes "sessionInv x op w" "writeHeader x op hdr (w\<lparr>wHdrs := wHdrs w @ [hdr]\<rparr>) = (Ok (), w')"
    and "writeContents x op level file c w' = (Ok (), w'')"
  shows "sessionInv x op w''"
proof -
  obtain h n where h: "twOwed (wTar w) = 0" "rbind (encodeHeader x op hdr) (xWireHeader x) = Ok (h, n)"
    "w' = w\<lparr>wHdrs := wHdrs w @ [hdr], wTar := \<lparr>twMedium = twMedium (wTar w) @ BHead h n # replicate n BCont,
       twOwed = payload h\<rparr>, wDirty := True\<rparr>"
    using writeHeader_Ok [OF assms(2)] by auto
  obtain u tw where u: "twWrite u (wTar w') = (Ok (), tw)"
    "onWEvents (fcClose file) (w'\<lparr>wTar := tw\<rparr>) = (Ok (), w'')"
    using assms(3) by (auto simp: writeContents_def onTar_Ok andThen_Ok_iff)
  obtain ev where ev: "w'' = w'\<lparr>wTar := tw, wEvents := ev\<rparr>" using onWEvents_Ok [OF u(2)] by blast
  show ?thesis
  proof (cases "twOwed tw = 0")
    case True
    then have c: "payload h = length u" "twMedium tw = twMedium (wTar w) @ entryBlocks h n u"
      using twWrite_complete [of u "twMedium (wTar w)" h n tw] u(1) by (simp_all add: h(3))
    then have "entryOf x op hdr (h, n, u)" using h(2) by (simp add: entryOf_def entryWf_def)
    then show ?thesis
      by (rule sessionInv_entry [OF assms(1) h(1)]) (simp_all add: ev h(3) c)
  qed (simp add: sessionInv_def ev h(3))
qed

lemma sessionInv_events: "sessionInv x op w \<Longrightarrow> sessionInv x op (w\<lparr>wEvents := ev\<rparr>)"
  by (simp add: sessionInv_def)

lemma announce_inv:
  "sessionInv x op w \<Longrightarrow> announce op ty h w = (Ok (), w') \<Longrightarrow> sessionInv x op w'"
  by (drule announce_Ok) (auto intro: sessionInv_events)

lemma sizeFile_inv:
  "sessionInv x op w \<Longrightarrow> sizeFile x op level file hdr w = (Ok r, w') \<Longrightarrow> sessionInv x op w'"
  by (drule sizeFile_events) (auto intro: sessionInv_events)

lemma archiveFile_inv:
  assumes "sessionInv x op w" "archiveFile x op level file w = (Ok (), w')"
  shows "sessionInv x op w'"
proof (cases "FileInfoHeader (fcInfo file) (fcLink file) = Err ErrSocketsNotSupported")
  case False
  have "\<exists>hdr w0 w1 w2. sessionInv x op w0 \<and> announce op HeaderEventTypeArchive hdr w0 = (Ok (), w1)
    \<and> writeHeader x op hdr (w1\<lparr>wHdrs := wHdrs w1 @ [hdr]\<rparr>) = (Ok (), w2)
    \<and> (w' = w2 \<or> (\<exists>c. writeContents x op level file c w2 = (Ok (), w')))"
    using assms False
    by (auto simp: archiveFile_def andThen_Ok_iff Let_def split: if_splits)
      (blast intro: sizeFile_inv [OF assms(1)])+
  then show ?thesis
    using announce_inv header_inv contents_inv by blast
qed (use assms in \<open>simp add: archiveFile_def\<close>)

lemma updateFile_inv:
  assumes "sessionInv x op w" "updateFile x op level replace skip file w = (Ok (), w')"
  shows "sessionInv x op w'"
proof (cases "FileInfoHeader (fcInfo file) (fcLink file) = Err ErrSocketsNotSupported")
  case False
  have "\<exists>hdr w0 w1 w2. sessionInv x op w0 \<and> announce op HeaderEventTypeUpdate hdr w0 = (Ok (), w1)
    \<and> writeHeader x op hdr (w1\<lparr>wHdrs := wHdrs w1 @ [hdr]\<rparr>) = (Ok (), w2)
    \<and> (w' = w2 \<or> (\<exists>c. writeContents x op level file c w2 = (Ok (), w')))"
    using assms False
    by (auto simp: updateFile_def andThen_Ok_iff Let_def split: if_splits)
      (blast intro: sizeFile_inv [OF assms(1)])+
  then show ?thesis
    using announce_inv header_inv contents_inv by blast
qed (use assms in \<open>simp add: updateFile_def\<close>)

lemma appendRecord_inv:
  assumes "sessionInv x op w" "appendRecord x op ty edit dbhdr w = (Ok (), w')"
  shows "sessionInv x op w'"
proof -
  obtain hdr w1 where s: "announce op ty hdr (w\<lparr>wHdrs := wHdrs w @ [hdr]\<rparr>) = (Ok (), w1)"
    "writeHeader x op hdr w1 = (Ok (), w')"
    using assms(2) by (auto simp: appendRecord_def andThen_Ok_iff Let_def)
  from announce_Ok [OF s(1)] obtain ev where w1: "w1 = w\<lparr>wHdrs := wHdrs w @ [hdr], wEvents := ev\<rparr>"
    by auto
  let ?w = "w\<lparr>wEvents := ev\<rparr>"
  have "w1 = ?w\<lparr>wHdrs := wHdrs ?w @ [hdr]\<rparr>" by (simp add: w1)
  then show ?thesis using header_inv [of x op ?w hdr w'] s(2) sessionInv_events [OF assms(1)] by simp
qed

lemma forSources_keeps:
  assumes "\<And>file. keepsSession x op (f file)"
  shows "keepsSession x op (forSources f srcs)"
proof -
  have "sessionInv x op w \<Longrightarrow> forSources f srcs w = (Ok (), w') \<Longrightarrow> sessionInv x op w'" for w w'
  proof (induction srcs arbitrary: w)
    case (Cons src srcs)
    obtain r w1 where 1: "onWEvents src w = (r, w1)" by force
    then have "sessionInv x op w1"
      using onWEvents_Ok [OF 1] sessionInv_events [OF Cons.prems(1)] by auto
    then show ?case
      using Cons.IH Cons.prems(2) assms 1 by (auto simp: andThen_Ok_iff keepsSession_def split: if_splits)
  qed simp
  then show ?thesis by (simp add: keepsSession_def)
qed

lemma forHeaders_keeps:
  assumes "\<And>h. keepsSession x op (f h)"
  shows "keepsSession x op (forHeaders f hs)"
proof -
  have "sessionInv x op w \<Longrightarrow> forHeaders f hs w = (Ok (), w') \<Longrightarrow> sessionInv x op w'" for w w'
    by (induction hs arbitrary: w)
      (use assms in \<open>auto simp: andThen_Ok_iff keepsSession_def\<close>)
  then show ?thesis by (simp add: keepsSession_def)
qed

lemma archive_keeps: "keepsSession x op (forSources (archiveFile x op level) srcs)"
  using archiveFile_inv by (intro forSources_keeps) (auto simp: keepsSession_def)

lemma update_keeps: "keepsSession x op (forSources (updateFile x op level replace skip) srcs)"
  using updateFile_inv by (intro forSources_keeps) (auto simp: keepsSession_def)

lemma records_keep: "keepsSession x op (forHeaders (\<lambda>h. appendRecord x op ty (edit h) h) hs)"
  using appendRecord_inv by (intro forHeaders_keeps) (auto simp: keepsSession_def)

lemmas keeps = archive_keeps update_keeps records_keep

text \<open>The archive a session appends: none, if it wrote nothing.\<close>

definition appended :: "entry list \<Rightarrow> entry list list" where
  "appended es = (if es = [] then [] else [es])"

lemma writeSession_Ok:
  assumes "writeSession bc f s = (Ok hdrs, s')"
    and "keepsSession x op f"
  shows "\<exists>es ev. list_all2 (entryOf x op) hdrs es
    \<and> s' = s\<lparr>osBackend := bcAppend bc (tapeBlocks (appended es)) (osBackend s), osEvents := ev\<rparr>"
proof -
  let ?w0 = "\<lparr>wTar = \<lparr>twMedium = [], twOwed = 0\<rparr>, wHdrs = [], wDirty = False, wEvents = osEvents s\<rparr>"
  obtain w w' where w: "f ?w0 = (Ok (), w)" "cleanupTape w = (Ok (), w')" "hdrs = wHdrs w'"
    "s' = s\<lparr>osBackend := bcAppend bc (twMedium (wTar w')) (osBackend s), osEvents := wEvents w'\<rparr>"
    using assms(1)
    by (auto simp: writeSession_def Let_def rbind_Ok_iff andThen_Ok_iff split: prod.splits)
  have "sessionInv x op ?w0" by (auto simp: sessionInv_def intro!: exI [of _ "[]"])
  then have inv: "sessionInv x op w" using assms(2) w(1) by (simp add: keepsSession_def)
  show ?thesis
  proof (cases "wHdrs w = []")
    case True
    then have d: "\<not> wDirty w" using inv by (simp add: sessionInv_def)
    have "twMedium (wTar w) = []" using inv True by (auto simp: sessionInv_def)
    then show ?thesis
      using w d True by (auto simp: cleanupTape_def appended_def intro!: exI [of _ "[]"])
  next
    case False
    then have d: "wDirty w" using inv by (simp add: sessionInv_def)
    then have o: "twOwed (wTar w) = 0" "w' = w\<lparr>wTar := (wTar w)\<lparr>twMedium := twMedium (wTar w) @ [BZero, BZero]\<rparr>\<rparr>"
      using w(2) by (auto simp: cleanupTape_def onTar_def twClose_def split: if_splits)
    then obtain es where es: "twMedium (wTar w) = entriesBlocks es" "list_all2 (entryOf x op) (wHdrs w) es"
      using inv by (auto simp: sessionInv_def)
    then have "es \<noteq> []" using False by auto
    then show ?thesis
      using w es o by (intro exI [of _ es]) (auto simp: appended_def)
  qed
qed

section \<open>Indexing what was appended\<close>

lemma deferCloseReader_eq:
  assumes "r \<noteq> Hang" "bcCloseReader bc (osBackend s) = (Ok (), b)"
  shows "deferCloseReader bc (r, s) = (r, s\<lparr>osBackend := b\<rparr>)"
  using assms by (simp add: deferCloseReader_def onBackend_def)

lemma indexDrive_eq:
  assumes "bcMedium bc (osBackend s) = Some m"
  shows "indexDrive bc mp op ty hdrs rec blk ov init off s =
    (fst (Index m mp (opPipes op) rec blk ov init off (pairedHeader hdrs) (\<lambda>hdr _. Ok hdr)
            (Some (notifyIndexed op ty)) (osMetadata s, osEvents s)),
     s\<lparr>osMetadata := fst (snd (Index m mp (opPipes op) rec blk ov init off (pairedHeader hdrs)
            (\<lambda>hdr _. Ok hdr) (Some (notifyIndexed op ty)) (osMetadata s, osEvents s))),
       osEvents := snd (snd (Index m mp (opPipes op) rec blk ov init off (pairedHeader hdrs)
            (\<lambda>hdr _. Ok hdr) (Some (notifyIndexed op ty)) (osMetadata s, osEvents s)))\<rparr>)"
  using assms by (simp add: indexDrive_def case_prod_beta)

text \<open>
  Applying headers to the index, each at the location of its entry: the specification of what an
  operation does to the index. \<open>q\<close> is the position of the first entry.
\<close>

definition applyHeaders ::
  "'p metadata_persister \<Rightarrow> 'e operations \<Rightarrow> string \<Rightarrow> bool \<Rightarrow> nat \<Rightarrow> entry list \<Rightarrow> tar_header list
   \<Rightarrow> 'p \<times> 'e \<Rightarrow> unit res \<times> ('p \<times> 'e)" where
  "applyHeaders mp op type initializing q new hdrs =
     visit (RecordSize (opPipes op))
       (\<lambda>i rec blk hdr. indexHeader mp rec blk hdr (Compression (opPipes op)) (Encryption (opPipes op))
          initializing (Some (notifyIndexed op type)))
       0 (zip (map fst (entriesAt q new)) hdrs)"

lemma visit_zip:
  assumes "length hdrs = length xs"
    and "\<And>k r b h s. k < length xs \<Longrightarrow> handle (i + k) r b h s = g r b (hdrs ! k) s"
  shows "visit rs handle i xs s = visit rs (\<lambda>_. g) j (zip (map fst xs) hdrs) s"
  using assms
proof (induction xs arbitrary: i j hdrs s)
  case (Cons x xs)
  obtain p h where x: "x = (p, h)" by force
  obtain hdr hdrs' where h: "hdrs = hdr # hdrs'" using Cons.prems(1) by (cases hdrs) auto
  have "handle i r b h s = g r b hdr s" for r b h s
    using Cons.prems(2) [of 0 r b h s] h by simp
  moreover have "visit rs handle (i + 1) xs = visit rs (\<lambda>_. g) (j + 1) (zip (map fst xs) hdrs')"
  proof (intro ext Cons.IH)
    show "length hdrs' = length xs" using Cons.prems(1) h by simp
    show "handle (i + 1 + k) r b h s = g r b (hdrs' ! k) s" if "k < length xs" for k r b h s
      using Cons.prems(2) [of "Suc k" r b h s] that \<open>hdrs = hdr # hdrs'\<close> by simp
  qed
  ultimately show ?case using x h by simp
qed simp

lemma length_entriesAt [simp]: "length (entriesAt q es) = length es"
  by (induction q es rule: entriesAt.induct) simp_all

lemma tapeAt_appended: "tapeAt q (appended es) = entriesAt q es"
  by (cases es) (simp_all add: appended_def)

lemma tapeWf_appended: "list_all2 (entryOf x op) hdrs es \<Longrightarrow> tapeWf (appended es)"
  by (auto simp: appended_def tapeWf_def list_all_length list_all2_conv_all_nth entryOf_def)

lemma indexEntry_paired:
  assumes "off \<le> i" "i - off < length hdrs"
  shows "indexEntry mp pipes init off (pairedHeader hdrs) (\<lambda>h _. Ok h) f i r b h s =
    indexHeader mp r b (hdrs ! (i - off)) (Compression pipes) (Encryption pipes) init f s"
  using assms by (simp add: indexEntry_def pairedHeader_def)

lemma visit_paired:
  assumes "length hdrs = length es"
  shows "visit (RecordSize (opPipes op)) (indexEntry mp (opPipes op) init off (pairedHeader hdrs)
      (\<lambda>h _. Ok h) (Some (notifyIndexed op ty))) off (entriesAt q es) s
    = applyHeaders mp op ty init q es hdrs s"
  unfolding applyHeaders_def
  by (rule visit_zip) (use assms in \<open>simp_all add: indexEntry_paired\<close>)

context drive_backend
begin

lemma writer_opened: "idle b \<Longrightarrow> onBackend (bcGetWriter bc) (s\<lparr>osBackend := b\<rparr>) =
    (Ok (), s\<lparr>osBackend := snd (bcGetWriter bc b)\<rparr>)"
  using session(1) by (simp add: onBackend_def split: prod.split) (metis prod.inject)

text \<open>From a session on an idle backend to an idle backend, with the index in between.\<close>

lemma append_and_index:
  assumes "idle b" "osBackend s = bcAppend bc t (snd (bcGetWriter bc b))"
    and "indexAppended bc mp op ty hdrs rec blk ov init s = (Ok (), s')"
  shows "idle (osBackend s') \<and> bcMedium bc (osBackend s') = Some (starts b @ t)
    \<and> starts (osBackend s') = starts b @ t
    \<and> Index (starts b @ t) mp (opPipes op) rec blk ov init (if ov then 0 else 1) (pairedHeader hdrs)
        (\<lambda>hdr _. Ok hdr) (Some (notifyIndexed op ty)) (osMetadata s, osEvents s)
      = (Ok (), (osMetadata s', osEvents s'))"
proof -
  define b1 where "b1 = snd (bcCloseWriter bc (osBackend s))"
  have b1: "bcCloseWriter bc (osBackend s) = (Ok (), b1)" "idle b1"
    "bcMedium bc b1 = Some (starts b @ t)" "starts b1 = starts b @ t"
    using session(2-5) [OF assms(1), of t] by (auto simp: b1_def assms(2) prod_eq_iff)
  define b2 where "b2 = snd (bcGetReader bc b1)"
  define b3 where "b3 = snd (bcCloseReader bc b2)"
  have b2: "bcGetReader bc b1 = (Ok (), b2)" "bcMedium bc b2 = Some (starts b @ t)"
    "bcCloseReader bc b2 = (Ok (), b3)" "idle b3" "bcMedium bc b3 = Some (starts b @ t)"
    "starts b3 = starts b @ t"
    using session(6-11) [OF b1(2,3)] b1(4) by (auto simp: b2_def b3_def prod_eq_iff)
  obtain r p ev where I: "Index (starts b @ t) mp (opPipes op) rec blk ov init (if ov then 0 else 1)
      (pairedHeader hdrs) (\<lambda>hdr _. Ok hdr) (Some (notifyIndexed op ty)) (osMetadata s, osEvents s)
    = (r, (p, ev))" by (metis prod.collapse)
  have "indexAppended bc mp op ty hdrs rec blk ov init s = deferCloseReader bc
     (indexDrive bc mp op ty hdrs rec blk ov init (if ov then 0 else 1) (s\<lparr>osBackend := b2\<rparr>))"
    using b1(1) b2(1) by (simp add: indexAppended_def Let_def onBackend_def)
  also have "\<dots> = deferCloseReader bc (r, s\<lparr>osBackend := b2, osMetadata := p, osEvents := ev\<rparr>)"
    by (simp add: indexDrive_def b2(2) I del: One_nat_def if_split)
  finally have eq: "deferCloseReader bc (r, s\<lparr>osBackend := b2, osMetadata := p, osEvents := ev\<rparr>)
      = (Ok (), s')" using assms(3) by simp
  then have "r \<noteq> Hang" by (auto simp: deferCloseReader_def)
  then have "(r, s\<lparr>osMetadata := p, osEvents := ev, osBackend := b3\<rparr>) = (Ok (), s')"
    using eq deferCloseReader_eq [of r bc "s\<lparr>osBackend := b2, osMetadata := p, osEvents := ev\<rparr>" b3] b2(3)
    by simp
  then show ?thesis using I b2(4-6) by auto
qed

text \<open>
  An operation that appends to a tape whose last entry \<open>e\<close> is the last one the index knows: the
  tape grows by one archive of complete entries, one for every header (or stays, if there were
  none), and the headers are applied to the index, each at the location of its entry.
\<close>

lemma appends_archive:
  assumes "idle (osBackend s)" "starts (osBackend s) = tapeBlocks (ess @ [es @ [e]])"
    and "tapeWf (ess @ [es @ [e]])" "0 < RecordSize (opPipes op)"
    and "(rec, blk) = locate (RecordSize (opPipes op)) (length (tapeBlocks ess @ entriesBlocks es))"
    and "osBackend s1 = snd (bcGetWriter bc (osBackend s))"
    and "writeSession bc f s1 = (Ok hdrs, s2)"
    and "indexAppended bc mp op ty hdrs rec blk False init s2 = (Ok (), s')"
    and "keepsSession x op f"
  shows "\<exists>new. list_all2 (entryOf x op) hdrs new \<and> idle (osBackend s')
    \<and> bcMedium bc (osBackend s') = Some (tapeBlocks (ess @ [es @ [e]] @ appended new))
    \<and> starts (osBackend s') = tapeBlocks (ess @ [es @ [e]] @ appended new)
    \<and> applyHeaders mp op ty init (length (tapeBlocks (ess @ [es @ [e]]))) new hdrs
        (osMetadata s2, osEvents s2) = (Ok (), (osMetadata s', osEvents s'))"
proof -
  obtain new ev where new: "list_all2 (entryOf x op) hdrs new"
    "s2 = s1\<lparr>osBackend := bcAppend bc (tapeBlocks (appended new)) (osBackend s1), osEvents := ev\<rparr>"
    using writeSession_Ok [OF assms(7,9)] by blast
  let ?m = "tapeBlocks (ess @ [es @ [e]] @ appended new)"
  have m: "starts (osBackend s) @ tapeBlocks (appended new) = ?m" by (simp add: assms(2))
  have "osBackend s2 = bcAppend bc (tapeBlocks (appended new)) (snd (bcGetWriter bc (osBackend s)))"
    by (simp add: new(2) assms(6))
  from append_and_index [OF assms(1) this assms(8)]
  have i: "idle (osBackend s')" "bcMedium bc (osBackend s') = Some ?m" "starts (osBackend s') = ?m"
    "Index ?m mp (opPipes op) rec blk False init 1 (pairedHeader hdrs) (\<lambda>hdr _. Ok hdr)
       (Some (notifyIndexed op ty)) (osMetadata s2, osEvents s2) = (Ok (), (osMetadata s', osEvents s'))"
    unfolding m by simp_all
  have "Index ?m mp (opPipes op) rec blk False init 1 (pairedHeader hdrs) (\<lambda>hdr _. Ok hdr)
       (Some (notifyIndexed op ty)) (osMetadata s2, osEvents s2)
     = visit (RecordSize (opPipes op)) (indexEntry mp (opPipes op) init 1 (pairedHeader hdrs)
         (\<lambda>h _. Ok h) (Some (notifyIndexed op ty))) 1
         (tapeAt (length (tapeBlocks (ess @ [es @ [e]]))) (appended new)) (osMetadata s2, osEvents s2)"
    by (rule Index_after_last [OF assms(4,3) tapeWf_appended [OF new(1)] assms(5)])
  then have "applyHeaders mp op ty init (length (tapeBlocks (ess @ [es @ [e]]))) new hdrs
      (osMetadata s2, osEvents s2) = (Ok (), (osMetadata s', osEvents s'))"
    using i(4) new(1) visit_paired [of hdrs new op mp init 1 ty]
    by (simp add: tapeAt_appended list_all2_lengthD)
  then show ?thesis using new(1) i(1-3) by blast
qed

end

end
