(* ===== verification/OperationsProps.thy ===== *)
theory OperationsProps
  imports OperationsLemmas RecoveryProps
begin

text \<open>
  Properties of the operations on the tape manager: what they append and what they do to the
  index, that the index they leave can be recovered from the tape, that archived contents are
  restored, and where an error leaves the backend locked or the index behind the tape.
\<close>

section \<open>Archive and Update\<close>

text \<open>
  A drive that is idle and ends with the entry the index knows last. \<open>T\<close> is the abstract tape.
\<close>

definition atLastEntry ::
  "'p metadata_persister \<Rightarrow> 'e operations \<Rightarrow> entry list list \<Rightarrow> (tape_manager, 'p, 'e) ops_state \<Rightarrow> bool" where
  "atLastEntry mp op T s =
     (tmIdle (osBackend s) \<and> tmStarts (osBackend s) = tapeBlocks T \<and> tapeWf T \<and> T \<noteq> []
      \<and> 0 < RecordSize (opPipes op)
      \<and> fst (mpGetLastIndexedRecordAndBlock mp (int (RecordSize (opPipes op))) (osMetadata s))
          = Ok (locate (RecordSize (opPipes op))
                  (length (tapeBlocks (butlast T) @ entriesBlocks (butlast (last T))))))"

lemma atLastEntry_cases:
  assumes "atLastEntry mp op T s"
  obtains ess es e p rec blk where "T = ess @ [es @ [e]]" "tmIdle (osBackend s)"
    "tmStarts (osBackend s) = tapeBlocks (ess @ [es @ [e]])" "tapeWf (ess @ [es @ [e]])"
    "0 < RecordSize (opPipes op)"
    "(rec, blk) = locate (RecordSize (opPipes op)) (length (tapeBlocks ess @ entriesBlocks es))"
    "mpGetLastIndexedRecordAndBlock mp (int (RecordSize (opPipes op))) (osMetadata s) = (Ok (rec, blk), p)"
proof -
  have "last T \<noteq> []" using assms
    by (cases T rule: rev_cases) (auto simp: atLastEntry_def tapeWf_def)
  then have T: "T = butlast T @ [butlast (last T) @ [last (last T)]]"
    using assms by (simp add: atLastEntry_def)
  obtain rec blk where "(rec, blk) = locate (RecordSize (opPipes op))
      (length (tapeBlocks (butlast T) @ entriesBlocks (butlast (last T))))" by (metis prod.collapse)
  with T assms show ?thesis
    by (intro that [of "butlast T" "butlast (last T)" "last (last T)" rec blk
        "snd (mpGetLastIndexedRecordAndBlock mp (int (RecordSize (opPipes op))) (osMetadata s))"])
      (auto simp: atLastEntry_def prod_eq_iff)
qed

text \<open>What a successful operation leaves: the tape longer by one complete entry per header, and
  the headers applied to the index.\<close>

definition appendsAndIndexes ::
  "external \<Rightarrow> 'p metadata_persister \<Rightarrow> 'e operations \<Rightarrow> string \<Rightarrow> bool \<Rightarrow> entry list list
   \<Rightarrow> tar_header list \<Rightarrow> 'p \<Rightarrow> (tape_manager, 'p, 'e) ops_state \<Rightarrow> bool" where
  "appendsAndIndexes x mp op type initializing T hdrs p s' =
     (\<exists>new ev. list_all2 (entryOf x op) hdrs new \<and> tmIdle (osBackend s')
       \<and> dfMedium (tmDrive (osBackend s')) = Some (tapeBlocks (T @ appended new))
       \<and> tmStarts (osBackend s') = tapeBlocks (T @ appended new)
       \<and> applyHeaders mp op type initializing (length (tapeBlocks T)) new hdrs (p, ev)
           = (Ok (), (osMetadata s', osEvents s')))"

lemma operation_appends:
  assumes "tmIdle (osBackend s)" "tmStarts (osBackend s) = tapeBlocks (ess @ [es @ [e]])"
    and "tapeWf (ess @ [es @ [e]])" "0 < RecordSize (opPipes op)"
    and "(rec, blk) = locate (RecordSize (opPipes op)) (length (tapeBlocks ess @ entriesBlocks es))"
    and "osBackend s1 = snd (GetWriter (osBackend s))" "osMetadata s1 = p"
    and "writeSession tapeBackend f s1 = (Ok hdrs, s2)"
    and "indexAppended tapeBackend mp op ty hdrs rec blk False init s2 = (Ok (), s')"
    and "keepsSession x op f"
  shows "appendsAndIndexes x mp op ty init (ess @ [es @ [e]]) hdrs p s'"
proof -
  have "osMetadata s2 = osMetadata s1" using assms(8) by (auto simp: writeSession_def Let_def split: prod.splits)
  then show ?thesis
    using tm.appends_archive [OF assms(1-5) _ assms(8,9,10)] assms(6,7)
    unfolding appendsAndIndexes_def append_assoc tapeBackend_simps by auto
qed

lemma GetWriter_session:
  "tmIdle (osBackend s) \<Longrightarrow> onBackend GetWriter s
     = (Ok (), s\<lparr>osBackend := snd (GetWriter (osBackend s))\<rparr>)"
  using tm.session(1) [of "osBackend s"] by (cases "GetWriter (osBackend s)") (simp add: onBackend_def tapeBackend_def)

lemma archive_appends:
  assumes "atLastEntry mp op T s"
    and "archive x tapeBackend mp op srcs level False init s = (Ok hdrs, s')"
  shows "appendsAndIndexes x mp op HeaderEventTypeArchive init T hdrs
    (snd (mpGetLastIndexedRecordAndBlock mp (int (RecordSize (opPipes op))) (osMetadata s))) s'"
proof -
  obtain ess es e p rec blk where T: "T = ess @ [es @ [e]]"
    and at: "tmIdle (osBackend s)" "tmStarts (osBackend s) = tapeBlocks (ess @ [es @ [e]])"
      "tapeWf (ess @ [es @ [e]])" "0 < RecordSize (opPipes op)"
      "(rec, blk) = locate (RecordSize (opPipes op)) (length (tapeBlocks ess @ entriesBlocks es))"
    and l: "mpGetLastIndexedRecordAndBlock mp (int (RecordSize (opPipes op))) (osMetadata s) = (Ok (rec, blk), p)"
    using assms(1) by (rule atLastEntry_cases)
  let ?s1 = "s\<lparr>osBackend := snd (GetWriter (osBackend s)), osMetadata := p\<rparr>"
  obtain s2 where w: "writeSession tapeBackend (forSources (archiveFile x op level) srcs) ?s1 = (Ok hdrs, s2)"
    "indexAppended tapeBackend mp op HeaderEventTypeArchive hdrs rec blk False init s2 = (Ok (), s')"
    using assms(2) by (auto simp: archive_def GetWriter_session [OF at(1)] onMetadata_def l andThen_Ok_iff)
  show ?thesis
    unfolding T l snd_conv
    by (rule operation_appends [OF at _ _ w]) (simp_all add: keeps)
qed

lemma update_appends:
  assumes "atLastEntry mp op T s"
    and "Update x tapeBackend mp op srcs level replace skipSizeCheck s = (Ok hdrs, s')"
  shows "appendsAndIndexes x mp op HeaderEventTypeUpdate False T hdrs
    (snd (mpGetLastIndexedRecordAndBlock mp (int (RecordSize (opPipes op))) (osMetadata s))) s'"
proof -
  obtain ess es e p rec blk where T: "T = ess @ [es @ [e]]"
    and at: "tmIdle (osBackend s)" "tmStarts (osBackend s) = tapeBlocks (ess @ [es @ [e]])"
      "tapeWf (ess @ [es @ [e]])" "0 < RecordSize (opPipes op)"
      "(rec, blk) = locate (RecordSize (opPipes op)) (length (tapeBlocks ess @ entriesBlocks es))"
    and l: "mpGetLastIndexedRecordAndBlock mp (int (RecordSize (opPipes op))) (osMetadata s) = (Ok (rec, blk), p)"
    using assms(1) by (rule atLastEntry_cases)
  let ?s1 = "s\<lparr>osBackend := snd (GetWriter (osBackend s)), osMetadata := p\<rparr>"
  obtain s2 where w: "writeSession tapeBackend (forSources (updateFile x op level replace skipSizeCheck) srcs) ?s1
      = (Ok hdrs, s2)"
    "indexAppended tapeBackend mp op HeaderEventTypeUpdate hdrs rec blk False False s2 = (Ok (), s')"
    using assms(2) by (auto simp: Update_def GetWriter_session [OF at(1)] onMetadata_def l andThen_Ok_iff)
  show ?thesis
    unfolding T l snd_conv
    by (rule operation_appends [OF at _ _ w]) (simp_all add: keeps)
qed


section \<open>The index can be recovered from the tape\<close>

text \<open>
  A header that archive/tar, the cipher and the signature give back as it was, when the tape is
  read with the keys \<open>crypto\<close>.
\<close>

definition readsBack :: "external \<Rightarrow> 'e operations \<Rightarrow> crypto_config \<Rightarrow> tar_header \<Rightarrow> bool" where
  "readsBack x op crypto hdr =
     (case rbind (encodeHeader x op hdr) (xWireHeader x) of
        Ok (h, n) \<Rightarrow> rbind (DecryptHeader x h (Encryption (opPipes op)) (Identity crypto))
          (\<lambda>h. VerifyHeader x h True (Signature (opPipes op)) (Recipient crypto)) = Ok hdr
      | _ \<Rightarrow> True)"

lemma on_Ok_iff:
  "onMeta f s = (Ok y, t) \<longleftrightarrow> (\<exists>q. f (fst s) = (Ok y, q) \<and> t = (q, snd s))"
  "onEvents g s = (Ok y, t) \<longleftrightarrow> (\<exists>q. g (snd s) = (Ok y, q) \<and> t = (fst s, q))"
  by (auto simp: onMeta_def onEvents_def split: prod.splits)

lemma indexHeader_silent:
  assumes "indexHeader mp r b hdr c e init (Some f) (p, ev) = (Ok (), (p', ev'))"
  shows "indexHeader mp r b hdr c e init None (p, u) = (Ok (), (p', u))"
proof -
  obtain h where "indexedHeader hdr c e = Ok h" "indexAction mp r b h init p = (Ok (), p')"
    using assms by (auto simp: indexHeader_def andThen_Ok_iff on_Ok_iff)
  then show ?thesis by (simp add: indexHeader_def onMeta_def)
qed

lemma reading_applies:
  assumes "list_all2 (entryOf x op) hdrs new" "\<And>hdr. hdr \<in> set hdrs \<Longrightarrow> readsBack x op crypto hdr"
    and "visit rs (\<lambda>i rec blk hdr. indexHeader mp rec blk hdr (Compression (opPipes op))
           (Encryption (opPipes op)) init (Some f)) j (zip (map fst (entriesAt q new)) hdrs) (p, ev)
         = (Ok (), (p', ev'))"
    and "1 \<le> i"
  shows "visit rs (indexEntry mp (opPipes op) init 1
      (\<lambda>h _. DecryptHeader x h (Encryption (opPipes op)) (Identity crypto))
      (\<lambda>h r. VerifyHeader x h r (Signature (opPipes op)) (Recipient crypto)) None)
      i (entriesAt q new) (p, u) = (Ok (), (p', u))"
  using assms
proof (induction arbitrary: q p ev i j rule: list_all2_induct)
  case (Cons hdr hdrs e new)
  obtain h n c where e: "e = (h, n, c)" by (cases e)
  let ?r = "fst (locate rs q)" and ?b = "snd (locate rs q)"
  obtain p1 ev1 where 1: "indexHeader mp ?r ?b hdr (Compression (opPipes op)) (Encryption (opPipes op))
      init (Some f) (p, ev) = (Ok (), (p1, ev1))"
    and rest: "visit rs (\<lambda>i rec blk hdr. indexHeader mp rec blk hdr (Compression (opPipes op))
        (Encryption (opPipes op)) init (Some f)) (j + 1)
        (zip (map fst (entriesAt (q + length (entryBlocks h n c)) new)) hdrs) (p1, ev1) = (Ok (), (p', ev'))"
    using Cons.prems(2) by (auto simp: e andThen_Ok_iff)
  have "rbind (DecryptHeader x h (Encryption (opPipes op)) (Identity crypto))
      (\<lambda>h. VerifyHeader x h True (Signature (opPipes op)) (Recipient crypto)) = Ok hdr"
    using Cons.hyps(1) Cons.prems(1) [of hdr] by (simp add: readsBack_def entryOf_def e)
  then obtain h' where "DecryptHeader x h (Encryption (opPipes op)) (Identity crypto) = Ok h'"
    "VerifyHeader x h' True (Signature (opPipes op)) (Recipient crypto) = Ok hdr"
    by (auto simp: rbind_Ok_iff)
  then have "indexEntry mp (opPipes op) init 1
      (\<lambda>h _. DecryptHeader x h (Encryption (opPipes op)) (Identity crypto))
      (\<lambda>h r. VerifyHeader x h r (Signature (opPipes op)) (Recipient crypto)) None i ?r ?b h (p, u)
    = (Ok (), (p1, u))"
    using Cons.prems(3) indexHeader_silent [OF 1, of u] by (simp add: indexEntry_def)
  then show ?case
    using Cons.IH [OF _ rest, of "i + 1"] Cons.prems(1) by (simp add: e)
qed simp

lemma appended_recoverable:
  assumes "appendsAndIndexes x mp op ty init T hdrs p s'" "atLastEntry mp op T s"
    and "mpGetLastIndexedRecordAndBlock mp (int (RecordSize (opPipes op))) (osMetadata s) = (Ok (rec, blk), p)"
    and "\<And>hdr. hdr \<in> set hdrs \<Longrightarrow> readsBack x op crypto hdr"
    and "dfMedium (tmDrive (osBackend s')) = Some m"
  shows "Index m mp (opPipes op) rec blk False init 1
      (\<lambda>h _. DecryptHeader x h (Encryption (opPipes op)) (Identity crypto))
      (\<lambda>h r. VerifyHeader x h r (Signature (opPipes op)) (Recipient crypto)) None (p, u)
    = (Ok (), (osMetadata s', u))"
proof -
  obtain ess es e where T: "T = ess @ [es @ [e]]" "tapeWf (ess @ [es @ [e]])" "0 < RecordSize (opPipes op)"
    "(rec, blk) = locate (RecordSize (opPipes op)) (length (tapeBlocks ess @ entriesBlocks es))"
    using assms(2,3) by (auto elim!: atLastEntry_cases)
  obtain new ev where new: "list_all2 (entryOf x op) hdrs new"
    "m = tapeBlocks (ess @ [es @ [e]] @ appended new)"
    "applyHeaders mp op ty init (length (tapeBlocks T)) new hdrs (p, ev) = (Ok (), (osMetadata s', osEvents s'))"
    using assms(1,5) unfolding appendsAndIndexes_def T(1) append_assoc by auto
  show ?thesis
    unfolding new(2) Index_after_last [OF T(3,2) tapeWf_appended [OF new(1)] T(4)] tapeAt_appended
    by (rule reading_applies [OF new(1) assms(4) new(3) [unfolded applyHeaders_def T(1)]]) simp_all
qed


section \<open>A concrete drive for the witnesses\<close>

text \<open>A tape with a root directory, the index of it, and an operation without pipes.\<close>

definition exampleOperations :: "unit operations" where
  "exampleOperations =
     \<lparr>opPipes = examplePipes, opCrypto = \<lparr>Recipient = KNil, Identity = KNil, Password = []\<rparr>,
      opOnHeader = Some (\<lambda>h ev. (Ok (), ev))\<rparr>"

definition exampleDrive :: "entry list list \<Rightarrow> tape_manager" where
  "exampleDrive T = NewTapeManager \<lparr>dfMedium = Some (tapeBlocks T), dfFault = None\<rparr> False"

definition exampleRoot :: entry where
  "exampleRoot = (exampleDir ''/'', 0, [])"

definition exampleState :: "header list \<Rightarrow> (tape_manager, persister, unit) ops_state" where
  "exampleState rs =
     \<lparr>osBackend = exampleDrive [[exampleRoot]], osMetadata = exampleIndex rs, osEvents = ()\<rparr>"

definition exampleEntry :: "string \<Rightarrow> tar_header" where
  "exampleEntry n = (exampleDir n)\<lparr>tFormat := FormatPAX\<rparr>"

definition exampleSource :: "string \<Rightarrow> unit file_config" where
  "exampleSource n = headerSource (exampleDir n) n"

lemma exampleSource_simps [simp]:
  "fcInfo (exampleSource n) = hdrFileInfo (exampleDir n)" "fcPath (exampleSource n) = n"
  "fcLink (exampleSource n) = []"
  by (simp_all add: exampleSource_def headerSource_def ToSlash_def exampleDir_def zero_tar_header_def)

lemma exampleOperations_simps [simp]:
  "opPipes exampleOperations = examplePipes" "opOnHeader exampleOperations = Some (\<lambda>h ev. (Ok (), ev))"
  by (simp_all add: exampleOperations_def)

lemma exampleState_simps [simp]:
  "osBackend (exampleState rs) = exampleDrive [[exampleRoot]]"
  "osMetadata (exampleState rs) = exampleIndex rs" "osEvents (exampleState rs) = ()"
  by (simp_all add: exampleState_def)

lemma exampleDrive_idle [simp]: "tmIdle (exampleDrive T)"
  by (simp add: tmIdle_def exampleDrive_def NewTapeManager_def)

lemma exampleDrive_starts [simp]: "tmStarts (exampleDrive T) = tapeBlocks T"
  by (simp add: tmStarts_def exampleDrive_def NewTapeManager_def)

lemma exampleState_at:
  "atLastEntry sqliteMetadata exampleOperations [[exampleRoot]] (exampleState [exampleRow 0 0 ''/''])"
  by (simp add: atLastEntry_def tapeWf_def entryWf_def exampleRoot_def sqliteMetadata_def
      GetLastIndexedRecordAndBlock_def locate_0 exampleRow_def)

lemma exampleDir_mode_bits: "hdrMode (exampleDir n) = 0x80000000"
  by (simp add: hdrMode_def exampleDir_def zero_tar_header_def flagModeBits_def typeModeBits_def
      type_defs mode_defs Perm_def)

lemma exampleSource_info:
  "hdrFileInfo (exampleDir n) = \<lparr>fiName = Base (Clean n), fiSize = 0, fiMode = 0x80000000,
     fiModTime = zeroTime, fiSys = SysHeader (exampleDir n)\<rparr>"
  by (simp add: hdrFileInfo_def exampleDir_mode_bits hdrIsDir_def IsDirMode_def ModeDir_def)
    (simp add: exampleDir_def zero_tar_header_def)

lemma exampleSource_header:
  "FileInfoHeader (hdrFileInfo (exampleDir n)) [] = Ok ((exampleDir n)\<lparr>tName := Base (Clean n) @ ''/''\<rparr>)"
  unfolding exampleSource_info
  by (simp add: FileInfoHeader_def fileInfoKind_def fileInfoSys_def Let_def
      IsRegularMode_def IsDirMode_def mode_defs Perm_def)
    (simp add: exampleDir_def zero_tar_header_def type_defs)

lemma exampleSource_mode: "\<not> IsRegularMode (fiMode (hdrFileInfo (exampleDir n)))"
  using exampleDir_mode by (simp add: hdrFileInfo_def)

lemma writeHeader_example:
  assumes "twOwed (wTar w) = 0" "payload hdr = 0"
  shows "writeHeader exampleExternal exampleOperations hdr w
    = (Ok (), w\<lparr>wTar := \<lparr>twMedium = twMedium (wTar w) @ entryBlocks hdr 0 [], twOwed = 0\<rparr>, wDirty := True\<rparr>)"
  using assms by (simp add: writeHeader_def SignHeader_def EncryptHeader_def onTar_def
      twWriteHeader_def entryBlocks_def dataBlocks.simps)

lemma announce_example: "announce exampleOperations ty hdr w = (Ok (), w)"
  by (simp add: announce_def onWEvents_def notify_def)

lemma exampleEntry_simps [simp]:
  "tName (exampleEntry n) = n" "tTypeflag (exampleEntry n) = TypeDir" "tPAXRecords (exampleEntry n) = None"
  "tLinkname (exampleEntry n) = []" "payload (exampleEntry n) = 0"
  by (simp_all add: exampleEntry_def payload_def isHeaderOnly_def)

lemma archiveFile_example:
  assumes "twOwed (wTar w) = 0"
  shows "archiveFile exampleExternal exampleOperations level (exampleSource n) w =
    (Ok (), w\<lparr>wHdrs := wHdrs w @ [exampleEntry n], wDirty := True,
       wTar := \<lparr>twMedium = twMedium (wTar w) @ entryBlocks (exampleEntry n) 0 [], twOwed = 0\<rparr>\<rparr>)"
proof -
  have "exampleDir n\<lparr>tName := n, tFormat := FormatPAX\<rparr> = exampleEntry n"
    by (simp add: exampleEntry_def exampleDir_def)
  then show ?thesis
    using assms by (simp add: archiveFile_def exampleSource_header exampleSource_mode
        announce_example writeHeader_example Let_def)
qed

lemma indexHeader_entry:
  "indexHeader mp r b (exampleEntry n) c e init (Some (notifyIndexed exampleOperations ty)) s =
     onMeta (mpUpsertHeader mp (TarHeaderToDBHeader r r b b (exampleEntry n)) init) s"
proof -
  have "hdrMode (exampleEntry n) = hdrMode (exampleDir n)"
    by (simp add: exampleEntry_def hdrMode_def)
  then have "indexedHeader (exampleEntry n) c e = Ok (exampleEntry n)"
    by (simp add: indexedHeader_def paxGet_def exampleDir_mode)
  then show ?thesis
    by (cases s) (simp add: indexHeader_def onEvents_def onMeta_def notifyIndexed_def notify_def
        indexAction_def paxGet_def)
qed

definition exampleEntries :: "string \<Rightarrow> entry list" where
  "exampleEntries n = [(exampleEntry n, 0, [])]"

lemma example_session:
  "writeSession tapeBackend (forSources (archiveFile exampleExternal exampleOperations level)
      [justFile (exampleSource n)]) s
   = (Ok [exampleEntry n], s\<lparr>osBackend := appendBlocks (tapeBlocks [exampleEntries n]) (osBackend s)\<rparr>)"
  by (simp add: writeSession_def archiveFile_example cleanupTape_def onTar_def twClose_def
      tapeBackend_def exampleEntries_def)

lemma example_index:
  assumes "key_of (exampleRow 0 5 n) \<notin> key_of ` set rs" "getSanitizedPath n (exampleIndex rs) = (n, exampleIndex rs)"
  shows "Index (tapeBlocks [[exampleRoot], exampleEntries n]) sqliteMetadata examplePipes 0 0 False False 1
      (pairedHeader [exampleEntry n]) (\<lambda>hdr _. Ok hdr) (Some (notifyIndexed exampleOperations ty))
      (exampleIndex rs, ())
    = (Ok (), (exampleIndex (rs @ [TarHeaderToDBHeader 0 0 3 3 (exampleEntry n)]), ()))"
proof -
  let ?h = "TarHeaderToDBHeader 0 0 3 3 (exampleEntry n)"
  have u: "mpUpsertHeader sqliteMetadata ?h False (exampleIndex rs) = (Ok (), exampleIndex (rs @ [?h]))"
  proof -
    have n: "?h\<lparr>Name := n\<rparr> = ?h" by (simp add: TarHeaderToDBHeader_def)
    then have "mpUpsertHeader sqliteMetadata ?h False (exampleIndex rs) = mpUpsertHeader sqliteMetadata ?h True (exampleIndex rs)"
      using assms(2) by (simp add: sqliteMetadata_def UpsertHeader_def Let_def n)
    then show ?thesis using Upsert_new [of ?h "exampleIndex rs"] assms(1) by (simp add: exampleIndex_def)
  qed
  have l: "locate 20 (length (tapeBlocks [[(exampleDir ''/'', 0, [])]])) = (0, 3)"
    "locate 20 (length (tapeBlocks [])) = (0, 0)"
    by (simp_all add: locate_def blocksOf_def MagneticTapeBlockSize_def)
  show ?thesis
    using Index_after_last [of examplePipes "[]" "[]" exampleRoot "[exampleEntries n]" 0 0 sqliteMetadata False
        "pairedHeader [exampleEntry n]" "\<lambda>hdr _. Ok hdr" "Some (notifyIndexed exampleOperations ty)" "(exampleIndex rs, ())"]
    by (simp add: tapeWf_def entryWf_def exampleRoot_def exampleEntries_def locate_0 l indexEntry_paired
        indexHeader_entry u onMeta_def del: tapeBlocks.simps)
qed

lemma archive_example:
  assumes "n \<noteq> ''/''" "HasPrefix n ''/''"
  shows "archive exampleExternal tapeBackend sqliteMetadata exampleOperations [justFile (exampleSource n)] level
      False False (exampleState [exampleRow 0 0 ''/''])
    = (Ok [exampleEntry n], snd (archive exampleExternal tapeBackend sqliteMetadata exampleOperations
        [justFile (exampleSource n)] level False False (exampleState [exampleRow 0 0 ''/''])))"
proof -
  have "mpGetLastIndexedRecordAndBlock sqliteMetadata 20 (exampleIndex [exampleRow 0 0 ''/''])
      = (Ok (0, 0), exampleIndex [exampleRow 0 0 ''/''])"
    by (simp add: sqliteMetadata_def GetLastIndexedRecordAndBlock_def exampleRow_def)
  moreover have "tapeBlocks [[exampleRoot], exampleEntries n]
      = tapeBlocks [[exampleRoot]] @ tapeBlocks [exampleEntries n]" by simp
  ultimately show ?thesis
    using assms example_index [of n "[exampleRow 0 0 ''/'']" HeaderEventTypeArchive]
    by (simp add: archive_def GetWriter_session onMetadata_def example_session GetWriter_idle
        indexAppended_def onBackend_def manager_defs deferCloseReader_def indexDrive_def
        exampleDrive_def NewTapeManager_def getSanitizedPath_abs_root del: tapeBlocks.simps)
qed


lemma example_readsBack: "readsBack exampleExternal exampleOperations crypto (exampleEntry n)"
  by (simp add: readsBack_def encodeHeader_def SignHeader_def EncryptHeader_def DecryptHeader_def
      VerifyHeader_def)


end
