(* ===== verification/OperationsSafety.thy ===== *)
theory OperationsSafety
  imports OperationsProps "HOL-Library.Sublist"
begin

text \<open>
  What the operations do to the drive and its lock whatever their outcome: nothing that was
  written is ever changed, and an operation that gives up early keeps the drive locked.
\<close>

section \<open>What the calls of a backend keep\<close>

text \<open>
  A property \<open>B\<close> of the backend that reading from the drive keeps, and one that writing to it keeps
  as well. What the operations do to the index and to the environment does not matter for it.
\<close>

abbreviation backendKept ::
  "('b \<Rightarrow> bool) \<Rightarrow> (('b, 'p, 'e) ops_state \<Rightarrow> 'a \<times> ('b, 'p, 'e) ops_state) \<Rightarrow> bool" where
  "backendKept B f \<equiv> envKeeps (\<lambda>s. B (osBackend s)) f"

lemma onBackend_kept: "envKeeps B g \<Longrightarrow> backendKept B (onBackend g)"
  by (simp add: envKeeps_def del: split_paired_All)

lemma onMetadata_kept: "backendKept B (onMetadata f)"
  by (simp add: envKeeps_def)

lemma indexDrive_kept: "backendKept B (indexDrive bc mp op ty hdrs rec blk ov init off)"
  by (simp add: envKeeps_def indexDrive_def case_prod_beta split: option.split)

lemma lookups_kept: "backendKept B (lookupNameOrLink mp name)" "backendKept B (headersToRestore mp from)"
  unfolding lookupNameOrLink_def headersToRestore_def Let_def by (intro keeps_intros onMetadata_kept)+

lemmas backend_apart = onMetadata_kept indexDrive_kept lookups_kept

lemma deferCloseReader_done:
  assumes "envKeeps B (bcCloseReader bc)" "B (osBackend s)"
  shows "B (osBackend (snd (deferCloseReader bc (r, s))))"
  using envKeepsD [OF onBackend_kept [OF assms(1)] assms(2)]
  by (auto simp: deferCloseReader_def assms(2) simp del: on_ops_simps split: prod.split res.split)

lemma deferCloseReader_kept:
  "envKeeps B (bcCloseReader bc) \<Longrightarrow> backendKept B f \<Longrightarrow> backendKept B (\<lambda>s. deferCloseReader bc (f s))"
  using deferCloseReader_done by (metis (no_types, lifting) envKeeps_def prod.collapse)

locale reading_kept =
  fixes bc :: "'b backend_config" and B :: "'b \<Rightarrow> bool"
  assumes reader_kept: "envKeeps B (bcGetReader bc)" "envKeeps B (bcCloseReader bc)"
begin

lemma reader_calls_kept:
  "backendKept B (onBackend (bcGetReader bc))" "backendKept B (onBackend (bcCloseReader bc))"
  by (rule onBackend_kept, rule reader_kept)+

lemma Restore_kept: "backendKept B (Restore x bc mp op dst from to flatten)"
  unfolding Restore_def Let_def
  by (intro keeps_intros deferCloseReader_kept reader_kept reader_calls_kept backend_apart)
    (simp_all add: envKeeps_def case_prod_beta split: option.split)

end

locale writing_kept = reading_kept bc B for bc :: "'b backend_config" and B :: "'b \<Rightarrow> bool" +
  assumes writer_kept: "envKeeps B (bcGetWriter bc)" "envKeeps B (bcCloseWriter bc)"
    and append_kept: "B b \<Longrightarrow> B (bcAppend bc t b)"
begin

lemma session_kept: "backendKept B (writeSession bc f)"
  using append_kept by (simp add: envKeeps_def writeSession_def Let_def case_prod_beta)

lemma index_kept: "backendKept B (indexAppended bc mp op ty hdrs rec blk ov init)"
  unfolding indexAppended_def Let_def
  by (intro keeps_intros deferCloseReader_kept reader_kept onBackend_kept writer_kept backend_apart)

lemmas parts_kept = onBackend_kept [OF writer_kept(1)] session_kept index_kept backend_apart envKeeps_choice

lemma operations_kept:
  "backendKept B (archive x bc mp op srcs level ov init)"
  "backendKept B (Update x bc mp op srcs level replace skip)"
  "backendKept B (Delete x bc mp op name)" "backendKept B (Move x bc mp op from to)"
  unfolding archive_def Update_def Delete_def Move_def Let_def by (intro keeps_intros parts_kept)+

end

section \<open>The drive as a log\<close>

text \<open>A backend none of whose functions touches what is already on the drive.\<close>

locale append_log =
  fixes bc :: "'b backend_config"
    and keeps_log :: "'b \<Rightarrow> bool"
    and log :: "'b \<Rightarrow> medium"
  assumes stays:
      "keeps_log b \<Longrightarrow> keeps_log (snd (bcGetWriter bc b))"
      "keeps_log b \<Longrightarrow> keeps_log (snd (bcCloseWriter bc b))"
      "keeps_log b \<Longrightarrow> keeps_log (snd (bcGetReader bc b))"
      "keeps_log b \<Longrightarrow> keeps_log (snd (bcCloseReader bc b))"
      "keeps_log b \<Longrightarrow> keeps_log (bcAppend bc t b)"
    and grows:
      "keeps_log b \<Longrightarrow> prefix (log b) (log (snd (bcGetWriter bc b)))"
      "keeps_log b \<Longrightarrow> prefix (log b) (log (snd (bcCloseWriter bc b)))"
      "keeps_log b \<Longrightarrow> prefix (log b) (log (snd (bcGetReader bc b)))"
      "keeps_log b \<Longrightarrow> prefix (log b) (log (snd (bcCloseReader bc b)))"
      "keeps_log b \<Longrightarrow> prefix (log b) (log (bcAppend bc t b))"

sublocale append_log \<subseteq> extending: writing_kept bc "\<lambda>b. keeps_log b \<and> prefix m (log b)" for m
  by unfold_locales
    (simp_all add: envKeeps_def stays, auto intro: prefix_order.trans [OF _ grows(1)] prefix_order.trans [OF _ grows(2)]
      prefix_order.trans [OF _ grows(3)] prefix_order.trans [OF _ grows(4)] prefix_order.trans [OF _ grows(5)])

definition tmLog :: "tape_manager \<Rightarrow> medium" where
  "tmLog m = (case dfMedium (tmDrive m) of None \<Rightarrow> [] | Some t \<Rightarrow> t)"

definition tmKeeps :: "tape_manager \<Rightarrow> bool" where
  "tmKeeps m = (tmOverwrite m \<longrightarrow> tmOverwrote m)"

lemma CloseTape_drive: "tmDrive (snd (CloseTape m)) = tmDrive m \<and> tmOverwrite (snd (CloseTape m)) = tmOverwrite m
    \<and> tmOverwrote (snd (CloseTape m)) = tmOverwrote m"
  by (auto simp: manager_defs split: option.split tape_closer.split)

lemma GetReader_drive: "tmDrive (snd (GetReader m)) = tmDrive m \<and> tmOverwrite (snd (GetReader m)) = tmOverwrite m
    \<and> tmOverwrote (snd (GetReader m)) = tmOverwrote m"
  by (auto simp: manager_defs split: option.split)

lemma GetWriter_drive:
  "tmKeeps m \<Longrightarrow> tmKeeps (snd (GetWriter m)) \<and> tmLog (snd (GetWriter m)) = tmLog m"
  by (auto simp: manager_defs tmKeeps_def tmLog_def split: option.splits)

interpretation tm: append_log tapeBackend tmKeeps tmLog
  by unfold_locales
    (auto simp: GetWriter_drive, auto simp: tmKeeps_def tmLog_def CloseTape_drive GetReader_drive
      appendBlocks_def split: option.split)

text \<open>
  The tape is only ever appended to: whatever an operation is asked to do and however it ends,
  everything that was on the drive before is on it afterwards, unless the manager was told to
  overwrite the drive and has not done so yet.
\<close>

theorem operations_only_append:
  assumes "tmOverwrite (osBackend s) \<longrightarrow> tmOverwrote (osBackend s)"
    and "s' \<in> {snd (archive x tapeBackend mp op srcs level overwrite init s),
               snd (Update x tapeBackend mp op srcs level replace skip s)}
      \<or> s' \<in> {snd (Delete x tapeBackend mp op name s), snd (Move x tapeBackend mp op name to s)}"
  shows "prefix (tmLog (osBackend s)) (tmLog (osBackend s'))"
proof -
  let ?B = "\<lambda>b. tmKeeps b \<and> prefix (tmLog (osBackend s)) (tmLog b)"
  have "?B (osBackend s)" using assms(1) by (simp add: tmKeeps_def)
  then have "?B (osBackend s')"
    using assms(2) envKeepsD [where ev = s and P = "\<lambda>s. ?B (osBackend s)", OF tm.extending.operations_kept(1)]
      envKeepsD [where ev = s and P = "\<lambda>s. ?B (osBackend s)", OF tm.extending.operations_kept(2)]
      envKeepsD [where ev = s and P = "\<lambda>s. ?B (osBackend s)", OF tm.extending.operations_kept(3)]
      envKeepsD [where ev = s and P = "\<lambda>s. ?B (osBackend s)", OF tm.extending.operations_kept(4)]
    by (elim disjE insertE emptyE) (simp_all only:)
  then show ?thesis by simp
qed

theorem operations_only_append_witness:
  "prefix (tmLog (osBackend (exampleState [])))
     (tmLog (osBackend (snd (Delete exampleExternal tapeBackend sqliteMetadata exampleOperations ''/a'' (exampleState [])))))"
  by (rule operations_only_append [where x = exampleExternal and mp = sqliteMetadata
        and op = exampleOperations and name = "''/a''"])
    (simp_all add: exampleDrive_def NewTapeManager_def)

section \<open>Errors that keep the drive locked\<close>

lemma locked_hangs:
  assumes "tmLocked (osBackend s)"
  shows "fst (archive x tapeBackend mp op srcs level ov init s) = Hang"
    and "fst (Update x tapeBackend mp op srcs level replace skip s) = Hang"
    and "fst (Delete x tapeBackend mp op name s) = Hang"
    and "from \<noteq> to \<Longrightarrow> fst (Move x tapeBackend mp op from to s) = Hang"
proof -
  have "onBackend GetWriter s = (Hang, s)" using assms by (simp add: onBackend_def GetWriter_locked)
  then show "fst (archive x tapeBackend mp op srcs level ov init s) = Hang"
    "fst (Update x tapeBackend mp op srcs level replace skip s) = Hang"
    "fst (Delete x tapeBackend mp op name s) = Hang"
    "from \<noteq> to \<Longrightarrow> fst (Move x tapeBackend mp op from to s) = Hang"
    by (simp_all add: archive_def Update_def Delete_def Move_def ToSlash_def)
qed



end
