(* ===== verification/OperationsRestore.thy ===== *)
theory OperationsRestore
  imports OperationsSafety
begin

text \<open>
  From \<open>Archive\<close> to \<open>Restore\<close>: the contents of a regular file, compressed, encrypted and signed as
  the pipes say, come back from the location at which the archived header was indexed.
\<close>

section \<open>Fetching an entry\<close>

lemma Fetch_entry:
  assumes "m = pre @ entryBlocks h n u @ post" "payload h = length u" "0 < RecordSize pipes"
    and "(rec, blk) = locate (RecordSize pipes) (length pre)"
    and "rbind (DecryptHeader x h (Encryption pipes) (Identity crypto))
           (\<lambda>h. VerifyHeader x h True (Signature pipes) (Recipient crypto)) = Ok hdr"
    and "IsRegularMode (hdrMode hdr)" "tTypeflag hdr \<noteq> TypeDir" "to \<noteq> []"
    and "rdGetDst dst to (hdrMode hdr) d = (Ok k, d1)"
    and "rbind (Decrypt x (Encryption pipes) (Identity crypto) u) (runDecompressor x dc) = Ok c"
    and "Decompress (Compression pipes) = Ok dc"
    and "Verify x True (Signature pipes) (Recipient crypto)
           (case paxGet (tPAXRecords hdr) STFSRecordSignature of Some s \<Rightarrow> s | None \<Rightarrow> []) = Ok v"
    and "rdWrite dst k c d1 = (Ok (), d2)" "runVerifier x v c = Ok ()"
  shows "Fetch x m pipes crypto dst rec blk to False None (d, ev)
    = (fst (rdClose dst k d2), (snd (rdClose dst k d2), ev))"
proof -
  have s: "seekPosition (RecordSize pipes) rec blk = Ok (length pre)"
    using location_eqs(3) [OF assms(3), of "length pre"] assms(4) [symmetric] by simp
  obtain h' where h': "DecryptHeader x h (Encryption pipes) (Identity crypto) = Ok h'"
    "VerifyHeader x h' True (Signature pipes) (Recipient crypto) = Ok hdr"
    using assms(5) by (auto simp: rbind_Ok_iff)
  obtain t where t: "Decrypt x (Encryption pipes) (Identity crypto) u = Ok t" "runDecompressor x dc t = Ok c"
    using assms(10) by (auto simp: rbind_Ok_iff)
  have n: "tarNext m (length pre) = (Ok h, length pre + 1 + n)"
    using assms(1) by (rule tarNext_entry)
  have c: "tarContents m (length pre + 1 + n) h = Ok u"
    using assms(1,2) by (rule tarContents_entry)
  show ?thesis
    using assms(6-9,11-14) s h' t n c
    by (cases "rdClose dst k d2") (simp add: Fetch_def fetchContents_def onMeta_def)
qed

section \<open>Archiving one file\<close>

text \<open>What the first pass computes, and what a session on a single file with contents writes.\<close>

lemma sizeFile_Ok:
  assumes "sizeFile x op level file h0 w = (Ok (hdr, contents), w')"
  shows "\<exists>signer signature c. fst (fcGetFile file (wEvents w)) = Ok (c, contents)
    \<and> Sign x True (Signature (opPipes op)) (Identity (opCrypto op)) = Ok signer
    \<and> runSigner x signer rndSizing c = Ok signature
    \<and> tTypeflag hdr = tTypeflag h0 \<and> tMode hdr = tMode h0
    \<and> paxGet (tPAXRecords hdr) STFSRecordSignature
       = (if signature = [] then paxGet (tPAXRecords h0) STFSRecordSignature else Some signature)"
proof -
  have n: "STFSRecordUncompressedSize \<noteq> STFSRecordSignature" by (simp add: stfs_records)
  obtain c encryptor compressor where 1: "fst (fcGetFile file (wEvents w)) = Ok (c, contents)"
    "sizedHeader x op encryptor compressor c h0 = Ok hdr"
    using assms by (auto simp: sizeFile_def andThen_Ok_iff onWEvents_def split: prod.splits)
  obtain signer signature pax where *:
    "Sign x True (Signature (opPipes op)) (Identity (opCrypto op)) = Ok signer"
    "runSigner x signer rndSizing c = Ok signature"
    "pax = smInsert STFSRecordUncompressedSize (Itoa (tSize h0)) (paxOrEmpty (tPAXRecords h0))"
    "tTypeflag hdr = tTypeflag h0" "tMode hdr = tMode h0"
    "tPAXRecords hdr = Some (if signature \<noteq> [] then smInsert STFSRecordSignature signature pax else pax)"
    using 1(2) by (auto simp: sizedHeader_def rbind_Ok_iff Let_def)
  moreover have "map_of (paxOrEmpty (tPAXRecords h0)) STFSRecordSignature
      = paxGet (tPAXRecords h0) STFSRecordSignature"
    by (simp add: paxOrEmpty_def paxGet_def split: option.split)
  ultimately have "paxGet (tPAXRecords hdr) STFSRecordSignature
       = (if signature = [] then paxGet (tPAXRecords h0) STFSRecordSignature else Some signature)"
    using n by (simp add: paxGet_def)
  then show ?thesis using * 1(1) by blast
qed

lemma one_file:
  assumes "announce op ty hdr w0 = (Ok (), w1)"
    and "writeHeader x op hdr (w1\<lparr>wHdrs := wHdrs w1 @ [hdr]\<rparr>) = (Ok (), w2)"
    and "writeContents x op level file c w2 = (Ok (), w)" "cleanupTape w = (Ok (), w')"
    and "wHdrs w0 = []" "twMedium (wTar w0) = []"
  obtains enc h n where "wHdrs w' = [hdr]"
    "rbind (openPipes x op level) (\<lambda>(encryptor, compressor).
       rbind (runCompressor x compressor c) (runEncryptor x encryptor rndWriting)) = Ok enc"
    "rbind (encodeHeader x op hdr) (xWireHeader x) = Ok (h, n)" "payload h = length enc"
    "twMedium (wTar w') = entryBlocks h n enc @ [BZero, BZero]"
proof -
  obtain ev where w1: "w1 = w0\<lparr>wEvents := ev\<rparr>" using announce_Ok [OF assms(1)] by auto
  obtain h n where h: "rbind (encodeHeader x op hdr) (xWireHeader x) = Ok (h, n)"
    "w2 = w1\<lparr>wHdrs := [hdr], wTar := \<lparr>twMedium = BHead h n # replicate n BCont, twOwed = payload h\<rparr>,
              wDirty := True\<rparr>"
    using writeHeader_Ok [OF assms(2)] w1 assms(5,6) by auto
  obtain enc tw ev where e: "rbind (openPipes x op level) (\<lambda>(encryptor, compressor).
       rbind (runCompressor x compressor c) (runEncryptor x encryptor rndWriting)) = Ok enc"
    "twWrite enc (wTar w2) = (Ok (), tw)" "w = w2\<lparr>wTar := tw, wEvents := ev\<rparr>"
    using assms(3) by (auto simp: writeContents_def onTar_Ok andThen_Ok_iff dest!: onWEvents_Ok)
  have "wDirty w" using h(2) e(3) by simp
  then have o: "twOwed tw = 0" "twMedium (wTar w') = twMedium tw @ [BZero, BZero]" "wHdrs w' = [hdr]"
    using assms(4) h(2) e(3) by (auto simp: cleanupTape_def onTar_def twClose_def split: if_splits)
  then have "payload h = length enc" "twMedium tw = entryBlocks h n enc"
    using twWrite_complete [of enc "[]" h n tw] e(2) h(2) by simp_all
  then show ?thesis using that e(1) h(1) o by simp
qed

lemma one_file_session:
  assumes "writeSession bc (forSources f [src]) s1 = (Ok hdrs, s2)" "fst (src (osEvents s1)) \<noteq> Err EOF"
  obtains fc w0 w w' ev where "src (osEvents s1) = (Ok fc, ev)"
    "w0 = \<lparr>wTar = \<lparr>twMedium = [], twOwed = 0\<rparr>, wHdrs = [], wDirty = False, wEvents = ev\<rparr>"
    "f fc w0 = (Ok (), w)" "cleanupTape w = (Ok (), w')" "hdrs = wHdrs w'"
    "osBackend s2 = bcAppend bc (twMedium (wTar w')) (osBackend s1)"
proof -
  obtain r ev where src: "src (osEvents s1) = (r, ev)" by force
  then have "r \<noteq> Err EOF" using assms(2) by auto
  then show ?thesis
    using assms(1) src that [of _ ev]
    by (auto simp: writeSession_def onWEvents_def Let_def rbind_Ok_iff andThen_Ok_iff split: prod.splits)
qed

lemma archive_one_file:
  assumes "writeSession bc (forSources (archiveFile x op level) [justFile file]) s1 = (Ok hdrs, s2)"
    and "FileInfoHeader (fcInfo file) (fcLink file) = Ok h0" "IsRegularMode (fiMode (fcInfo file))"
    and "0 < fiSize (fcInfo file)"
  obtains hdr contents enc h n w w0 where "hdrs = [hdr]"
    "sizeFile x op level file (h0\<lparr>tName := fcPath file, tFormat := FormatPAX\<rparr>) w = (Ok (hdr, contents), w0)"
    "rbind (openPipes x op level) (\<lambda>(encryptor, compressor).
       rbind (runCompressor x compressor contents) (runEncryptor x encryptor rndWriting)) = Ok enc"
    "rbind (encodeHeader x op hdr) (xWireHeader x) = Ok (h, n)" "payload h = length enc"
    "osBackend s2 = bcAppend bc (entryBlocks h n enc @ [BZero, BZero]) (osBackend s1)"
proof -
  have "fst (justFile file (osEvents s1)) \<noteq> Err EOF" by (simp add: justFile_def)
  with assms(1) obtain fc w0 w w' ev where w: "justFile file (osEvents s1) = (Ok fc, ev)"
    "w0 = \<lparr>wTar = \<lparr>twMedium = [], twOwed = 0\<rparr>, wHdrs = [], wDirty = False, wEvents = ev\<rparr>"
    "archiveFile x op level fc w0 = (Ok (), w)" "cleanupTape w = (Ok (), w')" "hdrs = wHdrs w'"
    "osBackend s2 = bcAppend bc (twMedium (wTar w')) (osBackend s1)"
    by (rule one_file_session)
  have "fc = file" using w(1) by (simp add: justFile_def)
  obtain hdr contents w1 w2 w3 where a:
    "sizeFile x op level file (h0\<lparr>tName := fcPath file, tFormat := FormatPAX\<rparr>) w0 = (Ok (hdr, contents), w1)"
    "announce op HeaderEventTypeArchive hdr w1 = (Ok (), w2)"
    "writeHeader x op hdr (w2\<lparr>wHdrs := wHdrs w2 @ [hdr]\<rparr>) = (Ok (), w3)"
    "writeContents x op level file contents w3 = (Ok (), w)"
    using w(3) assms(2-4) \<open>fc = file\<close> by (auto simp: archiveFile_def andThen_Ok_iff rbind_Ok_iff Let_def)
  have "wHdrs w1 = []" "twMedium (wTar w1) = []" using sizeFile_events [OF a(1)] by (auto simp: w(2))
  with a(2-4) w(4) show ?thesis
    by (rule one_file) (rule that [of hdr w0 contents w1], simp_all add: a(1) w(5,6))
qed

text \<open>Reading the entry of such a file.\<close>

lemma fetch_one_file:
  assumes "m = pre @ entryBlocks h n enc @ [BZero, BZero]" "payload h = length enc" "0 < RecordSize (opPipes op)"
    and "(rec, blk) = locate (RecordSize (opPipes op)) (length pre)"
    and "rbind (encodeHeader x op hdr) (xWireHeader x) = Ok (h, n)"
    and "rbind (openPipes x op level) (\<lambda>(encryptor, compressor).
       rbind (runCompressor x compressor c) (runEncryptor x encryptor rndWriting)) = Ok enc"
    and "Sign x True (Signature (opPipes op)) (Identity (opCrypto op)) = Ok signer"
    and "runSigner x signer rndSizing c = Ok signature"
    and "(case paxGet (tPAXRecords hdr) STFSRecordSignature of Some s \<Rightarrow> s | None \<Rightarrow> []) = signature"
    and "IsRegularMode (hdrMode hdr)" "tTypeflag hdr \<noteq> TypeDir"
    and "codecLaw x"
    and "encryptionLaw x (Recipient (opCrypto op)) (Identity crypto) \<or> Encryption (opPipes op) = NoneKey"
    and "signatureLaw x (Identity (opCrypto op)) (Recipient crypto) \<or> Signature (opPipes op) = NoneKey"
    and "readsBack x op crypto hdr"
    and "to \<noteq> []" "rdGetDst dst to (hdrMode hdr) d = (Ok k, dOpen)" "rdWrite dst k c dOpen = (Ok (), dWritten)"
  shows "Fetch x m (opPipes op) crypto dst rec blk to False None (d, ev)
    = (fst (rdClose dst k dWritten), (snd (rdClose dst k dWritten), ev))"
proof -
  obtain e comp t where c: "Encrypt x (Encryption (opPipes op)) (Recipient (opCrypto op)) = Ok e"
    "Compress (Compression (opPipes op)) level True (RecordSize (opPipes op)) = Ok comp"
    "runCompressor x comp c = Ok t" "runEncryptor x e rndWriting t = Ok enc"
    using assms(6) by (auto simp: openPipes_def rbind_Ok_iff)
  obtain dc where dc: "Decompress (Compression (opPipes op)) = Ok dc" "reads dc comp"
    using Compress_reads [OF c(2)] by blast
  have plain: "rbind (Decrypt x (Encryption (opPipes op)) (Identity crypto) enc) (runDecompressor x dc) = Ok c"
    using Decrypt_Encrypt [OF assms(13) c(1,4)] runDecompressor_runCompressor [OF assms(12) dc(2) c(3)] by simp
  obtain v where v: "Verify x True (Signature (opPipes op)) (Recipient crypto) signature = Ok v"
    "runVerifier x v c = Ok ()"
    using Verify_Sign [OF assms(14,7,8)] by blast
  have "rbind (DecryptHeader x h (Encryption (opPipes op)) (Identity crypto))
      (\<lambda>h. VerifyHeader x h True (Signature (opPipes op)) (Recipient crypto)) = Ok hdr"
    using assms(15,5) by (simp add: readsBack_def)
  from Fetch_entry [OF assms(1,2,3,4) this assms(10,11,16,17) plain dc(1) _ assms(18) v(2)]
  show ?thesis using v(1) assms(9) by simp
qed

text \<open>The parts of a successful \<open>Archive\<close> on an idle drive.\<close>

lemma archive_Ok:
  assumes "tmIdle (osBackend s)"
    and "archive x tapeBackend mp op srcs level overwrite init s = (Ok hdrs, s')"
  obtains r b s1 s2 where "osBackend s1 = snd (GetWriter (osBackend s))"
    "writeSession tapeBackend (forSources (archiveFile x op level) srcs) s1 = (Ok hdrs, s2)"
    "indexAppended tapeBackend mp op HeaderEventTypeArchive hdrs r b overwrite init s2 = (Ok (), s')"
proof -
  obtain r b s1 s2 where 1: "(if \<not> overwrite then onMetadata (mpGetLastIndexedRecordAndBlock mp
      (int (RecordSize (opPipes op)))) (s\<lparr>osBackend := snd (GetWriter (osBackend s))\<rparr>)
      else (Ok (0, 0), s\<lparr>osBackend := snd (GetWriter (osBackend s))\<rparr>)) = (Ok (r, b), s1)"
    "writeSession tapeBackend (forSources (archiveFile x op level) srcs) s1 = (Ok hdrs, s2)"
    "indexAppended tapeBackend mp op HeaderEventTypeArchive hdrs r b overwrite init s2 = (Ok (), s')"
    using assms(2) unfolding archive_def tapeBackend_simps GetWriter_session [OF assms(1)] andThen_simps
    by (auto simp: andThen_Ok_iff simp del: on_ops_simps)
  then have "osBackend s1 = snd (GetWriter (osBackend s))"
    by (auto simp: onMetadata_def split: if_splits prod.splits)
  then show ?thesis using 1(2,3) by (rule that)
qed

lemma Update_Ok:
  assumes "tmIdle (osBackend s)"
    and "Update x tapeBackend mp op srcs level replace skip s = (Ok hdrs, s')"
  obtains r b s1 s2 where "osBackend s1 = snd (GetWriter (osBackend s))" "osEvents s1 = osEvents s"
    "writeSession tapeBackend (forSources (updateFile x op level replace skip) srcs) s1 = (Ok hdrs, s2)"
    "indexAppended tapeBackend mp op HeaderEventTypeUpdate hdrs r b False False s2 = (Ok (), s')"
proof -
  obtain r b s1 s2 where 1: "onMetadata (mpGetLastIndexedRecordAndBlock mp
      (int (RecordSize (opPipes op)))) (s\<lparr>osBackend := snd (GetWriter (osBackend s))\<rparr>) = (Ok (r, b), s1)"
    "writeSession tapeBackend (forSources (updateFile x op level replace skip) srcs) s1 = (Ok hdrs, s2)"
    "indexAppended tapeBackend mp op HeaderEventTypeUpdate hdrs r b False False s2 = (Ok (), s')"
    using assms(2) unfolding Update_def tapeBackend_simps GetWriter_session [OF assms(1)] andThen_simps
    by (auto simp: andThen_Ok_iff simp del: on_ops_simps)
  then have "osBackend s1 = snd (GetWriter (osBackend s))" "osEvents s1 = osEvents s"
    by (auto simp: onMetadata_def split: prod.splits)
  then show ?thesis using 1(2,3) by (rule that)
qed

lemma update_one_file:
  assumes "updateFile x op level True True file w0 = (Ok (), w)" "cleanupTape w = (Ok (), w')"
    and "FileInfoHeader (fcInfo file) (fcLink file) = Ok h0" "IsRegularMode (fiMode (fcInfo file))"
    and "tPAXRecords h0 = None" "wHdrs w0 = []" "twMedium (wTar w0) = []"
    and "fst (fcGetFile file (wEvents w0)) = Ok (c, c)"
  obtains hdr signer signature enc h n where "wHdrs w' = [hdr]"
    "rbind (openPipes x op level) (\<lambda>(encryptor, compressor).
       rbind (runCompressor x compressor c) (runEncryptor x encryptor rndWriting)) = Ok enc"
    "rbind (encodeHeader x op hdr) (xWireHeader x) = Ok (h, n)" "payload h = length enc"
    "twMedium (wTar w') = entryBlocks h n enc @ [BZero, BZero]"
    "Sign x True (Signature (opPipes op)) (Identity (opCrypto op)) = Ok signer"
    "runSigner x signer rndSizing c = Ok signature" "tTypeflag hdr = tTypeflag h0" "tMode hdr = tMode h0"
    "(case paxGet (tPAXRecords hdr) STFSRecordSignature of Some s \<Rightarrow> s | None \<Rightarrow> []) = signature"
proof -
  let ?h = "h0\<lparr>tName := fcPath file, tFormat := FormatPAX, tPAXRecords :=
      Some (smInsert STFSRecordAction STFSRecordActionUpdate
        (smInsert STFSRecordVersion STFSRecordVersion1 (paxOrEmpty (tPAXRecords h0))))\<rparr>"
  obtain h2 contents w1 w2 w3 hdr where a: "sizeFile x op level file ?h w0 = (Ok (h2, contents), w1)"
    "hdr = h2\<lparr>tPAXRecords := Some (smInsert STFSRecordReplacesContent STFSRecordReplacesContentTrue
       (paxOrEmpty (tPAXRecords h2)))\<rparr>"
    "announce op HeaderEventTypeUpdate hdr w1 = (Ok (), w2)"
    "writeHeader x op hdr (w2\<lparr>wHdrs := wHdrs w2 @ [hdr]\<rparr>) = (Ok (), w3)"
    "writeContents x op level file contents w3 = (Ok (), w)"
    using assms(1,3,4) by (auto simp: updateFile_def andThen_Ok_iff rbind_Ok_iff Let_def)
  have n: "paxGet (tPAXRecords ?h) STFSRecordSignature = None"
    "STFSRecordReplacesContent \<noteq> STFSRecordSignature"
    by (simp_all add: assms(5) paxGet_def paxOrEmpty_def stfs_records)
  obtain signer signature where g: "contents = c"
    "Sign x True (Signature (opPipes op)) (Identity (opCrypto op)) = Ok signer"
    "runSigner x signer rndSizing c = Ok signature" "tTypeflag h2 = tTypeflag h0" "tMode h2 = tMode h0"
    "(case paxGet (tPAXRecords h2) STFSRecordSignature of Some s \<Rightarrow> s | None \<Rightarrow> []) = signature"
    using sizeFile_Ok [OF a(1)] assms(8) n(1) by auto
  have "wHdrs w1 = []" "twMedium (wTar w1) = []" using sizeFile_events [OF a(1)] assms(6,7) by auto
  from a(3-5) assms(2) this show ?thesis
  proof (rule one_file)
    fix enc h n
    assume o: "wHdrs w' = [hdr]" "rbind (openPipes x op level) (\<lambda>(encryptor, compressor).
       rbind (runCompressor x compressor contents) (runEncryptor x encryptor rndWriting)) = Ok enc"
      "rbind (encodeHeader x op hdr) (xWireHeader x) = Ok (h, n)" "payload h = length enc"
      "twMedium (wTar w') = entryBlocks h n enc @ [BZero, BZero]"
    have "paxGet (tPAXRecords hdr) STFSRecordSignature = paxGet (tPAXRecords h2) STFSRecordSignature"
      using n(2) by (simp add: a(2) paxGet_def paxOrEmpty_def split: option.split)
    then show ?thesis
      by (intro that [OF o(1) o(2) [unfolded g(1)] o(3-5) g(2,3)]) (simp_all add: a(2) g(4-6))
  qed
qed

text \<open>What is on the drive after a successful \<open>Archive\<close> of a regular file with contents.\<close>

lemma archived_file:
  assumes "tmIdle (osBackend s)"
    and "archive x tapeBackend mp op [justFile file] level overwrite init s = (Ok hdrs, s')"
    and "FileInfoHeader (fcInfo file) (fcLink file) = Ok h0" "IsRegularMode (fiMode (fcInfo file))"
    and "0 < fiSize (fcInfo file)" "\<And>ev. fst (fcGetFile file ev) = Ok (c, c)"
    and "paxGet (tPAXRecords h0) STFSRecordSignature = None"
  obtains hdr h n enc signer signature where "hdrs = [hdr]"
    "dfMedium (tmDrive (osBackend s')) = Some (tmStarts (osBackend s) @ entryBlocks h n enc @ [BZero, BZero])"
    "payload h = length enc" "rbind (encodeHeader x op hdr) (xWireHeader x) = Ok (h, n)"
    "rbind (openPipes x op level) (\<lambda>(encryptor, compressor).
       rbind (runCompressor x compressor c) (runEncryptor x encryptor rndWriting)) = Ok enc"
    "Sign x True (Signature (opPipes op)) (Identity (opCrypto op)) = Ok signer"
    "runSigner x signer rndSizing c = Ok signature"
    "(case paxGet (tPAXRecords hdr) STFSRecordSignature of Some s \<Rightarrow> s | None \<Rightarrow> []) = signature"
    "IsRegularMode (hdrMode hdr)" "tTypeflag hdr \<noteq> TypeDir" "tmIdle (osBackend s')"
proof -
  obtain r b s1 s2 where s: "osBackend s1 = snd (GetWriter (osBackend s))"
    "writeSession tapeBackend (forSources (archiveFile x op level) [justFile file]) s1 = (Ok hdrs, s2)"
    "indexAppended tapeBackend mp op HeaderEventTypeArchive hdrs r b overwrite init s2 = (Ok (), s')"
    using assms(1,2) by (rule archive_Ok)
  obtain hdr contents enc h n w w0 where f: "hdrs = [hdr]"
    "sizeFile x op level file (h0\<lparr>tName := fcPath file, tFormat := FormatPAX\<rparr>) w = (Ok (hdr, contents), w0)"
    "rbind (openPipes x op level) (\<lambda>(encryptor, compressor).
       rbind (runCompressor x compressor contents) (runEncryptor x encryptor rndWriting)) = Ok enc"
    "rbind (encodeHeader x op hdr) (xWireHeader x) = Ok (h, n)" "payload h = length enc"
    "osBackend s2 = bcAppend tapeBackend (entryBlocks h n enc @ [BZero, BZero]) (osBackend s1)"
    using s(2) assms(3-5) by (rule archive_one_file)
  obtain signer signature where g: "contents = c"
    "Sign x True (Signature (opPipes op)) (Identity (opCrypto op)) = Ok signer"
    "runSigner x signer rndSizing c = Ok signature" "tTypeflag hdr = tTypeflag h0" "tMode hdr = tMode h0"
    "(case paxGet (tPAXRecords hdr) STFSRecordSignature of Some s \<Rightarrow> s | None \<Rightarrow> []) = signature"
    using sizeFile_Ok [OF f(2)] assms(6,7) by auto
  have mode: "IsRegularMode (hdrMode hdr)" "tTypeflag hdr \<noteq> TypeDir"
    using hdrMode_regular [OF assms(3,4) g(4,5)] FileInfoHeader_regular(1) [OF assms(3,4)] g(4)
    by (auto simp: type_defs)
  have "osBackend s2 = bcAppend tapeBackend (entryBlocks h n enc @ [BZero, BZero])
      (snd (bcGetWriter tapeBackend (osBackend s)))" by (simp add: f(6) s(1))
  from tm.append_and_index [OF assms(1) this s(3)]
  have m: "dfMedium (tmDrive (osBackend s')) = Some (tmStarts (osBackend s) @ entryBlocks h n enc @ [BZero, BZero])"
    and i: "tmIdle (osBackend s')" by simp_all
  show ?thesis
    using f(1) m f(5,4) f(3) [unfolded g(1)] g(2,3,6) mode i by (rule that)
qed


text \<open>A file of four bytes, archived on an empty drive, for the witness.\<close>

definition exampleFile :: "unit file_config" where
  "exampleFile =
     \<lparr>fcInfo = \<lparr>fiName = ''a'', fiSize = 4, fiMode = 0x1A4, fiModTime = zeroTime, fiSys = SysOther\<rparr>,
      fcPath = ''/a'', fcLink = [], fcGetFile = (\<lambda>ev. (Ok (''data'', ''data''), ev)),
      fcClose = (\<lambda>ev. (Ok (), ev))\<rparr>"

definition exampleFileHeader :: tar_header where
  "exampleFileHeader = zero_tar_header\<lparr>tTypeflag := TypeReg, tName := ''a'', tSize := 4, tMode := 0x1A4\<rparr>"

definition exampleFileEntry :: tar_header where
  "exampleFileEntry = exampleFileHeader\<lparr>tName := ''/a'', tFormat := FormatPAX,
     tPAXRecords := Some [(STFSRecordUncompressedSize, ''4'')]\<rparr>"

definition exampleNew :: "(tape_manager, persister, unit) ops_state" where
  "exampleNew = \<lparr>osBackend = NewTapeManager \<lparr>dfMedium = None, dfFault = None\<rparr> True,
     osMetadata = NewMetadataPersister, osEvents = ()\<rparr>"

lemma exampleFile_header: "FileInfoHeader (fcInfo exampleFile) (fcLink exampleFile) = Ok exampleFileHeader"
  by (simp add: FileInfoHeader_def fileInfoKind_def fileInfoSys_def Let_def exampleFile_def
      exampleFileHeader_def IsRegularMode_def mode_defs Perm_def zero_tar_header_def)

lemma example_size:
  assumes "opPipes op = examplePipes" "\<And>ev. fcGetFile file ev = (Ok (''data'', ''data''), ev)"
  shows "sizeFile exampleExternal op CompressionLevelFastestKey file
     (exampleFileHeader\<lparr>tName := ''/a'', tFormat := FormatPAX\<rparr>) w = (Ok (exampleFileEntry, ''data''), w)"
proof -
  have i: "Itoa 4 = ''4''" by (simp add: Itoa_def natToA.simps digit_def char_of_def bit_simps)
  have "NoneKey \<notin> {CompressionFormatGZipKey, EncryptionFormatAgeKey}" by (simp add: compression_keys crypto_keys)
  then show ?thesis
    by (simp add: assms sizeFile_def openPipes_def sizedHeader_def onWEvents_def Encrypt_def Compress_def Sign_def
        compression_keys crypto_keys exampleFileEntry_def runCompressor_def AddSuffix_def Let_def i
        exampleFileHeader_def zero_tar_header_def paxOrEmpty_def)
qed

lemma exampleFileEntry_simps [simp]:
  "payload exampleFileEntry = 4" "tName exampleFileEntry = ''/a''" "tLinkname exampleFileEntry = []"
  "paxGet (tPAXRecords exampleFileEntry) STFSRecordUncompressedSize = Some ''4''"
  "tSize exampleFileEntry = 4"
  by (simp_all add: exampleFileEntry_def exampleFileHeader_def payload_def isHeaderOnly_def type_defs
      paxGet_def)

lemma exampleFile_regular: "IsRegularMode (fiMode (fcInfo exampleFile))" "fiSize (fcInfo exampleFile) = 4"
  "fcGetFile exampleFile ev = (Ok (''data'', ''data''), ev)" "fcClose exampleFile ev = (Ok (), ev)"
  "fcPath exampleFile = ''/a''"
  by (simp_all add: exampleFile_def IsRegularMode_def mode_defs)

lemma exampleFile_session:
  "writeSession tapeBackend (forSources (archiveFile exampleExternal exampleOperations
      CompressionLevelFastestKey) [justFile exampleFile]) s
   = (Ok [exampleFileEntry], s\<lparr>osBackend := appendBlocks (tapeBlocks [[(exampleFileEntry, 0, ''data'')]]) (osBackend s)\<rparr>)"
  by (simp add: writeSession_def archiveFile_def exampleFile_header example_size exampleFile_regular
      announce_example Let_def writeHeader_def SignHeader_def EncryptHeader_def onTar_def twWriteHeader_def
      writeContents_def openPipes_def onWEvents_def justFile_def Encrypt_def Compress_def compression_keys crypto_keys runCompressor_def twWrite_def
      cleanupTape_def twClose_def entryBlocks_def)

lemma exampleFile_indexed:
  "indexedHeader exampleFileEntry [] [] = Ok exampleFileEntry"
proof -
  have a: "Atoi ''4'' = Ok 4"
    by (simp add: Atoi_def isDigit_def aToNat_def digitVal_def int64_ok_def Let_def)
  have "exampleFileEntry\<lparr>tSize := 4\<rparr> = exampleFileEntry" "exampleFileEntry\<lparr>tName := ''/a''\<rparr> = exampleFileEntry"
    by (simp_all add: exampleFileEntry_def exampleFileHeader_def)
  then show ?thesis by (simp add: indexedHeader_def a RemoveSuffix_def compression_keys crypto_keys TrimSuffix_def)
qed

lemma exampleFile_archived:
  "fst (archive exampleExternal tapeBackend sqliteMetadata exampleOperations [justFile exampleFile]
      CompressionLevelFastestKey True True exampleNew) = Ok [exampleFileEntry]"
proof -
  let ?T = "[[(exampleFileEntry, 0, ''data'')]]"
  have i: "tmIdle (osBackend exampleNew)" "tmStarts (osBackend exampleNew) = []"
    by (simp_all add: tmIdle_def tmStarts_def exampleNew_def NewTapeManager_def)
  have p: "paxGet (tPAXRecords exampleFileEntry) STFSRecordVersion = None"
    "paxGet (tPAXRecords exampleFileEntry) STFSRecordAction = None"
    by (simp_all add: exampleFileEntry_def paxGet_def stfs_records)
  have "Index (tapeBlocks ?T) sqliteMetadata examplePipes 0 0 True True 0 (pairedHeader [exampleFileEntry])
      (\<lambda>hdr _. Ok hdr) (Some (notifyIndexed exampleOperations HeaderEventTypeArchive)) (NewMetadataPersister, ())
    = (Ok (), (NewMetadataPersister\<lparr>rows := [TarHeaderToDBHeader 0 0 0 0 exampleFileEntry]\<rparr>, ()))"
    by (simp add: Index_overwrite Index_visits_all tapeWf_def entryWf_def locate_0 indexEntry_paired
        indexHeader_def exampleFile_indexed notifyIndexed_def notify_def onEvents_def onMeta_def
        indexAction_def p purge_new Upsert_new del: tapeBlocks.simps)
  then show ?thesis
    using i by (simp add: archive_def GetWriter_session exampleFile_session GetWriter_idle
        indexAppended_def onBackend_def manager_defs deferCloseReader_def indexDrive_def
        exampleNew_def NewTapeManager_def del: tapeBlocks.simps)
qed


section \<open>The first archive of a tape\<close>

text \<open>
  C24: the first file archived to an empty drive is not indexed: when nothing is on the drive and
  nothing in the index, \<open>Archive\<close> without \<open>overwrite\<close> of one source succeeds and writes its entry, but
  leaves the index as it was, because the first header behind the last known location is taken for
  one that is indexed already.
\<close>

theorem first_archive_unindexed:
  assumes "tmIdle (osBackend s)" "tmStarts (osBackend s) = []" "0 < RecordSize (opPipes op)"
    and "mpGetLastIndexedRecordAndBlock mp (int (RecordSize (opPipes op))) (osMetadata s) = (Ok (0, 0), p)"
    and "archive x tapeBackend mp op srcs level False init s = (Ok [hdr], s')"
  shows "osMetadata s' = p \<and> (\<exists>e. entryOf x op hdr e \<and> dfMedium (tmDrive (osBackend s')) = Some (tapeBlocks [[e]]))"
proof -
  obtain s2 where s: "writeSession tapeBackend (forSources (archiveFile x op level) srcs)
        (s\<lparr>osBackend := snd (GetWriter (osBackend s)), osMetadata := p\<rparr>) = (Ok [hdr], s2)"
    "indexAppended tapeBackend mp op HeaderEventTypeArchive [hdr] 0 0 False init s2 = (Ok (), s')"
    using assms(4,5) unfolding archive_def tapeBackend_simps GetWriter_session [OF assms(1)] andThen_simps
    by (auto simp: andThen_Ok_iff onMetadata_def simp del: on_ops_simps)
  obtain new ev where new: "list_all2 (entryOf x op) [hdr] new" and s2:
    "osBackend s2 = bcAppend tapeBackend (tapeBlocks (appended new)) (snd (bcGetWriter tapeBackend (osBackend s)))"
    "osMetadata s2 = p"
    using writeSession_Ok [OF s(1) archive_keeps] by auto
  obtain e where e: "new = [e]" "entryOf x op hdr e" using new by (auto simp: list_all2_Cons1)
  obtain h n c where h: "e = (h, n, c)" by (cases e)
  have t: "tapeBlocks (appended new) = tapeBlocks [[e]]" by (simp add: e(1) appended_def)
  from tm.append_and_index [OF assms(1) s2(1) s(2)]
  have i: "dfMedium (tmDrive (osBackend s')) = Some (tapeBlocks [[e]])"
    "Index (tapeBlocks [[e]]) mp (opPipes op) 0 0 False init 1 (pairedHeader [hdr]) (\<lambda>hdr _. Ok hdr)
       (Some (notifyIndexed op HeaderEventTypeArchive)) (p, osEvents s2) = (Ok (), (osMetadata s', osEvents s'))"
    by (simp_all add: assms(2) t s2(2) del: tapeBlocks.simps)
  have "tapeWf [[e]]" using tapeWf_appended [OF new] by (simp add: e(1) appended_def)
  then have "Index (tapeBlocks [[e]]) mp (opPipes op) 0 0 False init 1 (pairedHeader [hdr]) (\<lambda>hdr _. Ok hdr)
       (Some (notifyIndexed op HeaderEventTypeArchive)) (p, osEvents s2) = (Ok (), (p, osEvents s2))"
    using assms(3) by (simp add: Index_visits_all h indexEntry_before del: tapeBlocks.simps)
  then show ?thesis using i e(2) by (auto simp del: tapeBlocks.simps split_paired_Ex)
qed

text \<open>The example file on a drive that is not there yet.\<close>

definition exampleEmpty :: "(tape_manager, persister, unit) ops_state" where
  "exampleEmpty = \<lparr>osBackend = NewTapeManager \<lparr>dfMedium = None, dfFault = None\<rparr> False,
     osMetadata = NewMetadataPersister, osEvents = ()\<rparr>"

lemma exampleFile_skipped:
  fixes p :: 'p and ev :: 'e
  shows "Index (tapeBlocks [[(exampleFileEntry, 0, ''data'')]]) mp examplePipes 0 0 False False 1 (pairedHeader [exampleFileEntry])
      (\<lambda>hdr _. Ok hdr) f (p, ev) = (Ok (), (p, ev))"
  by (simp add: Index_visits_all tapeWf_def entryWf_def indexEntry_before del: tapeBlocks.simps)

lemma exampleEmpty_idle: "tmIdle (osBackend exampleEmpty)" "tmStarts (osBackend exampleEmpty) = []"
  by (simp_all add: tmIdle_def tmStarts_def exampleEmpty_def NewTapeManager_def)

lemma exampleEmpty_last:
  "mpGetLastIndexedRecordAndBlock sqliteMetadata rs NewMetadataPersister = (Ok (0, 0), NewMetadataPersister)"
  "mpGetLastIndexedRecordAndBlock sqliteMetadata rs (osMetadata exampleEmpty) = (Ok (0, 0), NewMetadataPersister)"
  by (simp_all add: sqliteMetadata_def GetLastIndexedRecordAndBlock_def NewMetadataPersister_def exampleEmpty_def)

theorem first_archive_unindexed_witness:
  "osMetadata (snd (archive exampleExternal tapeBackend sqliteMetadata exampleOperations [justFile exampleFile]
      CompressionLevelFastestKey False False exampleEmpty)) = NewMetadataPersister"
proof -
  let ?r = "archive exampleExternal tapeBackend sqliteMetadata exampleOperations [justFile exampleFile]
      CompressionLevelFastestKey False False exampleEmpty"
  have "fst ?r = Ok [exampleFileEntry]"
    using exampleEmpty_idle by (simp add: archive_def GetWriter_session exampleFile_session GetWriter_idle
        onMetadata_def exampleEmpty_last exampleFile_skipped [unfolded One_nat_def]
        indexAppended_def onBackend_def manager_defs deferCloseReader_def indexDrive_def
        exampleEmpty_def NewTapeManager_def del: tapeBlocks.simps)
  then have "?r = (Ok [exampleFileEntry], snd ?r)" by (simp add: prod_eq_iff)
  from first_archive_unindexed [OF exampleEmpty_idle _ exampleEmpty_last(2) this] show ?thesis by simp
qed

end
