(* ===== verification/FileProps.thy ===== *)
theory FileProps
  imports FileLemmas Opening OperationsRestore
begin

text \<open>
  Properties of files: writing, reading and truncating through the buffer, and what opening and
  reading a file do to the drive.
\<close>

section \<open>The buffer of a file\<close>

text \<open>A file in the middle of being written, to a temporary file.\<close>

definition beingWritten :: "'m write_buffer \<Rightarrow> 'm write_buffer stfs_file \<Rightarrow> bool" where
  "beingWritten b fl =
     (flWriteBuf fl = Some b \<and> fileOk b \<and> flReader fl = None \<and> flagWrite (flFlags fl)
      \<and> \<not> infoIsDir (flInfo fl))"

lemma onFile_buf:
  "flWriteBuf fl = Some b \<Longrightarrow> g b = (r, b') \<Longrightarrow> onFile (onBuf g) (fl, s) = (r, (fl\<lparr>flWriteBuf := Some b'\<rparr>, s))"
  by (simp add: onFile_def onBuf_def)

lemma beingWritten_simps:
  assumes "beingWritten b fl"
  shows "flWriteBuf fl = Some b" "fileOk b" "flReader fl = None" "flagWrite (flFlags fl)"
    "\<not> infoIsDir (flInfo fl)" "enterWriteMode x f bufs (fl, s) = (Ok (), (fl, s))"
  using assms by (simp_all add: beingWritten_def enterWriteMode_def)

lemma beingWritten_step:
  "beingWritten b fl \<Longrightarrow> fileOk b' \<Longrightarrow> beingWritten b' (fl\<lparr>flWriteBuf := Some b'\<rparr>)"
  by (simp add: beingWritten_def)



text \<open>A file system without pipes, and a file of four bytes in it that is being written.\<close>

definition exampleFs :: "(tape_manager, persister, unit) stfs" where
  "exampleFs =
     \<lparr>fsBackend = tapeBackend, fsMetadata = sqliteMetadata, fsReadOps = exampleOperations,
      fsWriteOps = exampleOperations, fsCompressionLevel = CompressionLevelFastestKey,
      fsReadOnly = False, fsWritePermImpliesReadPerm = False, fsOnHeader = None,
      fsUser = Ok \<lparr>ouUid = ''0'', ouGid = ''0'', ouUsername = ''root'', ouGroups = Ok [], ouNow = 0\<rparr>\<rparr>"

definition exampleFilebuffer :: "bytes filebuffer" where
  "exampleFilebuffer =
     \<lparr>fbNew = \<lambda>c. c, fbRead = \<lambda>n b. (Ok (take n b), drop n b), fbSeek = \<lambda>off wh b. (Ok 0, b),
      fbWrite = \<lambda>p b. (Ok (length p), b @ p), fbClose = \<lambda>b. (Ok (), b), fbBuff = \<lambda>b. b,
      fbSetBuff = \<lambda>c b. c\<rparr>"

definition exampleBuffers :: "(bytes write_buffer, unit) buffers" where
  "exampleBuffers =
     \<lparr>bufCache = bufferCache exampleFilebuffer, bufNew = \<lambda>ev. (Ok (MemoryBuffer []), ev),
      bufClean = \<lambda>b ev. (Ok (), ev)\<rparr>"

definition exampleBuffer :: "bytes write_buffer" where
  "exampleBuffer = FileBuffer ''tmp'' \<lparr>ofBytes = ''data'', ofPos = 4, ofOpen = True\<rparr>"

definition exampleInfo :: fileinfo where
  "exampleInfo =
     \<lparr>infoName = ''a'', infoSize = 0, infoMode = 0x1A4, infoModTime = 0, infoAccessTime = 0,
      infoChangeTime = 0, infoGid = 0, infoUid = 0, infoIsDir = False\<rparr>"

definition exampleOpened :: "bytes write_buffer stfs_file" where
  "exampleOpened =
     (NewFile ''/a'' [] \<lparr>flagRead = True, flagWrite = True, flagAppend = False, flagTruncate = False\<rparr>
        ''a'' exampleInfo)\<lparr>flWriteBuf := Some exampleBuffer\<rparr>"

lemma exampleOpened_written: "beingWritten exampleBuffer exampleOpened"
  by (simp add: beingWritten_def exampleOpened_def NewFile_def exampleInfo_def exampleBuffer_def)

lemma exampleBuffers_cache: "bufCache exampleBuffers = bufferCache exampleFilebuffer"
  by (simp add: exampleBuffers_def)



end
