(* ===== verification/FileClose.thy ===== *)
theory FileClose
  imports FileProps
begin

text \<open>
  Closing a file that was written: its buffer becomes an entry on the drive, from which the contents
  can be fetched.
\<close>

lemma fileOps_simps [simp]:
  "opPipes (fileOps op) = opPipes op" "opCrypto (fileOps op) = opCrypto op"
  by (simp_all add: fileOps_def)

lemma fileOps_encode [simp]:
  "encodeHeader x (fileOps op) = encodeHeader x op" "openPipes x (fileOps op) = openPipes x op"
  by (intro ext, simp add: encodeHeader_def openPipes_def)+

lemma fileOps_readsBack [simp]: "readsBack x (fileOps op) = readsBack x op"
  by (intro ext) (simp add: readsBack_def split: res.split)

lemma withEvents_simps [simp]:
  "osBackend (withEvents ev s) = osBackend s" "osMetadata (withEvents ev s) = osMetadata s"
  "osEvents (withEvents ev s) = ev"
  by (simp_all add: withEvents_def)

lemma infoFileInfo_header:
  assumes "IsRegularMode (infoMode info)"
  obtains h0 where "FileInfoHeader (infoFileInfo info) link = Ok h0" "tPAXRecords h0 = None"
  using assms by (simp add: FileInfoHeader_def fileInfoKind_def fileInfoSys_def infoFileInfo_def Let_def
      zero_tar_header_def)

text \<open>The source that \<open>Sync\<close> hands to \<open>Update\<close>, and what it reads.\<close>

definition syncedFile :: "'m write_buffer stfs_file \<Rightarrow> 'm write_buffer \<Rightarrow> 'm write_buffer stfs_file" where
  "syncedFile fl b = fl\<lparr>flInfo := syncedInfo (flInfo fl) (int (length (fileBytes b)))\<rparr>"

lemma bufferSource_Ok:
  assumes "beingWritten b fl"
  obtains fc where "bufferSource (bufferCache fb) (fl, ev) = (Ok fc, (syncedFile fl b, ev))"
    "fcInfo fc = infoFileInfo (flInfo (syncedFile fl b))" "fcLink fc = flLink fl"
    "\<And>ev. fst (fcGetFile fc (syncedFile fl b, ev)) = Ok (fileBytes b, fileBytes b)"
proof -
  note b = beingWritten_simps [OF assms]
  have keep: "fl\<lparr>flWriteBuf := Some b\<rparr> = fl" using b(1) by (cases fl) simp
  obtain b' where g: "getBuffer (bufferCache fb) b = (Ok (fileBytes b, fileBytes b), b')"
    using tempfile.getBuffer_Ok [OF b(2), of fb] by blast
  have "flWriteBuf (syncedFile fl b) = Some b" using b(1) by (simp add: syncedFile_def)
  then have "fst (onFile (onBuf (getBuffer (bufferCache fb))) (syncedFile fl b, ev)) = Ok (fileBytes b, fileBytes b)" for ev
    by (simp add: onFile_def onBuf_def g)
  moreover have "onFile (onBuf (wcSize (bufferCache fb))) (fl, ev) = (Ok (int (length (fileBytes b))), (fl, ev))"
    by (simp add: onFile_def onBuf_def b(1) tempfile.size_is [OF b(2)] keep)
  ultimately show ?thesis
    by (intro that [of "\<lparr>fcInfo = infoFileInfo (flInfo (syncedFile fl b)), fcPath = flPath fl,
        fcLink = flLink fl, fcGetFile = onFile (onBuf (getBuffer (bufferCache fb))),
        fcClose = onFile (onBuf (wcClose (bufferCache fb)))\<rparr>"]) (simp_all add: bufferSource_def syncedFile_def)
qed

text \<open>The parts of a successful \<open>Close\<close> of a file being written, on an idle drive.\<close>

lemma close_Ok:
  assumes "beingWritten b fl" "fsBackend f = tapeBackend"
    and "FileClose x f bufs (fl, s) = (Ok (), (fl', s'))"
  obtains hdrs s1 where "Update x tapeBackend (fsMetadata f) (fileOps (fsWriteOps f))
      [bufferSource (bufCache bufs)] (fsCompressionLevel f) True True (withEvents (fl, osEvents s) s) = (Ok hdrs, s1)"
    "osBackend s' = osBackend s1" "osMetadata s' = osMetadata s1"
proof -
  note b = beingWritten_simps [OF assms(1)]
  obtain r s1 where u: "Update x tapeBackend (fsMetadata f) (fileOps (fsWriteOps f))
      [bufferSource (bufCache bufs)] (fsCompressionLevel f) True True (withEvents (fl, osEvents s) s) = (r, s1)"
    by force
  obtain fl1 ev1 where e: "osEvents s1 = (fl1, ev1)" by force
  have "andThen (andThen (andThen (r, (fl1, withEvents ev1 s1)) (\<lambda>_ st. (Ok (), st)))
      (\<lambda>_ st. cleanWriteBuf bufs st))
        (\<lambda>_ (fl, s). (Ok (), (fl\<lparr>flReader := None, flWriteBuf := None\<rparr>, s))) = (Ok (), (fl', s'))"
    using assms(3) u e b
    by (simp add: FileClose_def closeWithoutLocking_def closePipe_def syncWithoutLocking_def
        alongside_def assms(2))
  then have "\<exists>hdrs. r = Ok hdrs \<and> osBackend s' = osBackend s1 \<and> osMetadata s' = osMetadata s1"
    by (auto simp: andThen_Ok_iff cleanWriteBuf_def onEnv_def onOps_def split: option.splits prod.splits)
  then show ?thesis using that u by blast
qed

lemmas update_synced_file =
  update_one_file [where op = "fileOps op", unfolded fileOps_simps fileOps_encode] for op

text \<open>The entry that \<open>Close\<close> leaves at the end of the drive.\<close>

lemma close_entry:
  assumes "beingWritten b fl" "bufCache bufs = bufferCache fb" "fsBackend f = tapeBackend"
    and "IsRegularMode (infoMode (flInfo fl))" "tmIdle (osBackend s)"
    and "FileClose x f bufs (fl, s) = (Ok (), (fl', s'))"
    and "dfMedium (tmDrive (osBackend s')) = Some m"
  obtains hdr signer signature enc h n where "m = tmStarts (osBackend s) @ entryBlocks h n enc @ [BZero, BZero]"
    "rbind (openPipes x (fsWriteOps f) (fsCompressionLevel f)) (\<lambda>(encryptor, compressor).
       rbind (runCompressor x compressor (fileBytes b)) (runEncryptor x encryptor rndWriting)) = Ok enc"
    "rbind (encodeHeader x (fsWriteOps f) hdr) (xWireHeader x) = Ok (h, n)" "payload h = length enc"
    "Sign x True (Signature (opPipes (fsWriteOps f))) (Identity (opCrypto (fsWriteOps f))) = Ok signer"
    "runSigner x signer rndSizing (fileBytes b) = Ok signature"
    "(case paxGet (tPAXRecords hdr) STFSRecordSignature of Some s \<Rightarrow> s | None \<Rightarrow> []) = signature"
    "IsRegularMode (hdrMode hdr)" "tTypeflag hdr \<noteq> TypeDir"
proof -
  let ?op = "fileOps (fsWriteOps f)" and ?c = "fileBytes b"
  obtain hdrs s1 where u: "Update x tapeBackend (fsMetadata f) ?op [bufferSource (bufCache bufs)]
      (fsCompressionLevel f) True True (withEvents (fl, osEvents s) s) = (Ok hdrs, s1)"
    "osBackend s' = osBackend s1"
    using assms(1,3,6) by (rule close_Ok)
  have "tmIdle (osBackend (withEvents (fl, osEvents s) s))" using assms(5) by simp
  then obtain r bl s2 s3 where v: "osBackend s2 = snd (GetWriter (osBackend (withEvents (fl, osEvents s) s)))"
    "osEvents s2 = osEvents (withEvents (fl, osEvents s) s)"
    "writeSession tapeBackend (forSources (updateFile x ?op (fsCompressionLevel f) True True)
       [bufferSource (bufCache bufs)]) s2 = (Ok hdrs, s3)"
    "indexAppended tapeBackend (fsMetadata f) ?op HeaderEventTypeUpdate hdrs r bl False False s3 = (Ok (), s1)"
    using u(1) by (rule Update_Ok)
  obtain fc where fc: "bufferSource (bufferCache fb) (fl, osEvents s) = (Ok fc, (syncedFile fl b, osEvents s))"
    "fcInfo fc = infoFileInfo (flInfo (syncedFile fl b))" "fcLink fc = flLink fl"
    "\<And>ev. fst (fcGetFile fc (syncedFile fl b, ev)) = Ok (?c, ?c)"
    by (rule bufferSource_Ok [OF assms(1), where fb = fb and ev = "osEvents s"]) (rule that)
  have "fst (bufferSource (bufCache bufs) (osEvents s2)) \<noteq> Err EOF" by (simp add: v(2) assms(2) fc(1))
  with v(3) obtain fc' w0 w w' ev where w:
    "bufferSource (bufCache bufs) (osEvents s2) = (Ok fc', ev)"
    "w0 = \<lparr>wTar = \<lparr>twMedium = [], twOwed = 0\<rparr>, wHdrs = [], wDirty = False, wEvents = ev\<rparr>"
    "updateFile x ?op (fsCompressionLevel f) True True fc' w0 = (Ok (), w)" "cleanupTape w = (Ok (), w')"
    "hdrs = wHdrs w'" "osBackend s3 = bcAppend tapeBackend (twMedium (wTar w')) (osBackend s2)"
    by (rule one_file_session)
  have w1: "fc' = fc" "ev = (syncedFile fl b, osEvents s)" using w(1) by (simp_all add: v(2) assms(2) fc(1))
  have reg: "IsRegularMode (infoMode (flInfo (syncedFile fl b)))"
    using assms(4) by (simp add: syncedFile_def syncedInfo_def)
  obtain h0 where h0: "FileInfoHeader (fcInfo fc) (fcLink fc) = Ok h0" "tPAXRecords h0 = None"
    unfolding fc(2) using reg by (rule infoFileInfo_header)
  have mode: "IsRegularMode (fiMode (fcInfo fc))" using reg by (simp add: fc(2) infoFileInfo_def)
  have e: "wHdrs w0 = []" "twMedium (wTar w0) = []" "fst (fcGetFile fc (wEvents w0)) = Ok (?c, ?c)"
    by (simp_all add: w(2) w1(2) fc(4))
  obtain hdr signer signature enc h n where o: "wHdrs w' = [hdr]"
    "rbind (openPipes x (fsWriteOps f) (fsCompressionLevel f)) (\<lambda>(encryptor, compressor).
       rbind (runCompressor x compressor ?c) (runEncryptor x encryptor rndWriting)) = Ok enc"
    "rbind (encodeHeader x (fsWriteOps f) hdr) (xWireHeader x) = Ok (h, n)" "payload h = length enc"
    "twMedium (wTar w') = entryBlocks h n enc @ [BZero, BZero]"
    "Sign x True (Signature (opPipes (fsWriteOps f))) (Identity (opCrypto (fsWriteOps f))) = Ok signer"
    "runSigner x signer rndSizing ?c = Ok signature" "tTypeflag hdr = tTypeflag h0" "tMode hdr = tMode h0"
    "(case paxGet (tPAXRecords hdr) STFSRecordSignature of Some s \<Rightarrow> s | None \<Rightarrow> []) = signature"
    using w(3,4) [unfolded w1(1)] h0(1) mode h0(2) e
    by (rule update_synced_file) (rule that)
  have hm: "IsRegularMode (hdrMode hdr)" "tTypeflag hdr \<noteq> TypeDir"
    using hdrMode_regular [OF h0(1) mode o(8,9)] FileInfoHeader_regular(1) [OF h0(1) mode] o(8)
    by (auto simp: type_defs)
  have "osBackend s3 = bcAppend tapeBackend (entryBlocks h n enc @ [BZero, BZero])
      (snd (bcGetWriter tapeBackend (osBackend s)))" by (simp add: w(6) v(1) o(5))
  from tm.append_and_index [OF assms(5) this v(4)]
  have m: "m = tmStarts (osBackend s) @ entryBlocks h n enc @ [BZero, BZero]"
    using assms(7) by (simp add: u(2))
  show ?thesis using m o(2-4,6,7,10) hm by (rule that)
qed


section \<open>The file of the witnesses, closed\<close>

lemma close_medium:
  assumes "beingWritten b fl" "fsBackend f = tapeBackend" "tmIdle (osBackend s)"
    and "FileClose x f bufs (fl, s) = (Ok (), (fl', s'))"
  shows "\<exists>m. dfMedium (tmDrive (osBackend s')) = Some m"
proof -
  obtain hdrs s1 where u: "Update x tapeBackend (fsMetadata f) (fileOps (fsWriteOps f))
      [bufferSource (bufCache bufs)] (fsCompressionLevel f) True True (withEvents (fl, osEvents s) s) = (Ok hdrs, s1)"
    "osBackend s' = osBackend s1" using assms(1,2,4) by (rule close_Ok)
  have "tmIdle (osBackend (withEvents (fl, osEvents s) s))" using assms(3) by simp
  then obtain r b s2 s3 g srcs where v: "osBackend s2 = snd (GetWriter (osBackend s))"
    "writeSession tapeBackend (forSources g srcs) s2 = (Ok hdrs, s3)"
    "indexAppended tapeBackend (fsMetadata f) (fileOps (fsWriteOps f)) HeaderEventTypeUpdate hdrs r b False False s3
       = (Ok (), s1)"
    using Update_Ok [OF _ u(1)] by (metis withEvents_simps(1))
  obtain t where "osBackend s3 = bcAppend tapeBackend t (snd (bcGetWriter tapeBackend (osBackend s)))"
    using v(1,2) by (auto simp: writeSession_def Let_def split: prod.splits)
  from tm.append_and_index [OF assms(3) this v(3)] show ?thesis by (simp add: u(2))
qed

definition exampleSynced :: tar_header where
  "exampleSynced =
     zero_tar_header\<lparr>tModTime := 0, tTypeflag := TypeReg, tMode := uint (Perm 0x1A4), tName := ''/a'',
       tFormat := FormatPAX, tSize := 4,
       tPAXRecords := Some (smInsert STFSRecordReplacesContent STFSRecordReplacesContentTrue
         (paxOrEmpty (Some (smInsert STFSRecordUncompressedSize ''4''
           (paxOrEmpty (Some (smInsert STFSRecordAction STFSRecordActionUpdate
             (smInsert STFSRecordVersion STFSRecordVersion1 (paxOrEmpty None)))))))))\<rparr>"

lemma announce_fileOps: "announce (fileOps exampleOperations) ty hdr w = (Ok (), w)"
  by (cases w; cases "wEvents w") (simp add: announce_def onWEvents_def notify_def fileOps_def)

lemma exampleSynced_simps [simp]:
  "payload exampleSynced = 4" "tName exampleSynced = ''/a''" "tSize exampleSynced = 4"
  "tTypeflag exampleSynced = TypeReg"
  by (simp_all add: exampleSynced_def payload_def isHeaderOnly_def type_defs)

lemma exampleSynced_session:
  assumes "osEvents s = (exampleOpened, ())"
  shows "\<exists>fl. flWriteBuf fl \<noteq> None \<and> writeSession tapeBackend (forSources (updateFile exampleExternal (fileOps exampleOperations)
      CompressionLevelFastestKey True True) [bufferSource (bufferCache exampleFilebuffer)]) s
   = (Ok [exampleSynced], s\<lparr>osBackend := appendBlocks (tapeBlocks [[(exampleSynced, 0, ''data'')]]) (osBackend s),
        osEvents := (fl, ())\<rparr>)"
proof -
  have i: "Itoa 4 = ''4''" by (simp add: Itoa_def natToA.simps digit_def char_of_def bit_simps)
  have "NoneKey \<notin> {CompressionFormatGZipKey, EncryptionFormatAgeKey}" by (simp add: compression_keys crypto_keys)
  show ?thesis
    by (simp add: writeSession_def assms bufferSource_def onWEvents_def onFile_def onBuf_def
        exampleOpened_def NewFile_def exampleBuffer_def bufferCache_def onBuffer_def fileSize_def
        whenOpen_def updateFile_def FileInfoHeader_def fileInfoKind_def fileInfoSys_def
        infoFileInfo_def exampleInfo_def syncedInfo_def IsRegularMode_def mode_defs Let_def
        sizeFile_def openPipes_def sizedHeader_def Encrypt_def Compress_def Sign_def compression_keys
        crypto_keys runCompressor_def AddSuffix_def i getBuffer_def readAll_def os_file_defs
        orElse_def attempt_def announce_fileOps exampleSynced_def [symmetric])
      (simp add: writeHeader_def SignHeader_def EncryptHeader_def onTar_def twWriteHeader_def
        writeContents_def openPipes_def onWEvents_def Encrypt_def Compress_def compression_keys
        crypto_keys runCompressor_def twWrite_def cleanupTape_def twClose_def entryBlocks_def
        onFile_def onBuf_def onBuffer_def osClose_def whenOpen_def, rule exI, rule conjI [rotated], rule refl, simp)
qed

lemma exampleSynced_records:
  "paxGet (tPAXRecords exampleSynced) STFSRecordUncompressedSize = Some ''4''"
  "paxGet (tPAXRecords exampleSynced) STFSRecordVersion = Some STFSRecordVersion1"
  "paxGet (tPAXRecords exampleSynced) STFSRecordAction = Some STFSRecordActionUpdate"
  "paxGet (tPAXRecords exampleSynced) STFSRecordReplacesContent = Some STFSRecordReplacesContentTrue"
  "paxGet (tPAXRecords exampleSynced) STFSRecordReplacesName = None"
  by (simp_all add: exampleSynced_def paxGet_def paxOrEmpty_def stfs_records)

lemma exampleSynced_indexed: "indexedHeader exampleSynced [] [] = Ok exampleSynced"
proof -
  have a: "Atoi ''4'' = Ok 4"
    by (simp add: Atoi_def isDigit_def aToNat_def digitVal_def int64_ok_def Let_def)
  have "exampleSynced\<lparr>tSize := 4\<rparr> = exampleSynced" "exampleSynced\<lparr>tName := ''/a''\<rparr> = exampleSynced"
    by (simp_all add: exampleSynced_def)
  then show ?thesis
    by (simp add: indexedHeader_def exampleSynced_records a RemoveSuffix_def compression_keys crypto_keys TrimSuffix_def)
qed

lemma exampleSynced_index:
  "\<exists>p'. Index (tapeBlocks [[exampleRoot], [(exampleSynced, 0, ''data'')]]) sqliteMetadata examplePipes 0 0
      False False 1 (pairedHeader [exampleSynced]) (\<lambda>hdr _. Ok hdr)
      (Some (notifyIndexed (fileOps exampleOperations) ty)) (p, (fl, ())) = (Ok (), (p', (fl, ())))"
proof -
  have n: "STFSRecordActionUpdate \<noteq> STFSRecordActionCreate" "STFSRecordActionUpdate \<noteq> STFSRecordActionDelete"
    by (simp_all add: stfs_records)
  have "\<exists>p'. indexHeader sqliteMetadata r b exampleSynced [] [] False
      (Some (notifyIndexed (fileOps exampleOperations) ty)) (p, (fl, ())) = (Ok (), (p', (fl, ())))" for r b
    by (simp add: indexHeader_def exampleSynced_indexed indexAction_def indexUpdate_def exampleSynced_records n
        onEvents_def onMeta_def notifyIndexed_def notify_def fileOps_def sqliteMetadata_def
        UpdateHeaderMetadata_def case_prod_beta Let_def)
  then obtain q where u: "\<And>r b. indexHeader sqliteMetadata r b exampleSynced [] [] False
      (Some (notifyIndexed (fileOps exampleOperations) ty)) (p, (fl, ())) = (Ok (), (q r b, (fl, ())))" by metis
  have l: "(0, 0) = locate (RecordSize examplePipes) (length (tapeBlocks [] @ entriesBlocks []))"
    by (simp add: locate_0)
  have "tapeWf ([] @ [[] @ [exampleRoot]])" "tapeWf [[(exampleSynced, 0, ''data'')]]"
    by (simp_all add: tapeWf_def entryWf_def exampleRoot_def)
  from Index_after_last [OF _ this l, of sqliteMetadata False "pairedHeader [exampleSynced]" "\<lambda>hdr _. Ok hdr"
      "Some (notifyIndexed (fileOps exampleOperations) ty)" "(p, (fl, ()))"]
  show ?thesis by (simp add: indexEntry_paired u del: tapeBlocks.simps)
qed

lemma exampleUpdated:
  "\<exists>s1 fl. Update exampleExternal tapeBackend sqliteMetadata (fileOps exampleOperations)
      [bufferSource (bufferCache exampleFilebuffer)] CompressionLevelFastestKey True True
      (withEvents (exampleOpened, ()) (exampleState [exampleRow 0 0 ''/''])) = (Ok [exampleSynced], s1)
    \<and> osEvents s1 = (fl, ()) \<and> flWriteBuf fl \<noteq> None"
proof -
  let ?s = "withEvents (exampleOpened, ()) (exampleState [exampleRow 0 0 ''/''])"
  let ?s1 = "?s\<lparr>osBackend := snd (GetWriter (exampleDrive [[exampleRoot]])),
      osMetadata := exampleIndex [exampleRow 0 0 ''/'']\<rparr>"
  have l: "mpGetLastIndexedRecordAndBlock sqliteMetadata 20 (exampleIndex [exampleRow 0 0 ''/''])
      = (Ok (0, 0), exampleIndex [exampleRow 0 0 ''/''])"
    by (simp add: sqliteMetadata_def GetLastIndexedRecordAndBlock_def exampleRow_def)
  have t: "tapeBlocks [[exampleRoot], [(exampleSynced, 0, ''data'')]]
      = tapeBlocks [[exampleRoot]] @ tapeBlocks [[(exampleSynced, 0, ''data'')]]" by simp
  obtain fl where w: "flWriteBuf fl \<noteq> None" "writeSession tapeBackend (forSources (updateFile exampleExternal
      (fileOps exampleOperations) CompressionLevelFastestKey True True)
      [bufferSource (bufferCache exampleFilebuffer)]) ?s1 = (Ok [exampleSynced],
      ?s1\<lparr>osBackend := appendBlocks (tapeBlocks [[(exampleSynced, 0, ''data'')]]) (osBackend ?s1), osEvents := (fl, ())\<rparr>)"
    using exampleSynced_session [of ?s1] by (auto simp del: tapeBlocks.simps)
  obtain p' where "Index (tapeBlocks [[exampleRoot], [(exampleSynced, 0, ''data'')]]) sqliteMetadata
      examplePipes 0 0 False False 1 (pairedHeader [exampleSynced]) (\<lambda>hdr _. Ok hdr)
      (Some (notifyIndexed (fileOps exampleOperations) HeaderEventTypeUpdate))
      (exampleIndex [exampleRow 0 0 ''/''], (fl, ())) = (Ok (), (p', (fl, ())))"
    using exampleSynced_index [of HeaderEventTypeUpdate "exampleIndex [exampleRow 0 0 ''/'']" fl] by auto
  then show ?thesis
    using w by (simp add: t Update_def GetWriter_session onMetadata_def l GetWriter_idle
        indexAppended_def onBackend_def manager_defs deferCloseReader_def indexDrive_def
        exampleDrive_def NewTapeManager_def del: tapeBlocks.simps)
qed

lemma exampleClosed:
  "fst (FileClose exampleExternal exampleFs exampleBuffers (exampleOpened, exampleState [exampleRow 0 0 ''/''])) = Ok ()"
proof -
  obtain s1 fl where "Update exampleExternal tapeBackend sqliteMetadata (fileOps exampleOperations)
      [bufferSource (bufferCache exampleFilebuffer)] CompressionLevelFastestKey True True
      (withEvents (exampleOpened, ()) (exampleState [exampleRow 0 0 ''/''])) = (Ok [exampleSynced], s1)"
    "osEvents s1 = (fl, ())" "flWriteBuf fl \<noteq> None"
    using exampleUpdated by blast
  then show ?thesis
    by (auto simp: FileClose_def closeWithoutLocking_def closePipe_def syncWithoutLocking_def
        beingWritten_simps [OF exampleOpened_written] exampleFs_def exampleBuffers_def alongside_def
        cleanWriteBuf_def onEnv_def onOps_def)
qed


end
