(* ===== verification/FileInvariant.thy ===== *)
theory FileInvariant
  imports FileClose
begin

text \<open>
  The types of the states of a file: what every file that was opened satisfies, whatever methods
  are called on it and however they end. The file rides along with \<open>Update\<close> and \<open>Restore\<close>, so the
  first part shows that these keep what their sources, destinations and callbacks keep.
\<close>

section \<open>What operations keep of their environment\<close>

definition opKeeps :: "('e \<Rightarrow> bool) \<Rightarrow> 'e operations \<Rightarrow> bool" where
  "opKeeps P op = (\<forall>g h. opOnHeader op = Some g \<longrightarrow> envKeeps P (g h))"

definition sourceKeeps :: "('e \<Rightarrow> bool) \<Rightarrow> 'e file_source \<Rightarrow> bool" where
  "sourceKeeps P src =
     (envKeeps P src \<and> (\<forall>ev fc ev'. P ev \<longrightarrow> src ev = (Ok fc, ev')
        \<longrightarrow> envKeeps P (fcGetFile fc) \<and> envKeeps P (fcClose fc)))"

abbreviation writingKeeps :: "('e \<Rightarrow> bool) \<Rightarrow> ('e writing \<Rightarrow> 'a \<times> 'e writing) \<Rightarrow> bool" where
  "writingKeeps P f \<equiv> envKeeps (\<lambda>w. P (wEvents w)) f"

lemma onWEvents_keeps: "envKeeps P f \<Longrightarrow> writingKeeps P (onWEvents f)"
  by (auto simp: envKeeps_def onWEvents_def split: prod.splits)

lemma onTar_keeps: "writingKeeps P (onTar f)"
  by (auto simp: envKeeps_def onTar_def split: prod.splits)

lemma notify_keeps: "opKeeps P op \<Longrightarrow> envKeeps P (notify op ty ix hdr)"
  by (auto simp: envKeeps_def notify_def opKeeps_def split: option.split)

lemma notifyIndexed_keeps: "opKeeps P op \<Longrightarrow> envKeeps P (notifyIndexed op ty hdr)"
  using notify_keeps [of P op] by (auto simp: envKeeps_def notifyIndexed_def)

lemma announce_keeps: "opKeeps P op \<Longrightarrow> writingKeeps P (announce op ty hdr)"
  unfolding announce_def by (intro onWEvents_keeps notify_keeps)

lemma writeHeader_keeps: "writingKeeps P (writeHeader x op hdr)"
  unfolding writeHeader_def
  by (intro envKeeps_andThen envKeeps_const onTar_keeps) (simp add: envKeeps_def)

lemma cleanupTape_keeps: "writingKeeps P cleanupTape"
  using onTar_keeps [of P twClose] by (auto simp: envKeeps_def cleanupTape_def)

lemma sizeFile_keeps: "envKeeps P (fcGetFile fc) \<Longrightarrow> writingKeeps P (sizeFile x op level fc hdr)"
  unfolding sizeFile_def
  by (intro envKeeps_andThen envKeeps_const) (auto intro!: envKeeps_andThen envKeeps_const onWEvents_keeps)

lemma writeContents_keeps: "envKeeps P (fcClose fc) \<Longrightarrow> writingKeeps P (writeContents x op level fc c)"
  unfolding writeContents_def by (intro envKeeps_andThen envKeeps_const onTar_keeps onWEvents_keeps)

lemma updateFile_keeps:
  assumes "opKeeps P op" "envKeeps P (fcGetFile fc)" "envKeeps P (fcClose fc)"
  shows "writingKeeps P (updateFile x op level replace skip fc)"
proof -
  let ?I = "\<lambda>w. P (wEvents w)"
  have push: "envKeeps ?I (\<lambda>w. f (w\<lparr>wHdrs := wHdrs w @ [h]\<rparr>))" if "envKeeps ?I f" for f :: "'a writing \<Rightarrow> unit res \<times> 'a writing" and h
    using that by (simp add: envKeeps_def)
  show ?thesis
    unfolding updateFile_def Let_def
    by (intro keeps_intros push sizeFile_keeps announce_keeps writeHeader_keeps writeContents_keeps
        assms)
qed

lemma forSources_keep:
  assumes "\<And>fc. envKeeps P (fcGetFile fc) \<Longrightarrow> envKeeps P (fcClose fc) \<Longrightarrow> writingKeeps P (f fc)"
    and "\<And>src. src \<in> set srcs \<Longrightarrow> sourceKeeps P src"
  shows "writingKeeps P (forSources f srcs)"
  using assms(2)
proof (induction srcs)
  case (Cons src srcs)
  have src: "sourceKeeps P src" using Cons.prems by simp
  have rest: "writingKeeps P (forSources f srcs)" using Cons by simp
  have "P (wEvents (snd (forSources f (src # srcs) w)))" if w: "P (wEvents w)" for w
  proof -
    obtain r ev where s: "src (wEvents w) = (r, ev)" by force
    have ev: "P ev" using src w s by (auto simp: sourceKeeps_def envKeeps_def)
    show ?thesis
    proof (cases r)
      case (Ok fc)
      have "writingKeeps P (f fc)" using src w s Ok by (intro assms(1)) (auto simp: sourceKeeps_def)
      then have "writingKeeps P (\<lambda>w. andThen (f fc w) (\<lambda>_. forSources f srcs))"
        by (intro envKeeps_andThen rest)
      from envKeepsD [OF this, of "w\<lparr>wEvents := ev\<rparr>"] show ?thesis
        using s Ok ev by (simp add: onWEvents_def)
    qed (use s ev in \<open>simp_all add: onWEvents_def\<close>)
  qed
  then show ?case by (simp add: envKeeps_def)
qed (simp add: envKeeps_def)

section \<open>What operations keep next to their state\<close>

abbreviation opsKeep ::
  "('e \<Rightarrow> bool) \<Rightarrow> (('b, 'p, 'e) ops_state \<Rightarrow> 'a \<times> ('b, 'p, 'e) ops_state) \<Rightarrow> bool" where
  "opsKeep P f \<equiv> envKeeps (\<lambda>s. P (osEvents s)) f"

lemma on_ops_keep: "opsKeep P (onBackend f)" "opsKeep P (onMetadata g)"
  by (simp_all add: envKeeps_def)

lemma writeSession_keeps: "writingKeeps P f \<Longrightarrow> opsKeep P (writeSession bc f)"
  using envKeeps_andThen [of "\<lambda>w. P (wEvents w)" f "\<lambda>_. cleanupTape"] cleanupTape_keeps [of P]
  by (simp add: envKeeps_def writeSession_def case_prod_beta)

lemma deferCloseReader_keeps: "opsKeep P f \<Longrightarrow> opsKeep P (\<lambda>s. deferCloseReader bc (f s))"
  by (auto simp: envKeeps_def deferCloseReader_def case_prod_beta onBackend_def split: res.splits prod.splits)

lemma onMeta_events: "snd (snd (onMeta f s)) = snd s"
  by (simp add: onMeta_def case_prod_beta)

lemma onEvents_events: "snd (snd (onEvents f s)) = snd (f (snd s))" "fst (snd (onEvents f s)) = fst s"
  by (simp_all add: onEvents_def case_prod_beta)

lemma Index_keeps:
  assumes "0 < RecordSize pipes" "\<And>f h. onHeader = Some f \<Longrightarrow> envKeeps P (f h)"
  shows "envKeeps (\<lambda>s. P (snd s)) (Index m mp pipes rec blk ov init off dec ver onHeader)"
proof -
  have header: "envKeeps (\<lambda>s. P (snd s)) (indexHeader mp r b h cf ef init onHeader)" for r b h cf ef
    unfolding indexHeader_def using assms(2)
    by (intro keeps_intros) (simp_all add: envKeeps_def onMeta_events onEvents_events)
  then have entry: "envKeeps (\<lambda>s. P (snd s)) (indexEntry mp pipes init off dec ver onHeader i r b h)" for i r b h
    unfolding indexEntry_def by (intro envKeeps_if envKeeps_andThen envKeeps_const)
  have "envKeeps (\<lambda>s. P (snd s)) (indexLoop m (RecordSize pipes)
      (indexEntry mp pipes init off dec ver onHeader) p r b i st)" for p r b i st
    by (subst envKeeps_def)
      (intro allI impI indexLoop_inv [where I = "\<lambda>s. P (snd s)"] assms(1) envKeepsD [OF entry])
  then show ?thesis
    unfolding Index_def
    by (intro envKeeps_andThen envKeeps_if envKeeps_const) (simp_all add: envKeeps_def onMeta_events)
qed

lemma indexAppended_keeps:
  fixes bc :: "'b backend_config" and mp :: "'p metadata_persister" and P :: "'e \<Rightarrow> bool"
  assumes "0 < RecordSize (opPipes op)" "opKeeps P op"
  shows "opsKeep P (indexAppended bc mp op ty hdrs rec blk ov init)"
proof -
  have "opsKeep P (indexDrive bc mp op ty hdrs rec blk ov init ix)" for ix
    unfolding envKeeps_def
  proof (intro allI impI)
    fix s :: "('b, 'p, 'e) ops_state"
    assume s: "P (osEvents s)"
    have "envKeeps (\<lambda>s. P (snd s)) (Index m mp (opPipes op) rec blk ov init ix (pairedHeader hdrs)
        (\<lambda>hdr _. Ok hdr) (Some (notifyIndexed op ty)))" for m
      using notifyIndexed_keeps [OF assms(2)] by (intro Index_keeps assms(1)) auto
    from envKeepsD [OF this, of "(osMetadata s, osEvents s)"] s
    show "P (osEvents (snd (indexDrive bc mp op ty hdrs rec blk ov init ix s)))"
      by (simp add: indexDrive_def case_prod_beta split: option.split)
  qed
  then show ?thesis
    unfolding indexAppended_def Let_def
    by (intro envKeeps_andThen deferCloseReader_keeps on_ops_keep)
qed

lemma Update_keeps:
  assumes "0 < RecordSize (opPipes op)" "opKeeps P op" "\<And>src. src \<in> set srcs \<Longrightarrow> sourceKeeps P src"
  shows "opsKeep P (Update x bc mp op srcs level replace skip)"
  unfolding Update_def
  by (intro envKeeps_andThen envKeeps_pairs envKeeps_const on_ops_keep writeSession_keeps
      forSources_keep updateFile_keeps indexAppended_keeps assms)

text \<open>A destination that keeps \<open>D\<close>, and callbacks that do not see it.\<close>

definition dstKeeps :: "('d \<Rightarrow> bool) \<Rightarrow> 'd restore_dst \<Rightarrow> bool" where
  "dstKeeps D dst =
     ((\<forall>p mode. envKeeps D (rdGetDst dst p mode)) \<and> (\<forall>k c. envKeeps D (rdWrite dst k c))
      \<and> (\<forall>k. envKeeps D (rdClose dst k)) \<and> (\<forall>p mode. envKeeps D (rdMkdirAll dst p mode)))"

lemma onMeta_keeps: "envKeeps D f \<Longrightarrow> envKeeps (\<lambda>s. D (fst s)) (onMeta f)"
  by (auto simp: envKeeps_def onMeta_def split: prod.splits)

lemma onEvents_keeps: "envKeeps (\<lambda>s. D (fst s)) (onEvents f)"
  by (simp add: envKeeps_def onEvents_events)

lemma Fetch_keeps:
  assumes "dstKeeps D dst"
  shows "envKeeps (\<lambda>s. D (fst s)) (Fetch x m pipes crypto dst rec blk to preview onHeader)"
proof -
  have dst: "envKeeps D (rdGetDst dst p mode)" "envKeeps D (rdWrite dst k c)" "envKeeps D (rdClose dst k)"
    "envKeeps D (rdMkdirAll dst p mode)" for p mode k c
    using assms by (simp_all add: dstKeeps_def)
  have contents: "envKeeps D (fetchContents x m pipes crypto dst k q raw hdr)" for k q raw hdr
    unfolding fetchContents_def Let_def by (intro envKeeps_andThen envKeeps_const dst)
  show ?thesis
    unfolding Fetch_def Let_def
    by (intro keeps_intros onMeta_keeps onEvents_keeps dst contents)
qed

lemma Restore_keeps:
  assumes "dstKeeps D dst"
  shows "opsKeep (\<lambda>de. D (fst de)) (Restore x bc mp op dst from to flatten)"
proof -
  have "envKeeps (\<lambda>s. D (fst s)) (restoreLoop (restoreHeader x m op dst from' to' flatten) hdrs)" for m from' to' hdrs
  proof (induction hdrs)
    case (Cons h hs)
    have "envKeeps (\<lambda>s. D (fst s)) (restoreHeader x m op dst from' to' flatten h)"
      unfolding restoreHeader_def by (intro envKeeps_andThen onEvents_keeps Fetch_keeps assms)
    then show ?case using Cons unfolding restoreLoop.simps by (intro envKeeps_andThen)
  qed (simp add: envKeeps_def)
  then have "opsKeep (\<lambda>de. D (fst de)) (\<lambda>s. case bcMedium bc (osBackend s) of
       None \<Rightarrow> (Err ErrClosed, s)
     | Some m \<Rightarrow> (let (r, de) = restoreLoop (restoreHeader x m op dst from' to' flatten) hdrs (osEvents s)
                 in (r, s\<lparr>osEvents := de\<rparr>)))" for from' to' hdrs
    unfolding envKeeps_def by (simp add: case_prod_beta del: split_paired_All split: option.split)
  moreover have "opsKeep (\<lambda>de. D (fst de)) (headersToRestore mp from')" for from'
    unfolding headersToRestore_def Let_def by (intro keeps_intros on_ops_keep)
  ultimately show ?thesis
    unfolding Restore_def Let_def
    by (intro envKeeps_andThen deferCloseReader_keeps on_ops_keep)
qed

section \<open>The type of a file\<close>

text \<open>
  The states of a file that was opened as \<open>fl0\<close>: what it is never changes; it reads from a pipe or
  from a buffer, not from both; only a file opened for writing has a buffer; a directory has neither.
\<close>

definition fileOf :: "'w stfs_file \<Rightarrow> 'w stfs_file \<Rightarrow> bool" where
  "fileOf fl0 fl =
     (flPath fl = flPath fl0 \<and> flLink fl = flLink fl0 \<and> flName fl = flName fl0 \<and> flFlags fl = flFlags fl0
      \<and> infoIsDir (flInfo fl) = infoIsDir (flInfo fl0) \<and> infoMode (flInfo fl) = infoMode (flInfo fl0)
      \<and> (flReader fl = None \<or> flWriteBuf fl = None)
      \<and> (flWriteBuf fl \<noteq> None \<longrightarrow> flagWrite (flFlags fl0))
      \<and> (infoIsDir (flInfo fl0) \<longrightarrow> flReader fl = None \<and> flWriteBuf fl = None))"

abbreviation fileKeeps :: "'w stfs_file \<Rightarrow> ('w stfs_file \<times> 's \<Rightarrow> 'a \<times> ('w stfs_file \<times> 's)) \<Rightarrow> bool" where
  "fileKeeps fl0 f \<equiv> envKeeps (\<lambda>st. fileOf fl0 (fst st)) f"

lemma fileOf_update:
  "fileOf fl0 fl \<Longrightarrow> flWriteBuf fl \<noteq> None \<Longrightarrow> fileOf fl0 (fl\<lparr>flWriteBuf := Some w\<rparr>)"
  "fileOf fl0 fl \<Longrightarrow> flReader fl \<noteq> None \<Longrightarrow> fileOf fl0 (fl\<lparr>flReader := Some rd\<rparr>)"
  "fileOf fl0 fl \<Longrightarrow> fileOf fl0 (fl\<lparr>flReader := None, flWriteBuf := None\<rparr>)"
  "fileOf fl0 fl \<Longrightarrow> fileOf fl0 (fl\<lparr>flInfo := syncedInfo (flInfo fl) sz\<rparr>)"
  "fileOf fl0 fl \<Longrightarrow> fileOf fl0 (fl\<lparr>flInfo := (flInfo fl)\<lparr>infoSize := sz\<rparr>\<rparr>)"
  "fileOf fl0 fl \<Longrightarrow> fileOf fl0 (fl\<lparr>flInfo := (flInfo fl)\<lparr>infoName := nm\<rparr>\<rparr>)"
  by (auto simp: fileOf_def syncedInfo_def)

lemma fileOf_new:
  "fileOf fl0 fl \<Longrightarrow> flReader fl = None \<Longrightarrow> flagWrite (flFlags fl) \<Longrightarrow> \<not> infoIsDir (flInfo fl)
   \<Longrightarrow> fileOf fl0 (fl\<lparr>flWriteBuf := Some w\<rparr>)"
  "fileOf fl0 fl \<Longrightarrow> flWriteBuf fl = None \<Longrightarrow> \<not> infoIsDir (flInfo fl) \<Longrightarrow> fileOf fl0 (fl\<lparr>flReader := Some rd\<rparr>)"
  by (auto simp: fileOf_def)

lemma onBuf_file: "envKeeps (fileOf fl0) (onBuf g)"
  by (auto simp: envKeeps_def onBuf_def case_prod_beta intro: fileOf_update split: option.split)

lemma onFile_state: "envKeeps D g \<Longrightarrow> envKeeps (\<lambda>st. D (fst st)) (onFile g)"
  by (auto simp: envKeeps_def onFile_def case_prod_beta)

lemma onOps_file [simp]: "fst (snd (onOps g st)) = fst st" "fst (snd (onEnv h st)) = fst st"
  by (simp_all add: onOps_def onEnv_def case_prod_beta)

lemma on_file_keeps: "fileKeeps fl0 (onFile (onBuf g))" "fileKeeps fl0 (onOps f)" "fileKeeps fl0 (onEnv h)"
  by (rule onFile_state, rule onBuf_file) (simp_all add: envKeeps_def)

lemma alongside_keeps:
  assumes "opsKeep (\<lambda>de. D (fst de)) g" "D d"
  shows "D (fst (snd (alongside d g s)))"
  using envKeepsD [OF assms(1), of "withEvents (d, osEvents s) s"] assms(2)
  by (simp add: alongside_def case_prod_beta)

section \<open>What the methods keep\<close>

lemma bufferSource_keeps: "sourceKeeps (\<lambda>st. fileOf fl0 (fst st)) (bufferSource wc)"
proof -
  have "fileKeeps fl0 (bufferSource wc)"
    unfolding bufferSource_def Let_def by (intro keeps_intros on_file_keeps) (simp add: envKeeps_def fileOf_update)
  then show ?thesis
    unfolding sourceKeeps_def
    by (auto simp: bufferSource_def andThen_Ok_iff Let_def intro: on_file_keeps)
qed

lemma fileOps_keeps: "opKeeps (\<lambda>st. D (fst st)) (fileOps op)"
  by (auto simp: opKeeps_def fileOps_def envKeeps_def case_prod_beta)

lemma sync_keeps:
  assumes "0 < RecordSize (opPipes (fsWriteOps f))"
  shows "fileKeeps fl0 (syncWithoutLocking x f bufs)"
proof -
  have "opsKeep (\<lambda>de. fileOf fl0 (fst de))
      (Update x bc mp (fileOps (fsWriteOps f)) [bufferSource wc] level True True)" for bc mp wc level
    using assms bufferSource_keeps by (intro Update_keeps fileOps_keeps) simp_all
  then have update: "fileKeeps fl0 (\<lambda>st. alongside (fst st)
      (Update x bc mp (fileOps (fsWriteOps f)) [bufferSource wc] level True True) (snd st))" for bc mp wc level
    by (subst envKeeps_def) (intro allI impI alongside_keeps [where D = "fileOf fl0"])
  show ?thesis
    unfolding syncWithoutLocking_def by (intro envKeeps_choice envKeeps_andThen envKeeps_const update)
qed

lemma closePipe_file [simp]: "fst (snd (closePipe f st)) = fst st"
  by (simp add: closePipe_def split: option.split)

lemma startReader_keeps:
  "fileOf fl0 (fst st) \<Longrightarrow> flWriteBuf (fst st) = None \<Longrightarrow> \<not> infoIsDir (flInfo (fst st))
   \<Longrightarrow> fileOf fl0 (fst (snd (startReader x f st)))"
  by (simp add: startReader_def case_prod_beta Let_def fileOf_new)

lemma copyN_keeps: "fileKeeps fl0 (copyN f n)"
proof -
  have "fileOf fl0 (fst (snd (copyN f n st)))" if "fileOf fl0 (fst st)" for st :: "('a, 'b, 'c, 'd) file_state"
    using that by (cases "flReader (fst st)")
      (auto simp: copyN_def Let_def fileOf_update intro!: andThen_post [where P = "\<lambda>st. fileOf fl0 (fst st)"])
  then show ?thesis by (simp add: envKeeps_def)
qed

lemma cleanWriteBuf_file [simp]: "fst (snd (cleanWriteBuf bufs st)) = fst st"
  by (simp add: cleanWriteBuf_def split: option.split)

lemma closePipe_keeps: "fileKeeps fl0 (closePipe f)"
  by (simp add: envKeeps_def)

lemma cleanWriteBuf_keeps: "fileKeeps fl0 (cleanWriteBuf bufs)"
  by (simp add: envKeeps_def)

lemma close_keeps:
  assumes "0 < RecordSize (opPipes (fsWriteOps f))"
  shows "fileKeeps fl0 (closeWithoutLocking x f bufs)"
  unfolding closeWithoutLocking_def
  by (intro envKeeps_andThen envKeeps_choice sync_keeps assms envKeeps_const closePipe_keeps cleanWriteBuf_keeps)
    (simp add: envKeeps_def fileOf_update)

text \<open>A successful \<open>Close\<close> leaves neither a reader nor a buffer, and no \<open>Close\<close> makes a buffer.\<close>

lemma close_leaves:
  "closeWithoutLocking x f bufs st = (Ok r, st') \<Longrightarrow> flReader (fst st') = None \<and> flWriteBuf (fst st') = None"
  "flWriteBuf (fst st) = None \<Longrightarrow> flWriteBuf (fst (snd (closeWithoutLocking x f bufs st))) = None"
proof -
  show "closeWithoutLocking x f bufs st = (Ok r, st') \<Longrightarrow> flReader (fst st') = None \<and> flWriteBuf (fst st') = None"
    by (auto simp: closeWithoutLocking_def andThen_Ok_iff)
  assume b: "flWriteBuf (fst st) = None"
  show "flWriteBuf (fst (snd (closeWithoutLocking x f bufs st))) = None"
    unfolding closeWithoutLocking_def
    by (rule andThen_post [where P = "\<lambda>st. flWriteBuf (fst st) = None"]) (simp_all add: b case_prod_beta)
qed

lemma bufferDst_keeps: "dstKeeps (fileOf fl0) (bufferDst wc)"
  using onBuf_file [of fl0]
  by (auto simp: dstKeeps_def bufferDst_def envKeeps_def case_prod_beta)

lemma fileExists_file: "fst (snd (fileExists f st)) = fst st"
  unfolding fileExists_def
  by (rule orElse_post [where P = "\<lambda>st'. fst st' = fst st"])
    (auto intro!: andThen_post [where P = "\<lambda>st'. fst st' = fst st"])

lemma enterWriteMode_keeps:
  assumes "0 < RecordSize (opPipes (fsWriteOps f))" "fileOf fl0 (fst st)"
    and "flagWrite (flFlags fl0)" "\<not> infoIsDir (flInfo fl0)"
  shows "fileOf fl0 (fst (snd (enterWriteMode x f bufs st)))"
proof -
  let ?I = "\<lambda>st. fileOf fl0 (fst st)"
  have restore: "?I (snd (alongside fl (Restore x bc mp op (bufferDst wc) p to flatten) s))"
    if "fileOf fl0 fl" for bc mp op wc p to flatten fl s
    using that by (intro alongside_keeps [where D = "fileOf fl0"] Restore_keeps bufferDst_keeps)
  show ?thesis
    unfolding enterWriteMode_def
  proof (rule andThen_post [where P = ?I], goal_cases)
    case 1
    then show ?case
      using envKeepsD [OF close_keeps [OF assms(1)], of fl0 st x bufs] assms(2) by simp
  next
    case (2 u st1)
    have reader: "flReader (fst st1) = None"
      using 2(1) close_leaves(1) [of x f bufs st u st1] by (auto split: if_splits)
    have new: "fileOf fl0 ((fst st1)\<lparr>flWriteBuf := Some w\<rparr>)" for w
      using 2(2) assms(3,4) reader by (intro fileOf_new) (simp_all add: fileOf_def)
    show ?case
    proof (cases "flWriteBuf (fst st1) = None")
      case True
      have looked: "?I (snd (andThen (fileExists f st1) k))"
        if "\<And>ex st2. fst st2 = fst st1 \<Longrightarrow> ?I (snd (k ex st2))" for k
        using fileExists_file [of f st1] 2(2) that
        by (intro andThen_post [where P = ?I]) (simp, metis snd_conv)
      have made: "?I (snd (andThen (onEnv (bufNew bufs) st2) k))"
        if "fst st2 = fst st1" "\<And>w st3. fst st3 = fst st1 \<Longrightarrow> ?I (snd (k w st3))" for k st2
        using onOps_file(2) [of "bufNew bufs" st2] 2(2) that
        by (intro andThen_post [where P = ?I]) (simp, metis snd_conv)
      have filled: "?I (snd (andThen (if exists then alongside fl (Restore x bc mp op (bufferDst wc) p to flatten) s
             else (Ok (), (fl, s)))
          (\<lambda>_ st. andThen (if flagTruncate (flFlags (fst st)) then onFile (onBuf (wcTruncate wc 0)) st else (Ok (), st))
          (\<lambda>_ st. if \<not> flagAppend (flFlags (fst st))
                  then andThen (onFile (onBuf (wcSeek wc 0 SeekStart)) st) (\<lambda>_ st. (Ok (), st))
                  else (Ok (), st)))))" (is "?I (snd (andThen ?p ?k))")
        if "fileOf fl0 fl" for exists fl bc mp op wc p to flatten s
      proof (rule andThen_post [where P = ?I])
        show "?I (snd ?p)" using that by (simp add: restore)
        have "fileKeeps fl0 (?k u)" for u
          by (intro envKeeps_andThen envKeeps_choice envKeeps_const on_file_keeps)
        then show "?I (snd (?k u st))" if "?I st" for u st
          using that by (rule envKeepsD)
      qed
      show ?thesis
        by (simp only: True Let_def case_prod_beta if_False simp_thms fst_conv snd_conv)
          (rule looked, rule made, assumption, simp only: case_prod_beta, rule filled, simp add: new)
    qed (use 2 in simp)
  qed
qed

lemma whenWritable_keeps:
  assumes "0 < RecordSize (opPipes (fsWriteOps f))" "\<And>u. fileKeeps fl0 (k u)"
  shows "fileKeeps fl0 (whenWritable (\<lambda>st. andThen (enterWriteMode x f bufs st) k))"
proof -
  let ?I = "\<lambda>st. fileOf fl0 (fst st)"
  have "?I (snd (whenWritable (\<lambda>st. andThen (enterWriteMode x f bufs st) k) st))" if "?I st" for st
  proof (cases "infoIsDir (flInfo (fst st)) \<or> \<not> flagWrite (flFlags (fst st))")
    case False
    then have "?I (snd (enterWriteMode x f bufs st))"
      using that by (intro enterWriteMode_keeps assms(1)) (simp_all add: fileOf_def)
    then show ?thesis
      using False envKeepsD [OF assms(2)] by (auto simp: whenWritable_def intro!: andThen_post [where P = ?I])
  qed (use that in \<open>auto simp: whenWritable_def\<close>)
  then show ?thesis by (simp add: envKeeps_def)
qed

lemma FileRead_keeps: "fileKeeps fl0 (FileRead x f bufs n)"
proof -
  let ?I = "\<lambda>st. fileOf fl0 (fst st)"
  have buffer: "fileKeeps fl0 (\<lambda>st. orElse
      (andThen (onFile (onBuf (wcRead (bufCache bufs) n)) st) (\<lambda>p st. (Ok (p, False), st)))
      (\<lambda>e st. if e = EOF then (Ok ([], True), st) else (Err e, st)))"
    by (intro keeps_intros on_file_keeps)
  have "?I (snd (FileRead x f bufs n st))" if "?I st" for st
    using that envKeepsD [OF buffer that]
    by (auto simp: FileRead_def startReader_keeps envKeepsD [OF copyN_keeps] intro!: andThen_post [where P = ?I])
  then show ?thesis by (simp add: envKeeps_def)
qed

lemma seek_keeps:
  fixes f :: "('b, 'p, 'e) stfs" and fl0 :: "'w stfs_file"
  assumes "0 < RecordSize (opPipes (fsWriteOps f))"
  shows "fileKeeps fl0 (seekWithoutLocking x f bufs offset whence)"
proof -
  let ?I = "\<lambda>st. fileOf fl0 (fst st)"
  have "?I (snd (seekWithoutLocking x f bufs offset whence st))" if st: "?I st" for st
  proof (cases "infoIsDir (flInfo (fst st)) \<or> flWriteBuf (fst st) \<noteq> None \<or> whence \<notin> {SeekStart, SeekCurrent, SeekEnd}")
    case False
    let ?closed = "orElse (closeWithoutLocking x f bufs st) (\<lambda>_ st. (Ok (), st))"
    have "?I (snd ?closed)"
      using envKeepsD [OF close_keeps [OF assms] st] by (intro orElse_post [where P = ?I]) auto
    moreover have "flWriteBuf (fst (snd ?closed)) = None"
      using close_leaves(2) [of st x f bufs] False
      by (intro orElse_post [where P = "\<lambda>st. flWriteBuf (fst st) = None"]) auto
    ultimately have started: "?I (snd (andThen ?closed (\<lambda>_ st. startReader x f st)))"
      using False st by (intro andThen_post [where P = ?I] startReader_keeps) (auto simp: fileOf_def)
    have copied: "?I (snd (andThen p (\<lambda>_ st. andThen (copyN f (n st) st) (k st))))"
      if "?I (snd p)" "\<And>st u. fileKeeps fl0 (k st u)" for p :: "unit res \<times> ('w, 'b, 'p, 'e) file_state" and n k
      by (intro andThen_post [where P = ?I] envKeepsD [OF copyN_keeps] envKeepsD [OF that(2)] that(1))
    have direct: "?I (snd (andThen (copyN f n st') k))" if "?I st'" "\<And>u. fileKeeps fl0 (k u)" for n st' k
      by (intro andThen_post [where P = ?I] envKeepsD [OF copyN_keeps] envKeepsD [OF that(2)] that(1))
    have result: "fileKeeps fl0 (case u of (p, eof) \<Rightarrow> \<lambda>st. if eof then (Ok (g st), st) else (Ok m, st))" for u g m
      by (simp add: envKeeps_def case_prod_beta)
    show ?thesis
      using False st
      by (simp add: seekWithoutLocking_def Let_def) (intro conjI impI copied direct started result, simp_all)
  qed (use st envKeepsD [OF on_file_keeps(1) st] in \<open>auto simp: seekWithoutLocking_def\<close>)
  then show ?thesis by (simp add: envKeeps_def)
qed

lemma FileStat_keeps: "fileKeeps fl0 (FileStat bufs)"
  unfolding FileStat_def Let_def
  by (intro envKeeps_andThen envKeeps_choice envKeeps_const on_file_keeps)
    (simp_all add: envKeeps_def fileOf_update)

lemmas keeping =
  FileRead_keeps seek_keeps close_keeps sync_keeps FileStat_keeps on_file_keeps whenWritable_keeps

section \<open>All states of a file\<close>

text \<open>The methods of a file, with their arguments.\<close>

datatype file_call =
    CallRead nat
  | CallReadAt nat int
  | CallSeek int int
  | CallWrite bytes
  | CallWriteString string
  | CallWriteAt bytes int
  | CallTruncate int
  | CallSync
  | CallClose
  | CallStat
  | CallReaddir int
  | CallReaddirnames int

text \<open>The state a call leaves, whatever it returns.\<close>

fun fileCall ::
  "external \<Rightarrow> ('b, 'p, 'e) stfs \<Rightarrow> ('w, 'e) buffers \<Rightarrow> file_call \<Rightarrow> ('w, 'b, 'p, 'e) file_state
   \<Rightarrow> ('w, 'b, 'p, 'e) file_state" where
  "fileCall x f bufs (CallRead n) st = snd (FileRead x f bufs n st)"
| "fileCall x f bufs (CallReadAt n off) st = snd (FileReadAt x f bufs n off st)"
| "fileCall x f bufs (CallSeek off whence) st = snd (FileSeek x f bufs off whence st)"
| "fileCall x f bufs (CallWrite p) st = snd (FileWrite x f bufs p st)"
| "fileCall x f bufs (CallWriteString s) st = snd (FileWriteString x f bufs s st)"
| "fileCall x f bufs (CallWriteAt p off) st = snd (FileWriteAt x f bufs p off st)"
| "fileCall x f bufs (CallTruncate sz) st = snd (FileTruncate x f bufs sz st)"
| "fileCall x f bufs CallSync st = snd (FileSync x f bufs st)"
| "fileCall x f bufs CallClose st = snd (FileClose x f bufs st)"
| "fileCall x f bufs CallStat st = snd (FileStat bufs st)"
| "fileCall x f bufs (CallReaddir n) st = snd (FileReaddir f n st)"
| "fileCall x f bufs (CallReaddirnames n) st = snd (FileReaddirnames f n st)"

text \<open>
  The states of a file opened as \<open>fl0\<close>: between its calls, other users of the file system may leave
  the drive, the index and the callbacks in any state.
\<close>

inductive file_reach ::
  "external \<Rightarrow> ('b, 'p, 'e) stfs \<Rightarrow> ('w, 'e) buffers \<Rightarrow> 'w stfs_file \<Rightarrow> ('w, 'b, 'p, 'e) file_state \<Rightarrow> bool"
  for x f bufs fl0 where
  opened: "OpenFile x f name flag perm s = (Ok fl0, s') \<Longrightarrow> file_reach x f bufs fl0 (fl0, s')"
| others: "file_reach x f bufs fl0 (fl, s) \<Longrightarrow> file_reach x f bufs fl0 (fl, s')"
| called: "file_reach x f bufs fl0 st \<Longrightarrow> file_reach x f bufs fl0 (fileCall x f bufs c st)"

lemma FileReadAt_keeps:
  "0 < RecordSize (opPipes (fsWriteOps f)) \<Longrightarrow> fileKeeps fl0 (FileReadAt x f bufs n off)"
  unfolding FileReadAt_def FileSeek_def
  by (intro envKeeps_choice envKeeps_if envKeeps_andThen envKeeps_const keeping)

lemma writing_keeps:
  assumes "0 < RecordSize (opPipes (fsWriteOps f))"
  shows "fileKeeps fl0 (FileWriteAt x f bufs p off)" "fileKeeps fl0 (FileWrite x f bufs p)"
    "fileKeeps fl0 (FileWriteString x f bufs p)" "fileKeeps fl0 (FileTruncate x f bufs off)"
  unfolding FileWriteAt_def FileWrite_def FileWriteString_def FileTruncate_def
  by (intro envKeeps_andThen keeping assms)+

lemma FileReaddir_keeps: "fileKeeps fl0 (FileReaddir f n)"
  unfolding FileReaddir_def
  by (intro envKeeps_choice envKeeps_andThen envKeeps_const) (simp add: envKeeps_def)

lemma FileReaddirnames_keeps: "fileKeeps fl0 (FileReaddirnames f n)"
  unfolding FileReaddirnames_def
  by (intro envKeeps_choice envKeeps_andThen envKeeps_const FileReaddir_keeps)

lemmas calls_keep =
  keeping(1,5) keeping(2-4) FileReadAt_keeps writing_keeps FileReaddir_keeps FileReaddirnames_keeps

lemma fileCall_keeps:
  assumes "0 < RecordSize (opPipes (fsWriteOps f))" "fileOf fl0 (fst st)"
  shows "fileOf fl0 (fst (fileCall x f bufs c st))"
  using assms
  by (cases c) (simp_all add: FileSeek_def FileSync_def FileClose_def calls_keep [THEN envKeepsD])

lemma opened_file:
  assumes "OpenFile x f name flag perm s = (Ok fl, s')"
  shows "fileOf fl fl"
  using assms by (auto simp: OpenFile_def andThen_Ok_iff Let_def fileOf_def NewFile_def split: if_splits)

text \<open>
  C4: the type of a file: whatever methods are called on an opened file, in whatever order, however they
  end and whatever others do meanwhile, its path, link, flags and kind stay, it never has both a pipe
  and a buffer, a directory has neither, and only a file opened for writing gets a buffer.
\<close>

theorem file_typed:
  assumes "file_reach x f bufs fl0 st" "0 < RecordSize (opPipes (fsWriteOps f))"
  shows "fileOf fl0 (fst st)"
  using assms(1)
proof induction
  case (called st c)
  then show ?case by (intro fileCall_keeps assms(2))
qed (simp_all add: opened_file)

section \<open>An example\<close>

definition exampleOpenRow :: header where
  "exampleOpenRow = TarHeaderToDBHeader 0 0 0 0 ((exampleDir ''/a'')\<lparr>tTypeflag := TypeReg\<rparr>)"

lemma exampleOpenRow_stat:
  "\<exists>hdr. fsStat exampleFs ''/a'' False (exampleState [exampleOpenRow]) = (Ok hdr, exampleState [exampleOpenRow])
     \<and> tTypeflag hdr = TypeReg"
proof -
  have get: "onMetadata (GetHeader ''/a'') (exampleState [exampleOpenRow]) = (Ok exampleOpenRow, exampleState [exampleOpenRow])"
    by (simp add: onMetadata_def GetHeader_def getSanitizedPath_abs_root selectByName_def exampleOpenRow_def
        TarHeaderToDBHeader_def exampleDir_def exampleState_def)
  have json: "jsonUnmarshal (jsonMarshal None) = Ok None"
    by code_simp
  show ?thesis
    by (simp add: fsStat_def exampleFs_def StatEntry_def withSlash_def sqliteMetadata_def ToSlash_def get
        onEventsOf_def DBHeaderToTarHeader_def json)
      (simp add: exampleOpenRow_def TarHeaderToDBHeader_def exampleDir_def zero_tar_header_def json TypeReg_def
        Let_def DBHeaderToTarHeader_def onEventsOf_def)
qed

lemma exampleOpenRow_opens:
  "\<exists>fl. OpenFile exampleExternal exampleFs ''/a'' O_RDWR 0 (exampleState [exampleOpenRow])
     = (Ok fl, exampleState [exampleOpenRow]) \<and> flagWrite (flFlags fl)"
proof -
  have "cleanName ''/a'' = ''/a''" by code_simp
  then show ?thesis
    using exampleOpenRow_stat
    by (auto simp: OpenFile_def checkName_def openEntry_def openFlags_def open_flag_defs exampleFs_def type_defs NewFile_def)
qed

theorem file_typed_witness:
  "\<exists>fl. OpenFile exampleExternal exampleFs ''/a'' O_RDWR 0 (exampleState [exampleOpenRow])
     = (Ok fl, exampleState [exampleOpenRow]) \<and> flagWrite (flFlags fl)
     \<and> fileOf fl (fst (fileCall exampleExternal exampleFs exampleBuffers (CallWrite ''xy'') (fl, exampleState [exampleOpenRow])))"
proof -
  obtain fl :: "bytes write_buffer stfs_file"
    where fl: "OpenFile exampleExternal exampleFs ''/a'' O_RDWR 0 (exampleState [exampleOpenRow])
     = (Ok fl, exampleState [exampleOpenRow])" "flagWrite (flFlags fl)"
    using exampleOpenRow_opens by blast
  have "0 < RecordSize (opPipes (fsWriteOps exampleFs))" by (simp add: exampleFs_def examplePipes_def)
  then show ?thesis using file_typed [OF called [OF opened [OF fl(1)]]] fl by blast
qed

end
