(* ===== verification/MagneticTape.thy ===== *)
theory MagneticTape
  imports Recovery TapeManager
begin

text \<open>
  The parts of pkg/recovery, pkg/tape and internal/tarext for drives that are tapes. A tape holds
  files of records, with a file mark behind each; it is read by the record, through a buffer, and
  moved by the functions of \<open>config.MagneticTapeIO\<close>, which are system calls and parameters here
  (\<open>tape_io\<close>). A counter on the reader replaces the offsets of a regular file. The bytes are counted
  in blocks: the code rounds every count up to one.
\<close>

section \<open>The tape and its reader\<close>

text \<open>
  The functions of \<open>mt\<close>, and those of the device: a read gives the next record, or nothing at a file
  mark.
\<close>

record 't tape_io =
  mtGetCurrentRecord :: "'t \<Rightarrow> int res \<times> 't"
  mtGoToEndOfTape :: "'t \<Rightarrow> unit res \<times> 't"
  mtGoToNextFile :: "'t \<Rightarrow> unit res \<times> 't"
  mtEject :: "'t \<Rightarrow> unit res \<times> 't"
  mtSeekToRecord :: "int \<Rightarrow> 't \<Rightarrow> unit res \<times> 't"
  tpOpen :: "'t \<Rightarrow> unit res \<times> 't"
  tpClose :: "'t \<Rightarrow> unit res \<times> 't"
  tpRead :: "'t \<Rightarrow> medium res \<times> 't"

definition int32 :: "int \<Rightarrow> int" where
  "int32 i = sint (word_of_int i :: 32 word)"

text \<open>\<open>bufio.Reader\<close> and \<open>ioext.CounterReader\<close> on the device.\<close>

record 't tape_reader =
  trTape :: 't
  trBuffer :: medium
  trBlocks :: nat

definition onTape :: "('t \<Rightarrow> 'a res \<times> 't) \<Rightarrow> 't tape_reader \<Rightarrow> 'a res \<times> 't tape_reader" where
  "onTape f rd = (let (r, t) = f (trTape rd) in (r, rd\<lparr>trTape := t\<rparr>))"

definition newReader :: "nat \<Rightarrow> int \<Rightarrow> int \<Rightarrow> medium \<Rightarrow> 't \<Rightarrow> 't tape_reader" where
  "newReader rs record block buffer t =
     \<lparr>trTape = t, trBuffer = buffer, trBlocks = nat (int rs * record + block)\<rparr>"

text \<open>
  Seeking to a record and, by one read through the buffer, to a block in it. A read of no bytes
  does not touch the device.
\<close>

definition openReader ::
  "'t tape_io \<Rightarrow> nat \<Rightarrow> int \<Rightarrow> int \<Rightarrow> 't \<Rightarrow> 't tape_reader res \<times> 't" where
  "openReader io rs record block t =
     andThen (mtSeekToRecord io (int32 record) t)
       (\<lambda>_ t. if block < 0 then (Panic, t)
               else if block = 0 then (Ok (newReader rs record block [] t), t)
               else andThen (tpRead io t)
                 (\<lambda>m t. if m = [] then (Err EOF, t)
                        else (Ok (newReader rs record block (drop (nat block) m) t), t)))"

definition readBlock :: "'t tape_io \<Rightarrow> 't tape_reader \<Rightarrow> block res \<times> 't tape_reader" where
  "readBlock io rd =
     andThen (case trBuffer rd of [] \<Rightarrow> onTape (tpRead io) rd | b # bs \<Rightarrow> (Ok (b # bs), rd))
       (\<lambda>m rd. case m of
                  [] \<Rightarrow> (Err EOF, rd)
                | b # bs \<Rightarrow> (Ok b, rd\<lparr>trBuffer := bs, trBlocks := trBlocks rd + 1\<rparr>))"

fun readBlocks :: "'t tape_io \<Rightarrow> nat \<Rightarrow> 't tape_reader \<Rightarrow> medium res \<times> 't tape_reader" where
  "readBlocks io 0 rd = (Ok [], rd)"
| "readBlocks io (Suc n) rd =
     andThen (readBlock io rd)
       (\<lambda>b rd. andThen (readBlocks io n rd) (\<lambda>bs rd. (Ok (b # bs), rd)))"

text \<open>The end of the tape's file in the middle of an entry.\<close>

definition insideEntry :: "'a res \<times> 's \<Rightarrow> 'a res \<times> 's" where
  "insideEntry p = orElse p (\<lambda>e s. (Err (if e = EOF then ErrUnexpectedEOF else e), s))"

text \<open>\<open>tr.Next()\<close> behind the contents of the last entry, as on a regular file.\<close>

definition tapeNext :: "'t tape_io \<Rightarrow> 't tape_reader \<Rightarrow> tar_header res \<times> 't tape_reader" where
  "tapeNext io rd =
     andThen (readBlock io rd)
       (\<lambda>b rd.
          if isZeroBlock b then
            andThen (readBlock io rd)
              (\<lambda>b' rd. (Err (if isZeroBlock b' then EOF else ErrHeader), rd))
          else case b of
                 BHead h n \<Rightarrow> andThen (insideEntry (readBlocks io n rd)) (\<lambda>_ rd. (Ok h, rd))
               | _ \<Rightarrow> (Err ErrHeader, rd))"

definition tapeContents :: "'t tape_io \<Rightarrow> tar_header \<Rightarrow> 't tape_reader \<Rightarrow> bytes res \<times> 't tape_reader" where
  "tapeContents io hdr rd =
     andThen (insideEntry (readBlocks io (blocksOf (payload hdr)) rd))
       (\<lambda>m rd. (Ok (take (payload hdr) (concat (map blockBytes m))), rd))"

section \<open>Walking over the tape (Index, Query)\<close>

text \<open>
  Going to the next file after the end of an archive: the record there, or nothing where the
  data on the tape ends.
\<close>

definition nextTapeFile :: "'t tape_io \<Rightarrow> nat \<Rightarrow> 't tape_reader \<Rightarrow> int option res \<times> 't tape_reader" where
  "nextTapeFile io rs rd =
     attempt (onTape (mtGoToNextFile io) rd)
       (\<lambda>_ rd. andThen (onTape (mtGetCurrentRecord io) rd)
                 (\<lambda>record rd. (Ok (Some record), newReader rs record 0 [] (trTape rd))))
       (\<lambda>_ rd. (Ok None, rd)) (\<lambda>rd. rd)"

text \<open>
  The loop of both walks, with the handler of an entry as for regular files. \<open>Query\<close> declares its
  counter anew inside the branch for the next file, so that the counter it goes on to ask for
  its location is the one of the first file, and stays where that was left (\<open>shadowed\<close>, \<open>outer\<close>).
\<close>

partial_function (option) tapeLoop ::
  "'t tape_io \<Rightarrow> nat \<Rightarrow> bool \<Rightarrow> (nat \<Rightarrow> int \<Rightarrow> int \<Rightarrow> tar_header \<Rightarrow> 's \<Rightarrow> unit res \<times> 's)
   \<Rightarrow> 't tape_reader \<Rightarrow> nat option \<Rightarrow> int \<Rightarrow> int \<Rightarrow> nat \<Rightarrow> 's \<Rightarrow> (unit res \<times> 't \<times> 's) option" where
  "tapeLoop io rs shadowed handle rd outer record block i s =
     (case tapeNext io rd of
        (Ok hdr, rd) \<Rightarrow>
          (case handle i record block hdr s of
             (Ok _, s) \<Rightarrow>
               (case tapeContents io hdr rd of
                  (Ok _, rd) \<Rightarrow>
                    if rs = 0 then Some (Panic, trTape rd, s)
                    else (let (r, b) = nextLocation rs (case outer of None \<Rightarrow> trBlocks rd | Some n \<Rightarrow> n)
                          in tapeLoop io rs shadowed handle rd outer r b (i + 1) s)
                | (Err e, rd) \<Rightarrow> Some (Err e, trTape rd, s)
                | (Panic, rd) \<Rightarrow> Some (Panic, trTape rd, s) | (Hang, rd) \<Rightarrow> Some (Hang, trTape rd, s))
           | (Err e, s) \<Rightarrow> Some (Err e, trTape rd, s)
           | (Panic, s) \<Rightarrow> Some (Panic, trTape rd, s) | (Hang, s) \<Rightarrow> Some (Hang, trTape rd, s))
      | (Err e, rd) \<Rightarrow>
          if e \<noteq> EOF then Some (Err e, trTape rd, s)
          else (case nextTapeFile io rs rd of
                  (Ok (Some record), rd') \<Rightarrow>
                    tapeLoop io rs shadowed handle rd'
                      (if shadowed \<and> outer = None then Some (trBlocks rd) else outer) record 0 i s
                | (Ok None, rd) \<Rightarrow> Some (Ok (), trTape rd, s)
                | (Err e, rd) \<Rightarrow> Some (Err e, trTape rd, s)
                | (Panic, rd) \<Rightarrow> Some (Panic, trTape rd, s) | (Hang, rd) \<Rightarrow> Some (Hang, trTape rd, s))
      | (Panic, rd) \<Rightarrow> Some (Panic, trTape rd, s) | (Hang, rd) \<Rightarrow> Some (Hang, trTape rd, s))"

text \<open>The walk from a location; \<open>None\<close> is a walk that never ends.\<close>

definition walkTape ::
  "'t tape_io \<Rightarrow> nat \<Rightarrow> bool \<Rightarrow> (nat \<Rightarrow> int \<Rightarrow> int \<Rightarrow> tar_header \<Rightarrow> 's \<Rightarrow> unit res \<times> 's)
   \<Rightarrow> int \<Rightarrow> int \<Rightarrow> 't \<Rightarrow> 's \<Rightarrow> (unit res \<times> 't \<times> 's) option" where
  "walkTape io rs shadowed handle rec blk t s =
     (case openReader io rs rec blk t of
        (Ok rd, t) \<Rightarrow> tapeLoop io rs shadowed handle rd None rec blk 0 s
      | (Err e, t) \<Rightarrow> Some (Err e, t, s)
      | (Panic, t) \<Rightarrow> Some (Panic, t, s) | (Hang, t) \<Rightarrow> Some (Hang, t, s))"

text \<open>A tape is never a regular drive, which is what the checks of signatures ask for.\<close>

definition IndexTape ::
  "'t tape_io \<Rightarrow> 'p metadata_persister \<Rightarrow> pipe_config \<Rightarrow> int \<Rightarrow> int \<Rightarrow> bool \<Rightarrow> bool \<Rightarrow> nat
   \<Rightarrow> (tar_header \<Rightarrow> nat \<Rightarrow> tar_header res) \<Rightarrow> (tar_header \<Rightarrow> bool \<Rightarrow> tar_header res)
   \<Rightarrow> (header \<Rightarrow> 'e \<Rightarrow> unit res \<times> 'e) option \<Rightarrow> 't \<Rightarrow> 'p \<times> 'e \<Rightarrow> (unit res \<times> 't \<times> ('p \<times> 'e)) option" where
  "IndexTape io mp pipes rec blk overwrite initializing offset decryptHeader verifyHeader onHeader t s =
     (case (if overwrite then onMeta (mpPurgeAllHeaders mp) s else (Ok (), s)) of
        (Ok _, s) \<Rightarrow>
          walkTape io (RecordSize pipes) False
            (indexEntry mp pipes initializing offset decryptHeader
               (\<lambda>hdr _. verifyHeader hdr False) onHeader) rec blk t s
      | (Err e, s) \<Rightarrow> Some (Err e, t, s)
      | (Panic, s) \<Rightarrow> Some (Panic, t, s) | (Hang, s) \<Rightarrow> Some (Hang, t, s))"

definition queryTapeEntry ::
  "external \<Rightarrow> pipe_config \<Rightarrow> crypto_config \<Rightarrow> (header \<Rightarrow> 'e \<Rightarrow> unit res \<times> 'e) option
   \<Rightarrow> nat \<Rightarrow> int \<Rightarrow> int \<Rightarrow> tar_header \<Rightarrow> tar_header list \<times> 'e \<Rightarrow> unit res \<times> (tar_header list \<times> 'e)" where
  "queryTapeEntry x pipes crypto onHeader i rec blk hdr s =
     andThen (DecryptHeader x hdr (Encryption pipes) (Identity crypto), s)
       (\<lambda>hdr s. andThen (VerifyHeader x hdr False (Signature pipes) (Recipient crypto), s)
          (\<lambda>hdr s. andThen
             (case onHeader of
                None \<Rightarrow> (Ok (), s)
              | Some f \<Rightarrow> onEvents (f (DBHeaderToConfigHeader
                            (TarHeaderToDBHeader rec (- 1) blk (- 1) hdr))) s)
             (\<lambda>_ (hdrs, e). (Ok (), (hdrs @ [hdr], e)))))"

definition QueryTape ::
  "external \<Rightarrow> 't tape_io \<Rightarrow> pipe_config \<Rightarrow> crypto_config \<Rightarrow> int \<Rightarrow> int
   \<Rightarrow> (header \<Rightarrow> 'e \<Rightarrow> unit res \<times> 'e) option \<Rightarrow> 't \<Rightarrow> 'e \<Rightarrow> (tar_header list res \<times> 't \<times> 'e) option" where
  "QueryTape x io pipes crypto rec blk onHeader t e =
     map_option (\<lambda>(r, t, (hdrs, e)). (rbind r (\<lambda>_. Ok hdrs), t, e))
       (walkTape io (RecordSize pipes) True (queryTapeEntry x pipes crypto onHeader) rec blk t ([], e))"

section \<open>Fetch\<close>

definition fetchTapeContents ::
  "external \<Rightarrow> 't tape_io \<Rightarrow> pipe_config \<Rightarrow> crypto_config \<Rightarrow> 'd restore_dst \<Rightarrow> nat
   \<Rightarrow> 't tape_reader \<Rightarrow> tar_header \<Rightarrow> tar_header \<Rightarrow> 'd \<Rightarrow> unit res \<times> 'd" where
  "fetchTapeContents x io pipes crypto dst dstFile rd raw hdr d =
     andThen (rbind (fst (tapeContents io raw rd)) (Decrypt x (Encryption pipes) (Identity crypto)), d)
       (\<lambda>decrypted d. andThen (Decompress (Compression pipes), d)
          (\<lambda>decompressor d.
             let sig = (case paxGet (tPAXRecords hdr) STFSRecordSignature of
                          Some s \<Rightarrow> s | None \<Rightarrow> [])
             in andThen (Verify x False (Signature pipes) (Recipient crypto) sig, d)
                  (\<lambda>verifier d. andThen (runDecompressor x decompressor decrypted, d)
                     (\<lambda>contents d. andThen (rdWrite dst dstFile contents d)
                        (\<lambda>_ d. andThen (runVerifier x verifier contents, d)
                           (\<lambda>_ d. rdClose dst dstFile d))))))"

text \<open>The tape is left wherever the reader was when \<open>Fetch\<close> ended; no caller goes on from there.\<close>

definition FetchTape ::
  "external \<Rightarrow> 't tape_io \<Rightarrow> pipe_config \<Rightarrow> crypto_config \<Rightarrow> 'd restore_dst \<Rightarrow> int \<Rightarrow> int \<Rightarrow> string
   \<Rightarrow> bool \<Rightarrow> (header \<Rightarrow> 'e \<Rightarrow> unit res \<times> 'e) option \<Rightarrow> 't \<Rightarrow> 'd \<times> 'e \<Rightarrow> unit res \<times> ('d \<times> 'e)" where
  "FetchTape x io pipes crypto dst rec blk to preview onHeader t s =
     andThen (fst (openReader io (RecordSize pipes) rec blk t), s)
       (\<lambda>rd s. let (next, rd) = tapeNext io rd in andThen (next, s)
       (\<lambda>raw s. andThen (DecryptHeader x raw (Encryption pipes) (Identity crypto), s)
       (\<lambda>hdr s. andThen (VerifyHeader x hdr False (Signature pipes) (Recipient crypto), s)
       (\<lambda>hdr s. andThen
          (case onHeader of
             None \<Rightarrow> (Ok (), s)
           | Some f \<Rightarrow> onEvents (f (DBHeaderToConfigHeader
                         (TarHeaderToDBHeader rec (- 1) blk (- 1) hdr))) s)
       (\<lambda>_ s. if preview then (Ok (), s)
               else let to = (if to = [] then Base (tName hdr) else to)
                    in if tTypeflag hdr = TypeDir then onMeta (rdMkdirAll dst to (hdrMode hdr)) s
                       else andThen (onMeta (rdGetDst dst to (hdrMode hdr)) s)
                         (\<lambda>dstFile s.
                            if \<not> IsRegularMode (hdrMode hdr) then
                              andThen (fst (tapeContents io raw rd), s)
                                (\<lambda>contents s. onMeta (rdWrite dst dstFile contents) s)
                            else onMeta (fetchTapeContents x io pipes crypto dst dstFile rd raw hdr) s))))))"

section \<open>Writing to a tape (pkg/tape, internal/tarext)\<close>

definition OpenDeviceReadOnly :: "'t tape_io \<Rightarrow> 't \<Rightarrow> unit res \<times> 't" where
  "OpenDeviceReadOnly io t = tpOpen io t"

text \<open>Overwriting starts at the first record; otherwise the tape goes to its end.\<close>

definition OpenDeviceWriteOnly :: "'t tape_io \<Rightarrow> bool \<Rightarrow> 't \<Rightarrow> unit res \<times> 't" where
  "OpenDeviceWriteOnly io overwrite t =
     andThen (if overwrite
              then andThen (tpOpen io t)
                     (\<lambda>_ t. andThen (mtSeekToRecord io 0 t) (\<lambda>_ t. tpClose io t))
              else (Ok (), t))
       (\<lambda>_ t. andThen (tpOpen io t)
          (\<lambda>_ t. if \<not> overwrite then mtGoToEndOfTape io t else (Ok (), t)))"

text \<open>The trailer of an archive on a tape fills up its first record; a longer archive stays as it is.\<close>

definition fillRecord :: "nat \<Rightarrow> medium \<Rightarrow> medium" where
  "fillRecord rs m = m @ replicate (rs - length m) BZero"

definition cleanupDevice :: "nat \<Rightarrow> bool \<Rightarrow> tar_writer \<Rightarrow> unit res \<times> tar_writer" where
  "cleanupDevice rs dirty tw =
     (if dirty
      then andThen (twClose tw) (\<lambda>_ tw. (Ok (), tw\<lparr>twMedium := fillRecord rs (twMedium tw)\<rparr>))
      else (Ok (), tw))"

end
