(* ===== verification/Mtio.thy ===== *)
theory Mtio
  imports MagneticTape
begin

text \<open>
  pkg/mtio: the functions of \<open>config.MagneticTapeIO\<close>, as calls of \<open>ioctl\<close> on the drive. What the kernel
  does at such a call is a parameter, with one function for either of the two structs the code passes a
  pointer to: the kernel answers with an error number or none, and may change the struct. Reading,
  opening and closing the device are the kernel's, too. On other systems than Linux there is no support.
\<close>

section \<open>Requests and structs\<close>

definition mtioCpos :: nat where "mtioCpos = 0x80086d03"
definition mtioCtop :: nat where "mtioCtop = 0x40086d01"

definition mtFsf :: "16 word" where "mtFsf = 1"
definition mtOffl :: "16 word" where "mtOffl = 7"
definition mtEom :: "16 word" where "mtEom = 12"
definition mtSeek :: "16 word" where "mtSeek = 22"

record position =
  blkNo :: "64 word"

record operation =
  opId :: "16 word"
  opPad :: "16 word"
  opCount :: "32 word"

text \<open>
  How Linux encodes a request: the direction (1 writes to the kernel, 2 reads from it), the size
  of the struct in bytes, the driver's letter, a number.
\<close>

definition ioc :: "nat \<Rightarrow> nat \<Rightarrow> char \<Rightarrow> nat \<Rightarrow> nat" where
  "ioc direction bytes letter number = ((direction * 2 ^ 14 + bytes) * 2 ^ 8 + of_char letter) * 2 ^ 8 + number"

lemma requests_encoded:
  "mtioCpos = ioc 2 (LENGTH(64) div 8) (CHR ''m'') 3"
  "mtioCtop = ioc 1 ((LENGTH(16) + LENGTH(16) + LENGTH(32)) div 8) (CHR ''m'') 1"
  by (simp_all add: mtioCpos_def mtioCtop_def ioc_def of_char_def)

record 't kernel =
  kIoctlPosition :: "nat \<Rightarrow> position \<Rightarrow> 't \<Rightarrow> (err option \<times> position) \<times> 't"
  kIoctlOperation :: "nat \<Rightarrow> operation \<Rightarrow> 't \<Rightarrow> (err option \<times> operation) \<times> 't"
  kOpen :: "'t \<Rightarrow> unit res \<times> 't"
  kClose :: "'t \<Rightarrow> unit res \<times> 't"
  kRead :: "'t \<Rightarrow> medium res \<times> 't"

section \<open>The functions (mtio\_linux.go)\<close>

definition GetCurrentRecordFromTape :: "'t kernel \<Rightarrow> 't \<Rightarrow> int res \<times> 't" where
  "GetCurrentRecordFromTape k t =
     (case kIoctlPosition k mtioCpos \<lparr>blkNo = 0\<rparr> t of
        ((Some err, _), t) \<Rightarrow> (Err err, t)
      | ((None, pos), t) \<Rightarrow> (Ok (sint (blkNo pos)), t))"

text \<open>The four functions that do an operation differ in the struct only.\<close>

definition doOperation :: "'t kernel \<Rightarrow> operation \<Rightarrow> 't \<Rightarrow> unit res \<times> 't" where
  "doOperation k operation t =
     (case kIoctlOperation k mtioCtop operation t of
        ((Some err, _), t) \<Rightarrow> (Err err, t)
      | ((None, _), t) \<Rightarrow> (Ok (), t))"

definition GoToEndOfTape :: "'t kernel \<Rightarrow> 't \<Rightarrow> unit res \<times> 't" where
  "GoToEndOfTape k t = doOperation k \<lparr>opId = mtEom, opPad = 0, opCount = 0\<rparr> t"

definition GoToNextFileOnTape :: "'t kernel \<Rightarrow> 't \<Rightarrow> unit res \<times> 't" where
  "GoToNextFileOnTape k t = doOperation k \<lparr>opId = mtFsf, opPad = 0, opCount = 1\<rparr> t"

definition EjectTape :: "'t kernel \<Rightarrow> 't \<Rightarrow> unit res \<times> 't" where
  "EjectTape k t = doOperation k \<lparr>opId = mtOffl, opPad = 0, opCount = 0\<rparr> t"

text \<open>The record is an \<open>int32\<close>, and so is the count.\<close>

definition SeekToRecordOnTape :: "'t kernel \<Rightarrow> int \<Rightarrow> 't \<Rightarrow> unit res \<times> 't" where
  "SeekToRecordOnTape k record t = doOperation k \<lparr>opId = mtSeek, opPad = 0, opCount = word_of_int record\<rparr> t"

definition MagneticTapeIO :: "'t kernel \<Rightarrow> 't tape_io" where
  "MagneticTapeIO k =
     \<lparr>mtGetCurrentRecord = GetCurrentRecordFromTape k, mtGoToEndOfTape = GoToEndOfTape k,
      mtGoToNextFile = GoToNextFileOnTape k, mtEject = EjectTape k, mtSeekToRecord = SeekToRecordOnTape k,
      tpOpen = kOpen k, tpClose = kClose k, tpRead = kRead k\<rparr>"

text \<open>Without support (mtio\_stub.go) every function fails.\<close>

definition StubTapeIO :: "'t kernel \<Rightarrow> 't tape_io" where
  "StubTapeIO k =
     \<lparr>mtGetCurrentRecord = \<lambda>t. (Err ErrTapeDrivesUnsupported, t),
      mtGoToEndOfTape = \<lambda>t. (Err ErrTapeDrivesUnsupported, t),
      mtGoToNextFile = \<lambda>t. (Err ErrTapeDrivesUnsupported, t),
      mtEject = \<lambda>t. (Err ErrTapeDrivesUnsupported, t),
      mtSeekToRecord = \<lambda>_ t. (Err ErrTapeDrivesUnsupported, t),
      tpOpen = kOpen k, tpClose = kClose k, tpRead = kRead k\<rparr>"

lemma MagneticTapeIO_simps [simp]:
  "mtGetCurrentRecord (MagneticTapeIO k) = GetCurrentRecordFromTape k"
  "mtGoToEndOfTape (MagneticTapeIO k) = GoToEndOfTape k" "mtGoToNextFile (MagneticTapeIO k) = GoToNextFileOnTape k"
  "mtEject (MagneticTapeIO k) = EjectTape k" "mtSeekToRecord (MagneticTapeIO k) = SeekToRecordOnTape k"
  "tpOpen (MagneticTapeIO k) = kOpen k" "tpClose (MagneticTapeIO k) = kClose k" "tpRead (MagneticTapeIO k) = kRead k"
  by (simp_all add: MagneticTapeIO_def)

section \<open>pkg/hardware\<close>

definition Tell :: "'t tape_io \<Rightarrow> 't \<Rightarrow> int res \<times> 't" where
  "Tell mt = mtGetCurrentRecord mt"

definition Eject :: "'t tape_io \<Rightarrow> 't \<Rightarrow> unit res \<times> 't" where
  "Eject mt = mtEject mt"

section \<open>Records out of the range of the drive\<close>

lemma seek_count: "sint (word_of_int (int32 record) :: 32 word) = int32 record"
  by (simp add: int32_def)

text \<open>
  Records of which the numbers differ by \<open>2 ^ 32\<close> are one to the drive, so that the walks and \<open>Fetch\<close> read
  a tape with so many records at another place than the one they report.
\<close>

lemma seek_wraps:
  "int32 (record + 2 ^ 32) = int32 record"
  "snd (openReader io rs (record + 2 ^ 32) block t) = snd (openReader io rs record block t)"
proof -
  have "(word_of_int (record + 2 ^ 32) :: 32 word) = word_of_int record"
    by (simp add: word_of_int_eq_iff take_bit_eq_mod)
  then show i: "int32 (record + 2 ^ 32) = int32 record" by (simp only: int32_def)
  obtain r t1 where s: "mtSeekToRecord io (int32 record) t = (r, t1)" by force
  obtain r' t2 where "tpRead io t1 = (r', t2)" by force
  then show "snd (openReader io rs (record + 2 ^ 32) block t) = snd (openReader io rs record block t)"
    unfolding openReader_def i s by (cases r; cases r') simp_all
qed

end
