(* ===== verification/MagneticTapeProps.thy ===== *)
theory MagneticTapeProps
  imports Mtio RecoveryProps
begin

text \<open>
  What the walks over a tape find: the contract of a tape that holds files of records, the walk over
  it, and a tape that meets the contract.
\<close>

lemma int32_id: "0 \<le> i \<Longrightarrow> i < 2 ^ 31 \<Longrightarrow> int32 i = i"
  by (simp add: int32_def sint_sbintrunc' signed_take_bit_int_eq_self)

section \<open>Files on a tape\<close>

text \<open>
  The files on a tape with the record each starts at: a file mark counts as a record. Behind the last
  mark there is an empty file, where the data end.
\<close>

type_synonym tape_file = "int \<times> medium list"

fun numbered :: "tape_file list \<Rightarrow> bool" where
  "numbered [] = True"
| "numbered [f] = (snd f = [])"
| "numbered (f # g # fs) = (fst g = fst f + int (length (snd f)) + 1 \<and> numbered (g # fs))"

text \<open>Every record but the last one of a file is full; only a first record is filled up by the code.\<close>

fun fullRecords :: "nat \<Rightarrow> medium list \<Rightarrow> bool" where
  "fullRecords rs [] = True"
| "fullRecords rs [r] = (r \<noteq> [] \<and> length r \<le> rs)"
| "fullRecords rs (r # r' # f) = (length r = rs \<and> fullRecords rs (r' # f))"

lemma fullRecords_nonempty: "fullRecords rs f \<Longrightarrow> 0 < rs \<Longrightarrow> [] \<notin> set f"
  by (induction rs f rule: fullRecords.induct) auto

text \<open>The record at a position of a file, and what follows from the position on.\<close>

lemma fullRecords_at:
  assumes "fullRecords rs f" "0 < rs" "q < length (concat f)"
  shows "\<exists>r ls. drop (q div rs) f = r # ls \<and> drop (q mod rs) r @ concat ls = drop q (concat f)"
  using assms
proof (induction rs f arbitrary: q rule: fullRecords.induct)
  case (3 rs r r' f)
  show ?case
  proof (cases "q < rs")
    case False
    then have "q div rs = Suc ((q - rs) div rs)" "q mod rs = (q - rs) mod rs"
      using 3(3) by (simp_all add: le_div_geq le_mod_geq)
    then show ?thesis using "3.IH" [of "q - rs"] 3(2-4) False by auto
  qed (use 3(2) in auto)
qed auto

text \<open>A file that holds an archive, filled up with anything behind its trailer.\<close>

definition archiveFileOf :: "medium list \<Rightarrow> entry list \<Rightarrow> bool" where
  "archiveFileOf f es =
     ([] \<notin> set f \<and> list_all entryWf es \<and> (\<exists>pad. concat f = entriesBlocks es @ BZero # BZero # pad))"

fun holdsArchives :: "tape_file list \<Rightarrow> entry list list \<Rightarrow> bool" where
  "holdsArchives ((n, f) # fs) (es # ess) = (0 \<le> n \<and> n < 2 ^ 63 \<and> archiveFileOf f es \<and> holdsArchives fs ess)"
| "holdsArchives [(n, f)] [] = (f = [] \<and> 0 \<le> n \<and> n < 2 ^ 63)"
| "holdsArchives _ _ = False"

text \<open>The headers on a tape and the positions of their entries, counted in blocks of whole records.\<close>

fun headersOn :: "nat \<Rightarrow> tape_file list \<Rightarrow> entry list list \<Rightarrow> (nat \<times> tar_header) list" where
  "headersOn rs ((n, f) # fs) (es # ess) = entriesAt (rs * nat n) es @ headersOn rs fs ess"
| "headersOn rs _ _ = []"

text \<open>A walk that ends with an outcome, wherever it leaves the tape.\<close>

definition endsWith :: "(unit res \<times> 't \<times> 's) option \<Rightarrow> unit res \<times> 's \<Rightarrow> bool" where
  "endsWith w p = (\<exists>t. w = Some (fst p, t, snd p))"

locale tape_device =
  fixes io :: "'t tape_io"
    and files :: "'t \<Rightarrow> tape_file list"
    and left :: "'t \<Rightarrow> medium list"
    and later :: "'t \<Rightarrow> tape_file list"
  assumes read_record:
      "left t = r # rs \<Longrightarrow> \<exists>t'. tpRead io t = (Ok r, t') \<and> left t' = rs \<and> later t' = later t"
    and next_file:
      "later t = (n, f) # fs \<Longrightarrow> 0 \<le> n \<Longrightarrow> n < 2 ^ 63 \<Longrightarrow> \<exists>t' t''. mtGoToNextFile io t = (Ok (), t')
         \<and> mtGetCurrentRecord io t' = (Ok n, t'') \<and> left t'' = f \<and> later t'' = fs"
    and end_of_data:
      "left t = [] \<Longrightarrow> later t = [] \<Longrightarrow> \<exists>t' e t''. tpRead io t = (Ok [], t')
         \<and> mtGoToNextFile io t' = (Err e, t'')"
    and seek_record:
      "numbered (files t) \<Longrightarrow> files t = before @ (n, f) # fs \<Longrightarrow> k < length f
       \<Longrightarrow> 0 \<le> n \<Longrightarrow> n + int k < 2 ^ 31 \<Longrightarrow> \<exists>t'. mtSeekToRecord io (n + int k) t = (Ok (), t') \<and> left t' = drop k f \<and> later t' = fs"
begin

text \<open>What the reader has before it in the file.\<close>

definition rest :: "'t tape_reader \<Rightarrow> medium" where
  "rest rd = trBuffer rd @ concat (left (trTape rd))"

definition wellReading :: "tape_file list \<Rightarrow> 't tape_reader \<Rightarrow> bool" where
  "wellReading fs rd = ([] \<notin> set (left (trTape rd)) \<and> later (trTape rd) = fs)"

lemma readBlock_rest:
  assumes "rest rd = b # bs" "wellReading fs rd"
  obtains rd' where "readBlock io rd = (Ok b, rd')" "rest rd' = bs" "wellReading fs rd'"
    "trBlocks rd' = trBlocks rd + 1"
proof (cases "trBuffer rd")
  case Nil
  then obtain r rs where l: "left (trTape rd) = r # rs"
    using assms(1) by (cases "left (trTape rd)") (auto simp: rest_def)
  then obtain t' where t: "tpRead io (trTape rd) = (Ok r, t')" "left t' = rs" "later t' = later (trTape rd)"
    using read_record by blast
  have r: "r \<noteq> []" using assms(2) l by (auto simp: wellReading_def)
  then obtain r' where r': "r = b # r'" using assms(1) Nil l by (cases r) (auto simp: rest_def)
  show ?thesis
    by (rule that [of "rd\<lparr>trTape := t', trBuffer := r', trBlocks := trBlocks rd + 1\<rparr>"])
      (use assms Nil l t r' in \<open>auto simp: readBlock_def onTape_def rest_def wellReading_def\<close>)
next
  case (Cons c cs)
  show ?thesis
    by (rule that [of "rd\<lparr>trBuffer := cs, trBlocks := trBlocks rd + 1\<rparr>"])
      (use assms Cons in \<open>auto simp: readBlock_def rest_def wellReading_def\<close>)
qed

lemma readBlocks_rest:
  assumes "rest rd = m @ post" "wellReading fs rd"
  obtains rd' where "readBlocks io (length m) rd = (Ok m, rd')" "rest rd' = post" "wellReading fs rd'"
    "trBlocks rd' = trBlocks rd + length m"
  using assms
proof (induction m arbitrary: rd thesis)
  case (Cons b m)
  obtain rd1 where 1: "readBlock io rd = (Ok b, rd1)" "rest rd1 = m @ post" "wellReading fs rd1"
    "trBlocks rd1 = trBlocks rd + 1"
    using Cons.prems(2,3) by (auto elim: readBlock_rest)
  show ?case by (rule Cons.IH [OF _ 1(2,3)]) (rule Cons.prems(1), simp_all add: 1)
qed simp

text \<open>The reader at an entry, behind its header, and at the end of an archive.\<close>

lemma tapeNext_entry:
  assumes "rest rd = entryBlocks h n c @ post" "wellReading fs rd"
  obtains rd' where "tapeNext io rd = (Ok h, rd')" "rest rd' = dataBlocks c @ post" "wellReading fs rd'"
    "trBlocks rd' = trBlocks rd + 1 + n"
proof -
  obtain rd1 where 1: "readBlock io rd = (Ok (BHead h n), rd1)"
    "rest rd1 = replicate n BCont @ dataBlocks c @ post" "wellReading fs rd1" "trBlocks rd1 = trBlocks rd + 1"
    using assms by (auto simp: entryBlocks_def elim: readBlock_rest)
  obtain rd2 where "readBlocks io n rd1 = (Ok (replicate n BCont), rd2)" "rest rd2 = dataBlocks c @ post"
    "wellReading fs rd2" "trBlocks rd2 = trBlocks rd1 + n"
    using readBlocks_rest [OF 1(2,3)] by auto
  then show ?thesis by (intro that [of rd2]) (simp_all add: tapeNext_def insideEntry_def 1)
qed

lemma tapeContents_entry:
  assumes "rest rd = dataBlocks c @ post" "wellReading fs rd" "payload h = length c"
  obtains rd' where "tapeContents io h rd = (Ok c, rd')" "rest rd' = post" "wellReading fs rd'"
    "trBlocks rd' = trBlocks rd + blocksOf (length c)"
proof -
  obtain rd' where r: "readBlocks io (blocksOf (length c)) rd = (Ok (dataBlocks c), rd')" "rest rd' = post"
    "wellReading fs rd'" "trBlocks rd' = trBlocks rd + blocksOf (length c)"
    using readBlocks_rest [OF assms(1,2)] by auto
  obtain pad where "concat (map blockBytes (dataBlocks c)) = c @ pad" using bytes_dataBlocks by blast
  then show ?thesis
    by (intro that [of rd']) (simp_all add: r tapeContents_def insideEntry_def assms(3))
qed

lemma tapeNext_trailer:
  assumes "rest rd = BZero # BZero # post" "wellReading fs rd"
  obtains rd' where "tapeNext io rd = (Err EOF, rd')" "wellReading fs rd'"
proof -
  obtain rd1 where 1: "readBlock io rd = (Ok BZero, rd1)" "rest rd1 = BZero # post" "wellReading fs rd1"
    using assms by (rule readBlock_rest) auto
  obtain rd2 where 2: "readBlock io rd1 = (Ok BZero, rd2)" "wellReading fs rd2"
    using 1(2,3) by (rule readBlock_rest) auto
  show ?thesis by (rule that [of rd2]) (simp_all add: tapeNext_def 1(1) 2)
qed

section \<open>The walk\<close>

lemma tapeLoop_entry:
  assumes "0 < rs" "rest rd = entryBlocks h n c @ post" "wellReading fs rd" "payload h = length c"
    and "\<And>rd' s. rest rd' = post \<Longrightarrow> wellReading fs rd'
      \<Longrightarrow> trBlocks rd' = trBlocks rd + length (entryBlocks h n c)
      \<Longrightarrow> endsWith (tapeLoop io rs False handle rd' None (fst (locate rs (trBlocks rd')))
            (snd (locate rs (trBlocks rd'))) (i + 1) s) (visit rs handle (i + 1) xs s)"
  shows "endsWith (tapeLoop io rs False handle rd None (fst (locate rs (trBlocks rd)))
      (snd (locate rs (trBlocks rd))) i s) (visit rs handle i ((trBlocks rd, h) # xs) s)"
proof -
  obtain rd1 where 1: "tapeNext io rd = (Ok h, rd1)" "rest rd1 = dataBlocks c @ post" "wellReading fs rd1"
    "trBlocks rd1 = trBlocks rd + 1 + n" using assms(2,3) by (rule tapeNext_entry)
  obtain rd2 where 2: "tapeContents io h rd1 = (Ok c, rd2)" "rest rd2 = post" "wellReading fs rd2"
    "trBlocks rd2 = trBlocks rd1 + blocksOf (length c)" using 1(2,3) assms(4) by (rule tapeContents_entry)
  obtain v s' where "handle i (fst (locate rs (trBlocks rd))) (snd (locate rs (trBlocks rd))) h s = (v, s')" by force
  then show ?thesis
    using assms(5) [OF 2(2,3), of s'] 1 2(1,4) assms(1)
    by (subst tapeLoop.simps) (cases v; simp add: endsWith_def location_eqs case_prod_beta)
qed

lemma tapeLoop_archive:
  assumes "0 < rs" "rest rd = entriesBlocks es @ BZero # BZero # pad" "wellReading fs rd" "list_all entryWf es"
    and "\<And>rd' r b j s. rest rd' = BZero # BZero # pad \<Longrightarrow> wellReading fs rd'
      \<Longrightarrow> endsWith (tapeLoop io rs False handle rd' None r b j s) (visit rs handle j xs s)"
  shows "endsWith (tapeLoop io rs False handle rd None (fst (locate rs (trBlocks rd)))
      (snd (locate rs (trBlocks rd))) i s) (visit rs handle i (entriesAt (trBlocks rd) es @ xs) s)"
  using assms(2-4)
proof (induction es arbitrary: rd i s)
  case (Cons e es)
  obtain h n c where e: "e = (h, n, c)" by (cases e)
  have "endsWith (tapeLoop io rs False handle rd None (fst (locate rs (trBlocks rd)))
      (snd (locate rs (trBlocks rd))) i s) (visit rs handle i ((trBlocks rd, h)
        # (entriesAt (trBlocks rd + length (entryBlocks h n c)) es @ xs)) s)"
  proof (rule tapeLoop_entry [OF assms(1) _ Cons.prems(2)])
    show "rest rd = entryBlocks h n c @ entriesBlocks es @ BZero # BZero # pad" "payload h = length c"
      using Cons.prems e by (simp_all add: entryWf_def)
  qed (use Cons.IH Cons.prems(3) in fastforce)
  then show ?case by (simp add: e del: length_entryBlocks)
qed (simp add: assms(5))

text \<open>From the end of an archive on: the files that follow, and the end of the data.\<close>

lemma tapeLoop_end:
  assumes "left (trTape rd) = []" "later (trTape rd) = []" "trBuffer rd = []"
  shows "endsWith (tapeLoop io rs False handle rd None r b i s) (Ok (), s)"
proof -
  obtain t' e t'' where "tpRead io (trTape rd) = (Ok [], t')" "mtGoToNextFile io t' = (Err e, t'')"
    using end_of_data [OF assms(1,2)] by blast
  then show ?thesis
    using assms(3) by (subst tapeLoop.simps)
      (simp add: tapeNext_def readBlock_def onTape_def nextTapeFile_def endsWith_def)
qed

lemma tapeLoop_files:
  assumes "0 < rs" "holdsArchives fs ess" "rest rd = BZero # BZero # pad" "wellReading fs rd"
  shows "endsWith (tapeLoop io rs False handle rd None r b i s) (visit rs handle i (headersOn rs fs ess) s)"
  using assms(2-4)
proof (induction ess arbitrary: fs rd pad r b i s)
  case Nil
  then obtain n where fs: "fs = [(n, [])]" "0 \<le> n" "n < 2 ^ 63" by (cases fs; cases "tl fs") auto
  obtain rd' where n: "tapeNext io rd = (Err EOF, rd')" "wellReading fs rd'"
    using Nil.prems(2,3) by (rule tapeNext_trailer)
  obtain t' t'' where t: "mtGoToNextFile io (trTape rd') = (Ok (), t')" "mtGetCurrentRecord io t' = (Ok n, t'')"
    "left t'' = []" "later t'' = []"
    using next_file [of "trTape rd'"] n(2) fs by (auto simp: wellReading_def)
  have "endsWith (tapeLoop io rs False handle (newReader rs n 0 [] t'') None n 0 i s) (Ok (), s)"
    by (rule tapeLoop_end) (simp_all add: newReader_def t)
  then show ?case
    using fs n(1) t by (subst tapeLoop.simps) (simp add: nextTapeFile_def onTape_def newReader_def)
next
  case (Cons es ess)
  then obtain n f fs' where fs: "fs = (n, f) # fs'" "0 \<le> n" "archiveFileOf f es" "holdsArchives fs' ess" "n < 2 ^ 63"
    by (cases fs) auto
  obtain rd' where n: "tapeNext io rd = (Err EOF, rd')" "wellReading fs rd'"
    using Cons.prems(2,3) by (rule tapeNext_trailer)
  obtain t' t'' where t: "mtGoToNextFile io (trTape rd') = (Ok (), t')" "mtGetCurrentRecord io t' = (Ok n, t'')"
    "left t'' = f" "later t'' = fs'"
    using next_file [of "trTape rd'"] n(2) fs by (auto simp: wellReading_def)
  let ?rd = "newReader rs n 0 [] t''"
  obtain pad' where f: "concat f = entriesBlocks es @ BZero # BZero # pad'" "[] \<notin> set f" "list_all entryWf es"
    using fs(3) by (auto simp: archiveFileOf_def)
  have rd: "rest ?rd = entriesBlocks es @ BZero # BZero # pad'" "wellReading fs' ?rd" "trBlocks ?rd = rs * nat n"
    using f t fs(2) by (simp_all add: rest_def newReader_def wellReading_def nat_mult_distrib)
  have "locate rs (rs * nat n) = (n, 0)" using assms(1) fs(2) by (simp add: locate_def)
  then have "endsWith (tapeLoop io rs False handle ?rd None n 0 i s)
      (visit rs handle i (entriesAt (rs * nat n) es @ headersOn rs fs' ess) s)"
    using tapeLoop_archive [where handle = handle and i = i and s = s, OF assms(1) rd(1,2) f(3) Cons.IH [OF fs(4)]] rd(3)
    by simp
  then show ?case
    using fs n(1) t by (subst tapeLoop.simps) (simp add: nextTapeFile_def onTape_def newReader_def)
qed

lemma walkTape_visits:
  assumes "0 < rs" "files t = (0, f) # fs" "numbered (files t)" "holdsArchives (files t) (es # ess)"
  shows "endsWith (walkTape io rs False handle 0 0 t s) (visit rs handle 0 (headersOn rs (files t) (es # ess)) s)"
proof -
  have f: "archiveFileOf f es" "holdsArchives fs ess" using assms(2,4) by auto
  obtain pad where c: "concat f = entriesBlocks es @ BZero # BZero # pad" "[] \<notin> set f" "list_all entryWf es"
    using f(1) by (auto simp: archiveFileOf_def)
  then have "0 < length f" by (cases f) auto
  then obtain t' where t: "mtSeekToRecord io 0 t = (Ok (), t')" "left t' = f" "later t' = fs"
    using seek_record [OF assms(3), of "[]" 0 f fs 0] assms(2) by auto
  let ?rd = "newReader rs 0 0 [] t'"
  have rd: "rest ?rd = entriesBlocks es @ BZero # BZero # pad" "wellReading fs ?rd" "trBlocks ?rd = 0"
    using c t by (simp_all add: rest_def newReader_def wellReading_def)
  have "endsWith (tapeLoop io rs False handle ?rd None 0 0 0 s)
      (visit rs handle 0 (entriesAt 0 es @ headersOn rs fs ess) s)"
    using tapeLoop_archive [where handle = handle and i = 0 and s = s,
        OF assms(1) rd(1,2) c(3) tapeLoop_files [OF assms(1) f(2)]] rd(3)
    by (simp add: locate_def)
  then show ?thesis
    using t assms(2) by (simp add: walkTape_def openReader_def int32_def)
qed

section \<open>Entries are found again\<close>

lemma openReader_entry:
  assumes "0 < rs" "numbered (files t)" "files t = before @ (n, f) # fs" "0 \<le> n"
    and "fullRecords rs f" "concat f = pre @ entryBlocks h k c @ post"
    and "n + int (length f) < 2 ^ 31" "(rec, blk) = locate rs (rs * nat n + length pre)"
  obtains rd t' where "openReader io rs rec blk t = (Ok rd, t')" "wellReading fs rd"
    "rest rd = entryBlocks h k c @ post"
proof -
  let ?k = "length pre div rs"
  have rb: "rec = n + int ?k" "blk = int (length pre mod rs)"
    using assms(1,4,8) by (simp_all add: locate_def)
  have "length pre < length (concat f)" using assms(6) by (simp add: entryBlocks_def)
  then obtain r ls where l: "drop ?k f = r # ls"
    and "drop (length pre mod rs) r @ concat ls = drop (length pre) (concat f)"
    using fullRecords_at [OF assms(5,1)] by blast
  then have whole: "drop (length pre mod rs) r @ concat ls = entryBlocks h k c @ post"
    using assms(6) by simp
  have k: "?k < length f" using l by (metis drop_all leI list.distinct(1))
  have i: "int32 rec = rec"
    using assms(4,7) k rb(1) by (intro int32_id) auto
  obtain t1 where t1: "mtSeekToRecord io rec t = (Ok (), t1)" "left t1 = r # ls" "later t1 = fs"
    using seek_record [OF assms(2,3) k assms(4)] assms(7) k rb l by auto
  obtain t2 where t2: "tpRead io t1 = (Ok r, t2)" "left t2 = ls" "later t2 = fs"
    using read_record [OF t1(2)] t1(3) by blast
  have "set (r # ls) \<subseteq> set f" using l by (metis set_drop_subset)
  then have ne: "r \<noteq> [] \<and> [] \<notin> set ls" using fullRecords_nonempty [OF assms(5,1)] by auto
  show ?thesis
  proof (cases "length pre mod rs = 0")
    case True
    then have "openReader io rs rec blk t = (Ok (newReader rs rec blk [] t1), t1)"
      using t1 i rb by (simp add: openReader_def)
    then show ?thesis
      by (rule that) (use True t1 whole ne in \<open>auto simp: newReader_def rest_def wellReading_def\<close>)
  next
    case False
    then have "openReader io rs rec blk t = (Ok (newReader rs rec blk (drop (length pre mod rs) r) t2), t2)"
      using t1 t2 i rb ne by (simp add: openReader_def)
    then show ?thesis
      by (rule that) (use t2 ne whole in \<open>auto simp: newReader_def rest_def wellReading_def\<close>)
  qed
qed

lemma entry_found:
  assumes "0 < rs" "numbered (files t)" "files t = before @ (n, f) # fs" "0 \<le> n"
    and "fullRecords rs f" "concat f = entriesBlocks (es @ (h, k, c) # es') @ pad"
    and "payload h = length c" "n + int (length f) < 2 ^ 31"
    and "(rec, blk) = locate rs (rs * nat n + length (entriesBlocks es))"
  shows "\<exists>rd rd'. fst (openReader io rs rec blk t) = Ok rd \<and> tapeNext io rd = (Ok h, rd')
    \<and> fst (tapeContents io h rd') = Ok c"
proof -
  have c: "concat f = entriesBlocks es @ entryBlocks h k c @ entriesBlocks es' @ pad" using assms(6) by simp
  obtain rd t' where rd: "openReader io rs rec blk t = (Ok rd, t')" "wellReading fs rd"
    "rest rd = entryBlocks h k c @ entriesBlocks es' @ pad"
    using assms(1-5) c assms(8,9) by (rule openReader_entry)
  obtain rd' where rd': "tapeNext io rd = (Ok h, rd')" "rest rd' = dataBlocks c @ entriesBlocks es' @ pad"
    "wellReading fs rd'" using rd(3,2) by (rule tapeNext_entry)
  obtain rd'' where "tapeContents io h rd' = (Ok c, rd'')"
    using rd'(2,3) assms(7) by (rule tapeContents_entry)
  then show ?thesis using rd(1) rd'(1) by simp
qed

end

section \<open>A tape\<close>

text \<open>
  A tape without a rewinding device: reading at a file mark goes behind it, and behind the last mark
  there is nothing more to go to.
\<close>

record tape =
  tapeFiles :: "tape_file list"
  tapeLeft :: "medium list"
  tapeLater :: "tape_file list"
  tapeRecord :: int

definition gotoFile :: "'a \<Rightarrow> 'a res \<Rightarrow> tape \<Rightarrow> 'a res \<times> tape" where
  "gotoFile x end t =
     (case tapeLater t of
        [] \<Rightarrow> (end, t)
      | (n, f) # fs \<Rightarrow> (Ok x, t\<lparr>tapeLeft := f, tapeLater := fs, tapeRecord := n\<rparr>))"

fun seekFiles :: "int \<Rightarrow> tape_file list \<Rightarrow> (medium list \<times> tape_file list) option" where
  "seekFiles r [] = None"
| "seekFiles r ((n, f) # fs) =
     (if n \<le> r \<and> r \<le> n + int (length f) then Some (drop (nat (r - n)) f, fs) else seekFiles r fs)"

text \<open>
  The driver of the tape: the operations of \<open>ioctl\<close> the program asks for, with the count as the drive
  reads it, and the position. Other requests are invalid.
\<close>

definition doTape :: "operation \<Rightarrow> tape \<Rightarrow> err option \<times> tape" where
  "doTape opr t =
     (let eio = Some (ErrExternal ''EIO'')
      in if opId opr = mtFsf \<and> opCount opr = 1 then
           (case gotoFile () (Err (ErrExternal ''EIO'')) t of (Ok _, t) \<Rightarrow> (None, t) | (_, t) \<Rightarrow> (eio, t))
         else if opId opr = mtEom then
           (None, t\<lparr>tapeLeft := [], tapeLater := [], tapeRecord := fst (last (tapeFiles t))\<rparr>)
         else if opId opr = mtOffl then (None, t\<lparr>tapeLeft := [], tapeLater := [], tapeRecord := 0\<rparr>)
         else if opId opr = mtSeek then
           (case seekFiles (sint (opCount opr)) (tapeFiles t) of
              None \<Rightarrow> (eio, t)
            | Some (f, fs) \<Rightarrow> (None, t\<lparr>tapeLeft := f, tapeLater := fs, tapeRecord := sint (opCount opr)\<rparr>))
         else (Some (ErrExternal ''EINVAL''), t))"

definition exampleKernel :: "tape kernel" where
  "exampleKernel =
     \<lparr>kIoctlPosition = \<lambda>request pos t.
        if request = mtioCpos then ((None, \<lparr>blkNo = word_of_int (tapeRecord t)\<rparr>), t)
        else ((Some (ErrExternal ''EINVAL''), pos), t),
      kIoctlOperation = \<lambda>request opr t.
        if request = mtioCtop then (let (e, t) = doTape opr t in ((e, opr), t))
        else ((Some (ErrExternal ''EINVAL''), opr), t),
      kOpen = \<lambda>t. (Ok (), t), kClose = \<lambda>t. (Ok (), t),
      kRead = \<lambda>t. (case tapeLeft t of
                     r # rs \<Rightarrow> (Ok r, t\<lparr>tapeLeft := rs, tapeRecord := tapeRecord t + 1\<rparr>)
                   | [] \<Rightarrow> gotoFile [] (Ok []) t)\<rparr>"

definition exampleTapeIO :: "tape tape_io" where
  "exampleTapeIO = MagneticTapeIO exampleKernel"

text \<open>What the functions of pkg/mtio do on this driver.\<close>

lemma exampleTapeIO_functions:
  "mtGetCurrentRecord exampleTapeIO t = (Ok (sint (word_of_int (tapeRecord t) :: 64 word)), t)"
  "mtGoToNextFile exampleTapeIO t = gotoFile () (Err (ErrExternal ''EIO'')) t"
  "mtSeekToRecord exampleTapeIO r t = (case seekFiles (int32 r) (tapeFiles t) of
      None \<Rightarrow> (Err (ErrExternal ''EIO''), t)
    | Some (f, fs) \<Rightarrow> (Ok (), t\<lparr>tapeLeft := f, tapeLater := fs, tapeRecord := int32 r\<rparr>))"
  "tpRead exampleTapeIO t = (case tapeLeft t of
      r # rs \<Rightarrow> (Ok r, t\<lparr>tapeLeft := rs, tapeRecord := tapeRecord t + 1\<rparr>)
    | [] \<Rightarrow> gotoFile [] (Ok []) t)"
  by (simp_all add: exampleTapeIO_def exampleKernel_def GetCurrentRecordFromTape_def GoToNextFileOnTape_def
      SeekToRecordOnTape_def doOperation_def doTape_def gotoFile_def mtFsf_def mtEom_def mtOffl_def mtSeek_def
      int32_def split: list.splits option.splits)

lemma int64_id: "0 \<le> i \<Longrightarrow> i < 2 ^ 63 \<Longrightarrow> sint (word_of_int i :: 64 word) = i"
  by (simp add: sint_sbintrunc' signed_take_bit_int_eq_self)

lemma numbered_head: "numbered (g # gs @ (n, f) # fs) \<Longrightarrow> fst g + int (length (snd g)) < n"
  by (induction gs arbitrary: g) fastforce+

lemma numbered_before: "numbered (before @ (n, f) # fs) \<Longrightarrow> (n', f') \<in> set before \<Longrightarrow> n' + int (length f') < n"
proof (induction before)
  case (Cons g gs)
  have "numbered (gs @ (n, f) # fs)" using Cons.prems(1) by (cases gs) auto
  then show ?case using Cons numbered_head [of g gs n f fs] by auto
qed simp

lemma seekFiles_record:
  assumes "numbered (before @ (n, f) # fs)" "k < length f"
  shows "seekFiles (n + int k) (before @ (n, f) # fs) = Some (drop k f, fs)"
proof -
  have "\<forall>(n', f') \<in> set before. n' + int (length f') < n" using numbered_before [OF assms(1)] by auto
  then show ?thesis using assms(2) by (induction before) auto
qed

interpretation tape: tape_device exampleTapeIO tapeFiles tapeLeft tapeLater
proof (unfold_locales, goal_cases)
  case (4 t before n f fs k)
  then show ?case using seekFiles_record [of before n f fs k] by (simp add: exampleTapeIO_functions int32_id)
qed (auto simp: exampleTapeIO_functions gotoFile_def int64_id)

section \<open>Properties\<close>

text \<open>
  C30: a re-index of a tape visits it completely and in order: on any tape of archives, one to a file,
  \<open>Index\<close> ends and applies every header exactly once, at the record and block of its entry,
  where file marks count as records, and stops at the first failure.
\<close>

theorem tape_index_visits:
  assumes "tape_device io files left later" "0 < RecordSize pipes" "numbered (files t)"
    and "fst (hd (files t)) = 0" "holdsArchives (files t) (es # ess)"
  shows "endsWith (IndexTape io mp pipes 0 0 True init 0 dec ver onHeader t s)
    (andThen (onMeta (mpPurgeAllHeaders mp) s)
       (\<lambda>_ s. visit (RecordSize pipes) (indexEntry mp pipes init 0 dec (\<lambda>hdr _. ver hdr False) onHeader) 0
                 (headersOn (RecordSize pipes) (files t) (es # ess)) s))"
proof -
  obtain f fs where f: "files t = (0, f) # fs" using assms(4,5) by (cases "files t") auto
  have "endsWith (walkTape io (RecordSize pipes) False handle 0 0 t s)
      (visit (RecordSize pipes) handle 0 (headersOn (RecordSize pipes) (files t) (es # ess)) s)" for handle s
    by (rule tape_device.walkTape_visits [OF assms(1,2) f assms(3,5)])
  then show ?thesis
    by (cases "onMeta (mpPurgeAllHeaders mp) s"; cases "fst (onMeta (mpPurgeAllHeaders mp) s)")
      (auto simp: IndexTape_def endsWith_def)
qed

text \<open>
  C31: entries on a tape are found where \<open>Index\<close> says: seeking to the record and block of an entry of any
  file finds its header, and behind it exactly its contents.
\<close>

theorem tape_entry_found:
  assumes "tape_device io files left later" "0 < rs" "numbered (files t)" "files t = before @ (n, f) # fs" "0 \<le> n"
    and "fullRecords rs f" "concat f = entriesBlocks (es @ (h, k, c) # es') @ pad"
    and "payload h = length c" "n + int (length f) < 2 ^ 31"
    and "(rec, blk) = locate rs (rs * nat n + length (entriesBlocks es))"
  shows "\<exists>rd rd'. fst (openReader io rs rec blk t) = Ok rd \<and> tapeNext io rd = (Ok h, rd')
    \<and> fst (tapeContents io h rd') = Ok c"
  by (rule tape_device.entry_found [OF assms])

section \<open>An example\<close>

definition exampleTape :: tape where
  "exampleTape =
     \<lparr>tapeFiles = [(0, [[BHead (exampleDir ''/'') 0, BZero], [BZero, BZero]]),
                   (3, [[BHead (exampleDir ''/a'') 0, BHead (exampleDir ''/b'') 0], [BZero, BZero]]), (6, [])],
      tapeLeft = [], tapeLater = [], tapeRecord = 0\<rparr>"

definition examplePipes2 :: pipe_config where
  "examplePipes2 = examplePipes\<lparr>RecordSize := 2\<rparr>"

lemma exampleTape_simps [simp]:
  "tapeFiles exampleTape = [(0, [[BHead (exampleDir ''/'') 0, BZero], [BZero, BZero]]),
     (3, [[BHead (exampleDir ''/a'') 0, BHead (exampleDir ''/b'') 0], [BZero, BZero]]), (6, [])]"
  "RecordSize examplePipes2 = 2"
  by (simp_all add: exampleTape_def examplePipes2_def)

lemma exampleTape_archives:
  "holdsArchives (tapeFiles exampleTape)
     [[(exampleDir ''/'', 0, [])], [(exampleDir ''/a'', 0, []), (exampleDir ''/b'', 0, [])]]"
  by (simp add: archiveFileOf_def entryWf_def entryBlocks_def dataBlocks.simps)

theorem tape_index_visits_witness:
  "\<exists>t. IndexTape exampleTapeIO sqliteMetadata examplePipes2 0 0 True True 0 (\<lambda>h i. Ok h) (\<lambda>h r. Ok h) None exampleTape
      (NewMetadataPersister, ())
     = Some (Ok (), t, (NewMetadataPersister\<lparr>rows := [exampleRow 0 0 ''/'', exampleRow 3 0 ''/a'', exampleRow 3 1 ''/b'']\<rparr>, ()))"
  using tape_index_visits [OF tape.tape_device_axioms, of examplePipes2 exampleTape, OF _ _ _ exampleTape_archives,
      of sqliteMetadata True "\<lambda>h i. Ok h" "\<lambda>h r. Ok h" None "(NewMetadataPersister, ())"]
  by (simp add: endsWith_def indexEntry_def indexHeader_dir Upsert_new purge_new onMeta_def locate_def
      entryBlocks_def dataBlocks.simps flip: exampleRow_def)

text \<open>
  \<open>Query\<close> on the same tape reports the entry \<open>/b\<close> of the second file, which is at record 3 and block 1,
  at record 1 and block 1, from where the counter of the first file was left.
\<close>

lemma query_tape_mislocates:
  "\<exists>t. QueryTape exampleExternal exampleTapeIO examplePipes2 crypto 0 0
     (Some (\<lambda>h ev. (Ok (), ev @ [(Name h, Record h, Block h)]))) exampleTape []
     = Some (Ok [exampleDir ''/'', exampleDir ''/a'', exampleDir ''/b''], t,
         [(''/'', 0, 0), (''/a'', 3, 0), (''/b'', 1, 1)])"
proof -
  let ?f = "queryTapeEntry exampleExternal examplePipes2 crypto (Some (\<lambda>h ev. (Ok (), ev @ [(Name h, Record h, Block h)])))"
  have entry: "?f i r b (exampleDir n) (hs, ev) = (Ok (), (hs @ [exampleDir n], ev @ [(n, r, b)]))" for i r b n hs ev
    by (simp add: queryTapeEntry_def examplePipes2_def DecryptHeader_def VerifyHeader_def onEvents_def)
  note evaluate = tapeNext_def readBlock_def onTape_def exampleTapeIO_functions insideEntry_def tapeContents_def
    nextTapeFile_def gotoFile_def newReader_def nextLocation_def blocksOf_def MagneticTapeBlockSize_def entry
  let ?t = "exampleTape\<lparr>tapeLeft := [[BHead (exampleDir ''/'') 0, BZero], [BZero, BZero]],
    tapeLater := tl (tapeFiles exampleTape)\<rparr>"
  have seek: "mtSeekToRecord exampleTapeIO (int32 0) exampleTape = (Ok (), ?t)"
    by (simp add: exampleTapeIO_functions int32_def exampleTape_def)
  have "\<exists>t. tapeLoop exampleTapeIO 2 True ?f (newReader 2 0 0 [] ?t) None 0 0 0 ([], [])
      = Some (Ok (), t, ([exampleDir ''/'', exampleDir ''/a'', exampleDir ''/b''],
                         [(''/'', 0, 0), (''/a'', 3, 0), (''/b'', 1, 1)]))"
    by (subst tapeLoop.simps, simp add: evaluate)+
  then obtain t where "tapeLoop exampleTapeIO 2 True ?f (newReader 2 0 0 [] ?t) None 0 0 0 ([], [])
      = Some (Ok (), t, ([exampleDir ''/'', exampleDir ''/a'', exampleDir ''/b''],
                         [(''/'', 0, 0), (''/a'', 3, 0), (''/b'', 1, 1)]))" ..
  then show ?thesis
    by (simp add: QueryTape_def walkTape_def openReader_def seek del: exampleTape_simps(1))
qed

theorem tape_entry_found_witness:
  "\<exists>rd rd'. fst (openReader exampleTapeIO 2 3 1 exampleTape) = Ok rd
     \<and> tapeNext exampleTapeIO rd = (Ok (exampleDir ''/b''), rd') \<and> fst (tapeContents exampleTapeIO (exampleDir ''/b'') rd') = Ok []"
  using tape_entry_found [OF tape.tape_device_axioms, of 2 exampleTape "[(0, [[BHead (exampleDir ''/'') 0, BZero], [BZero, BZero]])]"
      3 "[[BHead (exampleDir ''/a'') 0, BHead (exampleDir ''/b'') 0], [BZero, BZero]]" "[(6, [])]"
      "[(exampleDir ''/a'', 0, [])]" "exampleDir ''/b''" 0 "[]" "[]" "[BZero, BZero]" 3 1]
  by (simp add: locate_def entryBlocks_def dataBlocks.simps blocksOf_def MagneticTapeBlockSize_def)

end
