(* ===== verification/OperationsRecords.thy ===== *)
theory OperationsRecords
  imports OperationsProps
begin

text \<open>
  The operations that append records without contents, \<open>Delete\<close> and \<open>Move\<close>: the headers they write and
  what these do to the index.
\<close>

section \<open>The headers of records\<close>

definition recordHeader :: "(header \<Rightarrow> tar_header \<Rightarrow> tar_header) \<Rightarrow> header \<Rightarrow> tar_header res" where
  "recordHeader edit h =
     rbind (DBHeaderToTarHeader (ConfigHeaderToDBHeader h)) (\<lambda>t. Ok (edit h (t\<lparr>tSize := 0\<rparr>)))"

lemma appendRecord_hdrs:
  "appendRecord x op ty (edit h) h w = (Ok (), w') \<Longrightarrow>
   \<exists>t. recordHeader edit h = Ok t \<and> wHdrs w' = wHdrs w @ [t]"
  by (auto simp: appendRecord_def recordHeader_def Let_def andThen_Ok_iff rbind_Ok_iff
      dest!: announce_Ok writeHeader_Ok)

lemma forHeaders_hdrs:
  "forHeaders (\<lambda>h. appendRecord x op ty (edit h) h) hs w = (Ok (), w') \<Longrightarrow>
   \<exists>ts. list_all2 (\<lambda>h t. recordHeader edit h = Ok t) hs ts \<and> wHdrs w' = wHdrs w @ ts"
proof (induction hs arbitrary: w)
  case (Cons h hs)
  obtain w1 where 1: "appendRecord x op ty (edit h) h w = (Ok (), w1)"
    "forHeaders (\<lambda>h. appendRecord x op ty (edit h) h) hs w1 = (Ok (), w')"
    using Cons.prems by (auto simp: andThen_Ok_iff)
  obtain t ts where "recordHeader edit h = Ok t" "wHdrs w1 = wHdrs w @ [t]"
    "list_all2 (\<lambda>h t. recordHeader edit h = Ok t) hs ts" "wHdrs w' = wHdrs w1 @ ts"
    using appendRecord_hdrs [where edit = edit and h = h, OF 1(1)] Cons.IH [OF 1(2)] by blast
  then show ?case by (intro exI [of _ "t # ts"]) simp
qed simp

lemma cleanupTape_hdrs: "wHdrs (snd (cleanupTape w)) = wHdrs w"
  by (simp add: cleanupTape_def onTar_def case_prod_beta)

lemma writeSession_hdrs:
  assumes "writeSession bc f s = (Ok hdrs, s')"
  obtains w where "f \<lparr>wTar = \<lparr>twMedium = [], twOwed = 0\<rparr>, wHdrs = [], wDirty = False, wEvents = osEvents s\<rparr> = (Ok (), w)"
    "hdrs = wHdrs w"
proof -
  obtain w w' where w: "f \<lparr>wTar = \<lparr>twMedium = [], twOwed = 0\<rparr>, wHdrs = [], wDirty = False, wEvents = osEvents s\<rparr> = (Ok (), w)"
    "cleanupTape w = (Ok (), w')" "hdrs = wHdrs w'"
    using assms by (auto simp: writeSession_def Let_def rbind_Ok_iff andThen_Ok_iff split: prod.splits)
  then show ?thesis using that cleanupTape_hdrs [of w] by simp
qed

lemma recordSession_hdrs:
  assumes "writeSession bc (forHeaders (\<lambda>h. appendRecord x op ty (edit h) h) hs) s = (Ok hdrs, s')"
  shows "list_all2 (\<lambda>h t. recordHeader edit h = Ok t) hs hdrs"
  using assms by (elim writeSession_hdrs) (drule forHeaders_hdrs, simp)

section \<open>Delete\<close>

text \<open>The name under which the index applies a header that carries no size of its own.\<close>

definition indexedName :: "'e operations \<Rightarrow> tar_header \<Rightarrow> string res" where
  "indexedName op t =
     (if IsRegularMode (hdrMode t)
      then RemoveSuffix (tName t) (Compression (opPipes op)) (Encryption (opPipes op)) else Ok (tName t))"

lemma putRecord_simps [simp]:
  "paxGet (tPAXRecords (putRecord k v t)) k' = (if k' = k then Some v else paxGet (tPAXRecords t) k')"
  "tName (putRecord k v t) = tName t" "tLinkname (putRecord k v t) = tLinkname t"
  "hdrMode (putRecord k v t) = hdrMode t"
  by (simp_all add: putRecord_def paxGet_def paxOrEmpty_def hdrMode_def split: option.split)

lemma indexedHeader_name:
  assumes "indexedHeader t (Compression (opPipes op)) (Encryption (opPipes op)) = Ok h"
  shows "indexedName op t = Ok (tName h)" "tPAXRecords h = tPAXRecords t"
proof -
  have mode: "hdrMode (t\<lparr>tSize := sz\<rparr>) = hdrMode t" for sz by (simp add: hdrMode_def)
  obtain h1 where h1: "h1 = t \<or> (\<exists>sz. h1 = t\<lparr>tSize := sz\<rparr>)"
    and h: "(if IsRegularMode (hdrMode h1)
        then rbind (RemoveSuffix (tName h1) (Compression (opPipes op)) (Encryption (opPipes op)))
               (\<lambda>n. Ok (h1\<lparr>tName := n\<rparr>)) else Ok h1) = Ok h"
    using assms unfolding indexedHeader_def rbind_Ok_iff by (auto split: option.splits simp: rbind_Ok_iff)
  then have h1: "tName h1 = tName t" "hdrMode h1 = hdrMode t" "tPAXRecords h1 = tPAXRecords t"
    by (auto simp: mode)
  show "indexedName op t = Ok (tName h)" "tPAXRecords h = tPAXRecords t"
    using h h1 by (auto simp: indexedName_def rbind_Ok_iff split: if_splits)
qed

lemma indexHeader_delete:
  assumes "indexHeader sqliteMetadata rec blk (deleteRecord t) (Compression (opPipes op)) (Encryption (opPipes op))
      False (Some g) (p, ev) = (Ok (), (p', ev'))"
  shows "\<exists>n h. indexedName op t = Ok n \<and> DeleteHeader n rec blk p = (Ok h, p')"
proof -
  obtain h ev1 where h: "indexedHeader (deleteRecord t) (Compression (opPipes op)) (Encryption (opPipes op)) = Ok h"
    "onMeta (indexAction sqliteMetadata rec blk h False) (p, ev1) = (Ok (), (p', ev'))"
    using assms by (auto simp: indexHeader_def andThen_Ok_iff on_Ok_iff)
  note name = indexedHeader_name [OF h(1)]
  have "indexedName op (deleteRecord t) = indexedName op t"
    by (simp add: indexedName_def deleteRecord_def)
  moreover have "indexAction sqliteMetadata rec blk h False p =
      andThen (DeleteHeader (tName h) rec blk p) (\<lambda>_ p. (Ok (), p))"
    by (simp add: indexAction_def name(2) deleteRecord_def stfs_records sqliteMetadata_def)
  ultimately show ?thesis
    using h(2) name(1) [symmetric] by (auto simp: on_Ok_iff andThen_Ok_iff intro!: exI [of _ "tName h"])
qed

lemma Delete_marks:
  assumes "atLastEntry sqliteMetadata op T s" "Delete x tapeBackend sqliteMetadata op name s = (Ok (), s')"
    and "fst (GetHeader (ToSlash name) (osMetadata s)) = Ok hdr" "Typeflag hdr \<noteq> uint TypeDir"
  shows "\<exists>t e n row. recordHeader (\<lambda>_. deleteRecord) hdr = Ok t \<and> entryOf x op t e
    \<and> dfMedium (tmDrive (osBackend s')) = Some (tapeBlocks (T @ [[e]])) \<and> indexedName op t = Ok n
    \<and> DeleteHeader n (fst (locate (RecordSize (opPipes op)) (length (tapeBlocks T))))
        (snd (locate (RecordSize (opPipes op)) (length (tapeBlocks T))))
        (snd (GetHeader (ToSlash name) (osMetadata s))) = (Ok row, osMetadata s')"
proof -
  obtain ess es e p rec blk where T: "T = ess @ [es @ [e]]"
    and at: "tmIdle (osBackend s)" "tmStarts (osBackend s) = tapeBlocks (ess @ [es @ [e]])"
      "tapeWf (ess @ [es @ [e]])" "0 < RecordSize (opPipes op)"
      "(rec, blk) = locate (RecordSize (opPipes op)) (length (tapeBlocks ess @ entriesBlocks es))"
    and l: "mpGetLastIndexedRecordAndBlock sqliteMetadata (int (RecordSize (opPipes op))) (osMetadata s) = (Ok (rec, blk), p)"
    using assms(1) by (rule atLastEntry_cases)
  have p: "p = osMetadata s"
    using l by (auto simp: sqliteMetadata_def GetLastIndexedRecordAndBlock_def split: option.splits)
  obtain p1 where g: "GetHeader (ToSlash name) (osMetadata s) = (Ok hdr, p1)" using assms(3) by (metis fst_conv surj_pair)
  let ?s1 = "s\<lparr>osBackend := snd (GetWriter (osBackend s)), osMetadata := p1\<rparr>"
  have lookup: "lookupNameOrLink sqliteMetadata (ToSlash name) (s\<lparr>osBackend := snd (GetWriter (osBackend s)), osMetadata := p\<rparr>)
      = (Ok hdr, ?s1)"
    using g by (simp add: lookupNameOrLink_def onMetadata_def sqliteMetadata_def p)
  obtain hdrs s2 where w: "writeSession tapeBackend (forHeaders (\<lambda>h. appendRecord x op HeaderEventTypeDelete deleteRecord h) [hdr]) ?s1 = (Ok hdrs, s2)"
    "indexAppended tapeBackend sqliteMetadata op HeaderEventTypeDelete hdrs rec blk False False s2 = (Ok (), s')"
    using assms(2,4) lookup
    by (auto simp: Delete_def Let_def GetWriter_session [OF at(1)] onMetadata_def l andThen_Ok_iff)
  obtain t where t: "recordHeader (\<lambda>_. deleteRecord) hdr = Ok t" "hdrs = [t]"
    using recordSession_hdrs [where edit = "\<lambda>_. deleteRecord", OF w(1)] by (auto simp: list_all2_Cons1)
  have "appendsAndIndexes x sqliteMetadata op HeaderEventTypeDelete False (ess @ [es @ [e]]) hdrs p1 s'"
    by (rule operation_appends [OF at _ _ w]) (simp_all add: records_keep)
  then obtain new ev where new: "list_all2 (entryOf x op) [t] new"
    "dfMedium (tmDrive (osBackend s')) = Some (tapeBlocks (T @ appended new))"
    "applyHeaders sqliteMetadata op HeaderEventTypeDelete False (length (tapeBlocks T)) new [t] (p1, ev)
       = (Ok (), (osMetadata s', osEvents s'))"
    unfolding T t(2) by (auto simp: appendsAndIndexes_def)
  then obtain e' where e': "new = [e']" "entryOf x op t e'" by (auto simp: list_all2_Cons1)
  obtain u where u: "t = deleteRecord u" using t(1) by (auto simp: recordHeader_def rbind_Ok_iff)
  let ?loc = "locate (RecordSize (opPipes op)) (length (tapeBlocks T))"
  have "indexHeader sqliteMetadata (fst ?loc) (snd ?loc) (deleteRecord u) (Compression (opPipes op))
      (Encryption (opPipes op)) False (Some (notifyIndexed op HeaderEventTypeDelete)) (p1, ev)
    = (Ok (), (osMetadata s', osEvents s'))"
    using new(3) by (cases e') (auto simp: applyHeaders_def e'(1) u andThen_Ok_iff)
  then obtain n row where n: "indexedName op u = Ok n" "DeleteHeader n (fst ?loc) (snd ?loc) p1 = (Ok row, osMetadata s')"
    by (elim indexHeader_delete [elim_format] exE conjE) (rule that)
  have "indexedName op t = Ok n" using n(1) by (simp add: u indexedName_def deleteRecord_def split: if_splits)
  moreover have "snd (GetHeader (ToSlash name) (osMetadata s)) = p1" using g by simp
  ultimately show ?thesis
    using t(1) e' new(2) n(2)
    by (intro exI [of _ t] exI [of _ e'] exI [of _ n] exI [of _ row]) (simp add: appended_def)
qed

text \<open>
  C18: deleting a file: when the drive is idle and the index knows its last entry, a successful \<open>Delete\<close> of
  a name that is no directory appends one archive with one entry, the header of the name marked
  as a deletion, and marks one row as deleted, at the place of that entry. It is the row under the name
  without the suffixes of the pipes, which is another file's when the name itself ends in one.
\<close>

theorem delete_file:
  assumes "atLastEntry sqliteMetadata op T s" "Delete x tapeBackend sqliteMetadata op name s = (Ok (), s')"
    and "fst (GetHeader (ToSlash name) (osMetadata s)) = Ok hdr" "Typeflag hdr \<noteq> uint TypeDir"
  shows "\<exists>t e n row. recordHeader (\<lambda>_. deleteRecord) hdr = Ok t \<and> entryOf x op t e
    \<and> dfMedium (tmDrive (osBackend s')) = Some (tapeBlocks (T @ [[e]])) \<and> indexedName op t = Ok n
    \<and> DeleteHeader n (fst (locate (RecordSize (opPipes op)) (length (tapeBlocks T))))
        (snd (locate (RecordSize (opPipes op)) (length (tapeBlocks T))))
        (snd (GetHeader (ToSlash name) (osMetadata s))) = (Ok row, osMetadata s')"
  using assms by (rule Delete_marks)

section \<open>An example\<close>

definition exampleFileHdr :: tar_header where
  "exampleFileHdr = (exampleDir ''/a'')\<lparr>tTypeflag := TypeReg\<rparr>"

definition exampleFileRow :: header where
  "exampleFileRow = TarHeaderToDBHeader 0 0 0 0 exampleFileHdr"

definition exampleDeleted :: tar_header where
  "exampleDeleted = deleteRecord (exampleFileHdr\<lparr>tPAXRecords := Some []\<rparr>)"

lemma exampleFileRow_simps [simp]:
  "Name exampleFileRow = ''/a''" "Linkname exampleFileRow = []" "Deleted exampleFileRow = 0"
  "Typeflag exampleFileRow = uint TypeReg" "Lastknownrecord exampleFileRow = 0" "Lastknownblock exampleFileRow = 0"
  by (simp_all add: exampleFileRow_def exampleFileHdr_def)

lemma exampleFileRow_get:
  "GetHeader ''/a'' (exampleIndex [exampleFileRow]) = (Ok exampleFileRow, exampleIndex [exampleFileRow])"
  by (simp add: GetHeader_def getSanitizedPath_abs_root selectByName_def)

lemma exampleFileRow_header:
  "DBHeaderToTarHeader exampleFileRow = Ok (exampleFileHdr\<lparr>tPAXRecords := Some []\<rparr>)"
  by (simp add: exampleFileRow_def DBHeaderToTarHeader_TarHeaderToDBHeader tarWf_def paxOrEmpty_def
      exampleFileHdr_def)

lemma exampleDeleted_simps [simp]: "payload exampleDeleted = 0" "tName exampleDeleted = ''/a''"
  by (simp_all add: exampleDeleted_def deleteRecord_def putRecord_def exampleFileHdr_def payload_def
      exampleDir_def zero_tar_header_def)

lemma exampleDeleted_session:
  "writeSession tapeBackend (forHeaders (appendRecord exampleExternal exampleOperations HeaderEventTypeDelete deleteRecord)
      [exampleFileRow]) s
   = (Ok [exampleDeleted], s\<lparr>osBackend := appendBlocks (tapeBlocks [[(exampleDeleted, 0, [])]]) (osBackend s)\<rparr>)"
proof -
  have "exampleFileHdr\<lparr>tPAXRecords := Some [], tSize := 0\<rparr> = exampleFileHdr\<lparr>tPAXRecords := Some []\<rparr>"
    by (simp add: exampleFileHdr_def exampleDir_def zero_tar_header_def)
  then show ?thesis
    by (simp add: writeSession_def appendRecord_def exampleFileRow_header Let_def announce_example
        writeHeader_example cleanupTape_def onTar_def twClose_def tapeBackend_def flip: exampleDeleted_def)
qed

lemma exampleDeleted_index:
  assumes "selectByName rs ''/a'' = Some exampleFileRow"
  shows "\<exists>p'. Index (tapeBlocks [[exampleRoot], [(exampleDeleted, 0, [])]]) sqliteMetadata examplePipes 0 0
      False False 1 (pairedHeader [exampleDeleted]) (\<lambda>hdr _. Ok hdr)
      (Some (notifyIndexed exampleOperations ty)) (exampleIndex rs, ()) = (Ok (), (p', ()))"
proof -
  have pax: "paxGet (tPAXRecords exampleDeleted) STFSRecordUncompressedSize = None"
    "paxGet (tPAXRecords exampleDeleted) STFSRecordVersion = Some STFSRecordVersion1"
    "paxGet (tPAXRecords exampleDeleted) STFSRecordAction = Some STFSRecordActionDelete"
    by (simp_all add: exampleDeleted_def deleteRecord_def paxGet_def putRecord_def paxOrEmpty_def stfs_records)
  have "exampleDeleted\<lparr>tName := ''/a''\<rparr> = exampleDeleted"
    by (simp add: exampleDeleted_def deleteRecord_def putRecord_def exampleFileHdr_def exampleDir_def zero_tar_header_def)
  then have h: "indexedHeader exampleDeleted [] [] = Ok exampleDeleted"
    by (simp add: indexedHeader_def pax RemoveSuffix_def compression_keys crypto_keys TrimSuffix_def)
  have n: "STFSRecordActionDelete \<noteq> STFSRecordActionCreate" by (simp add: stfs_records)
  have "\<exists>p'. indexHeader sqliteMetadata r b exampleDeleted [] [] False
      (Some (notifyIndexed exampleOperations ty)) (exampleIndex rs, ()) = (Ok (), (p', ()))" for r b
    by (simp add: indexHeader_def h onEvents_def onMeta_def notifyIndexed_def notify_def indexAction_def pax n
        sqliteMetadata_def DeleteHeader_def getSanitizedPath_abs_root assms Let_def)
  then obtain q where u: "\<And>r b. indexHeader sqliteMetadata r b exampleDeleted [] [] False
      (Some (notifyIndexed exampleOperations ty)) (exampleIndex rs, ()) = (Ok (), (q r b, ()))" by metis
  have l: "(0, 0) = locate (RecordSize examplePipes) (length (tapeBlocks [] @ entriesBlocks []))"
    by (simp add: locate_0)
  have "tapeWf ([] @ [[] @ [exampleRoot]])" "tapeWf [[(exampleDeleted, 0, [])]]"
    by (simp_all add: tapeWf_def entryWf_def exampleRoot_def)
  from Index_after_last [OF _ this l, of sqliteMetadata False "pairedHeader [exampleDeleted]" "\<lambda>hdr _. Ok hdr"
      "Some (notifyIndexed exampleOperations ty)" "(exampleIndex rs, ())"]
  show ?thesis by (simp add: indexEntry_paired u del: tapeBlocks.simps)
qed

lemma exampleFileRow_last:
  "mpGetLastIndexedRecordAndBlock sqliteMetadata 20 (exampleIndex [exampleFileRow]) = (Ok (0, 0), exampleIndex [exampleFileRow])"
  by (simp add: sqliteMetadata_def GetLastIndexedRecordAndBlock_def)

lemma exampleFileRow_at: "atLastEntry sqliteMetadata exampleOperations [[exampleRoot]] (exampleState [exampleFileRow])"
  using exampleFileRow_last by (simp add: atLastEntry_def tapeWf_def entryWf_def exampleRoot_def locate_0)

lemma example_deletes:
  assumes "selectByName rs ''/a'' = Some exampleFileRow"
    and "mpGetLastIndexedRecordAndBlock sqliteMetadata 20 (exampleIndex rs) = (Ok (0, 0), exampleIndex rs)"
  obtains s' where "Delete exampleExternal tapeBackend sqliteMetadata exampleOperations ''/a'' (exampleState rs) = (Ok (), s')"
proof -
  have "tapeBlocks [[exampleRoot], [(exampleDeleted, 0, [])]] = tapeBlocks [[exampleRoot]] @ tapeBlocks [[(exampleDeleted, 0, [])]]"
    by simp
  moreover have "mpGetHeader sqliteMetadata ''/a'' (exampleIndex rs) = (Ok exampleFileRow, exampleIndex rs)"
    using assms(1) by (simp add: sqliteMetadata_def GetHeader_def getSanitizedPath_abs_root)
  ultimately show ?thesis
    using that exampleDeleted_index [OF assms(1), of HeaderEventTypeDelete]
    by (auto simp: Delete_def ToSlash_def GetWriter_session onMetadata_def assms(2) lookupNameOrLink_def
        exampleDeleted_session GetWriter_idle type_defs
        indexAppended_def onBackend_def manager_defs deferCloseReader_def indexDrive_def
        exampleDrive_def NewTapeManager_def del: tapeBlocks.simps)
qed

lemma exampleDelete:
  "Delete exampleExternal tapeBackend sqliteMetadata exampleOperations ''/a'' (exampleState [exampleFileRow])
     = (Ok (), snd (Delete exampleExternal tapeBackend sqliteMetadata exampleOperations ''/a'' (exampleState [exampleFileRow])))"
  by (rule example_deletes [of "[exampleFileRow]"]) (simp_all add: selectByName_def exampleFileRow_last)

theorem delete_file_witness:
  "\<exists>e row. dfMedium (tmDrive (osBackend (snd (Delete exampleExternal tapeBackend sqliteMetadata exampleOperations ''/a''
       (exampleState [exampleFileRow]))))) = Some (tapeBlocks [[exampleRoot], [e]])
     \<and> DeleteHeader ''/a'' 0 3 (exampleIndex [exampleFileRow]) = (Ok row, osMetadata (snd (Delete exampleExternal tapeBackend sqliteMetadata exampleOperations ''/a''
       (exampleState [exampleFileRow]))))"
proof -
  have "fst (GetHeader (ToSlash ''/a'') (osMetadata (exampleState [exampleFileRow]))) = Ok exampleFileRow"
    using exampleFileRow_get by (simp add: ToSlash_def)
  moreover have "Typeflag exampleFileRow \<noteq> uint TypeDir" by (simp add: type_defs)
  ultimately obtain t e n row where new: "recordHeader (\<lambda>_. deleteRecord) exampleFileRow = Ok t"
    "indexedName exampleOperations t = Ok n"
    "dfMedium (tmDrive (osBackend (snd (Delete exampleExternal tapeBackend sqliteMetadata exampleOperations ''/a''
       (exampleState [exampleFileRow]))))) = Some (tapeBlocks ([[exampleRoot]] @ [[e]]))"
    "DeleteHeader n (fst (locate (RecordSize (opPipes exampleOperations)) (length (tapeBlocks [[exampleRoot]]))))
        (snd (locate (RecordSize (opPipes exampleOperations)) (length (tapeBlocks [[exampleRoot]]))))
        (snd (GetHeader (ToSlash ''/a'') (osMetadata (exampleState [exampleFileRow]))))
       = (Ok row, osMetadata (snd (Delete exampleExternal tapeBackend sqliteMetadata exampleOperations ''/a''
       (exampleState [exampleFileRow]))))"
    using delete_file [OF exampleFileRow_at exampleDelete] by blast
  have "tName t = ''/a''"
    using new(1) by (auto simp: recordHeader_def rbind_Ok_iff exampleFileRow_header deleteRecord_def exampleFileHdr_def)
  then have n: "n = ''/a''"
    using new(2) by (auto simp: indexedName_def RemoveSuffix_def compression_keys crypto_keys TrimSuffix_def
        split: if_splits)
  have l: "locate (RecordSize (opPipes exampleOperations)) (length (tapeBlocks [[exampleRoot]])) = (0, 3)"
    by (simp add: locate_def exampleRoot_def blocksOf_def MagneticTapeBlockSize_def)
  show ?thesis
    using new(3,4) exampleFileRow_get unfolding n l
    by (intro exI [of _ e] exI [of _ row]) (simp add: ToSlash_def del: tapeBlocks.simps)
qed

end
