(* ===== verification/FileSystemSafety.thy ===== *)
theory FileSystemSafety
  imports FileInvariant
begin

text \<open>
  Whole sessions of a client of the file system: any sequence of calls of its methods and of the
  methods of the files it opened, however they end. The methods keep of the backend what reading
  keeps, and what writing keeps unless the file system is read-only; so the drive is only ever
  appended to, and a read-only file system never changes it.
\<close>

section \<open>The methods of a file\<close>

abbreviation fileKept ::
  "('b \<Rightarrow> bool) \<Rightarrow> ('w stfs_file \<times> ('b, 'p, 'e) ops_state \<Rightarrow> 'a \<times> ('w stfs_file \<times> ('b, 'p, 'e) ops_state)) \<Rightarrow> bool" where
  "fileKept B f \<equiv> envKeeps (\<lambda>st. B (osBackend (snd st))) f"

lemma onOps_kept: "backendKept B g \<Longrightarrow> fileKept B (onOps g)"
  by (simp add: envKeeps_def onOps_def case_prod_beta)

lemma onOps_kept_file: "(\<And>fl. backendKept B (g fl)) \<Longrightarrow> fileKept B (\<lambda>st. onOps (g (fst st)) st)"
  by (simp add: envKeeps_def onOps_def case_prod_beta)

lemma file_apart: "fileKept B (onFile g)" "fileKept B (onEnv h)"
  by (simp_all add: envKeeps_def onFile_def onEnv_def onOps_def case_prod_beta)

lemma alongside_kept:
  assumes "backendKept B g" "B (osBackend s)"
  shows "B (osBackend (snd (snd (alongside d g s))))"
  using envKeepsD [OF assms(1), of "withEvents (d, osEvents s) s"] assms(2)
  by (simp add: alongside_def withEvents_def case_prod_beta)

lemma alongside_file:
  assumes "\<And>fl. backendKept B (g fl)"
  shows "fileKept B (\<lambda>st. alongside (d (fst st)) (g (fst st)) (snd st))"
  using alongside_kept [OF assms] by (subst envKeeps_def) blast

lemma envKeeps_state:
  "envKeeps P (\<lambda>s. k (fst s) (snd s)) \<Longrightarrow> envKeeps P (\<lambda>(a, b). k a b)"
  by (simp add: case_prod_unfold)

lemma file_apart_simps:
  "osBackend (snd (snd (onFile g st))) = osBackend (snd st)" "osBackend (snd (snd (onEnv h st))) = osBackend (snd st)"
  by (simp_all add: onFile_def onEnv_def onOps_def case_prod_beta)

lemma onEventsOf_kept: "backendKept B (onEventsOf onHeader hdr)"
  by (simp add: envKeeps_def onEventsOf_def case_prod_beta split: option.split)

lemma withSlash_kept: "backendKept B (withSlash query name)"
  unfolding withSlash_def by (intro keeps_intros onMetadata_kept)

lemma fsStat_kept: "backendKept B (fsStat f name symlink)"
  unfolding fsStat_def StatEntry_def Let_def
  by (intro keeps_intros withSlash_kept onEventsOf_kept)

lemma collectHeaders_kept: "backendKept B (collectHeaders onHeader hdrs)"
proof (induction hdrs)
  case (Cons h hs)
  then show ?case unfolding collectHeaders.simps by (intro keeps_intros onEventsOf_kept)
qed (simp add: envKeeps_def)

lemma ListEntries_kept: "backendKept B (ListEntries mp name limit onHeader)"
  unfolding ListEntries_def by (intro keeps_intros collectHeaders_kept onMetadata_kept)

lemmas looking_kept = fsStat_kept ListEntries_kept onMetadata_kept

lemma fileExists_kept: "fileKept B (fileExists f)"
  unfolding fileExists_def by (intro keeps_intros onOps_kept_file looking_kept)

lemma FileStat_kept: "fileKept B (FileStat bufs)"
  unfolding FileStat_def Let_def
  by (intro keeps_intros envKeeps_choice file_apart) (simp_all add: envKeeps_def)

lemma FileReaddir_kept: "fileKept B (FileReaddir f n)" "fileKept B (FileReaddirnames f n)"
proof -
  show dir: "fileKept B (FileReaddir f n)"
    unfolding FileReaddir_def by (intro keeps_intros envKeeps_choice onOps_kept_file looking_kept)
  show "fileKept B (FileReaddirnames f n)"
    unfolding FileReaddirnames_def by (intro keeps_intros envKeeps_choice dir)
qed

context reading_kept
begin

lemma deferred: "B (osBackend s) \<Longrightarrow> B (osBackend (snd (deferCloseReader bc (r, s))))"
  by (rule deferCloseReader_done [OF reader_kept(2)])

lemma finishReader_kept:
  shows "envKeeps (\<lambda>s :: ('b, 'p, 'e) ops_state. B (osBackend s)) (finishReader bc done)"
proof -
  have "B (osBackend (snd (finishReader bc done s)))" if "B (osBackend s)" for s :: "('b, 'p, 'e) ops_state"
    using that by (auto simp: finishReader_def intro: deferred split: res.split)
  then show ?thesis by (simp add: envKeeps_def)
qed

lemma finish_file:
  "B (osBackend (snd st)) \<Longrightarrow> B (osBackend (snd (snd (onOps (finishReader bc done) st))))"
  by (rule envKeepsD [OF onOps_kept [OF finishReader_kept]])

lemma closePipe_kept: "fsBackend f = bc \<Longrightarrow> fileKept B (closePipe f)"
  by (simp add: envKeeps_def closePipe_def finish_file del: split_paired_All split: option.split)

lemma startReader_kept:
  assumes "fsBackend f = bc"
  shows "fileKept B (startReader x f)"
proof -
  let ?bc = "bc\<lparr>bcCloseReader := \<lambda>b. (Ok (), b)\<rparr>"
  have "reading_kept ?bc B" using reader_kept by unfold_locales (simp_all add: envKeeps_def)
  note restored = alongside_kept [OF reading_kept.Restore_kept [OF this]]
  show ?thesis
    by (simp add: envKeeps_def startReader_def Let_def case_prod_beta assms restored finish_file del: split_paired_All)
qed

lemma copyN_kept:
  assumes "fsBackend f = bc"
  shows "envKeeps (\<lambda>st :: ('w, 'b, 'p, 'e) file_state. B (osBackend (snd st))) (copyN f n)"
proof -
  have "B (osBackend (snd (snd (copyN f n st))))" if "B (osBackend (snd st))" for st :: "('w, 'b, 'p, 'e) file_state"
    using that
    by (cases "flReader (fst st)")
      (auto simp: copyN_def Let_def assms finish_file intro!: andThen_post [where P = "\<lambda>st. B (osBackend (snd st))"])
  then show ?thesis by (simp add: envKeeps_def del: split_paired_All)
qed

lemma FileRead_kept: "fsBackend f = bc \<Longrightarrow> fileKept B (FileRead x f bufs n)"
  unfolding FileRead_def
  by (intro envKeeps_choice keeps_intros startReader_kept copyN_kept file_apart)

lemma seek_kept:
  assumes "fsBackend f = bc" "B (osBackend (snd st))"
    and "flWriteBuf (fst st) = None \<Longrightarrow> B (osBackend (snd (snd (closeWithoutLocking x f bufs st))))"
  shows "B (osBackend (snd (snd (seekWithoutLocking x f bufs offset whence st))))"
proof -
  let ?I = "\<lambda>st. B (osBackend (snd st))"
  have I: "?I (snd (startReader x f st))" "?I (snd (copyN f k st))" "?I (snd (onFile (onBuf g) st))" if "?I st" for st k g
    using that assms(1) by (auto intro: startReader_kept [THEN envKeepsD] copyN_kept [THEN envKeepsD]
        file_apart [THEN envKeepsD])
  have closed: "?I (snd (orElse (closeWithoutLocking x f bufs st) (\<lambda>_ st. (Ok (), st))))" if "flWriteBuf (fst st) = None"
    using assms(3) [OF that] by (intro orElse_post [where P = ?I]) simp_all
  show ?thesis
    using assms(2) closed
    by (auto simp: seekWithoutLocking_def Let_def case_prod_beta intro!: I andThen_post [where P = ?I])
qed

text \<open>Without a buffer, closing a file only ends what it reads.\<close>

lemma close_reading_kept:
  assumes "fsBackend f = bc" "flWriteBuf (fst st) = None" "B (osBackend (snd st))"
  shows "B (osBackend (snd (snd (closeWithoutLocking x f bufs st))))"
  using envKeepsD [OF closePipe_kept [OF assms(1)] assms(3)] assms(2)
  unfolding closeWithoutLocking_def
  by (intro andThen_post [where P = "\<lambda>st. B (osBackend (snd st)) \<and> flWriteBuf (fst st) = None", THEN conjunct1])
    (auto simp: case_prod_beta)

lemma sync_reading_kept:
  "flWriteBuf (fst st) = None \<Longrightarrow> snd (syncWithoutLocking x f bufs st) = st"
  by (simp add: syncWithoutLocking_def)

lemma whenWritable_refuses: "\<not> flagWrite (flFlags (fst st)) \<Longrightarrow> snd (whenWritable g st) = st"
  by (simp add: whenWritable_def)

lemma reading_file_kept:
  assumes "fsBackend f = bc" "flWriteBuf (fst st) = None" "\<not> flagWrite (flFlags (fst st))" "B (osBackend (snd st))"
  shows "B (osBackend (snd (fileCall x f bufs c st)))"
proof (cases c)
  case (CallReadAt n off)
  have "B (osBackend (snd (snd (FileSeek x f bufs off SeekStart st))))"
    unfolding FileSeek_def using assms(4) close_reading_kept [OF assms(1,2,4)] by (intro seek_kept assms(1))
  then show ?thesis
    using assms(4) envKeepsD [OF FileRead_kept [OF assms(1)]]
    by (auto simp: CallReadAt FileReadAt_def intro!: andThen_post [where P = "\<lambda>st. B (osBackend (snd st))"])
qed (use assms close_reading_kept [OF assms(1,2,4)] in \<open>auto simp: FileWrite_def FileWriteString_def FileWriteAt_def
    FileTruncate_def FileSeek_def FileSync_def FileClose_def whenWritable_refuses sync_reading_kept
    intro: seek_kept FileRead_kept [THEN envKeepsD] FileStat_kept [THEN envKeepsD] FileReaddir_kept [THEN envKeepsD]\<close>)

end

context writing_kept
begin

lemma sync_kept:
  assumes "fsBackend f = bc"
  shows "fileKept B (syncWithoutLocking x f bufs)"
  unfolding syncWithoutLocking_def assms
  by (intro envKeeps_choice keeps_intros alongside_file operations_kept)

lemma close_kept:
  assumes "fsBackend f = bc"
  shows "fileKept B (closeWithoutLocking x f bufs)"
proof -
  have clean: "fileKept B (cleanWriteBuf bufs)"
    by (simp add: envKeeps_def cleanWriteBuf_def file_apart_simps split: option.split)
  show ?thesis
    unfolding closeWithoutLocking_def
    by (intro keeps_intros envKeeps_choice closePipe_kept sync_kept clean assms) (simp add: envKeeps_def)
qed

lemma enterWriteMode_kept:
  assumes "fsBackend f = bc"
  shows "fileKept B (enterWriteMode x f bufs)"
  unfolding enterWriteMode_def assms Let_def
  by (intro envKeeps_andThen envKeeps_choice envKeeps_state envKeeps_if envKeeps_const close_kept fileExists_kept
      alongside_file Restore_kept file_apart assms)
    (simp_all add: envKeeps_def alongside_kept [OF Restore_kept])

lemma writable_kept:
  assumes "fsBackend f = bc" "\<And>u. fileKept B (k u)"
  shows "fileKept B (whenWritable (\<lambda>st. andThen (enterWriteMode x f bufs st) k))"
  unfolding whenWritable_def by (intro envKeeps_choice keeps_intros enterWriteMode_kept assms)

lemma seek_writing_kept: "fsBackend f = bc \<Longrightarrow> fileKept B (seekWithoutLocking x f bufs offset whence)"
  by (subst envKeeps_def) (intro allI impI seek_kept close_kept [THEN envKeepsD])

lemma file_kept:
  assumes "fsBackend f = bc" "B (osBackend (snd st))"
  shows "B (osBackend (snd (fileCall x f bufs c st)))"
proof -
  have "fileKept B (FileReadAt x f bufs n off)" for n off
    unfolding FileReadAt_def FileSeek_def
    by (intro envKeeps_choice keeps_intros seek_writing_kept FileRead_kept assms(1))
  moreover have "fileKept B (FileWriteAt x f bufs p off)" "fileKept B (FileWrite x f bufs p)"
    "fileKept B (FileWriteString x f bufs p)" "fileKept B (FileTruncate x f bufs off)" for p off
    unfolding FileWriteAt_def FileWrite_def FileWriteString_def FileTruncate_def
    by (intro writable_kept keeps_intros seek_writing_kept file_apart assms(1))+
  ultimately show ?thesis
    using assms
    by (cases c) (auto simp: FileSeek_def FileSync_def FileClose_def
      intro: seek_writing_kept [THEN envKeepsD] FileRead_kept [THEN envKeepsD] FileStat_kept [THEN envKeepsD]
        FileReaddir_kept [THEN envKeepsD] sync_kept [THEN envKeepsD] close_kept [THEN envKeepsD] envKeepsD)
qed

end

section \<open>The methods of the file system\<close>

lemma statOrLink_kept:
  "backendKept B (statOrLink f name)" "backendKept B (parentExists f name)" "backendKept B (statTarget f name)"
  "backendKept B (resolveCleanName f name alias)" "backendKept B (lstatIfPossibleWithoutLocking f name)"
  unfolding statOrLink_def parentExists_def notExist_def statTarget_def resolveCleanName_def
    lstatIfPossibleWithoutLocking_def
  by (intro keeps_intros looking_kept)+

lemmas finding_kept = looking_kept statOrLink_kept

lemma looking_methods_kept:
  "backendKept B (StatFile f name)" "backendKept B (LstatIfPossible f name)" "backendKept B (ReadlinkIfPossible f name)"
  unfolding StatFile_def LstatIfPossible_def ReadlinkIfPossible_def
  by (intro keeps_intros finding_kept)+

lemma mkdirParts_kept:
  assumes "\<And>n. backendKept B (mknodeWithoutLocking x f True n perm False [] False)"
  shows "backendKept B (mkdirParts x f perm current parts)"
proof (induction parts arbitrary: current)
  case (Cons part parts)
  then show ?case unfolding mkdirParts.simps Let_def by (intro keeps_intros finding_kept assms envKeeps_choice)
qed (simp add: envKeeps_def)

text \<open>Where creating an entry keeps \<open>B\<close>, the methods that read and create keep it.\<close>

lemma creating_kept:
  assumes "\<And>d n p ow l i. backendKept B (mknodeWithoutLocking x f d n p ow l i)"
  shows "backendKept B (Mkdir x f name perm)" "backendKept B (MkdirAll x f name perm)"
    "backendKept B (SymlinkIfPossible x f name name')"
    "backendKept B (createFile x f name flag perm)" "backendKept B (openEntry x f name flag perm)"
proof -
  show "backendKept B (Mkdir x f name perm)" "backendKept B (MkdirAll x f name perm)"
    "backendKept B (SymlinkIfPossible x f name name')"
    unfolding Mkdir_def MkdirAll_def SymlinkIfPossible_def Let_def
    by (intro keeps_intros finding_kept mkdirParts_kept assms)+
  show create: "backendKept B (createFile x f name flag perm)" for name
    unfolding createFile_def notExist_def by (intro keeps_intros finding_kept assms envKeeps_choice)
  show "backendKept B (openEntry x f name flag perm)"
    unfolding openEntry_def openTarget_def by (intro keeps_intros finding_kept create envKeeps_choice)
qed

lemma opening_kept:
  assumes "\<And>d n p ow l i. backendKept B (mknodeWithoutLocking x f d n p ow l i)"
  shows "backendKept B (OpenFile x f name flag perm)" "backendKept B (Create x f name)"
proof -
  show "backendKept B (OpenFile x f name flag perm)" for name flag perm
    unfolding OpenFile_def Let_def by (intro keeps_intros creating_kept assms)
  then show "backendKept B (Create x f name)"
    unfolding Create_def Let_def by (intro keeps_intros finding_kept)
qed

context reading_kept
begin

lemma initializing_kept:
  assumes "fsBackend f = bc" "\<And>d n p ow l i. backendKept B (mknodeWithoutLocking x f d n p ow l i)"
  shows "backendKept B (InitializeFS x f name perm)"
proof -
  have index: "backendKept B (indexAll x f)"
    by (simp add: envKeeps_def indexAll_def Let_def case_prod_beta split: option.split)
  have root: "backendKept B (mkdirRoot x f name perm)"
    unfolding mkdirRoot_def assms(1) by (intro keeps_intros reader_calls_kept assms(2) onMetadata_kept)
  show ?thesis
    unfolding InitializeFS_def assms(1) by (intro keeps_intros reader_calls_kept onMetadata_kept index root)
qed

end

context writing_kept
begin

lemma mknode_kept: "fsBackend f = bc \<Longrightarrow> backendKept B (mknodeWithoutLocking x f d n p ow l i)"
  unfolding mknodeWithoutLocking_def Let_def by (intro keeps_intros) (simp_all add: operations_kept)

lemma removing_kept:
  assumes "fsBackend f = bc"
  shows "backendKept B (Remove x f name)" "backendKept B (RemoveAll x f name)" "backendKept B (Rename x f name name')"
proof -
  have remove: "backendKept B (removeWithoutLocking x f name)" for name
    unfolding removeWithoutLocking_def assms by (intro keeps_intros finding_kept operations_kept)
  show "backendKept B (Remove x f name)" "backendKept B (RemoveAll x f name)" "backendKept B (Rename x f name name')"
    unfolding Remove_def RemoveAll_def Rename_def Let_def assms
    by (intro keeps_intros finding_kept operations_kept remove)+
qed

lemma changing_kept:
  assumes "fsBackend f = bc"
  shows "backendKept B (changeMetadata x f change name)"
  unfolding changeMetadata_def updateMetadata_def assms by (intro keeps_intros finding_kept operations_kept)

end

section \<open>Sessions\<close>

text \<open>
  The calls of a client, on the file system or on one of the files it opened. What a call returns,
  except for the files, does not matter here.
\<close>

datatype client_call =
    CallOpenFile string open_flag filemode
  | CallCreate string
  | CallOnFile nat file_call
  | CallMkdir string filemode
  | CallMkdirAll string filemode
  | CallRemove string
  | CallRemoveAll string
  | CallRename string string
  | CallStatFile string
  | CallChmod string filemode
  | CallChown string int int
  | CallChtimes string gotime gotime
  | CallSymlink string string
  | CallLstat string
  | CallReadlink string
  | CallInitialize string filemode

type_synonym ('w, 'b, 'p, 'e) session = "'w stfs_file list \<times> ('b, 'p, 'e) ops_state"

definition addFile :: "'w stfs_file list \<Rightarrow> 'w stfs_file res \<times> 's \<Rightarrow> 'w stfs_file list \<times> 's" where
  "addFile fls p = (case p of (Ok fl, s) \<Rightarrow> (fls @ [fl], s) | (_, s) \<Rightarrow> (fls, s))"

fun clientCall ::
  "external \<Rightarrow> ('b, 'p, 'e) stfs \<Rightarrow> ('w, 'e) buffers \<Rightarrow> client_call \<Rightarrow> ('w, 'b, 'p, 'e) session
   \<Rightarrow> ('w, 'b, 'p, 'e) session" where
  "clientCall x f bufs (CallOpenFile n flag perm) (fls, s) = addFile fls (OpenFile x f n flag perm s)"
| "clientCall x f bufs (CallCreate n) (fls, s) = addFile fls (Create x f n s)"
| "clientCall x f bufs (CallOnFile i c) (fls, s) =
     (if i < length fls then (let (fl, s) = fileCall x f bufs c (fls ! i, s) in (fls[i := fl], s)) else (fls, s))"
| "clientCall x f bufs (CallMkdir n perm) (fls, s) = (fls, snd (Mkdir x f n perm s))"
| "clientCall x f bufs (CallMkdirAll n perm) (fls, s) = (fls, snd (MkdirAll x f n perm s))"
| "clientCall x f bufs (CallRemove n) (fls, s) = (fls, snd (Remove x f n s))"
| "clientCall x f bufs (CallRemoveAll n) (fls, s) = (fls, snd (RemoveAll x f n s))"
| "clientCall x f bufs (CallRename n m) (fls, s) = (fls, snd (Rename x f n m s))"
| "clientCall x f bufs (CallStatFile n) (fls, s) = (fls, snd (StatFile f n s))"
| "clientCall x f bufs (CallChmod n mode) (fls, s) = (fls, snd (Chmod x f n mode s))"
| "clientCall x f bufs (CallChown n uid gid) (fls, s) = (fls, snd (Chown x f n uid gid s))"
| "clientCall x f bufs (CallChtimes n a m) (fls, s) = (fls, snd (Chtimes x f n a m s))"
| "clientCall x f bufs (CallSymlink n m) (fls, s) = (fls, snd (SymlinkIfPossible x f n m s))"
| "clientCall x f bufs (CallLstat n) (fls, s) = (fls, snd (LstatIfPossible f n s))"
| "clientCall x f bufs (CallReadlink n) (fls, s) = (fls, snd (ReadlinkIfPossible f n s))"
| "clientCall x f bufs (CallInitialize n perm) (fls, s) = (fls, snd (InitializeFS x f n perm s))"

definition runSession ::
  "external \<Rightarrow> ('b, 'p, 'e) stfs \<Rightarrow> ('w, 'e) buffers \<Rightarrow> client_call list \<Rightarrow> ('w, 'b, 'p, 'e) session
   \<Rightarrow> ('w, 'b, 'p, 'e) session" where
  "runSession x f bufs calls st = fold (clientCall x f bufs) calls st"

lemma snd_addFile: "snd (addFile fls p) = snd p"
  by (simp add: addFile_def split: prod.split res.split)

lemma addFile_files: "set (fst (addFile fls p)) \<subseteq> set fls \<union> {fl. fst p = Ok fl}"
  by (auto simp: addFile_def split: prod.splits res.splits)

lemma runSession_keeps:
  assumes "\<And>c st. I st \<Longrightarrow> I (clientCall x f bufs c st)" "I st"
  shows "I (runSession x f bufs calls st)"
  using assms(2) unfolding runSession_def by (induction calls arbitrary: st) (simp_all add: assms(1))

context writing_kept
begin

lemma client_kept:
  assumes "fsBackend f = bc" "B (osBackend (snd st))"
  shows "B (osBackend (snd (clientCall x f bufs c st)))"
proof -
  note mknode = mknode_kept [OF assms(1)]
  obtain fls s where st: "st = (fls, s)" "B (osBackend s)" using assms(2) by (cases st) auto
  show ?thesis
  proof (cases c)
    case (CallOnFile i fc)
    then show ?thesis using st file_kept [OF assms(1), of "(fls ! i, s)"] by (simp add: case_prod_beta)
  qed (use st in \<open>simp_all add: snd_addFile Chmod_def Chown_def Chtimes_def
      opening_kept [OF mknode, THEN envKeepsD] creating_kept [OF mknode, THEN envKeepsD]
      removing_kept [OF assms(1), THEN envKeepsD] changing_kept [OF assms(1), THEN envKeepsD]
      looking_methods_kept [THEN envKeepsD] initializing_kept [OF assms(1) mknode, THEN envKeepsD]\<close>)
qed

lemma session_calls_kept:
  "fsBackend f = bc \<Longrightarrow> B (osBackend (snd st)) \<Longrightarrow> B (osBackend (snd (runSession x f bufs calls st)))"
  by (rule runSession_keeps [where I = "\<lambda>st. B (osBackend (snd st))"]) (rule client_kept)

end

text \<open>The files of a read-only file system cannot be written.\<close>

definition readingFiles :: "'w stfs_file list \<Rightarrow> bool" where
  "readingFiles fls = (\<forall>fl \<in> set fls. \<exists>fl0. fileOf fl0 fl \<and> \<not> flagWrite (flFlags fl0))"

lemma readOnly_opens:
  assumes "fsReadOnly f" "readingFiles fls"
  shows "readingFiles (fst (addFile fls (OpenFile x f name flag perm s)))"
    "readingFiles (fst (addFile fls (Create x f name s)))"
proof -
  have "fileOf fl fl \<and> \<not> flagWrite (flFlags fl)" if "OpenFile x f name flag perm s = (Ok fl, s')" for fl s'
    using opened_file [OF that] that assms(1)
    by (auto simp: OpenFile_def andThen_Ok_iff Let_def NewFile_def openFlags_def split: if_splits)
  then show "readingFiles (fst (addFile fls (OpenFile x f name flag perm s)))"
    using assms(2) by (auto simp: readingFiles_def addFile_def split: prod.splits res.splits)
  show "readingFiles (fst (addFile fls (Create x f name s)))"
    using assms by (simp add: Create_def addFile_def)
qed

context reading_kept
begin

lemma read_only_kept:
  assumes "fsBackend f = bc" "fsReadOnly f" "0 < RecordSize (opPipes (fsWriteOps f))"
    and "readingFiles (fst st) \<and> B (osBackend (snd st))"
  shows "readingFiles (fst (clientCall x f bufs c st)) \<and> B (osBackend (snd (clientCall x f bufs c st)))"
proof -
  have mknode: "backendKept B (mknodeWithoutLocking x f d n p ow l i)" for d n p ow l i
    using assms(2) by (simp add: envKeeps_def mknodeWithoutLocking_def)
  obtain fls s where st: "st = (fls, s)" "readingFiles fls" "B (osBackend s)" using assms(4) by (cases st) auto
  show ?thesis
  proof (cases c)
    case (CallOnFile i fc)
    show ?thesis
    proof (cases "i < length fls")
      case True
      obtain fl0 where fl: "fileOf fl0 (fls ! i)" "\<not> flagWrite (flFlags fl0)"
        using st(2) nth_mem [OF True] by (auto simp: readingFiles_def)
      then have "flWriteBuf (fls ! i) = None" "\<not> flagWrite (flFlags (fls ! i))" by (auto simp: fileOf_def)
      then have "B (osBackend (snd (fileCall x f bufs fc (fls ! i, s))))"
        using st(3) by (intro reading_file_kept assms(1)) simp_all
      moreover have "fileOf fl0 (fst (fileCall x f bufs fc (fls ! i, s)))"
        using fl(1) by (intro fileCall_keeps assms(3)) simp
      ultimately show ?thesis
        using st(2) fl(2) True set_update_subset_insert [of fls i]
        by (auto simp: st(1) CallOnFile readingFiles_def case_prod_beta)
    qed (simp add: CallOnFile st)
  qed (use st assms(2) readOnly_opens [OF assms(2) st(2)] in \<open>simp_all add: snd_addFile Chmod_def Chown_def
      Chtimes_def changeMetadata_def Remove_def RemoveAll_def Rename_def
      opening_kept [OF mknode, THEN envKeepsD] creating_kept [OF mknode, THEN envKeepsD]
      looking_methods_kept [THEN envKeepsD] initializing_kept [OF assms(1) mknode, THEN envKeepsD]\<close>)
qed

lemma read_only_session_kept:
  assumes "fsBackend f = bc" "fsReadOnly f" "0 < RecordSize (opPipes (fsWriteOps f))"
    and "readingFiles (fst st)" "B (osBackend (snd st))"
  shows "B (osBackend (snd (runSession x f bufs calls st)))"
  using runSession_keeps [where I = "\<lambda>st. readingFiles (fst st) \<and> B (osBackend (snd st))",
      OF read_only_kept [OF assms(1-3)], of st x bufs calls] assms(4,5) by blast

end

section \<open>What sessions do to the drive\<close>

interpretation reading_tape: reading_kept tapeBackend "\<lambda>b. dfMedium (tmDrive b) = m"
  by unfold_locales (simp_all add: envKeeps_def GetReader_drive CloseTape_drive)

text \<open>
  C6: the file system is a log: whatever sequence of methods a client calls on the file system and on
  the files it opened, and however each ends, everything on the drive before is on it afterwards,
  unless the manager was told to overwrite the drive and has not done so yet.
\<close>

theorem session_only_appends:
  assumes "fsBackend f = tapeBackend"
    and "tmOverwrite (osBackend (snd st)) \<longrightarrow> tmOverwrote (osBackend (snd st))"
  shows "prefix (tmLog (osBackend (snd st))) (tmLog (osBackend (snd (runSession x f bufs calls st))))"
proof -
  have "tmKeeps (osBackend (snd st))" using assms(2) by (simp add: tmKeeps_def)
  then show ?thesis
    using tm.extending.session_calls_kept [OF assms(1), of st "tmLog (osBackend (snd st))"] by blast
qed

text \<open>
  C7: a read-only file system never changes the drive: whatever sequence of methods is called on it and
  on the files opened through it, and however each ends, the drive holds the same afterwards.
\<close>

theorem read_only_session:
  assumes "fsBackend f = tapeBackend" "fsReadOnly f" "0 < RecordSize (opPipes (fsWriteOps f))"
  shows "dfMedium (tmDrive (osBackend (snd (runSession x f bufs calls ([], s))))) = dfMedium (tmDrive (osBackend s))"
  using assms by (intro reading_tape.read_only_session_kept) (simp_all add: readingFiles_def)

text \<open>Creating a file and writing to it, on a file system that may be written and on one that may not.\<close>

definition exampleCalls :: "client_call list" where
  "exampleCalls = [CallOpenFile ''/a'' O_RDWR 0, CallOnFile 0 (CallWrite ''xy''), CallOnFile 0 CallClose,
     CallRemove ''/a'', CallMkdir ''/b'' 0]"

theorem session_only_appends_witness:
  "prefix (tapeBlocks [[exampleRoot]])
     (tmLog (osBackend (snd (runSession exampleExternal exampleFs exampleBuffers exampleCalls ([], exampleState [exampleOpenRow])))))"
  using session_only_appends [of exampleFs "([], exampleState [exampleOpenRow])" exampleExternal exampleBuffers exampleCalls]
  by (simp add: exampleFs_def exampleDrive_def NewTapeManager_def tmLog_def)

theorem read_only_session_witness:
  "dfMedium (tmDrive (osBackend (snd (runSession exampleExternal (exampleFs\<lparr>fsReadOnly := True\<rparr>) exampleBuffers
     exampleCalls ([], exampleState [exampleOpenRow]))))) = Some (tapeBlocks [[exampleRoot]])"
  using read_only_session [of "exampleFs\<lparr>fsReadOnly := True\<rparr>" exampleExternal exampleBuffers exampleCalls
      "exampleState [exampleOpenRow]"]
  by (simp add: exampleFs_def examplePipes_def exampleDrive_def NewTapeManager_def)

end
