(* ===== verification/OperationsIndex.thy ===== *)
theory OperationsIndex
  imports OperationsRecords
begin

text \<open>
  The index and the end of the drive: every operation starts to index at the last location the
  index knows and takes the entry there for one that is indexed. After any sequence of operations
  that succeed this is again the last entry of the drive; where it is not, because an entry was
  written that the index did not take up, no later operation succeeds.
\<close>

section \<open>The last location the index knows\<close>

definition place :: "nat \<Rightarrow> header \<Rightarrow> int" where
  "place rs r = Lastknownrecord r * int rs + Lastknownblock r"

definition knownUpTo :: "nat \<Rightarrow> nat \<Rightarrow> persister \<Rightarrow> bool" where
  "knownUpTo rs q p = (\<forall>r \<in> set (rows p). place rs r \<le> int q)"

text \<open>A location is known when rows have it, and only with its own record and block.\<close>

definition knows :: "nat \<Rightarrow> nat \<Rightarrow> persister \<Rightarrow> bool" where
  "knows rs q p =
     ((\<exists>r \<in> set (rows p). place rs r = int q)
      \<and> (\<forall>r \<in> set (rows p). place rs r = int q \<longrightarrow> (Lastknownrecord r, Lastknownblock r) = locate rs q))"

lemma maxLocation_max:
  "maxLocation (int rs) hs = Some r \<Longrightarrow> r \<in> set hs \<and> (\<forall>h \<in> set hs. place rs h \<le> place rs r)"
proof (induction hs arbitrary: r)
  case (Cons h hs)
  then show ?case
    by (cases "maxLocation (int rs) hs") (fastforce simp: place_def maxLocation_None split: if_splits)+
qed simp

lemma last_known:
  assumes "knownUpTo rs q p" "knows rs q p"
  shows "GetLastIndexedRecordAndBlock (int rs) p = (Ok (locate rs q), p)"
proof -
  obtain r0 where r0: "r0 \<in> set (rows p)" "place rs r0 = int q" using assms(2) by (auto simp: knows_def)
  then obtain r where r: "maxLocation (int rs) (rows p) = Some r"
    by (cases "maxLocation (int rs) (rows p)") (auto simp: maxLocation_None)
  from maxLocation_max [OF this] have "r \<in> set (rows p)" "place rs r = int q"
    using r0 assms(1) by (auto simp: knownUpTo_def intro!: order.antisym)
  then show ?thesis using r assms(2) by (auto simp: GetLastIndexedRecordAndBlock_def knows_def)
qed

lemma last_known_bounds:
  assumes "0 < rs" "fst (GetLastIndexedRecordAndBlock (int rs) p) = Ok (locate rs q)"
  shows "knownUpTo rs q p"
proof (cases "maxLocation (int rs) (rows p)")
  case None
  then show ?thesis by (auto simp: knownUpTo_def maxLocation_None)
next
  case (Some r)
  then have "(Lastknownrecord r, Lastknownblock r) = locate rs q"
    using assms(2) by (simp add: GetLastIndexedRecordAndBlock_def)
  then have "place rs r = int q"
    using locate_order [OF assms(1), of q] by (metis fst_conv place_def snd_conv)
  then show ?thesis using maxLocation_max [OF Some] by (auto simp: knownUpTo_def)
qed

section \<open>What indexing a header writes\<close>

text \<open>Every row is an old one or has the location of the entry, and there is one that has.\<close>

definition onlyAt :: "int \<times> int \<Rightarrow> persister \<Rightarrow> persister \<Rightarrow> bool" where
  "onlyAt loc p p' =
     (\<forall>r \<in> set (rows p'). r \<in> set (rows p) \<or> (Lastknownrecord r, Lastknownblock r) = loc)"

definition writtenAt :: "int \<times> int \<Rightarrow> persister \<Rightarrow> persister \<Rightarrow> bool" where
  "writtenAt loc p p' =
     (onlyAt loc p p' \<and> (\<exists>r \<in> set (rows p'). (Lastknownrecord r, Lastknownblock r) = loc))"

lemma writtenAt_knows:
  assumes "0 < rs" "knownUpTo rs q0 p" "q0 < q" "writtenAt (locate rs q) p p'"
  shows "knownUpTo rs q p'" "knows rs q p'"
proof -
  have at: "place rs r = int q" if "(Lastknownrecord r, Lastknownblock r) = locate rs q" for r
    using locate_order [OF assms(1), of q] that by (metis fst_conv place_def snd_conv)
  have "place rs r < int q" if "r \<in> set (rows p)" for r
    using assms(2,3) that by (fastforce simp: knownUpTo_def)
  then show "knownUpTo rs q p'" "knows rs q p'"
    using assms(4) at by (fastforce simp: knownUpTo_def knows_def writtenAt_def onlyAt_def)+
qed

lemma updateRow_at:
  assumes "key_of h \<in> key_of ` set rs"
  shows "h \<in> set (updateRow rs h)" "set (updateRow rs h) \<subseteq> insert h (set rs)"
  using assms by (auto simp: updateRow_def)

lemma selectByKey_Some: "selectByKey rs n l = Some r \<Longrightarrow> (n, l) \<in> key_of ` set rs"
  by (auto simp: selectByKey_def find_Some_iff image_iff)

lemma UpsertHeader_written:
  assumes "UpsertHeader h init p = (Ok (), p')"
  shows "writtenAt (Lastknownrecord h, Lastknownblock h) p p'"
proof -
  obtain n q where s: "getSanitizedPath (Name h) p = (n, q)" by force
  have q: "rows q = rows p" using s by (rule getSanitizedPath_rowsE)
  define h' where "h' = (if init then h else h\<lparr>Name := n\<rparr>)"
  have at: "Lastknownrecord h' = Lastknownrecord h" "Lastknownblock h' = Lastknownblock h" by (simp_all add: h'_def)
  have "\<exists>rs. rows p' = updateRow rs h' \<and> key_of h' \<in> key_of ` set rs \<and> set rs \<subseteq> insert h' (set (rows p))"
  proof (cases "selectByKey (rows p) (Name h') (Linkname h')")
    case None
    then have "rows p' = updateRow (rows p @ [h']) h'"
      using assms by (auto simp: UpsertHeader_def s q insertRow_def h'_def split: if_splits)
    then show ?thesis by (intro exI [of _ "rows p @ [h']"]) auto
  next
    case (Some r)
    then have "rows p' = updateRow (rows p) h'"
      using assms by (auto simp: UpsertHeader_def s q h'_def split: if_splits)
    then show ?thesis using selectByKey_Some [OF Some] by (intro exI [of _ "rows p"]) auto
  qed
  then obtain rs where rs: "rows p' = updateRow rs h'" "key_of h' \<in> key_of ` set rs" "set rs \<subseteq> insert h' (set (rows p))" by blast
  then show ?thesis using updateRow_at [OF rs(2)] at by (auto simp: writtenAt_def onlyAt_def intro!: bexI [of _ h'])
qed

lemma DeleteHeader_written:
  assumes "DeleteHeader n rec blk p = (Ok h, p')"
  shows "writtenAt (rec, blk) p p'"
proof -
  obtain m q where s: "getSanitizedPath n p = (m, q)" by force
  have q: "rows q = rows p" using s by (rule getSanitizedPath_rowsE)
  obtain r where r: "selectByName (rows p) m = Some r" using assms by (auto simp: DeleteHeader_def s q split: option.splits)
  let ?h = "r\<lparr>Deleted := 1, Lastknownrecord := rec, Lastknownblock := blk\<rparr>"
  have "rows p' = updateRow (rows p) ?h" using assms by (auto simp: DeleteHeader_def s q r Let_def)
  moreover have "r \<in> set (rows p)" using selectByName_mem [OF r] by simp
  then have "key_of ?h \<in> key_of ` set (rows p)" by force
  from updateRow_at [OF this] have "?h \<in> set (updateRow (rows p) ?h)" "set (updateRow (rows p) ?h) \<subseteq> insert ?h (set (rows p))" .
  ultimately show ?thesis by (auto simp: writtenAt_def onlyAt_def intro!: bexI [of _ ?h])
qed

lemma UpdateHeaderMetadata_rows:
  "rows (snd (UpdateHeaderMetadata h p)) = updateRow (rows p) (h\<lparr>Name := fst (getSanitizedPath (Name h) p)\<rparr>)"
  by (auto simp: UpdateHeaderMetadata_def Let_def getSanitizedPath_rowsE split: prod.split)

lemma UpdateHeaderMetadata_written:
  assumes "UpdateHeaderMetadata h p = (Ok (), p')" "(fst (getSanitizedPath (Name h) p), Linkname h) \<in> key_of ` set (rows p)"
  shows "writtenAt (Lastknownrecord h, Lastknownblock h) p p'"
proof -
  let ?h = "h\<lparr>Name := fst (getSanitizedPath (Name h) p)\<rparr>"
  have "key_of ?h \<in> key_of ` set (rows p)" using assms(2) by simp
  from updateRow_at [OF this] have "?h \<in> set (updateRow (rows p) ?h)" "set (updateRow (rows p) ?h) \<subseteq> insert ?h (set (rows p))" .
  moreover have "rows p' = updateRow (rows p) ?h" using UpdateHeaderMetadata_rows [of h p] assms(1) by simp
  ultimately show ?thesis by (auto simp: writtenAt_def onlyAt_def intro!: bexI [of _ ?h])
qed

section \<open>Indexing one header\<close>

text \<open>
  A record of an update names a row of the index: one under the name and link name, and, unless it
  has new contents, one that is not deleted. The name does not change.
\<close>

definition isUpdate :: "tar_header \<Rightarrow> bool" where
  "isUpdate hdr = (paxGet (tPAXRecords hdr) STFSRecordAction = Some STFSRecordActionUpdate)"

definition updatesRow :: "persister \<Rightarrow> tar_header \<Rightarrow> bool" where
  "updatesRow p h =
     (isUpdate h \<and> root p \<noteq> [] \<and> paxGet (tPAXRecords h) STFSRecordReplacesName = None
      \<and> (\<exists>r \<in> set (rows p). key_of r = (fst (getSanitizedPath (tName h) p), tLinkname h)
           \<and> (live r \<or> paxGet (tPAXRecords h) STFSRecordReplacesContent = Some STFSRecordReplacesContentTrue)))"

lemma TarHeaderToDBHeader_at [simp]:
  "Lastknownrecord (TarHeaderToDBHeader r lr b lb h) = lr" "Lastknownblock (TarHeaderToDBHeader r lr b lb h) = lb"
  "Name (TarHeaderToDBHeader r lr b lb h) = tName h" "Linkname (TarHeaderToDBHeader r lr b lb h) = tLinkname h"
  "Deleted (TarHeaderToDBHeader r lr b lb h) = 0"
  by (simp_all add: TarHeaderToDBHeader_def)

lemma indexAction_written:
  assumes "indexAction sqliteMetadata rec blk h init p = (Ok (), p')" "\<not> isUpdate h"
  shows "writtenAt (rec, blk) p p'"
  using assms UpsertHeader_written [of "TarHeaderToDBHeader rec rec blk blk h" init p p']
  by (auto simp: indexAction_def isUpdate_def Let_def andThen_Ok_iff sqliteMetadata_def stfs_records
      intro: DeleteHeader_written split: if_splits option.splits)

lemma getSanitizedPath_known: "root p \<noteq> [] \<Longrightarrow> snd (getSanitizedPath n p) = p"
  by (simp add: getSanitizedPath_def)

text \<open>An update writes one row, which was there and is not deleted, and keeps the keys of the table.\<close>

lemma indexAction_update:
  assumes "indexAction sqliteMetadata rec blk h init p = (Ok (), p')" "updatesRow p h"
  shows "\<exists>hdr. Lastknownrecord hdr = rec \<and> Lastknownblock hdr = blk \<and> live hdr
    \<and> Name hdr = tName h \<and> Linkname hdr = tLinkname h \<and> UpdateHeaderMetadata hdr p = (Ok (), p')"
proof -
  have u: "indexUpdate sqliteMetadata rec blk h p = (Ok (), p')" "root p \<noteq> []"
    "paxGet (tPAXRecords h) STFSRecordReplacesName = None"
    using assms by (auto simp: indexAction_def updatesRow_def isUpdate_def stfs_records Let_def split: if_splits option.splits)
  show ?thesis
  proof (cases "paxGet (tPAXRecords h) STFSRecordReplacesContent = Some STFSRecordReplacesContentTrue")
    case True
    then have "UpdateHeaderMetadata (TarHeaderToDBHeader rec rec blk blk h) p = (Ok (), p')"
      using u(1,3) by (auto simp: indexUpdate_def andThen_Ok_iff sqliteMetadata_def)
    then show ?thesis by (intro exI) (rule conjI [rotated], auto)
  next
    case False
    then obtain r where r: "r \<in> set (rows p)" "Name r = fst (getSanitizedPath (tName h) p)" "live r"
      using assms(2) by (auto simp: updatesRow_def)
    then obtain row where row: "selectByName (rows p) (fst (getSanitizedPath (tName h) p)) = Some row"
      by (cases "selectByName (rows p) (fst (getSanitizedPath (tName h) p))") (auto simp: selectByName_None)
    obtain n where n: "getSanitizedPath (tName h) p = (n, p)"
      using getSanitizedPath_known [OF u(2)] by (metis prod.collapse)
    have "GetHeader (tName h) p = (Ok (DBHeaderToConfigHeader row), p)" using row by (simp add: GetHeader_def n)
    then have "\<exists>r0 b0. UpdateHeaderMetadata (TarHeaderToDBHeader r0 rec b0 blk h) p = (Ok (), p')"
      using u(1,3) False by (auto simp: indexUpdate_def andThen_Ok_iff sqliteMetadata_def)
    then obtain r0 b0 where "UpdateHeaderMetadata (TarHeaderToDBHeader r0 rec b0 blk h) p = (Ok (), p')" by blast
    then show ?thesis by (intro exI [of _ "TarHeaderToDBHeader r0 rec b0 blk h"]) simp
  qed
qed

lemma indexAction_update_written:
  assumes "indexAction sqliteMetadata rec blk h init p = (Ok (), p')" "updatesRow p h"
  shows "writtenAt (rec, blk) p p'" "updatesRow p h' \<Longrightarrow> updatesRow p' h'"
proof -
  obtain hdr where hdr: "Lastknownrecord hdr = rec" "Lastknownblock hdr = blk" "live hdr" "Name hdr = tName h"
    "Linkname hdr = tLinkname h" "UpdateHeaderMetadata hdr p = (Ok (), p')"
    using indexAction_update [OF assms] by blast
  have root: "root p \<noteq> []" using assms(2) by (simp add: updatesRow_def)
  have "(fst (getSanitizedPath (Name hdr) p), Linkname hdr) \<in> key_of ` set (rows p)"
    using assms(2) by (force simp: updatesRow_def hdr)
  from UpdateHeaderMetadata_written [OF hdr(6) this] show "writtenAt (rec, blk) p p'" by (simp add: hdr)
  obtain n where n: "getSanitizedPath (Name hdr) p = (n, p)"
    using getSanitizedPath_known [OF root] by (metis prod.collapse)
  then have p': "p' = p\<lparr>rows := updateRow (rows p) (hdr\<lparr>Name := n\<rparr>)\<rparr>"
    using hdr(6) by (simp add: UpdateHeaderMetadata_def)
  have "fst (getSanitizedPath m p') = fst (getSanitizedPath m p)" for m
    using root by (simp add: p' getSanitizedPath_def)
  moreover have "\<exists>r' \<in> set (rows p'). key_of r' = key_of r \<and> (live r \<longrightarrow> live r')" if "r \<in> set (rows p)" for r
  proof (cases "key_of r = (n, Linkname hdr)")
    case True
    then show ?thesis
      using that hdr(3) by (intro bexI [of _ "hdr\<lparr>Name := n\<rparr>"]) (auto simp: p' updateRow_def intro!: rev_image_eqI)
  next
    case False
    then show ?thesis using that by (intro bexI [of _ r]) (auto simp: p' updateRow_def intro!: rev_image_eqI)
  qed
  ultimately show "updatesRow p' h'" if "updatesRow p h'"
    using that root unfolding updatesRow_def by (auto simp: p') (metis prod.inject)+
qed

text \<open>A record of a move names rows of the index by their old name.\<close>

definition oldName :: "persister \<Rightarrow> tar_header \<Rightarrow> string" where
  "oldName p h = fst (getSanitizedPath
     (case paxGet (tPAXRecords h) STFSRecordReplacesName of Some n \<Rightarrow> n | None \<Rightarrow> []) p)"

definition movesRow :: "persister \<Rightarrow> tar_header \<Rightarrow> bool" where
  "movesRow p h =
     (isUpdate h \<and> root p \<noteq> [] \<and> paxGet (tPAXRecords h) STFSRecordReplacesName \<noteq> None
      \<and> oldName p h \<in> Name ` set (rows p))"

lemma MoveHeader_written:
  assumes "MoveHeader old new rec blk p = (Ok (), p')" "root p \<noteq> []" "fst (getSanitizedPath old p) \<in> Name ` set (rows p)"
  shows "writtenAt (rec, blk) p p'" "root p' = root p"
    "n \<in> Name ` set (rows p) \<Longrightarrow> n \<noteq> fst (getSanitizedPath old p) \<Longrightarrow> n \<in> Name ` set (rows p')"
proof -
  obtain o' n' where s: "getSanitizedPath old p = (o', p)" "getSanitizedPath new p = (n', p)"
    using getSanitizedPath_known [OF assms(2)] by (metis prod.collapse)
  obtain r where r: "r \<in> set (rows p)" "Name r = o'" using assms(3) s(1) by auto
  then have w: "\<not> length (filter (\<lambda>r. Name r = o') (rows p)) < 1" by (auto simp: filter_empty_conv)
  let ?f = "\<lambda>r. if Name r = o' then r\<lparr>Name := n', Lastknownrecord := rec, Lastknownblock := blk\<rparr> else r"
  have p': "p' = p\<lparr>rows := map ?f (rows p)\<rparr>"
    using assms(1) w by (auto simp: MoveHeader_def s moveRows_def Let_def split: if_splits)
  show "root p' = root p" by (simp add: p')
  show "writtenAt (rec, blk) p p'"
    using r by (auto simp: p' writtenAt_def onlyAt_def intro!: bexI [of _ "?f r"])
  show "n \<in> Name ` set (rows p')" if "n \<in> Name ` set (rows p)" "n \<noteq> fst (getSanitizedPath old p)"
    using that by (auto simp: p' s image_iff)
qed

lemma indexAction_move_written:
  assumes "indexAction sqliteMetadata rec blk h init p = (Ok (), p')" "movesRow p h"
  shows "writtenAt (rec, blk) p p'" "movesRow p h' \<Longrightarrow> oldName p h' \<noteq> oldName p h \<Longrightarrow> movesRow p' h'"
    "oldName p' h' = oldName p h'"
proof -
  obtain old where u: "indexUpdate sqliteMetadata rec blk h p = (Ok (), p')" "root p \<noteq> []"
    "paxGet (tPAXRecords h) STFSRecordReplacesName = Some old"
    "oldName p h = fst (getSanitizedPath old p)" "oldName p h \<in> Name ` set (rows p)"
    using assms by (auto simp: indexAction_def movesRow_def isUpdate_def oldName_def stfs_records Let_def split: if_splits option.splits)
  have root: "snd (getSanitizedPath n p) = p" for n using getSanitizedPath_known [OF u(2)] .
  have g: "GetHeader old p = (fst (GetHeader old p), p)"
    using root [of old] by (auto simp: GetHeader_def split: prod.splits option.split)
  have updated: "\<exists>p1. MoveHeader old (tName h) rec blk p1 = (Ok (), p') \<and> onlyAt (rec, blk) p p1 \<and> root p1 = root p
      \<and> map Name (rows p1) = map Name (rows p)"
    if m: "UpdateHeaderMetadata (TarHeaderToDBHeader r rec b blk h) p = (Ok (), p1)"
      "MoveHeader old (tName h) rec blk p1 = (Ok (), p')" for r b p1
  proof -
    have "p1 = p\<lparr>rows := updateRow (rows p)
        ((TarHeaderToDBHeader r rec b blk h)\<lparr>Name := fst (getSanitizedPath (tName h) p)\<rparr>)\<rparr>"
      using m(1) root [of "tName h"] by (auto simp: UpdateHeaderMetadata_def split: prod.splits)
    then show ?thesis using m(2) by (intro exI [of _ p1]) (auto simp: onlyAt_def updateRow_def)
  qed
  have "\<exists>p1. MoveHeader old (tName h) rec blk p1 = (Ok (), p') \<and> onlyAt (rec, blk) p p1 \<and> root p1 = root p
      \<and> map Name (rows p1) = map Name (rows p)"
  proof (cases "paxGet (tPAXRecords h) STFSRecordReplacesContent = Some STFSRecordReplacesContentTrue")
    case True
    then show ?thesis
      using u(1,3) by (auto simp: indexUpdate_def andThen_Ok_iff sqliteMetadata_def intro: updated)
  next
    case keeps: False
    show ?thesis
    proof (cases "fst (GetHeader old p)")
      case (Ok oldHdr)
      then show ?thesis
        using u(1,3) keeps g by (auto simp: indexUpdate_def andThen_Ok_iff sqliteMetadata_def split: prod.splits intro: updated)
    next
      case (Err e)
      then have "MoveHeader old (tName h) rec blk p = (Ok (), p')"
        using u(1,3) keeps g by (auto simp: indexUpdate_def sqliteMetadata_def split: prod.splits if_splits)
      then show ?thesis by (intro exI [of _ p]) (auto simp: onlyAt_def)
    qed (use u(1,3) keeps g in \<open>auto simp: indexUpdate_def sqliteMetadata_def split: prod.splits\<close>)
  qed
  then obtain p1 where p1: "MoveHeader old (tName h) rec blk p1 = (Ok (), p')" "onlyAt (rec, blk) p p1"
    "root p1 = root p" "Name ` set (rows p1) = Name ` set (rows p)" by (metis list.set_map)
  have same: "fst (getSanitizedPath m p1) = fst (getSanitizedPath m p)" for m
    using p1(3) u(2) by (simp add: getSanitizedPath_def)
  note moved = MoveHeader_written [OF p1(1)]
  have w: "writtenAt (rec, blk) p1 p'" "root p' = root p"
    using moved(1,2) p1(3,4) u(2,4,5) same by simp_all
  then show "writtenAt (rec, blk) p p'" using p1(2) by (auto simp: writtenAt_def onlyAt_def)
  have same': "fst (getSanitizedPath m p') = fst (getSanitizedPath m p)" for m
    using w(2) u(2) by (simp add: getSanitizedPath_def)
  then show "oldName p' h' = oldName p h'" by (simp add: oldName_def)
  show "movesRow p' h'" if "movesRow p h'" "oldName p h' \<noteq> oldName p h"
    using that moved(3) [of "oldName p h'"] p1(3,4) u(2,4,5) same w(2) same' by (simp add: movesRow_def oldName_def)
qed

section \<open>Indexing what an operation wrote\<close>

text \<open>
  Headers an operation hands to the index so that it takes up every one: none of them updates, or all
  of them update rows, or all of them move rows, of different names.
\<close>

definition takesUp :: "'e operations \<Rightarrow> persister \<Rightarrow> tar_header list \<Rightarrow> bool" where
  "takesUp op p hdrs =
     ((\<forall>hdr \<in> set hdrs. \<not> isUpdate hdr)
      \<or> (\<forall>hdr \<in> set hdrs. \<forall>h. indexedHeader hdr (Compression (opPipes op)) (Encryption (opPipes op)) = Ok h
           \<longrightarrow> updatesRow p h)
      \<or> (distinct (map (oldName p) hdrs)
          \<and> (\<forall>hdr \<in> set hdrs. \<forall>h. indexedHeader hdr (Compression (opPipes op)) (Encryption (opPipes op)) = Ok h
               \<longrightarrow> movesRow p h)))"

lemma indexHeader_takenUp:
  assumes "indexHeader sqliteMetadata rec blk hdr (Compression (opPipes op)) (Encryption (opPipes op)) init
      (Some f) (p, ev) = (Ok (), (p1, ev1))"
    and "takesUp op p (hdr # hdrs)"
  shows "writtenAt (rec, blk) p p1" "takesUp op p1 hdrs"
proof -
  obtain h where h: "indexedHeader hdr (Compression (opPipes op)) (Encryption (opPipes op)) = Ok h"
    "indexAction sqliteMetadata rec blk h init p = (Ok (), p1)"
    using assms(1) by (auto simp: indexHeader_def andThen_Ok_iff on_Ok_iff)
  have u: "isUpdate h = isUpdate hdr" using indexedHeader_name(2) [OF h(1)] by (simp add: isUpdate_def)
  have old: "oldName q h = oldName q hdr" for q using indexedHeader_name(2) [OF h(1)] by (simp add: oldName_def)
  have old': "oldName q k = oldName q k'"
    if "indexedHeader k' (Compression (opPipes op)) (Encryption (opPipes op)) = Ok k" for q k k'
    using indexedHeader_name(2) [OF that] by (simp add: oldName_def)
  consider "\<forall>hdr \<in> set (hdr # hdrs). \<not> isUpdate hdr"
    | "updatesRow p h" "\<forall>hdr \<in> set hdrs. \<forall>h. indexedHeader hdr (Compression (opPipes op)) (Encryption (opPipes op)) = Ok h
           \<longrightarrow> updatesRow p h"
    | "movesRow p h" "distinct (map (oldName p) (hdr # hdrs))"
      "\<forall>hdr \<in> set hdrs. \<forall>h. indexedHeader hdr (Compression (opPipes op)) (Encryption (opPipes op)) = Ok h
           \<longrightarrow> movesRow p h"
    using assms(2) h(1) by (auto simp: takesUp_def)
  then have "writtenAt (rec, blk) p p1 \<and> takesUp op p1 hdrs"
  proof cases
    case 1
    then show ?thesis using indexAction_written [OF h(2)] u by (simp add: takesUp_def)
  next
    case 2
    then show ?thesis using indexAction_update_written [OF h(2)] by (simp add: takesUp_def)
  next
    case 3
    note moved = indexAction_move_written [OF h(2) 3(1)]
    have "movesRow p1 k" if "k' \<in> set hdrs" "indexedHeader k' (Compression (opPipes op)) (Encryption (opPipes op)) = Ok k" for k k'
    proof (rule moved(2))
      show "movesRow p k" using 3(3) that by blast
      have "oldName p hdr \<notin> oldName p ` set hdrs" using 3(2) by simp
      then have "oldName p k' \<noteq> oldName p hdr" using imageI [OF that(1), of "oldName p"] by metis
      then show "oldName p k \<noteq> oldName p h" using old [of p] old' [OF that(2), of p] by simp
    qed
    moreover have "oldName p1 = oldName p" using moved(3) by (rule ext)
    ultimately show ?thesis using moved(1) 3(2) by (simp add: takesUp_def)
  qed
  then show "writtenAt (rec, blk) p p1" "takesUp op p1 hdrs" by simp_all
qed

lemma applyHeaders_known:
  assumes "0 < RecordSize (opPipes op)" "length hdrs = length new" "new \<noteq> []"
    and "visit (RecordSize (opPipes op)) (\<lambda>i rec blk hdr. indexHeader sqliteMetadata rec blk hdr
          (Compression (opPipes op)) (Encryption (opPipes op)) init (Some f)) j
          (zip (map fst (entriesAt q new)) hdrs) (p, ev) = (Ok (), (p', ev'))"
    and "knownUpTo (RecordSize (opPipes op)) q0 p" "q0 < q" "takesUp op p hdrs"
  shows "knownUpTo (RecordSize (opPipes op)) (q + length (entriesBlocks (butlast new))) p'
    \<and> knows (RecordSize (opPipes op)) (q + length (entriesBlocks (butlast new))) p'"
  using assms(2-)
proof (induction new arbitrary: hdrs j q q0 p ev)
  case (Cons e new)
  obtain h n c where e: "e = (h, n, c)" by (cases e)
  obtain hdr hdrs' where hdrs: "hdrs = hdr # hdrs'" using Cons.prems(1) by (cases hdrs) auto
  let ?loc = "locate (RecordSize (opPipes op)) q"
  obtain p1 ev1 where 1: "indexHeader sqliteMetadata (fst ?loc) (snd ?loc) hdr (Compression (opPipes op))
      (Encryption (opPipes op)) init (Some f) (p, ev) = (Ok (), (p1, ev1))"
    and rest: "visit (RecordSize (opPipes op)) (\<lambda>i rec blk hdr. indexHeader sqliteMetadata rec blk hdr
          (Compression (opPipes op)) (Encryption (opPipes op)) init (Some f)) (j + 1)
          (zip (map fst (entriesAt (q + length (entryBlocks h n c)) new)) hdrs') (p1, ev1) = (Ok (), (p', ev'))"
    using Cons.prems(3) by (auto simp: e hdrs andThen_Ok_iff)
  note taken = indexHeader_takenUp [OF 1 Cons.prems(6) [unfolded hdrs]]
  have known: "knownUpTo (RecordSize (opPipes op)) q p1" "knows (RecordSize (opPipes op)) q p1"
    using writtenAt_knows [OF assms(1) Cons.prems(4,5), of p1] taken(1) by simp_all
  show ?case
  proof (cases "new = []")
    case True
    then show ?thesis using known rest by (simp add: e)
  next
    case False
    have "q < q + length (entryBlocks h n c)" by (simp add: entryBlocks_def)
    from Cons.IH [OF _ False rest known(1) this taken(2)] False Cons.prems(1) show ?thesis
      by (simp add: e hdrs add.assoc)
  qed
qed simp

section \<open>Operations leave the index at the end of the drive\<close>

lemma sqlite_last: "snd (mpGetLastIndexedRecordAndBlock sqliteMetadata l p) = p"
  by (simp add: sqliteMetadata_def GetLastIndexedRecordAndBlock_def split: option.split)

lemma atLastEntry_known:
  assumes "atLastEntry sqliteMetadata op T s"
  obtains q0 where "knownUpTo (RecordSize (opPipes op)) q0 (osMetadata s)" "q0 < length (tapeBlocks T)"
proof -
  let ?q0 = "length (tapeBlocks (butlast T) @ entriesBlocks (butlast (last T)))"
  have a: "0 < RecordSize (opPipes op)"
    "fst (GetLastIndexedRecordAndBlock (int (RecordSize (opPipes op))) (osMetadata s)) = Ok (locate (RecordSize (opPipes op)) ?q0)"
    using assms by (simp_all add: atLastEntry_def sqliteMetadata_def)
  obtain ess es e where "T = ess @ [es @ [e]]" using assms by (rule atLastEntry_cases)
  then have "?q0 < length (tapeBlocks T)" by simp
  with last_known_bounds [OF a] show ?thesis by (rule that)
qed

lemma appended_atLast:
  assumes "appendsAndIndexes x sqliteMetadata op ty init T hdrs p s'" "atLastEntry sqliteMetadata op T s"
    and "rows p = rows (osMetadata s)" "takesUp op p hdrs"
  shows "\<exists>T'. atLastEntry sqliteMetadata op (T @ T') s'"
proof -
  let ?rs = "RecordSize (opPipes op)" and ?q = "length (tapeBlocks T)"
  obtain new ev where new: "list_all2 (entryOf x op) hdrs new" "tmIdle (osBackend s')"
    "tmStarts (osBackend s') = tapeBlocks (T @ appended new)"
    "applyHeaders sqliteMetadata op ty init ?q new hdrs (p, ev) = (Ok (), (osMetadata s', osEvents s'))"
    using assms(1) by (auto simp: appendsAndIndexes_def)
  have at: "tapeWf T" "T \<noteq> []" "0 < ?rs" using assms(2) by (simp_all add: atLastEntry_def)
  show ?thesis
  proof (cases "new = []")
    case True
    then have "osMetadata s' = p" "hdrs = []" using new(1,4) by (simp_all add: applyHeaders_def)
    moreover have "fst (mpGetLastIndexedRecordAndBlock sqliteMetadata l p)
        = fst (mpGetLastIndexedRecordAndBlock sqliteMetadata l (osMetadata s))" for l
      using assms(3) by (simp add: sqliteMetadata_def GetLastIndexedRecordAndBlock_def split: option.split)
    ultimately show ?thesis
      using new(2,3) assms(2) True
      by (intro exI [of _ "[]"]) (simp add: atLastEntry_def appended_def)
  next
    case False
    obtain q0 where q0: "knownUpTo ?rs q0 (osMetadata s)" "q0 < ?q" using assms(2) by (rule atLastEntry_known)
    then have "knownUpTo ?rs q0 p" using assms(3) by (simp add: knownUpTo_def)
    from applyHeaders_known [OF at(3) _ False new(4) [unfolded applyHeaders_def] this q0(2) assms(4)]
    have "GetLastIndexedRecordAndBlock (int ?rs) (osMetadata s')
        = (Ok (locate ?rs (?q + length (entriesBlocks (butlast new)))), osMetadata s')"
      using list_all2_lengthD [OF new(1)] last_known by blast
    then show ?thesis
      using new(2,3) at tapeWf_appended [OF new(1)] False
      by (intro exI [of _ "[new]"])
        (auto simp: atLastEntry_def appended_def sqliteMetadata_def tapeWf_def simp del: tapeBlocks.simps)
  qed
qed

text \<open>A deletion, of one entry or of a directory, appends records that the index takes up.\<close>

lemma lookups_rows:
  "onMetadata (mpGetHeader sqliteMetadata n) s = (r, s') \<Longrightarrow> rows (osMetadata s') = rows (osMetadata s) \<and> osBackend s' = osBackend s"
  "onMetadata (mpGetHeaderByLinkname sqliteMetadata n) s = (r', s') \<Longrightarrow> rows (osMetadata s') = rows (osMetadata s) \<and> osBackend s' = osBackend s"
  "onMetadata (mpGetHeaderChildren sqliteMetadata n) s = (r'', s') \<Longrightarrow> rows (osMetadata s') = rows (osMetadata s) \<and> osBackend s' = osBackend s"
  by (auto simp: onMetadata_def sqliteMetadata_def split: prod.splits)
    (metis GetHeader_rows GetHeaderByLinkname_rows GetHeaderChildren_rows snd_conv)+

lemma lookupNameOrLink_rows:
  assumes "lookupNameOrLink sqliteMetadata n s = (Ok h, s')"
  shows "rows (osMetadata s') = rows (osMetadata s) \<and> osBackend s' = osBackend s"
proof -
  obtain r s1 where r: "onMetadata (mpGetHeader sqliteMetadata n) s = (r, s1)" by force
  show ?thesis
    using assms r lookups_rows(1) [OF r]
    by (cases r) (auto simp: lookupNameOrLink_def orElse_def split: if_splits dest: lookups_rows(2))
qed

lemma Delete_appends:
  assumes "atLastEntry sqliteMetadata op T s" "Delete x tapeBackend sqliteMetadata op name s = (Ok (), s')"
  shows "\<exists>hdrs p. appendsAndIndexes x sqliteMetadata op HeaderEventTypeDelete False T hdrs p s'
    \<and> rows p = rows (osMetadata s) \<and> takesUp op p hdrs"
proof -
  obtain ess es e p rec blk where T: "T = ess @ [es @ [e]]"
    and at: "tmIdle (osBackend s)" "tmStarts (osBackend s) = tapeBlocks (ess @ [es @ [e]])"
      "tapeWf (ess @ [es @ [e]])" "0 < RecordSize (opPipes op)"
      "(rec, blk) = locate (RecordSize (opPipes op)) (length (tapeBlocks ess @ entriesBlocks es))"
    and l: "mpGetLastIndexedRecordAndBlock sqliteMetadata (int (RecordSize (opPipes op))) (osMetadata s) = (Ok (rec, blk), p)"
    using assms(1) by (rule atLastEntry_cases)
  have p: "p = osMetadata s" using sqlite_last [of _ "osMetadata s"] l by (metis snd_conv)
  let ?s0 = "s\<lparr>osBackend := snd (GetWriter (osBackend s)), osMetadata := p\<rparr>"
  obtain dbhdr s1 hs s2 hdrs s3 where d: "lookupNameOrLink sqliteMetadata (ToSlash name) ?s0 = (Ok dbhdr, s1)"
    "(if Typeflag dbhdr = uint TypeDir \<and> Linkname dbhdr = []
      then andThen (onMetadata (mpGetHeaderChildren sqliteMetadata (ToSlash name)) s1) (\<lambda>dbhdrs s. (Ok (dbhdr # dbhdrs), s))
      else (Ok [dbhdr], s1)) = (Ok hs, s2)"
    "writeSession tapeBackend (forHeaders (appendRecord x op HeaderEventTypeDelete deleteRecord) hs) s2 = (Ok hdrs, s3)"
    "indexAppended tapeBackend sqliteMetadata op HeaderEventTypeDelete hdrs rec blk False False s3 = (Ok (), s')"
    using assms(2) by (auto simp: Delete_def Let_def GetWriter_session [OF at(1)] onMetadata_def [of "mpGetLastIndexedRecordAndBlock sqliteMetadata _"] l andThen_Ok_iff)
  have s1: "rows (osMetadata s1) = rows p" "osBackend s1 = snd (GetWriter (osBackend s))"
    using lookupNameOrLink_rows [OF d(1)] by simp_all
  have s2: "rows (osMetadata s2) = rows p" "osBackend s2 = snd (GetWriter (osBackend s))"
    using d(2) s1 by (auto simp: andThen_Ok_iff split: if_splits dest!: lookups_rows(3))
  have "appendsAndIndexes x sqliteMetadata op HeaderEventTypeDelete False T hdrs (osMetadata s2) s'"
    unfolding T by (rule operation_appends [OF at _ _ d(3,4)]) (simp_all add: s2 records_keep)
  moreover have "\<And>u. \<not> isUpdate (deleteRecord u)" by (simp add: isUpdate_def deleteRecord_def stfs_records)
  moreover have "\<forall>t \<in> set hdrs. \<exists>u. t = deleteRecord u"
    using recordSession_hdrs [where edit = "\<lambda>_. deleteRecord", OF d(3)]
    by (auto simp: recordHeader_def rbind_Ok_iff list_all2_conv_all_nth in_set_conv_nth) metis
  ultimately show ?thesis using s2(1) p unfolding takesUp_def by metis
qed

text \<open>
  A move, of an entry found under its name, in an index whose root is \<open>/\<close> and in which no name occurs
  twice among the rows that are not deleted (as the target of two links does).
\<close>

definition namesDistinct :: "persister \<Rightarrow> bool" where
  "namesDistinct p =
     (root p = ''/'' \<and> distinct (map Name (filter live (rows p)))
      \<and> (\<forall>r \<in> set (rows p). live r \<longrightarrow> HasPrefix (Name r) ''/''))"

lemma moved_headers:
  assumes "namesDistinct p" "GetHeader src p = (Ok dbhdr, q)" "HasPrefix src ''/''"
    and "hs = [dbhdr] \<or> (\<exists>dbhdrs q'. GetHeaderChildren src p = (Ok dbhdrs, q') \<and> hs = dbhdr # dbhdrs)"
  shows "distinct (map Name hs)" "h \<in> set hs \<Longrightarrow> HasPrefix (Name h) ''/'' \<and> Name h \<in> Name ` set (rows p)"
proof -
  have root: "root p = ''/''" using assms(1) by (simp add: namesDistinct_def)
  have path: "getSanitizedPath n p = (n, p)" if "HasPrefix n ''/''" for n
    using getSanitizedPath_abs_root [OF root that] .
  obtain r where r: "r \<in> set (rows p)" "live r" "Name r = src" "dbhdr = DBHeaderToConfigHeader r"
    using assms(2) by (auto simp: GetHeader_def path [OF assms(3)] split: option.splits dest!: selectByName_mem)
  let ?live = "filter live (rows p)" and ?P = "\<lambda>r. sqlLike (TrimSuffix src ''/'' @ ''/%'') (Name r) \<and> notSelf src r"
  have P: "hs = [dbhdr] \<or> hs = dbhdr # map DBHeaderToConfigHeader (filter ?P ?live)"
    using assms(4)
  proof (elim disjE exE conjE)
    fix dbhdrs q'
    assume c: "GetHeaderChildren src p = (Ok dbhdrs, q')" and hs: "hs = dbhdr # dbhdrs"
    have "filter (notSelf src) (filter (\<lambda>r. sqlLike (TrimSuffix src ''/'' @ ''/%'') (Name r) \<and> live r) (rows p))
        = filter ?P ?live"
      by (simp only: filter_filter conj_ac)
    moreover have "dbhdrs = map DBHeaderToConfigHeader (filter (notSelf src)
        (filter (\<lambda>r. sqlLike (TrimSuffix src ''/'' @ ''/%'') (Name r) \<and> live r) (rows p)))"
      using c unfolding GetHeaderChildren_def path [OF assms(3)] Let_def prod.case prod.inject res.inject
      by (rule conjunct1 [THEN sym])
    ultimately show ?thesis using hs by simp
  qed simp
  have "\<not> notSelf src c" if "Name c = src" for c
    using that by (cases "HasSuffix (Name c) ''/''") (auto simp: notSelf_def HasSuffix_iff TrimSuffix_other Let_def)
  then have "src \<notin> Name ` set (filter ?P ?live)" by auto
  moreover have "distinct (map Name (filter ?P ?live))"
    using assms(1) by (intro distinct_map_filter [of _ ?live]) (simp add: namesDistinct_def)
  moreover have "Name \<circ> DBHeaderToConfigHeader = Name" by (rule ext) simp
  ultimately show "distinct (map Name hs)" using P r(3,4) by (elim disjE) simp_all
  have "h = dbhdr \<or> h \<in> set ?live" if "h \<in> set hs" using that P by auto
  then show "HasPrefix (Name h) ''/'' \<and> Name h \<in> Name ` set (rows p)" if "h \<in> set hs"
    using that r assms(1) by (auto simp: namesDistinct_def)
qed

lemma moveRecord_updates:
  "isUpdate (moveRecord a b h u)" "paxGet (tPAXRecords (moveRecord a b h u)) STFSRecordReplacesName = Some (Name h)"
  by (simp_all add: moveRecord_def isUpdate_def stfs_records)

lemma Move_appends:
  assumes "atLastEntry sqliteMetadata op T s" "Move x tapeBackend sqliteMetadata op old new s = (Ok (), s')"
    and "namesDistinct (osMetadata s)" "fst (GetHeader (ToSlash old) (osMetadata s)) = Ok dbhdr"
    and "HasPrefix (ToSlash old) ''/''" "ToSlash old \<noteq> ToSlash new"
  shows "\<exists>hdrs. appendsAndIndexes x sqliteMetadata op HeaderEventTypeMove False T hdrs (osMetadata s) s'
    \<and> takesUp op (osMetadata s) hdrs"
proof -
  obtain ess es e p rec blk where T: "T = ess @ [es @ [e]]"
    and at: "tmIdle (osBackend s)" "tmStarts (osBackend s) = tapeBlocks (ess @ [es @ [e]])"
      "tapeWf (ess @ [es @ [e]])" "0 < RecordSize (opPipes op)"
      "(rec, blk) = locate (RecordSize (opPipes op)) (length (tapeBlocks ess @ entriesBlocks es))"
    and l: "mpGetLastIndexedRecordAndBlock sqliteMetadata (int (RecordSize (opPipes op))) (osMetadata s) = (Ok (rec, blk), p)"
    using assms(1) by (rule atLastEntry_cases)
  have p: "p = osMetadata s" using sqlite_last [of _ "osMetadata s"] l by (metis snd_conv)
  let ?src = "ToSlash old" and ?s0 = "s\<lparr>osBackend := snd (GetWriter (osBackend s))\<rparr>"
  have root: "root p = ''/''" using assms(3) by (simp add: namesDistinct_def p)
  have path: "getSanitizedPath n p = (n, p)" if "HasPrefix n ''/''" for n
    using getSanitizedPath_abs_root [OF root that] .
  have g: "GetHeader ?src p = (Ok dbhdr, p)"
    using assms(4,5) path [of ?src] unfolding p by (auto simp: GetHeader_def split: option.splits)
  have name: "Name dbhdr = ?src"
    using g path [OF assms(5)] by (auto simp: GetHeader_def split: option.splits dest!: selectByName_mem)
  have lookup: "lookupNameOrLink sqliteMetadata ?src ?s0 = (Ok dbhdr, ?s0)"
    using g by (simp add: lookupNameOrLink_def onMetadata_def sqliteMetadata_def p)
  have abs: "IsAbs (Name dbhdr)" using assms(5) name by (simp add: IsAbs_def)
  have kids: "GetHeaderChildren ?src p = (Ok dbhdrs, q) \<Longrightarrow> q = p" for dbhdrs q
    using path [OF assms(5)] by (auto simp: GetHeaderChildren_def)
  obtain hs hdrs s3 where d: "hs = [dbhdr] \<or> (\<exists>dbhdrs. GetHeaderChildren ?src p = (Ok dbhdrs, p) \<and> hs = dbhdr # dbhdrs)"
    "writeSession tapeBackend (forHeaders (\<lambda>h. appendRecord x op HeaderEventTypeMove (moveRecord ?src (ToSlash new) h) h) hs) ?s0 = (Ok hdrs, s3)"
    "indexAppended tapeBackend sqliteMetadata op HeaderEventTypeMove hdrs rec blk False False s3 = (Ok (), s')"
  proof -
    let ?hs = "if Typeflag dbhdr = uint TypeDir
      then andThen (onMetadata (mpGetHeaderChildren sqliteMetadata ?src) ?s0) (\<lambda>dbhdrs s. (Ok (dbhdr # dbhdrs), s))
      else (Ok [dbhdr], ?s0)"
    have s0: "onMetadata (mpGetLastIndexedRecordAndBlock sqliteMetadata (int (RecordSize (opPipes op)))) ?s0 = (Ok (rec, blk), ?s0)"
      using l by (simp add: onMetadata_def p)
    have "andThen ?hs (\<lambda>hs s. andThen (writeSession tapeBackend (forHeaders (\<lambda>h. appendRecord x op HeaderEventTypeMove
          (moveRecord ?src (ToSlash new) h) h) hs) s)
        (\<lambda>hdrs s. indexAppended tapeBackend sqliteMetadata op HeaderEventTypeMove hdrs rec blk False False s)) = (Ok (), s')"
      using assms(2,6) unfolding Move_def Let_def tapeBackend_simps GetWriter_session [OF at(1)] andThen_simps s0 prod.case lookup
      by (simp add: abs)
    then obtain hs s2 hdrs s3 where h: "?hs = (Ok hs, s2)"
      "writeSession tapeBackend (forHeaders (\<lambda>h. appendRecord x op HeaderEventTypeMove (moveRecord ?src (ToSlash new) h) h) hs) s2 = (Ok hdrs, s3)"
      "indexAppended tapeBackend sqliteMetadata op HeaderEventTypeMove hdrs rec blk False False s3 = (Ok (), s')"
      unfolding andThen_Ok_iff by blast
    have "(hs = [dbhdr] \<or> (\<exists>dbhdrs. GetHeaderChildren ?src p = (Ok dbhdrs, p) \<and> hs = dbhdr # dbhdrs)) \<and> s2 = ?s0"
      using h(1) kids by (auto simp: andThen_Ok_iff onMetadata_def sqliteMetadata_def p split: if_splits prod.splits)
    with h(2,3) that show ?thesis by blast
  qed
  have "appendsAndIndexes x sqliteMetadata op HeaderEventTypeMove False T hdrs p s'"
    unfolding T by (rule operation_appends [OF at _ _ d(2,3)]) (simp_all add: p records_keep)
  moreover have "takesUp op p hdrs"
  proof -
    have hs: "distinct (map Name hs)" "\<And>h. h \<in> set hs \<Longrightarrow> HasPrefix (Name h) ''/'' \<and> Name h \<in> Name ` set (rows p)"
      using moved_headers [OF assms(3) [folded p] g assms(5)] d(1) by blast+
    have all: "list_all2 (\<lambda>h t. \<exists>u. t = moveRecord ?src (ToSlash new) h u) hs hdrs"
      using recordSession_hdrs [where edit = "moveRecord ?src (ToSlash new)", OF d(2)]
      by (auto simp: recordHeader_def rbind_Ok_iff elim!: list_all2_mono)
    then have "map (oldName p) hdrs = map Name hs"
      using hs(2) path by (induction rule: list_all2_induct) (auto simp: oldName_def moveRecord_updates)
    moreover have from_hs: "\<forall>t \<in> set hdrs. \<exists>h \<in> set hs. \<exists>u. t = moveRecord ?src (ToSlash new) h u"
      using all by (induction rule: list_all2_induct) auto
    moreover have "movesRow p k" if k: "t \<in> set hdrs" "indexedHeader t (Compression (opPipes op)) (Encryption (opPipes op)) = Ok k" for t k
    proof -
      obtain h u where h: "h \<in> set hs" "t = moveRecord ?src (ToSlash new) h u"
        using bspec [OF from_hs k(1)] by auto
      have "tPAXRecords k = tPAXRecords t" using indexedHeader_name(2) [OF k(2)] .
      then show ?thesis
        using hs(2) [OF h(1)] path root moveRecord_updates [of ?src "ToSlash new" h u]
        by (simp add: movesRow_def isUpdate_def oldName_def h(2))
    qed
    ultimately show ?thesis using hs(1) by (simp add: takesUp_def)
  qed
  ultimately show ?thesis using p by blast
qed

section \<open>Sequences of operations\<close>

text \<open>
  Operations that all succeed, one after the other: archiving new entries, updating entries the index
  has, deleting, and moving in an index without doubled names.
\<close>

inductive operated ::
  "external \<Rightarrow> 'e operations \<Rightarrow> (tape_manager, persister, 'e) ops_state \<Rightarrow> (tape_manager, persister, 'e) ops_state \<Rightarrow> bool"
  for x op where
  start: "operated x op s s"
| archived: "operated x op s s1
    \<Longrightarrow> archive x tapeBackend sqliteMetadata op srcs level False init s1 = (Ok hdrs, s2)
    \<Longrightarrow> \<forall>hdr \<in> set hdrs. \<not> isUpdate hdr \<Longrightarrow> operated x op s s2"
| updated: "operated x op s s1
    \<Longrightarrow> Update x tapeBackend sqliteMetadata op srcs level replace skip s1 = (Ok hdrs, s2)
    \<Longrightarrow> takesUp op (osMetadata s1) hdrs \<Longrightarrow> operated x op s s2"
| deleted: "operated x op s s1
    \<Longrightarrow> Delete x tapeBackend sqliteMetadata op name s1 = (Ok (), s2) \<Longrightarrow> operated x op s s2"
| moved: "operated x op s s1
    \<Longrightarrow> Move x tapeBackend sqliteMetadata op old new s1 = (Ok (), s2)
    \<Longrightarrow> namesDistinct (osMetadata s1) \<Longrightarrow> fst (GetHeader (ToSlash old) (osMetadata s1)) = Ok dbhdr
    \<Longrightarrow> HasPrefix (ToSlash old) ''/'' \<Longrightarrow> operated x op s s2"



section \<open>An entry the index did not take up\<close>

text \<open>
  Where the drive has entries behind the last one the index knows, indexing what was appended pairs the
  headers with those entries first, and runs out of headers.
\<close>

lemma visit_runs_out:
  assumes "visit rs (indexEntry mp pipes init 1 (pairedHeader hdrs) ver f) (i + 1) xs s = (Ok (), s')"
  shows "xs = [] \<or> i + length xs \<le> length hdrs"
  using assms
proof (induction xs arbitrary: i s)
  case (Cons e xs)
  obtain q h where e: "e = (q, h)" by force
  obtain s1 where 1: "indexEntry mp pipes init 1 (pairedHeader hdrs) ver f (i + 1) (fst (locate rs q)) (snd (locate rs q)) h s = (Ok (), s1)"
    "visit rs (indexEntry mp pipes init 1 (pairedHeader hdrs) ver f) (i + 1 + 1) xs s1 = (Ok (), s')"
    using Cons.prems by (auto simp: e andThen_Ok_iff)
  have "i < length hdrs" using 1(1) by (auto simp: indexEntry_def pairedHeader_def andThen_Ok_iff split: if_splits)
  then show ?case using Cons.IH [of "i + 1", OF 1(2)] by auto
qed simp

lemma behind_fails:
  assumes "tmIdle (osBackend s)" "tmStarts (osBackend s) = tapeBlocks (ess @ [es @ [e]] @ lost)"
    and "tapeWf (ess @ [es @ [e]] @ lost)" "lost \<noteq> []" "0 < RecordSize (opPipes op)"
    and "(rec, blk) = locate (RecordSize (opPipes op)) (length (tapeBlocks ess @ entriesBlocks es))"
    and "osBackend s1 = snd (GetWriter (osBackend s))" "keepsSession x op f"
    and "writeSession tapeBackend f s1 = (Ok hdrs, s2)"
  shows "indexAppended tapeBackend mp op ty hdrs rec blk False init s2 \<noteq> (Ok (), s')"
proof
  assume ix: "indexAppended tapeBackend mp op ty hdrs rec blk False init s2 = (Ok (), s')"
  obtain new ev where new: "list_all2 (entryOf x op) hdrs new"
    "s2 = s1\<lparr>osBackend := bcAppend tapeBackend (tapeBlocks (appended new)) (osBackend s1), osEvents := ev\<rparr>"
    using writeSession_Ok [OF assms(9,8)] by blast
  have s2: "osBackend s2 = bcAppend tapeBackend (tapeBlocks (appended new)) (snd (bcGetWriter tapeBackend (osBackend s)))"
    by (simp add: new(2) assms(7))
  have m: "tmStarts (osBackend s) @ tapeBlocks (appended new) = tapeBlocks (ess @ [es @ [e]] @ lost @ appended new)"
    by (simp add: assms(2))
  have "Index (tapeBlocks (ess @ [es @ [e]] @ lost @ appended new)) mp (opPipes op) rec blk False init 1 (pairedHeader hdrs)
        (\<lambda>hdr _. Ok hdr) (Some (notifyIndexed op ty)) (osMetadata s2, osEvents s2) = (Ok (), (osMetadata s', osEvents s'))"
    using tm.append_and_index [OF assms(1) s2 ix] unfolding m by simp
  moreover have wf: "tapeWf (ess @ [es @ [e]])" "tapeWf (lost @ appended new)"
    using assms(3) tapeWf_appended [OF new(1)] by (simp_all add: tapeWf_def)
  ultimately have "visit (RecordSize (opPipes op)) (indexEntry mp (opPipes op) init 1 (pairedHeader hdrs) (\<lambda>hdr _. Ok hdr)
        (Some (notifyIndexed op ty))) 1 (tapeAt (length (tapeBlocks (ess @ [es @ [e]]))) (lost @ appended new))
        (osMetadata s2, osEvents s2) = (Ok (), (osMetadata s', osEvents s'))"
    using Index_after_last [OF assms(5) wf assms(6)] by metis
  from visit_runs_out [of _ _ _ _ _ _ _ 0, simplified, OF this [unfolded One_nat_def]]
  have "length (tapeAt (length (tapeBlocks (ess @ [es @ [e]]))) (lost @ appended new)) \<le> length hdrs"
    by auto
  moreover have "length hdrs = length (tapeAt q (appended new))" for q
    using list_all2_lengthD [OF new(1)] by (simp add: tapeAt_appended)
  moreover obtain l ls where "lost = l # ls" "l \<noteq> []" using assms(3,4) by (cases lost) (auto simp: tapeWf_def)
  ultimately show False by (cases l) (auto simp: tapeAt_append)
qed

text \<open>No operation that writes from there on succeeds.\<close>

definition neverSucceeds :: "external \<Rightarrow> 'p metadata_persister \<Rightarrow> 'e operations \<Rightarrow> (tape_manager, 'p, 'e) ops_state \<Rightarrow> bool" where
  "neverSucceeds x mp op s =
     (\<forall>srcs level init replace skip hdrs.
        fst (archive x tapeBackend mp op srcs level False init s) \<noteq> Ok hdrs
        \<and> fst (Update x tapeBackend mp op srcs level replace skip s) \<noteq> Ok hdrs)"

lemma behind_neverSucceeds:
  assumes "tmIdle (osBackend s)" "tmStarts (osBackend s) = tapeBlocks (ess @ [es @ [e]] @ lost)"
    and "tapeWf (ess @ [es @ [e]] @ lost)" "lost \<noteq> []" "0 < RecordSize (opPipes op)"
    and "fst (mpGetLastIndexedRecordAndBlock mp (int (RecordSize (opPipes op))) (osMetadata s))
      = Ok (locate (RecordSize (opPipes op)) (length (tapeBlocks ess @ entriesBlocks es)))"
  shows "neverSucceeds x mp op s"
proof -
  obtain rec blk where loc: "(rec, blk) = locate (RecordSize (opPipes op)) (length (tapeBlocks ess @ entriesBlocks es))"
    by (metis prod.collapse)
  obtain p where l: "mpGetLastIndexedRecordAndBlock mp (int (RecordSize (opPipes op))) (osMetadata s) = (Ok (rec, blk), p)"
    using assms(6) loc by (metis prod.collapse)
  let ?s1 = "s\<lparr>osBackend := snd (GetWriter (osBackend s)), osMetadata := p\<rparr>"
  note fails = behind_fails [OF assms(1-5) loc, of ?s1]
  have "archive x tapeBackend mp op srcs level False init s \<noteq> (Ok hdrs, s')" for srcs level init hdrs s'
  proof
    assume "archive x tapeBackend mp op srcs level False init s = (Ok hdrs, s')"
    then obtain s2 where "writeSession tapeBackend (forSources (archiveFile x op level) srcs) ?s1 = (Ok hdrs, s2)"
      "indexAppended tapeBackend mp op HeaderEventTypeArchive hdrs rec blk False init s2 = (Ok (), s')"
      by (auto simp: archive_def GetWriter_session [OF assms(1)] onMetadata_def l andThen_Ok_iff)
    with fails [OF _ archive_keeps] show False by simp
  qed
  moreover have "Update x tapeBackend mp op srcs level replace skip s \<noteq> (Ok hdrs, s')" for srcs level replace skip hdrs s'
  proof
    assume "Update x tapeBackend mp op srcs level replace skip s = (Ok hdrs, s')"
    then obtain s2 where "writeSession tapeBackend (forSources (updateFile x op level replace skip) srcs) ?s1 = (Ok hdrs, s2)"
      "indexAppended tapeBackend mp op HeaderEventTypeUpdate hdrs rec blk False False s2 = (Ok (), s')"
      by (auto simp: Update_def GetWriter_session [OF assms(1)] onMetadata_def l andThen_Ok_iff)
    with fails [OF _ update_keeps] show False by simp
  qed
  ultimately show ?thesis unfolding neverSucceeds_def by (metis prod.collapse)
qed

text \<open>The header an update of one source writes, where the source has no records of its own.\<close>

lemma paxGet_smInsert [simp]:
  "paxGet (Some (smInsert k v m)) k' = (if k' = k then Some v else paxGet (Some m) k')"
  "paxGet (Some (paxOrEmpty m')) k' = paxGet m' k'"
  by (auto simp: paxGet_def paxOrEmpty_def split: option.split)

lemma sizeFile_records:
  assumes "sizeFile x op level file h0 w = (Ok (hdr, contents), w')"
    and "k \<noteq> STFSRecordUncompressedSize" "k \<noteq> STFSRecordSignature"
  shows "paxGet (tPAXRecords hdr) k = paxGet (tPAXRecords h0) k"
  using assms
  by (auto simp: sizeFile_def sizedHeader_def andThen_Ok_iff rbind_Ok_iff Let_def)

lemma writeContents_hdrs:
  "writeContents x op level file contents w = (Ok (), w') \<Longrightarrow> wHdrs w' = wHdrs w"
  by (auto simp: writeContents_def andThen_Ok_iff onTar_Ok dest!: onWEvents_Ok)

lemma updateFile_records:
  assumes "updateFile x op level True skip file w = (Ok (), w')"
    and "FileInfoHeader (fcInfo file) (fcLink file) = Ok h0" "tPAXRecords h0 = None"
  shows "\<exists>hdr. wHdrs w' = wHdrs w @ [hdr] \<and> isUpdate hdr \<and> paxGet (tPAXRecords hdr) STFSRecordReplacesName = None
    \<and> paxGet (tPAXRecords hdr) STFSRecordReplacesContent = Some STFSRecordReplacesContentTrue"
proof -
  let ?h = "h0\<lparr>tName := fcPath file, tFormat := FormatPAX, tPAXRecords :=
      Some (smInsert STFSRecordAction STFSRecordActionUpdate
        (smInsert STFSRecordVersion STFSRecordVersion1 (paxOrEmpty (tPAXRecords h0))))\<rparr>"
  let ?first = "if IsRegularMode (fiMode (fcInfo file)) \<and> (fiSize (fcInfo file) > 0 \<or> skip)
      then andThen (sizeFile x op level file ?h w) (\<lambda>(hdr, f) w. (Ok (hdr, Some f), w)) else (Ok (?h, None), w)"
  obtain h2 c w1 w2 w3 hdr where a: "?first = (Ok (h2, c), w1)"
    "hdr = h2\<lparr>tPAXRecords := Some (smInsert STFSRecordReplacesContent STFSRecordReplacesContentTrue
       (paxOrEmpty (tPAXRecords h2)))\<rparr>"
    "announce op HeaderEventTypeUpdate hdr w1 = (Ok (), w2)"
    "writeHeader x op hdr (w2\<lparr>wHdrs := wHdrs w2 @ [hdr]\<rparr>) = (Ok (), w3)"
    "(case c of None \<Rightarrow> (Ok (), w3) | Some contents \<Rightarrow> writeContents x op level file contents w3) = (Ok (), w')"
    using assms(1,2) by (auto simp: updateFile_def andThen_Ok_iff Let_def simp del: split_paired_Ex)
  have h2: "wHdrs w1 = wHdrs w" "k \<noteq> STFSRecordUncompressedSize \<Longrightarrow> k \<noteq> STFSRecordSignature
      \<Longrightarrow> paxGet (tPAXRecords h2) k = paxGet (tPAXRecords ?h) k" for k
    using a(1) sizeFile_events sizeFile_records by (fastforce simp: andThen_Ok_iff split: if_splits)+
  have "wHdrs w' = wHdrs w3" using a(5) writeContents_hdrs by (auto split: option.splits)
  then have "wHdrs w' = wHdrs w @ [hdr]" using announce_Ok [OF a(3)] writeHeader_Ok [OF a(4)] h2(1) by auto
  moreover have "paxGet (tPAXRecords hdr) STFSRecordReplacesName = None" "isUpdate hdr"
    "paxGet (tPAXRecords hdr) STFSRecordReplacesContent = Some STFSRecordReplacesContentTrue"
    using h2(2) [of STFSRecordReplacesName] h2(2) [of STFSRecordAction]
    by (simp_all add: a(2) isUpdate_def assms(3) stfs_records paxGet_def [of None])
  ultimately show ?thesis by blast
qed

text \<open>Updating the contents of an entry that has no row changes no row.\<close>

lemma indexHeader_no_row:
  assumes "indexHeader sqliteMetadata rec blk hdr c e init (Some f) (p, ev) = (Ok (), (p', ev'))"
    and "isUpdate hdr" "paxGet (tPAXRecords hdr) STFSRecordReplacesName = None"
    and "paxGet (tPAXRecords hdr) STFSRecordReplacesContent = Some STFSRecordReplacesContentTrue" "root p \<noteq> []"
    and "\<And>h. indexedHeader hdr c e = Ok h \<Longrightarrow> (fst (getSanitizedPath (tName h) p), tLinkname h) \<notin> key_of ` set (rows p)"
  shows "p' = p"
proof -
  obtain h where h: "indexedHeader hdr c e = Ok h" "indexAction sqliteMetadata rec blk h init p = (Ok (), p')"
    using assms(1) by (auto simp: indexHeader_def andThen_Ok_iff on_Ok_iff)
  have pax: "tPAXRecords h = tPAXRecords hdr"
    using h(1) by (auto simp: indexedHeader_def rbind_Ok_iff split: option.splits if_splits)
  have "indexUpdate sqliteMetadata rec blk h p = (Ok (), p')"
    using h(2) assms(2) by (auto simp: indexAction_def isUpdate_def pax stfs_records Let_def split: if_splits option.splits)
  then have "UpdateHeaderMetadata (TarHeaderToDBHeader rec rec blk blk h) p = (Ok (), p')"
    using assms(3,4) by (auto simp: indexUpdate_def pax andThen_Ok_iff sqliteMetadata_def)
  moreover obtain n where n: "getSanitizedPath (tName h) p = (n, p)"
    using getSanitizedPath_known [OF assms(5)] by (metis prod.collapse)
  moreover have "updateRow (rows p) ((TarHeaderToDBHeader rec rec blk blk h)\<lparr>Name := n\<rparr>) = rows p"
    using assms(6) [OF h(1)] n by (auto simp: updateRow_def image_iff intro!: map_idI)
  ultimately show ?thesis by (simp add: UpdateHeaderMetadata_def)
qed


text \<open>The update of \<open>/b\<close> in an index that has only the root directory.\<close>

definition exampleUpdated :: "string \<Rightarrow> tar_header" where
  "exampleUpdated n = (exampleEntry n)\<lparr>tPAXRecords := Some (smInsert STFSRecordReplacesContent STFSRecordReplacesContentTrue
     (smInsert STFSRecordAction STFSRecordActionUpdate (smInsert STFSRecordVersion STFSRecordVersion1 [])))\<rparr>"

lemma exampleUpdated_simps [simp]:
  "tName (exampleUpdated n) = n" "tLinkname (exampleUpdated n) = []" "payload (exampleUpdated n) = 0"
  "hdrMode (exampleUpdated n) = hdrMode (exampleDir n)"
  by (simp_all add: exampleUpdated_def payload_def isHeaderOnly_def)
    (simp add: hdrMode_def exampleEntry_def)

lemma exampleUpdated_header: "indexedHeader (exampleUpdated n) c e = Ok (exampleUpdated n)"
proof -
  have "paxGet (tPAXRecords (exampleUpdated n)) STFSRecordUncompressedSize = None"
    by (simp add: exampleUpdated_def stfs_records paxGet_def)
  then show ?thesis by (simp add: indexedHeader_def exampleDir_mode)
qed

lemma exampleUpdated_session:
  "writeSession tapeBackend (forSources (updateFile exampleExternal exampleOperations level True skip)
      [justFile (exampleSource n)]) s
   = (Ok [exampleUpdated n], s\<lparr>osBackend := appendBlocks (tapeBlocks [[(exampleUpdated n, 0, [])]]) (osBackend s)\<rparr>)"
proof -
  have "tPAXRecords (exampleDir n) = None" by (simp add: exampleDir_def zero_tar_header_def)
  then have h: "exampleDir n\<lparr>tName := n, tFormat := FormatPAX, tPAXRecords := Some (smInsert STFSRecordReplacesContent
      STFSRecordReplacesContentTrue (smInsert STFSRecordAction STFSRecordActionUpdate
      (smInsert STFSRecordVersion STFSRecordVersion1 (paxOrEmpty (tPAXRecords (exampleDir n))))))\<rparr> = exampleUpdated n"
    by (simp add: exampleUpdated_def exampleEntry_def exampleDir_def paxOrEmpty_def)
  have "updateFile exampleExternal exampleOperations level True skip (exampleSource n) w
      = (Ok (), w\<lparr>wHdrs := wHdrs w @ [exampleUpdated n], wDirty := True,
         wTar := \<lparr>twMedium = twMedium (wTar w) @ entryBlocks (exampleUpdated n) 0 [], twOwed = 0\<rparr>\<rparr>)"
    if "twOwed (wTar w) = 0" for w
    using that h by (simp add: updateFile_def exampleSource_header exampleSource_mode announce_example
        writeHeader_example Let_def paxOrEmpty_def)
  then show ?thesis
    by (simp add: writeSession_def cleanupTape_def onTar_def twClose_def tapeBackend_def)
qed

lemma exampleUpdated_no_row:
  "fst (getSanitizedPath ''/b'' (exampleIndex [exampleRow 0 0 ''/''])) = ''/b''" "root (exampleIndex rs) = ''/''"
  "(''/b'', []) \<notin> key_of ` set (rows (exampleIndex [exampleRow 0 0 ''/'']))"
  by (simp_all add: getSanitizedPath_abs_root exampleIndex_def exampleRow_def)

lemma exampleUpdated_index:
  "indexHeader sqliteMetadata r b (exampleUpdated ''/b'') [] [] False (Some (notifyIndexed exampleOperations ty))
     (exampleIndex [exampleRow 0 0 ''/''], ()) = (Ok (), (exampleIndex [exampleRow 0 0 ''/''], ()))"
proof -
  let ?p = "exampleIndex [exampleRow 0 0 ''/'']" and ?h = "exampleUpdated ''/b''"
  have pax: "paxGet (tPAXRecords ?h) STFSRecordVersion = Some STFSRecordVersion1"
    "paxGet (tPAXRecords ?h) STFSRecordAction = Some STFSRecordActionUpdate"
    "paxGet (tPAXRecords ?h) STFSRecordReplacesContent = Some STFSRecordReplacesContentTrue"
    "paxGet (tPAXRecords ?h) STFSRecordReplacesName = None"
    by (simp_all add: exampleUpdated_def paxGet_def stfs_records)
  have "getSanitizedPath ''/b'' ?p = (''/b'', ?p)" by (simp add: getSanitizedPath_abs_root exampleIndex_def)
  then have "UpdateHeaderMetadata (TarHeaderToDBHeader r r b b ?h) ?p = (Ok (), ?p)"
    by (simp add: UpdateHeaderMetadata_def updateRow_def)
  moreover have "STFSRecordActionUpdate \<noteq> STFSRecordActionDelete" "STFSRecordActionUpdate \<noteq> STFSRecordActionCreate"
    by (simp_all add: stfs_records)
  ultimately show ?thesis
    by (simp add: indexHeader_def exampleUpdated_header onEvents_def onMeta_def notifyIndexed_def notify_def
        indexAction_def pax Let_def indexUpdate_def sqliteMetadata_def)
qed

lemma exampleUpdated_update:
  "Update exampleExternal tapeBackend sqliteMetadata exampleOperations [justFile (exampleSource ''/b'')] level True skip
     (exampleState [exampleRow 0 0 ''/''])
   = (Ok [exampleUpdated ''/b''], snd (Update exampleExternal tapeBackend sqliteMetadata exampleOperations
       [justFile (exampleSource ''/b'')] level True skip (exampleState [exampleRow 0 0 ''/''])))"
proof -
  have "mpGetLastIndexedRecordAndBlock sqliteMetadata 20 (exampleIndex [exampleRow 0 0 ''/''])
      = (Ok (0, 0), exampleIndex [exampleRow 0 0 ''/''])"
    by (simp add: sqliteMetadata_def GetLastIndexedRecordAndBlock_def exampleRow_def)
  moreover have "tapeBlocks [[exampleRoot], [(exampleUpdated ''/b'', 0, [])]]
      = tapeBlocks [[exampleRoot]] @ tapeBlocks [[(exampleUpdated ''/b'', 0, [])]]" by simp
  moreover have l: "(0, 0) = locate (RecordSize examplePipes) (length (tapeBlocks [] @ entriesBlocks []))"
    by (simp add: locate_0)
  have "tapeWf ([] @ [[] @ [exampleRoot]])" "tapeWf [[(exampleUpdated ''/b'', 0, [])]]"
    by (simp_all add: tapeWf_def entryWf_def exampleRoot_def)
  from Index_after_last [OF _ this l, of sqliteMetadata False "pairedHeader [exampleUpdated ''/b'']" "\<lambda>hdr _. Ok hdr"
      "Some (notifyIndexed exampleOperations HeaderEventTypeUpdate)" "(exampleIndex [exampleRow 0 0 ''/''], ())"]
  have "Index (tapeBlocks [[exampleRoot], [(exampleUpdated ''/b'', 0, [])]]) sqliteMetadata examplePipes 0 0 False False 1
      (pairedHeader [exampleUpdated ''/b'']) (\<lambda>hdr _. Ok hdr) (Some (notifyIndexed exampleOperations HeaderEventTypeUpdate))
      (exampleIndex [exampleRow 0 0 ''/''], ()) = (Ok (), (exampleIndex [exampleRow 0 0 ''/''], ()))"
    by (simp add: indexEntry_paired exampleUpdated_index del: tapeBlocks.simps)
  ultimately show ?thesis
    by (simp add: Update_def GetWriter_session onMetadata_def exampleUpdated_session GetWriter_idle
        indexAppended_def onBackend_def manager_defs deferCloseReader_def indexDrive_def
        exampleDrive_def NewTapeManager_def del: tapeBlocks.simps)
qed


end
