(* ===== verification/FileSystemProps.thy ===== *)
theory FileSystemProps
  imports FileSystemSafety OperationsIndex
begin

text \<open>
  What single methods of the file system do, through the operations, the drive and the index: making a
  directory, and renaming.
\<close>

section \<open>Lookups\<close>

lemma attempt_Ok_iff:
  "attempt p f g (\<lambda>s. s) = (Ok y, t)
   \<longleftrightarrow> (\<exists>x s. p = (Ok x, s) \<and> f x s = (Ok y, t)) \<or> (\<exists>e s. p = (Err e, s) \<and> g e s = (Ok y, t))"
  by (cases p; cases "fst p") auto

lemma orElse_Ok_iff:
  "orElse p g = (Ok y, t) \<longleftrightarrow> p = (Ok y, t) \<or> (\<exists>e s. p = (Err e, s) \<and> g e s = (Ok y, t))"
  by (auto simp: orElse_def attempt_Ok_iff)

text \<open>With a known root path, lookups change nothing.\<close>

lemma lookups_known:
  assumes "root p \<noteq> []"
  shows "snd (GetHeader n p) = p" "snd (GetHeaderByLinkname n p) = p"
  using getSanitizedPath_known [OF assms, of n]
  by (auto simp: GetHeader_def GetHeaderByLinkname_def split: prod.splits option.split)

text \<open>The drive and the index of a state.\<close>

definition driveIndex :: "('b, 'p, 'e) ops_state \<Rightarrow> 'b \<times> 'p" where
  "driveIndex s = (osBackend s, osMetadata s)"

lemma driveIndex_simps:
  "driveIndex (s\<lparr>osEvents := ev\<rparr>) = driveIndex s"
  by (simp add: driveIndex_def)

lemma onMetadata_index:
  assumes "snd (q (osMetadata s)) = osMetadata s"
  shows "driveIndex (snd (onMetadata q s)) = driveIndex s"
  using assms by (simp add: onMetadata_def driveIndex_def case_prod_beta)

lemma fsStat_index:
  assumes "fsMetadata f = sqliteMetadata" "root p \<noteq> []"
  shows "envKeeps (\<lambda>s. driveIndex s = (b, p)) (fsStat f name symlink)"
proof -
  have slash: "envKeeps (\<lambda>s. driveIndex s = (b, p)) (withSlash q n)"
    if "\<And>n. snd (q n p) = p" for q n
    unfolding withSlash_def
    by (intro keeps_intros) (simp_all add: envKeeps_def driveIndex_def onMetadata_def case_prod_beta that)
  have events: "envKeeps (\<lambda>s. driveIndex s = (b, p)) (onEventsOf g h)" for g h
    by (simp add: envKeeps_def onEventsOf_def driveIndex_def case_prod_beta split: option.split)
  show ?thesis
    unfolding fsStat_def StatEntry_def Let_def assms(1)
    by (intro keeps_intros slash events) (simp_all add: sqliteMetadata_def lookups_known [OF assms(2)])
qed

lemma fsStat_state:
  assumes "fsMetadata f = sqliteMetadata" "root (osMetadata s) \<noteq> []" "fsStat f name symlink s = (r, s')"
  shows "osBackend s' = osBackend s" "osMetadata s' = osMetadata s"
  using envKeepsD [OF fsStat_index [OF assms(1,2)], of s "osBackend s" name symlink] assms(3)
  by (simp_all add: driveIndex_def)

text \<open>A header that is not a link, found under its name.\<close>

lemma fsStat_found:
  assumes "fsMetadata f = sqliteMetadata" "fst (GetHeader name (osMetadata s)) = Ok (TarHeaderToDBHeader r r b b h)"
    and "tLinkname h = []" "tPAXRecords h = None" "\<And>g h ev. fsOnHeader f = Some g \<Longrightarrow> fst (g h ev) = Ok ()"
  shows "fst (fsStat f name False s) = Ok (h\<lparr>tPAXRecords := Some []\<rparr>)"
proof -
  obtain p where g: "GetHeader name (osMetadata s) = (Ok (TarHeaderToDBHeader r r b b h), p)"
    using assms(2) by (metis prod.collapse)
  have "DBHeaderToTarHeader (TarHeaderToDBHeader r r b b h) = Ok (h\<lparr>tPAXRecords := Some []\<rparr>)"
    using DBHeaderToTarHeader_TarHeaderToDBHeader [of h r r b b] assms(4) by (simp add: tarWf_def paxOrEmpty_def)
  moreover have "Linkname (TarHeaderToDBHeader r r b b h) = []" by (simp add: TarHeaderToDBHeader_def assms(3))
  moreover have "fst (andThen (onEventsOf (fsOnHeader f) row s1) (\<lambda>_ s. (Ok h', s))) = Ok h'" for row s1 h'
    using assms(5) by (cases "fsOnHeader f")
      (auto simp: onEventsOf_def split: prod.split, metis fst_conv andThen_simps(1))
  ultimately show ?thesis
    by (simp add: fsStat_def StatEntry_def assms(1) withSlash_def ToSlash_def sqliteMetadata_def onMetadata_def g)
qed

section \<open>Making a directory\<close>

lemma masked_bits:
  fixes q :: filemode
  shows "(q AND 0x1FF) AND NOT 0xFFF = 0" "(q AND 0x1FF) AND 0x800 = 0" "(q AND 0x1FF) AND 0x400 = 0"
    "(q AND 0x1FF) AND 0x200 = 0" "(q AND 0x1FF OR ModeDir) AND ModeType = ModeDir"
    "(q AND 0x1FF OR ModeDir) AND ModeDir = ModeDir" "(q AND 0x1FF OR ModeDir) AND ModePerm = q AND 0x1FF"
    "(q AND 0x1FF OR ModeDir) AND ModeSetuid = 0" "(q AND 0x1FF OR ModeDir) AND ModeSetgid = 0"
    "(q AND 0x1FF OR ModeDir) AND ModeSticky = 0"
  by (simp_all add: mode_defs bit.conj_disj_distrib2 and.assoc)

lemma perm_bits:
  fixes perm :: filemode
  assumes "Perm perm = perm"
  shows "perm AND NOT 0xFFF = 0" "perm AND 0x800 = 0" "perm AND 0x400 = 0" "perm AND 0x200 = 0"
    "(perm OR ModeDir) AND ModeType = ModeDir" "(perm OR ModeDir) AND ModeDir = ModeDir"
    "(perm OR ModeDir) AND ModePerm = perm" "(perm OR ModeDir) AND ModeSetuid = 0"
    "(perm OR ModeDir) AND ModeSetgid = 0" "(perm OR ModeDir) AND ModeSticky = 0"
proof -
  have p: "perm AND 0x1FF = perm" using assms by (simp add: Perm_def ModePerm_def)
  show "perm AND NOT 0xFFF = 0" "perm AND 0x800 = 0" "perm AND 0x400 = 0" "perm AND 0x200 = 0"
    "(perm OR ModeDir) AND ModeType = ModeDir" "(perm OR ModeDir) AND ModeDir = ModeDir"
    "(perm OR ModeDir) AND ModePerm = perm" "(perm OR ModeDir) AND ModeSetuid = 0"
    "(perm OR ModeDir) AND ModeSetgid = 0" "(perm OR ModeDir) AND ModeSticky = 0"
    by - (rule masked_bits [of perm, unfolded p])+
qed

lemma nodeHeader_dir_mode:
  assumes "Perm perm = perm"
  shows "hdrMode (nodeHeader usr groups True name perm []) = perm OR ModeDir"
  using perm_bits [OF assms] assms
  by (simp add: hdrMode_def nodeHeader_def zero_tar_header_def Let_def typeModeBits_def flagModeBits_def type_defs)

lemma nodeHeader_dir_info:
  assumes "Perm perm = perm"
  shows "FileInfoHeader (hdrFileInfo (nodeHeader usr groups True name perm [])) []
    = Ok ((nodeHeader usr groups True name perm [])\<lparr>tName := Base (Clean name) @ ''/''\<rparr>)"
    "\<not> IsRegularMode (fiMode (hdrFileInfo (nodeHeader usr groups True name perm [])))"
proof -
  let ?h = "nodeHeader usr groups True name perm []"
  note bits = perm_bits [OF assms]
  have dir: "hdrIsDir ?h" by (simp add: hdrIsDir_def IsDirMode_def nodeHeader_dir_mode [OF assms] bits)
      (simp add: ModeDir_def)
  have fi: "hdrFileInfo ?h = \<lparr>fiName = Base (Clean name), fiSize = 0, fiMode = perm OR ModeDir,
      fiModTime = tModTime ?h, fiSys = SysHeader ?h\<rparr>"
    by (simp add: hdrFileInfo_def dir nodeHeader_dir_mode [OF assms])
      (simp add: nodeHeader_def zero_tar_header_def)
  show "\<not> IsRegularMode (fiMode (hdrFileInfo ?h))"
    by (simp add: fi IsRegularMode_def bits) (simp add: ModeDir_def)
  show "FileInfoHeader (hdrFileInfo ?h) [] = Ok (?h\<lparr>tName := Base (Clean name) @ ''/''\<rparr>)"
    unfolding fi
    by (simp add: FileInfoHeader_def fileInfoKind_def fileInfoSys_def Let_def IsRegularMode_def IsDirMode_def
        Perm_def bits, simp add: nodeHeader_def zero_tar_header_def, simp add: ModeDir_def)
qed

text \<open>The header that is archived for a source without contents, and what is indexed for it.\<close>

lemma archive_node_hdrs:
  fixes s :: "(tape_manager, 'p, 'e) ops_state"
  assumes "archive x tapeBackend mp op [justFile (headerSource hdr name)] level ov init s = (Ok hdrs, s')"
    and "FileInfoHeader (hdrFileInfo hdr) (tLinkname hdr) = Ok h" "\<not> IsRegularMode (fiMode (hdrFileInfo hdr))"
  shows "hdrs = [h\<lparr>tName := name, tFormat := FormatPAX\<rparr>]"
proof -
  obtain s1 s2 :: "(tape_manager, 'p, 'e) ops_state" where
    "writeSession tapeBackend (forSources (archiveFile x op level) [justFile (headerSource hdr name)]) s1 = (Ok hdrs, s2)"
    using assms(1) by (auto simp: archive_def andThen_Ok_iff)
  then obtain w where "forSources (archiveFile x op level) [justFile (headerSource hdr name)]
      \<lparr>wTar = \<lparr>twMedium = [], twOwed = 0\<rparr>, wHdrs = [], wDirty = False, wEvents = osEvents s1\<rparr> = (Ok (), w)"
    "hdrs = wHdrs w"
    by (rule writeSession_hdrs)
  then show ?thesis
    using assms(2,3)
    by (auto simp: Let_def andThen_Ok_iff archiveFile_def headerSource_def ToSlash_def onWEvents_def justFile_def
        dest!: announce_Ok writeHeader_Ok)
qed

text \<open>What making an entry in the index by one header leaves to be found.\<close>

lemma node_indexed:
  assumes "appendsAndIndexes x sqliteMetadata op ty False T [h] p s'" "pkUnique p"
    and "tPAXRecords h = None" "tLinkname h = []" "\<not> IsRegularMode (hdrMode h)"
  shows "\<exists>e r b. dfMedium (tmDrive (osBackend s')) = Some (tapeBlocks (T @ [[e]]))
    \<and> fst (GetHeader (tName h) (osMetadata s'))
        = Ok (TarHeaderToDBHeader r r b b h\<lparr>Name := fst (getSanitizedPath (tName h) p)\<rparr>)"
proof -
  let ?loc = "locate (RecordSize (opPipes op)) (length (tapeBlocks T))"
  obtain new ev where new: "list_all2 (entryOf x op) [h] new"
    "dfMedium (tmDrive (osBackend s')) = Some (tapeBlocks (T @ appended new))"
    "applyHeaders sqliteMetadata op ty False (length (tapeBlocks T)) new [h] (p, ev) = (Ok (), (osMetadata s', osEvents s'))"
    using assms(1) by (auto simp: appendsAndIndexes_def)
  obtain e where e: "new = [e]" using new(1) by (auto simp: list_all2_Cons1)
  have "indexHeader sqliteMetadata (fst ?loc) (snd ?loc) h (Compression (opPipes op)) (Encryption (opPipes op))
      False (Some (notifyIndexed op ty)) (p, ev) = (Ok (), (osMetadata s', osEvents s'))"
    using new(3) by (cases e) (auto simp: applyHeaders_def e andThen_Ok_iff)
  from indexHeader_silent [OF this, of "()"]
  have i: "indexHeader sqliteMetadata (fst ?loc) (snd ?loc) h (Compression (opPipes op)) (Encryption (opPipes op))
      False None (p, ()) = (Ok (), (osMetadata s', ()))" .
  have "indexedHeader h (Compression (opPipes op)) (Encryption (opPipes op)) = Ok h"
    using assms(3,5) by (simp add: indexedHeader_def paxGet_def)
  moreover have "createsEntry h" using assms(3) by (simp add: createsEntry_def paxGet_def)
  ultimately have "fst (GetHeader (tName h) (osMetadata s'))
      = Ok (TarHeaderToDBHeader (fst ?loc) (fst ?loc) (snd ?loc) (snd ?loc) h\<lparr>Name := fst (getSanitizedPath (tName h) p)\<rparr>)"
    using indexHeader_create [of "(p, ())" h _ _ h "fst ?loc" "snd ?loc"] assms(2,4) i by (metis fst_conv snd_conv)
  moreover have "appended new = [[e]]" by (simp add: e appended_def)
  ultimately show ?thesis
    using new(2) by (intro exI [of _ e] exI [of _ "fst ?loc"] exI [of _ "snd ?loc"]) (simp del: tapeBlocks.simps)
qed

text \<open>What \<open>Stat\<close> says of a directory whose row is in the index.\<close>

lemma stat_node:
  assumes "fsMetadata f = sqliteMetadata" "\<And>g h ev. fsOnHeader f = Some g \<Longrightarrow> fst (g h ev) = Ok ()"
    and "Clean name = name" "Perm perm = perm"
    and "fst (GetHeader name (osMetadata s)) = Ok (TarHeaderToDBHeader r r b b
      ((nodeHeader usr groups True name perm [])\<lparr>tFormat := FormatPAX\<rparr>))"
  shows "fst (StatFile f name s) = Ok \<lparr>infoName = Base name, infoSize = 0, infoMode = perm OR ModeDir,
        infoModTime = ouNow usr, infoAccessTime = zeroTime, infoChangeTime = zeroTime,
        infoGid = atoiOrZero (ouGid usr), infoUid = atoiOrZero (ouUid usr), infoIsDir = True\<rparr>"
proof -
  let ?h = "(nodeHeader usr groups True name perm [])\<lparr>tFormat := FormatPAX\<rparr>"
  have mode: "hdrMode ?h = perm OR ModeDir"
    using nodeHeader_dir_mode [OF assms(4), of usr groups name] by (simp add: hdrMode_def)
  have "fst (fsStat f name False s) = Ok (?h\<lparr>tPAXRecords := Some []\<rparr>)"
    using assms(5,2) by (intro fsStat_found assms(1)) (simp_all add: nodeHeader_def zero_tar_header_def)
  then obtain s2 where "fsStat f name False s = (Ok (?h\<lparr>tPAXRecords := Some []\<rparr>), s2)"
    by (metis prod.collapse)
  then have "fst (StatFile f name s) = Ok (NewFileInfoFromTarHeader (?h\<lparr>tPAXRecords := Some []\<rparr>))"
    by (simp add: StatFile_def statOrLink_def cleanName_def assms(3))
  moreover have "hdrMode (?h\<lparr>tPAXRecords := Some []\<rparr>) = perm OR ModeDir" using mode by (simp add: hdrMode_def)
  ultimately show ?thesis
    using assms(3)
    by (simp add: NewFileInfoFromTarHeader_def hdrFileInfo_def hdrIsDir_def IsDirMode_def perm_bits [OF assms(4)],
       simp add: nodeHeader_def zero_tar_header_def ModeDir_def)
qed

text \<open>The header \<open>mknode\<close> archives for a directory.\<close>

lemma mknode_dir_Ok:
  assumes "mknodeWithoutLocking x f True name perm ov [] init s = (Ok (), s')" "fsBackend f = tapeBackend"
    and "Perm perm = perm"
  obtains usr groups where "fsUser f = Ok usr"
    "archive x tapeBackend (fsMetadata f) (fsWriteOps f) [justFile (headerSource (nodeHeader usr groups True name perm []) name)]
       (fsCompressionLevel f) ov init s = (Ok [(nodeHeader usr groups True name perm [])\<lparr>tFormat := FormatPAX\<rparr>], s')"
proof -
  obtain usr groups hdrs where u: "fsUser f = Ok usr"
    "archive x tapeBackend (fsMetadata f) (fsWriteOps f) [justFile (headerSource (nodeHeader usr groups True name perm []) name)]
       (fsCompressionLevel f) ov init s = (Ok hdrs, s')"
    using assms(1) by (auto simp: mknodeWithoutLocking_def andThen_Ok_iff assms(2) Let_def split: if_splits)
  let ?h = "nodeHeader usr groups True name perm []"
  have link: "tLinkname ?h = []" by (simp add: nodeHeader_def zero_tar_header_def)
  have "hdrs = [?h\<lparr>tFormat := FormatPAX\<rparr>]"
    using archive_node_hdrs [OF u(2) _ nodeHeader_dir_info(2) [OF assms(3)]] nodeHeader_dir_info(1) [OF assms(3)]
    by (simp add: link nodeHeader_def zero_tar_header_def)
  with u show ?thesis by (intro that) simp_all
qed

lemma nodeHeader_dir_kind:
  assumes "Perm perm = perm"
  shows "\<not> IsRegularMode (hdrMode ((nodeHeader usr groups True name perm [])\<lparr>tFormat := FormatPAX\<rparr>))"
proof -
  have "hdrMode ((nodeHeader usr groups True name perm [])\<lparr>tFormat := FormatPAX\<rparr>) = perm OR ModeDir"
    using nodeHeader_dir_mode [OF assms, of usr groups name] by (simp add: hdrMode_def)
  then show ?thesis by (simp add: IsRegularMode_def perm_bits [OF assms]) (simp add: ModeDir_def)
qed

text \<open>
  C13: a directory that was made is there: when the drive is idle and the index knows its last entry, a
  successful \<open>Mkdir\<close> of a clean absolute path appends exactly one entry to the drive, and \<open>Stat\<close> of
  the path then gives a directory of that name with the permissions asked for, the ids of the user
  and the time of the call.
\<close>

theorem mkdir_then_stat:
  assumes "fsBackend f = tapeBackend" "fsMetadata f = sqliteMetadata"
    and "\<And>g h ev. fsOnHeader f = Some g \<Longrightarrow> fst (g h ev) = Ok ()"
    and "atLastEntry sqliteMetadata (fsWriteOps f) T s" "pkUnique (osMetadata s)" "root (osMetadata s) = ''/''"
    and "Clean name = name" "HasPrefix name ''/''" "Perm perm = perm"
    and "Mkdir x f name perm s = (Ok (), s')"
  shows "\<exists>e usr. fsUser f = Ok usr \<and> dfMedium (tmDrive (osBackend s')) = Some (tapeBlocks (T @ [[e]]))
    \<and> fst (StatFile f name s') = Ok \<lparr>infoName = Base name, infoSize = 0, infoMode = perm OR ModeDir,
        infoModTime = ouNow usr, infoAccessTime = zeroTime, infoChangeTime = zeroTime,
        infoGid = atoiOrZero (ouGid usr), infoUid = atoiOrZero (ouUid usr), infoIsDir = True\<rparr>"
proof -
  let ?K = "\<lambda>s1. osBackend s1 = osBackend s \<and> osMetadata s1 = osMetadata s"
  have stat: "?K sb" if "?K sa" "fsStat f n b sa = (r, sb)" for sa sb n b r
    using fsStat_state [OF assms(2) _ that(2)] that(1) assms(6) by simp
  obtain sa sb sc r1 r2 r3 where k: "fsStat f (Dir name) False s = (Ok r1, sa)" "fsStat f name False sa = (Err r2, sb)"
    "fsStat f name True sb = (Err r3, sc)" "mknodeWithoutLocking x f True name perm False [] False sc = (Ok (), s')"
    using assms(10)
    by (auto simp: Mkdir_def cleanName_def assms(7) parentExists_def notExist_def andThen_Ok_iff attempt_Ok_iff
        orElse_Ok_iff split: if_splits)
  then have s1: "mknodeWithoutLocking x f True name perm False [] False sc = (Ok (), s')"
    "osBackend sc = osBackend s" "osMetadata sc = osMetadata s"
    using stat [OF stat [OF stat [OF _ k(1)] k(2)] k(3)] by simp_all
  obtain usr groups where u: "fsUser f = Ok usr"
    "archive x tapeBackend sqliteMetadata (fsWriteOps f) [justFile (headerSource (nodeHeader usr groups True name perm []) name)]
       (fsCompressionLevel f) False False sc = (Ok [(nodeHeader usr groups True name perm [])\<lparr>tFormat := FormatPAX\<rparr>], s')"
    using mknode_dir_Ok [OF s1(1) assms(1,9)] unfolding assms(2) by blast
  let ?h' = "(nodeHeader usr groups True name perm [])\<lparr>tFormat := FormatPAX\<rparr>"
  have "atLastEntry sqliteMetadata (fsWriteOps f) T sc"
    using assms(4) by (simp add: atLastEntry_def s1)
  then have a: "appendsAndIndexes x sqliteMetadata (fsWriteOps f) HeaderEventTypeArchive False T [?h'] (osMetadata s) s'"
    using archive_appends [OF _ u(2)] s1(3) sqlite_last by simp
  have "\<not> IsRegularMode (hdrMode ?h')" by (rule nodeHeader_dir_kind [OF assms(9)])
  then obtain e r b where e: "dfMedium (tmDrive (osBackend s')) = Some (tapeBlocks (T @ [[e]]))"
    "fst (GetHeader name (osMetadata s')) = Ok (TarHeaderToDBHeader r r b b ?h')"
    using node_indexed [OF a assms(5)] getSanitizedPath_abs_root [OF assms(6,8)]
    by (auto simp: nodeHeader_def zero_tar_header_def TarHeaderToDBHeader_def)
  have "fst (StatFile f name s') = Ok \<lparr>infoName = Base name, infoSize = 0, infoMode = perm OR ModeDir,
        infoModTime = ouNow usr, infoAccessTime = zeroTime, infoChangeTime = zeroTime,
        infoGid = atoiOrZero (ouGid usr), infoUid = atoiOrZero (ouUid usr), infoIsDir = True\<rparr>"
    by (rule stat_node [OF assms(2) _ assms(7,9) e(2)]) (rule assms(3))
  then show ?thesis using e(1) u(1) by blast
qed

text \<open>The example file system for a user without ids, at the beginning of time.\<close>

definition exampleUser :: os_user where
  "exampleUser = \<lparr>ouUid = [], ouGid = [], ouUsername = [], ouGroups = Ok [], ouNow = zeroTime\<rparr>"

definition exampleUserFs :: "(tape_manager, persister, unit) stfs" where
  "exampleUserFs = exampleFs\<lparr>fsUser := Ok exampleUser\<rparr>"

lemma exampleUserFs_simps [simp]:
  "fsBackend exampleUserFs = tapeBackend" "fsMetadata exampleUserFs = sqliteMetadata" "fsOnHeader exampleUserFs = None"
  "fsWriteOps exampleUserFs = exampleOperations" "fsUser exampleUserFs = Ok exampleUser" "fsReadOnly exampleUserFs = False"
  by (simp_all add: exampleUserFs_def exampleFs_def)

lemma exampleUser_groups: "ouGroups exampleUser = Ok []"
  by (simp add: exampleUser_def)

lemma example_node: "headerSource (nodeHeader exampleUser [] True n 0 []) n = exampleSource n"
proof -
  have "atoiOrZero [] = 0" by code_simp
  then have "nodeHeader exampleUser [] True n 0 [] = exampleDir n"
    by (simp add: nodeHeader_def exampleUser_def exampleDir_def zero_tar_header_def)
  then show ?thesis by (simp add: exampleSource_def)
qed

lemma example_lookups:
  "GetHeader ''/'' (exampleIndex [exampleRow 0 0 ''/'']) = (Ok (exampleRow 0 0 ''/''), exampleIndex [exampleRow 0 0 ''/''])"
  "GetHeader ''/a'' (exampleIndex [exampleRow 0 0 ''/'']) = (Err ErrNoRows, exampleIndex [exampleRow 0 0 ''/''])"
  "GetHeader ''/a/'' (exampleIndex [exampleRow 0 0 ''/'']) = (Err ErrNoRows, exampleIndex [exampleRow 0 0 ''/''])"
  "GetHeaderByLinkname ''/a'' (exampleIndex [exampleRow 0 0 ''/'']) = (Err ErrNoRows, exampleIndex [exampleRow 0 0 ''/''])"
  "GetHeaderByLinkname ''/a/'' (exampleIndex [exampleRow 0 0 ''/'']) = (Err ErrNoRows, exampleIndex [exampleRow 0 0 ''/''])"
  by (simp_all add: GetHeader_def GetHeaderByLinkname_def getSanitizedPath_abs_root selectByName_def
      selectByLinkname_def exampleRow_def)

lemma example_mkdir:
  "Mkdir exampleExternal exampleUserFs ''/a'' 0 (exampleState [exampleRow 0 0 ''/''])
   = (Ok (), snd (Mkdir exampleExternal exampleUserFs ''/a'' 0 (exampleState [exampleRow 0 0 ''/''])))"
proof -
  have paths: "Clean ''/a'' = ''/a''" "Dir ''/a'' = ''/''" "TrimSuffix ''/a'' ''/'' @ ''/'' = ''/a/''"
    by code_simp+
  let ?s = "exampleState [exampleRow 0 0 ''/'']"
  have on: "onMetadata q ?s = (r, ?s)" if "q (exampleIndex [exampleRow 0 0 ''/'']) = (r, exampleIndex [exampleRow 0 0 ''/''])" for q and r :: "header res"
    using that by (simp add: onMetadata_def exampleState_def)
  have "DBHeaderToTarHeader (exampleRow 0 0 ''/'') = Ok ((exampleDir ''/'')\<lparr>tPAXRecords := Some []\<rparr>)"
    by (simp add: exampleRow_def DBHeaderToTarHeader_TarHeaderToDBHeader tarWf_def paxOrEmpty_def)
  then have "fsStat exampleUserFs ''/'' False ?s = (Ok ((exampleDir ''/'')\<lparr>tPAXRecords := Some []\<rparr>), ?s)"
    by (simp add: fsStat_def StatEntry_def withSlash_def ToSlash_def sqliteMetadata_def onEventsOf_def on example_lookups
        Let_def)
  moreover have "fsStat exampleUserFs ''/a'' False ?s = (Err ErrNoRows, ?s)"
    "fsStat exampleUserFs ''/a'' True ?s = (Err ErrNoRows, ?s)"
    using paths(3) by (simp_all add: fsStat_def StatEntry_def withSlash_def ToSlash_def sqliteMetadata_def on example_lookups)
  moreover obtain s' where "archive exampleExternal tapeBackend sqliteMetadata exampleOperations
      [justFile (exampleSource ''/a'')] (fsCompressionLevel exampleUserFs) False False ?s = (Ok [exampleEntry ''/a''], s')"
    using archive_example [of "''/a''" "fsCompressionLevel exampleUserFs"] by simp
  then have "mknodeWithoutLocking exampleExternal exampleUserFs True ''/a'' 0 False [] False ?s = (Ok (), s')"
    by (simp add: mknodeWithoutLocking_def Let_def example_node exampleUser_groups)
  ultimately show ?thesis
    by (simp add: Mkdir_def cleanName_def paths parentExists_def notExist_def)
qed

theorem mkdir_then_stat_witness:
  "\<exists>info. fst (StatFile exampleUserFs ''/a'' (snd (Mkdir exampleExternal exampleUserFs ''/a'' 0
      (exampleState [exampleRow 0 0 ''/''])))) = Ok info \<and> infoIsDir info \<and> infoMode info = ModeDir"
proof -
  have "Clean ''/a'' = ''/a''" by code_simp
  then show ?thesis
    using mkdir_then_stat [OF _ _ _ _ _ _ _ _ _ example_mkdir, of "[[exampleRoot]]"] exampleState_at
    by (auto simp: pkUnique_def Perm_def)
qed

section \<open>Renaming\<close>

lemma fsStat_exact:
  assumes "fsMetadata f = sqliteMetadata" "root (osMetadata s) \<noteq> []"
    and "fst (GetHeader name (osMetadata s)) = Ok row" "Linkname row = []" "DBHeaderToTarHeader row = Ok h"
    and "\<And>g h ev. fsOnHeader f = Some g \<Longrightarrow> fst (g h ev) = Ok ()"
  shows "\<exists>s1. fsStat f name False s = (Ok h, s1) \<and> osBackend s1 = osBackend s \<and> osMetadata s1 = osMetadata s"
proof -
  have g: "GetHeader name (osMetadata s) = (Ok row, osMetadata s)"
    using assms(3) lookups_known(1) [OF assms(2), of name] by (metis prod.collapse)
  have "fst (andThen (onEventsOf (fsOnHeader f) row s1) (\<lambda>_ s. (Ok h, s))) = Ok h" for s1
    using assms(6) by (cases "fsOnHeader f")
      (auto simp: onEventsOf_def split: prod.split, metis fst_conv andThen_simps(1))
  then have "fst (fsStat f name False s) = Ok h"
    using assms(4,5) by (simp add: fsStat_def StatEntry_def assms(1) withSlash_def ToSlash_def sqliteMetadata_def
        onMetadata_def g)
  then obtain s1 where s1: "fsStat f name False s = (Ok h, s1)" by (metis prod.collapse)
  then show ?thesis using fsStat_state [OF assms(1,2) s1] by blast
qed


text \<open>Two files: renaming the one onto the other.\<close>

definition exampleOther :: header where
  "exampleOther = exampleFileRow\<lparr>Name := ''/b''\<rparr>"

definition exampleTwo :: "(tape_manager, persister, unit) ops_state" where
  "exampleTwo = exampleState [exampleRow 0 0 ''/'', exampleOther, exampleFileRow]"

lemma exampleTwo_rows:
  "selectByName (rows (osMetadata exampleTwo)) ''/a'' = Some exampleFileRow"
  "selectByName (rows (osMetadata exampleTwo)) ''/b'' = Some exampleOther"
  "selectByName (rows (osMetadata exampleTwo)) ''/'' = Some (exampleRow 0 0 ''/'')"
  by (simp_all add: exampleTwo_def selectByName_def exampleOther_def)

lemma exampleTwo_get:
  "selectByName (rows (osMetadata exampleTwo)) n = Some row \<Longrightarrow> HasPrefix n ''/''
   \<Longrightarrow> GetHeader n (osMetadata exampleTwo) = (Ok row, osMetadata exampleTwo)"
  by (simp add: GetHeader_def getSanitizedPath_abs_root exampleTwo_def)

lemma header_renamed:
  "DBHeaderToTarHeader (h\<lparr>Name := n\<rparr>) = rbind (DBHeaderToTarHeader h) (\<lambda>t. Ok (t\<lparr>tName := n\<rparr>))"
  by (simp add: DBHeaderToTarHeader_def rbind_def split: res.split)

lemma exampleTwo_headers:
  "DBHeaderToTarHeader exampleFileRow = Ok (exampleFileHdr\<lparr>tPAXRecords := Some []\<rparr>)"
  "DBHeaderToTarHeader exampleOther = Ok (exampleFileHdr\<lparr>tPAXRecords := Some [], tName := ''/b''\<rparr>)"
  "DBHeaderToTarHeader (exampleRow 0 0 ''/'') = Ok ((exampleDir ''/'')\<lparr>tPAXRecords := Some []\<rparr>)"
proof -
  show "DBHeaderToTarHeader exampleFileRow = Ok (exampleFileHdr\<lparr>tPAXRecords := Some []\<rparr>)"
    by (rule exampleFileRow_header)
  then show "DBHeaderToTarHeader exampleOther = Ok (exampleFileHdr\<lparr>tPAXRecords := Some [], tName := ''/b''\<rparr>)"
    by (simp add: exampleOther_def header_renamed)
  show "DBHeaderToTarHeader (exampleRow 0 0 ''/'') = Ok ((exampleDir ''/'')\<lparr>tPAXRecords := Some []\<rparr>)"
    by (simp add: exampleRow_def DBHeaderToTarHeader_TarHeaderToDBHeader tarWf_def paxOrEmpty_def)
qed

lemma exampleTwo_stat:
  assumes "selectByName (rows (osMetadata exampleTwo)) n = Some row" "HasPrefix n ''/''" "Linkname row = []"
    "DBHeaderToTarHeader row = Ok h"
  shows "fsStat exampleFs n False exampleTwo = (Ok h, exampleTwo)"
proof -
  have "onMetadata (GetHeader n) exampleTwo = (Ok row, exampleTwo)"
    using exampleTwo_get [OF assms(1,2)] by (simp add: onMetadata_def exampleTwo_def)
  then show ?thesis
    using assms(3,4) by (simp add: fsStat_def StatEntry_def withSlash_def ToSlash_def sqliteMetadata_def exampleFs_def
        onEventsOf_def Let_def)
qed

lemma exampleTwo_rename:
  obtains s' where "Rename exampleExternal exampleFs ''/b'' ''/a'' exampleTwo = (Ok (), s')"
proof -
  have paths: "Clean ''/a'' = ''/a''" "Clean ''/b'' = ''/b''" "Dir ''/a'' = ''/''"
    by code_simp+
  have stats: "fsStat exampleFs ''/a'' False exampleTwo = (Ok (exampleFileHdr\<lparr>tPAXRecords := Some []\<rparr>), exampleTwo)"
    "fsStat exampleFs ''/b'' False exampleTwo = (Ok (exampleFileHdr\<lparr>tPAXRecords := Some [], tName := ''/b''\<rparr>), exampleTwo)"
    "fsStat exampleFs ''/'' False exampleTwo = (Ok ((exampleDir ''/'')\<lparr>tPAXRecords := Some []\<rparr>), exampleTwo)"
    using exampleTwo_stat [OF exampleTwo_rows(1) _ _ exampleTwo_headers(1)]
      exampleTwo_stat [OF exampleTwo_rows(2) _ _ exampleTwo_headers(2)]
      exampleTwo_stat [OF exampleTwo_rows(3) _ _ exampleTwo_headers(3)] by (simp_all add: exampleOther_def)
  obtain s' where del: "Delete exampleExternal tapeBackend sqliteMetadata exampleOperations ''/a'' exampleTwo = (Ok (), s')"
    unfolding exampleTwo_def
    by (rule example_deletes [of "[exampleRow 0 0 ''/'', exampleOther, exampleFileRow]"])
      (use exampleTwo_rows(1) in \<open>simp_all add: exampleTwo_def sqliteMetadata_def GetLastIndexedRecordAndBlock_def
        exampleOther_def exampleRow_def\<close>)
  have fs: "fsReadOnly exampleFs = False" "fsMetadata exampleFs = sqliteMetadata" "fsBackend exampleFs = tapeBackend"
    "fsWriteOps exampleFs = exampleOperations" by (simp_all add: exampleFs_def)
  have "removeWithoutLocking exampleExternal exampleFs ''/a'' exampleTwo = (Ok (), s')"
    by (simp add: removeWithoutLocking_def fs statOrLink_def stats del) (simp add: exampleFileHdr_def type_defs)
  moreover have "onMetadata (mpGetRootPath sqliteMetadata) exampleTwo = (Ok ''/'', exampleTwo)"
    by (simp add: onMetadata_def sqliteMetadata_def GetRootPath_def exampleTwo_def)
  ultimately show ?thesis
    by (intro that [of s']) (simp add: Rename_def fs checkName_def cleanName_def paths statOrLink_def parentExists_def
        notExist_def stats)
qed


end
