(* ===== verification/FileSystemInit.thy ===== *)
theory FileSystemInit
  imports FileSystemProps
begin

text \<open>
  Setting up a file system: what \<open>Initialize\<close> leaves on a drive that is not there yet, and what it does
  where a drive is there but empty.
\<close>

section \<open>Archiving over an index\<close>

text \<open>
  An archive that replaces the index: all entries of the drive are visited with the headers that were
  written.
\<close>

lemma archive_over:
  assumes "tmIdle (osBackend s)" "archive x tapeBackend mp op srcs level True init s = (Ok hdrs, s')"
  obtains new ev where "list_all2 (entryOf x op) hdrs new" "tmIdle (osBackend s')"
    "dfMedium (tmDrive (osBackend s')) = Some (tmStarts (osBackend s) @ tapeBlocks (appended new))"
    "tmStarts (osBackend s') = tmStarts (osBackend s) @ tapeBlocks (appended new)"
    "Index (tmStarts (osBackend s) @ tapeBlocks (appended new)) mp (opPipes op) 0 0 True init 0 (pairedHeader hdrs)
       (\<lambda>hdr _. Ok hdr) (Some (notifyIndexed op HeaderEventTypeArchive)) (osMetadata s, ev)
     = (Ok (), (osMetadata s', osEvents s'))"
proof -
  let ?s1 = "s\<lparr>osBackend := snd (GetWriter (osBackend s))\<rparr>"
  obtain s2 where w: "writeSession tapeBackend (forSources (archiveFile x op level) srcs) ?s1 = (Ok hdrs, s2)"
    "indexAppended tapeBackend mp op HeaderEventTypeArchive hdrs 0 0 True init s2 = (Ok (), s')"
    using assms(2) by (auto simp: archive_def GetWriter_session [OF assms(1)] andThen_Ok_iff)
  obtain new ev where new: "list_all2 (entryOf x op) hdrs new"
    "s2 = ?s1\<lparr>osBackend := bcAppend tapeBackend (tapeBlocks (appended new)) (osBackend ?s1), osEvents := ev\<rparr>"
    using writeSession_Ok [OF w(1) archive_keeps] by blast
  then have "osBackend s2 = bcAppend tapeBackend (tapeBlocks (appended new)) (snd (bcGetWriter tapeBackend (osBackend s)))"
    "osMetadata s2 = osMetadata s" "osEvents s2 = ev" by simp_all
  with tm.append_and_index [OF assms(1) this(1) w(2)] new(1) show ?thesis
    by (intro that [of new ev]) simp_all
qed

section \<open>A new drive\<close>

lemma GetRootPath_row:
  "GetRootPath (NewMetadataPersister\<lparr>rows := [TarHeaderToDBHeader r r b b h]\<rparr>)
   = (Ok (tName h), NewMetadataPersister\<lparr>rows := [TarHeaderToDBHeader r r b b h], root := tName h\<rparr>)"
  by (simp add: GetRootPath_def NewMetadataPersister_def TarHeaderToDBHeader_def)

text \<open>The first entry of a drive, indexed as the root of an empty index.\<close>

lemma node_initialized:
  assumes "tmIdle (osBackend s)" "tmStarts (osBackend s) = []" "0 < RecordSize (opPipes op)"
    and "archive x tapeBackend sqliteMetadata op srcs level True True s = (Ok [h], s')"
    and "tPAXRecords h = None" "\<not> IsRegularMode (hdrMode h)"
  shows "\<exists>e. tmIdle (osBackend s') \<and> dfMedium (tmDrive (osBackend s')) = Some (tapeBlocks [[e]])
    \<and> tmStarts (osBackend s') = tapeBlocks [[e]] \<and> tapeWf [[e]]
    \<and> osMetadata s' = NewMetadataPersister\<lparr>rows := [TarHeaderToDBHeader 0 0 0 0 h]\<rparr>"
proof -
  obtain new ev where new: "list_all2 (entryOf x op) [h] new" "tmIdle (osBackend s')"
    "dfMedium (tmDrive (osBackend s')) = Some (tapeBlocks (appended new))"
    "tmStarts (osBackend s') = tapeBlocks (appended new)"
    "Index (tapeBlocks (appended new)) sqliteMetadata (opPipes op) 0 0 True True 0 (pairedHeader [h])
       (\<lambda>hdr _. Ok hdr) (Some (notifyIndexed op HeaderEventTypeArchive)) (osMetadata s, ev)
     = (Ok (), (osMetadata s', osEvents s'))"
    using archive_over [OF assms(1,4)] by (auto simp: assms(2))
  obtain e where e: "new = [e]" using new(1) by (auto simp: list_all2_Cons1)
  have t: "appended new = [[e]]" "tapeWf [[e]]" using tapeWf_appended [OF new(1)] by (simp_all add: e appended_def)
  have i: "indexedHeader h (Compression (opPipes op)) (Encryption (opPipes op)) = Ok h"
    using assms(5,6) by (simp add: indexedHeader_def paxGet_def)
  obtain h' n c where e': "e = (h', n, c)" by (cases e)
  have "indexHeader sqliteMetadata 0 0 h (Compression (opPipes op)) (Encryption (opPipes op)) True
      (Some (notifyIndexed op HeaderEventTypeArchive)) (NewMetadataPersister, ev) = (Ok (), (osMetadata s', osEvents s'))"
    using new(5) t assms(3)
    by (simp add: Index_overwrite Index_visits_all onMeta_def purge_new e' locate_0 indexEntry_paired andThen_Ok_iff
        del: tapeBlocks.simps)
  then have "indexAction sqliteMetadata 0 0 h True NewMetadataPersister = (Ok (), osMetadata s')"
    by (auto simp: indexHeader_def i andThen_Ok_iff on_Ok_iff)
  then have "osMetadata s' = NewMetadataPersister\<lparr>rows := [TarHeaderToDBHeader 0 0 0 0 h]\<rparr>"
    using Upsert_new [of "TarHeaderToDBHeader 0 0 0 0 h" NewMetadataPersister]
    by (simp add: indexAction_def assms(5) paxGet_def)
  then show ?thesis using new(2-4) t by (intro exI [of _ e]) (simp del: tapeBlocks.simps)
qed

text \<open>
  C12: initializing a new drive: where there is no drive yet and nothing in the index, a successful
  \<open>Initialize\<close> of a clean root path gives this path, leaves a drive with exactly one entry and an index
  that knows it, idle and ready for further operations, and \<open>Stat\<close> of the path then gives a directory with the
  permissions asked for.
\<close>

theorem initialize_new_drive:
  assumes "fsBackend f = tapeBackend" "fsMetadata f = sqliteMetadata"
    and "\<And>g h ev. fsOnHeader f = Some g \<Longrightarrow> fst (g h ev) = Ok ()" "0 < RecordSize (opPipes (fsWriteOps f))"
    and "osBackend s = NewTapeManager \<lparr>dfMedium = None, dfFault = None\<rparr> ov" "osMetadata s = NewMetadataPersister"
    and "Clean name = name" "name \<noteq> []" "Perm perm = perm"
    and "InitializeFS x f name perm s = (Ok r, s')"
  shows "\<exists>e usr. r = name \<and> root (osMetadata s') = name \<and> pkUnique (osMetadata s')
    \<and> atLastEntry sqliteMetadata (fsWriteOps f) [[e]] s' \<and> fsUser f = Ok usr
    \<and> fst (StatFile f name s') = Ok \<lparr>infoName = Base name, infoSize = 0, infoMode = perm OR ModeDir,
        infoModTime = ouNow usr, infoAccessTime = zeroTime, infoChangeTime = zeroTime,
        infoGid = atoiOrZero (ouGid usr), infoUid = atoiOrZero (ouUid usr), infoIsDir = True\<rparr>"
proof -
  have none: "onMetadata (mpGetRootPath sqliteMetadata) s = (Err ErrNoRootDirectory, s)"
    by (simp add: onMetadata_def sqliteMetadata_def GetRootPath_def NewMetadataPersister_def flip: assms(6))
      (simp add: assms(6) NewMetadataPersister_def)
  let ?s1 = "s\<lparr>osBackend := (osBackend s)\<lparr>tmLocked := True\<rparr>\<rparr>"
  have reader: "onBackend GetReader s = (Err ErrNotExist, ?s1)" and close: "onBackend CloseTape ?s1 = (Ok (), s)"
    by (simp_all add: onBackend_def manager_defs assms(5) NewTapeManager_def flip: assms(5))
      (simp_all add: assms(5) NewTapeManager_def)
  have idle: "tmIdle (osBackend s)" "tmStarts (osBackend s) = []"
    by (simp_all add: assms(5) tmIdle_def tmStarts_def NewTapeManager_def)
  have "mkdirRoot x f name perm ?s1 = (Ok r, s')"
    using assms(10) by (simp add: InitializeFS_def assms(1,2) none reader)
  then obtain s2 where m: "mknodeWithoutLocking x f True name perm True [] True s = (Ok (), s2)"
    "onMetadata (mpGetRootPath sqliteMetadata) s2 = (Ok r, s')"
    by (auto simp: mkdirRoot_def assms(1,2) close andThen_Ok_iff split: if_splits)
  obtain usr groups where u: "fsUser f = Ok usr"
    "archive x tapeBackend sqliteMetadata (fsWriteOps f) [justFile (headerSource (nodeHeader usr groups True name perm []) name)]
       (fsCompressionLevel f) True True s = (Ok [(nodeHeader usr groups True name perm [])\<lparr>tFormat := FormatPAX\<rparr>], s2)"
    using mknode_dir_Ok [OF m(1) assms(1,9)] unfolding assms(2) by blast
  let ?h = "(nodeHeader usr groups True name perm [])\<lparr>tFormat := FormatPAX\<rparr>"
  have h: "tName ?h = name" "tLinkname ?h = []" "tPAXRecords ?h = None" by (simp_all add: nodeHeader_def zero_tar_header_def)
  obtain e where e: "tmIdle (osBackend s2)" "tmStarts (osBackend s2) = tapeBlocks [[e]]" "tapeWf [[e]]"
    "osMetadata s2 = NewMetadataPersister\<lparr>rows := [TarHeaderToDBHeader 0 0 0 0 ?h]\<rparr>"
    using node_initialized [OF idle assms(4) u(2) h(3) nodeHeader_dir_kind [OF assms(9)]] by blast
  let ?p = "NewMetadataPersister\<lparr>rows := [TarHeaderToDBHeader 0 0 0 0 ?h], root := name\<rparr>"
  have s': "r = name" "s' = s2\<lparr>osMetadata := ?p\<rparr>"
    using m(2) GetRootPath_row [of 0 0 ?h] by (auto simp: onMetadata_def sqliteMetadata_def e(4) h(1))
  have "GetHeader name ?p = (Ok (TarHeaderToDBHeader 0 0 0 0 ?h), ?p)"
    by (simp add: GetHeader_def getSanitizedPath_def selectByName_def h(1))
  then have "fst (GetHeader name (osMetadata s')) = Ok (TarHeaderToDBHeader 0 0 0 0 ?h)" by (simp add: s'(2))
  from stat_node [OF assms(2) _ assms(7,9) this] assms(3)
  have "fst (StatFile f name s') = Ok \<lparr>infoName = Base name, infoSize = 0, infoMode = perm OR ModeDir,
        infoModTime = ouNow usr, infoAccessTime = zeroTime, infoChangeTime = zeroTime,
        infoGid = atoiOrZero (ouGid usr), infoUid = atoiOrZero (ouUid usr), infoIsDir = True\<rparr>"
    by blast
  moreover have "fst (mpGetLastIndexedRecordAndBlock sqliteMetadata (int (RecordSize (opPipes (fsWriteOps f)))) ?p)
      = Ok (locate (RecordSize (opPipes (fsWriteOps f))) 0)"
    by (simp add: sqliteMetadata_def GetLastIndexedRecordAndBlock_def locate_0)
  then have "atLastEntry sqliteMetadata (fsWriteOps f) [[e]] s'"
    using e(1-3) assms(4) by (simp add: atLastEntry_def s'(2) del: tapeBlocks.simps) simp
  ultimately show ?thesis using u(1) s' by (intro exI [of _ e] exI [of _ usr]) (simp add: pkUnique_def)
qed

lemma example_initialized:
  "InitializeFS exampleExternal exampleUserFs ''/'' 0 exampleEmpty
   = (Ok ''/'', snd (InitializeFS exampleExternal exampleUserFs ''/'' 0 exampleEmpty))"
proof -
  let ?T = "[exampleEntries ''/'']"
  have "Index (tapeBlocks ?T) sqliteMetadata examplePipes 0 0 True True 0 (pairedHeader [exampleEntry ''/''])
      (\<lambda>hdr _. Ok hdr) (Some (notifyIndexed exampleOperations HeaderEventTypeArchive)) (NewMetadataPersister, ())
    = (Ok (), (NewMetadataPersister\<lparr>rows := [TarHeaderToDBHeader 0 0 0 0 (exampleEntry ''/'')]\<rparr>, ()))"
    by (simp add: Index_overwrite Index_visits_all tapeWf_def entryWf_def locate_0 indexEntry_paired exampleEntries_def
        indexHeader_entry onMeta_def purge_new Upsert_new del: tapeBlocks.simps)
  then have "archive exampleExternal tapeBackend sqliteMetadata exampleOperations [justFile (exampleSource ''/'')]
      (fsCompressionLevel exampleUserFs) True True exampleEmpty
    = (Ok [exampleEntry ''/''], exampleEmpty\<lparr>osBackend := osBackend (snd (archive exampleExternal tapeBackend sqliteMetadata
        exampleOperations [justFile (exampleSource ''/'')] (fsCompressionLevel exampleUserFs) True True exampleEmpty)),
        osMetadata := NewMetadataPersister\<lparr>rows := [TarHeaderToDBHeader 0 0 0 0 (exampleEntry ''/'')]\<rparr>\<rparr>)"
    using exampleEmpty_idle by (simp add: archive_def GetWriter_session example_session GetWriter_idle
        indexAppended_def onBackend_def manager_defs deferCloseReader_def indexDrive_def
        exampleEmpty_def NewTapeManager_def del: tapeBlocks.simps)
  then obtain b where "archive exampleExternal tapeBackend sqliteMetadata exampleOperations [justFile (exampleSource ''/'')]
      (fsCompressionLevel exampleUserFs) True True exampleEmpty
    = (Ok [exampleEntry ''/''], exampleEmpty\<lparr>osBackend := b,
        osMetadata := NewMetadataPersister\<lparr>rows := [TarHeaderToDBHeader 0 0 0 0 (exampleEntry ''/'')]\<rparr>\<rparr>)"
    by (rule that)
  then have "mknodeWithoutLocking exampleExternal exampleUserFs True ''/'' 0 True [] True exampleEmpty
    = (Ok (), exampleEmpty\<lparr>osBackend := b,
        osMetadata := NewMetadataPersister\<lparr>rows := [TarHeaderToDBHeader 0 0 0 0 (exampleEntry ''/'')]\<rparr>\<rparr>)"
    by (simp add: mknodeWithoutLocking_def Let_def example_node exampleUser_groups)
  moreover have "onMetadata (mpGetRootPath sqliteMetadata) exampleEmpty = (Err ErrNoRootDirectory, exampleEmpty)"
    by (simp add: onMetadata_def sqliteMetadata_def GetRootPath_def NewMetadataPersister_def exampleEmpty_def)
  moreover have "onBackend GetReader exampleEmpty = (Err ErrNotExist, exampleEmpty\<lparr>osBackend := (osBackend exampleEmpty)\<lparr>tmLocked := True\<rparr>\<rparr>)"
    "onBackend CloseTape (exampleEmpty\<lparr>osBackend := (osBackend exampleEmpty)\<lparr>tmLocked := True\<rparr>\<rparr>) = (Ok (), exampleEmpty)"
    by (simp_all add: onBackend_def manager_defs exampleEmpty_def NewTapeManager_def)
  ultimately show ?thesis
    using GetRootPath_row [of 0 0 "exampleEntry ''/''"]
    by (simp add: InitializeFS_def mkdirRoot_def onMetadata_def sqliteMetadata_def)
qed

theorem initialize_new_drive_witness:
  "\<exists>e. atLastEntry sqliteMetadata exampleOperations [[e]] (snd (InitializeFS exampleExternal exampleUserFs ''/'' 0 exampleEmpty))
    \<and> fst (StatFile exampleUserFs ''/'' (snd (InitializeFS exampleExternal exampleUserFs ''/'' 0 exampleEmpty)))
        = Ok \<lparr>infoName = Base ''/'', infoSize = 0, infoMode = ModeDir, infoModTime = zeroTime, infoAccessTime = zeroTime,
            infoChangeTime = zeroTime, infoGid = 0, infoUid = 0, infoIsDir = True\<rparr>"
proof -
  have c: "Clean ''/'' = ''/''" by code_simp
  have a: "atoiOrZero [] = 0" by code_simp
  have e: "osBackend exampleEmpty = NewTapeManager \<lparr>dfMedium = None, dfFault = None\<rparr> False"
    "osMetadata exampleEmpty = NewMetadataPersister" by (simp_all add: exampleEmpty_def)
  show ?thesis
    using initialize_new_drive [OF _ _ _ _ e c _ _ example_initialized]
    by (auto simp: Perm_def exampleUser_def a)
qed

section \<open>An empty drive\<close>

text \<open>
  C23: a drive that is there but empty cannot be initialized: \<open>Index\<close> succeeds on it and finds nothing, so that
  \<open>Initialize\<close> does not make a root directory, and fails as there is none.
\<close>

theorem empty_drive_not_initialized:
  fixes s :: "(tape_manager, persister, 'e) ops_state"
  assumes "fsBackend f = tapeBackend" "fsMetadata f = sqliteMetadata" "0 < RecordSize (opPipes (fsReadOps f))"
    and "tmIdle (osBackend s)" "dfMedium (tmDrive (osBackend s)) = Some []"
    and "rows (osMetadata s) = []" "root (osMetadata s) = []"
  shows "\<exists>s'. InitializeFS x f name perm s = (Err ErrNoRootDirectory, s')
    \<and> tmIdle (osBackend s') \<and> dfMedium (tmDrive (osBackend s')) = Some [] \<and> osMetadata s' = NewMetadataPersister"
proof -
  have none: "onMetadata (mpGetRootPath sqliteMetadata) u = (Err ErrNoRootDirectory, u)"
    if "rows (osMetadata u) = []" "root (osMetadata u) = []" for u :: "(tape_manager, persister, 'e) ops_state"
    using that by (simp add: onMetadata_def sqliteMetadata_def GetRootPath_def)
  let ?b = "snd (GetReader (osBackend s))"
  have reader: "onBackend GetReader s = (Ok (), s\<lparr>osBackend := ?b\<rparr>)" "dfMedium (tmDrive ?b) = Some []"
    using GetReader_idle [OF assms(4,5)] assms(5) by (simp_all add: onBackend_def)
  have "Index [] sqliteMetadata (opPipes (fsReadOps f)) 0 0 True False 0 dec ver g (osMetadata s, ev)
      = (Ok (), (NewMetadataPersister, ev))" for dec ver g and ev :: 'e
    using Index_visits_all [OF assms(3), of "[]" sqliteMetadata False 0 dec ver g]
    by (simp add: Index_overwrite onMeta_def purge_new tapeWf_def)
  then have index: "indexAll x f (s\<lparr>osBackend := ?b\<rparr>) = (Ok (), s\<lparr>osBackend := ?b, osMetadata := NewMetadataPersister\<rparr>)"
    by (simp add: indexAll_def assms(1,2) reader(2) Let_def)
  obtain b' where close: "CloseTape ?b = (Ok (), b')" "tmIdle b'" "dfMedium (tmDrive b') = Some []"
    using tm.reader_session(3-5) [OF assms(4)] assms(5) by (auto simp: prod_eq_iff)
  have "InitializeFS x f name perm s
      = (Err ErrNoRootDirectory, s\<lparr>osMetadata := NewMetadataPersister, osBackend := b'\<rparr>)"
    using none [OF assms(6,7)] none [of "s\<lparr>osMetadata := NewMetadataPersister, osBackend := b'\<rparr>"] close(1)
    by (simp add: InitializeFS_def assms(1,2) reader(1) index onBackend_Ok NewMetadataPersister_def)
  then show ?thesis using close(2,3) by simp
qed

text \<open>An empty drive behind the example file system.\<close>

theorem empty_drive_not_initialized_witness:
  "\<exists>s'. InitializeFS exampleExternal exampleFs ''/'' 0 (exampleEmpty\<lparr>osBackend := exampleDrive []\<rparr>)
     = (Err ErrNoRootDirectory, s') \<and> dfMedium (tmDrive (osBackend s')) = Some []"
  using empty_drive_not_initialized [of exampleFs "exampleEmpty\<lparr>osBackend := exampleDrive []\<rparr>" exampleExternal "''/''" 0]
  by (auto simp: exampleFs_def exampleEmpty_def exampleDrive_def NewTapeManager_def NewMetadataPersister_def)
    (auto simp: exampleDrive_def NewTapeManager_def tmIdle_def)

end
