(* ===== verification/Logging.thy ===== *)
theory Logging
  imports Config
begin

text \<open>
  internal/logging: the loggers the programs hand to the operations as their callbacks. The CSV
  logger writes to the standard output, a line of column names before its first line; the JSON
  logger writes to the standard error what its verbosity lets through. Both ignore every error.
  The text of a time, and of a line as CSV or JSON, is left to the standard library.
\<close>

section \<open>CSV (csv.go)\<close>

definition tarHeaderCSV :: "string list" where
  "tarHeaderCSV =
     [''record'', ''lastknownrecord'', ''block'', ''lastknownblock'', ''typeflag'', ''name'',
      ''linkname'', ''size'', ''mode'', ''uid'', ''gid'', ''uname'', ''gname'', ''modtime'',
      ''accesstime'', ''changetime'', ''devmajor'', ''devminor'', ''paxrecords'', ''format'']"

definition tarHeaderEventCSV :: "string list" where
  "tarHeaderEventCSV = [''type'', ''indexed''] @ tarHeaderCSV"

definition headerToCSV :: "(gotime \<Rightarrow> string) \<Rightarrow> header \<Rightarrow> string list" where
  "headerToCSV rfc3339 hdr =
     [Itoa (Record hdr), Itoa (Lastknownrecord hdr), Itoa (Block hdr), Itoa (Lastknownblock hdr),
      Itoa (Typeflag hdr), Name hdr, Linkname hdr, Itoa (Size hdr), Itoa (Mode hdr),
      Itoa (UID hdr), Itoa (Gid hdr), Uname hdr, Gname hdr, rfc3339 (Modtime hdr),
      rfc3339 (Accesstime hdr), rfc3339 (Changetime hdr), Itoa (Devmajor hdr),
      Itoa (Devminor hdr), Paxrecords hdr, Itoa (Format hdr)]"

definition headerEventToCSV :: "(gotime \<Rightarrow> string) \<Rightarrow> header_event \<Rightarrow> string list" where
  "headerEventToCSV rfc3339 event =
     [EventType event, if Indexed event then ''true'' else ''false'']
       @ headerToCSV rfc3339 (EventHeader event)"

text \<open>The logger and the lines on the standard output.\<close>

record csv_logger =
  csvN :: nat
  csvOut :: "string list list"

definition NewCSVLogger :: "string list list \<Rightarrow> csv_logger" where
  "NewCSVLogger out = \<lparr>csvN = 0, csvOut = out\<rparr>"

definition PrintHeader :: "(gotime \<Rightarrow> string) \<Rightarrow> header \<Rightarrow> csv_logger \<Rightarrow> unit res \<times> csv_logger" where
  "PrintHeader rfc3339 hdr l =
     (Ok (), \<lparr>csvN = csvN l + 1,
              csvOut = csvOut l @ (if csvN l = 0 then [tarHeaderCSV] else [])
                         @ [headerToCSV rfc3339 hdr]\<rparr>)"

definition PrintHeaderEvent ::
  "(gotime \<Rightarrow> string) \<Rightarrow> header_event \<Rightarrow> csv_logger \<Rightarrow> unit res \<times> csv_logger" where
  "PrintHeaderEvent rfc3339 event l =
     (Ok (), \<lparr>csvN = csvN l + 1,
              csvOut = csvOut l @ (if csvN l = 0 then [tarHeaderEventCSV] else [])
                         @ [headerEventToCSV rfc3339 event]\<rparr>)"

section \<open>JSON (json.go)\<close>

text \<open>What the code passes as the data of a line.\<close>

datatype json_data =
    JsonHeader header
  | JsonEvent header_event
  | JsonFields "(string \<times> string) list"

record log_message =
  lmLevel :: string
  lmEvent :: string
  lmData :: json_data

definition printJSON ::
  "string \<Rightarrow> string \<Rightarrow> json_data \<Rightarrow> log_message list \<Rightarrow> unit res \<times> log_message list" where
  "printJSON level event d out = (Ok (), out @ [\<lparr>lmLevel = level, lmEvent = event, lmData = d\<rparr>])"

type_synonym log_call = "int \<Rightarrow> string \<Rightarrow> json_data \<Rightarrow> log_message list \<Rightarrow> unit res \<times> log_message list"

definition LogTrace :: log_call where
  "LogTrace verbosity event d out =
     (if verbosity \<ge> 4 then printJSON ''TRACE'' event d out else (Ok (), out))"

definition LogDebug :: log_call where
  "LogDebug verbosity event d out =
     (if verbosity \<ge> 3 then printJSON ''DEBUG'' event d out else (Ok (), out))"

definition LogInfo :: log_call where
  "LogInfo verbosity event d out =
     (if verbosity \<ge> 2 then printJSON ''INFO'' event d out else (Ok (), out))"

definition LogWarn :: log_call where
  "LogWarn verbosity event d out =
     (if verbosity \<ge> 1 then printJSON ''WARN'' event d out else (Ok (), out))"

definition LogError :: log_call where
  "LogError verbosity event d out =
     (if verbosity \<ge> 0 then printJSON ''ERROR'' event d out else (Ok (), out))"

definition LogPanic :: log_call where
  "LogPanic verbosity event d out =
     (if verbosity \<ge> 0 then printJSON ''PANIC'' event d out else (Ok (), out))"

section \<open>Facts\<close>

text \<open>A line has a field for every column.\<close>

lemma csv_columns:
  "length (headerToCSV f hdr) = length tarHeaderCSV"
  "length (headerEventToCSV f event) = length tarHeaderEventCSV"
  by (simp_all add: headerToCSV_def headerEventToCSV_def tarHeaderCSV_def tarHeaderEventCSV_def)

text \<open>What one logger has printed: the column names once, then a line per header.\<close>

definition printed :: "(gotime \<Rightarrow> string) \<Rightarrow> header list \<Rightarrow> string list list" where
  "printed f hdrs = (if hdrs = [] then [] else tarHeaderCSV # map (headerToCSV f) hdrs)"

lemma PrintHeader_all:
  "fold (\<lambda>h l. snd (PrintHeader f h l)) hdrs (NewCSVLogger out)
     = \<lparr>csvN = length hdrs, csvOut = out @ printed f hdrs\<rparr>"
proof (induction hdrs rule: rev_induct)
  case (snoc h hdrs)
  then show ?case by (auto simp: PrintHeader_def printed_def)
qed (simp add: NewCSVLogger_def printed_def)

lemma loggers_return [simp]:
  "fst (PrintHeader f hdr l) = Ok ()" "fst (PrintHeaderEvent f event l) = Ok ()"
  by (simp_all add: PrintHeader_def PrintHeaderEvent_def)

end
