(* ===== verification/OsFiles.thy ===== *)
theory OsFiles
  imports Recovery
begin

text \<open>
  The files of the operating system, as far as the command line uses them: key files, and what a
  restore writes. A file has contents and permissions; opening a path can be refused. Directories
  are not kept: making one only fails where the path is refused.
\<close>

unbundle bit_operations_syntax

record os_files =
  osfFile :: "string \<Rightarrow> (bytes \<times> filemode) option"
  osfRefused :: "string \<Rightarrow> err option"
  osfUmask :: filemode
  osfHandles :: "string list"

definition osExists :: "os_files \<Rightarrow> string \<Rightarrow> bool" where
  "osExists s path = (osfFile s path \<noteq> None)"

definition ReadFile :: "os_files \<Rightarrow> string \<Rightarrow> bytes res" where
  "ReadFile s path =
     (case osfFile s path of
        None \<Rightarrow> Err ErrNotExist
      | Some (contents, _) \<Rightarrow> (case osfRefused s path of Some e \<Rightarrow> Err e | None \<Rightarrow> Ok contents))"

text \<open>Opening for writing with \<open>O_CREATE\<close>, and cutting to nothing: a file that exists keeps its
  permissions.\<close>

definition createTruncated :: "string \<Rightarrow> filemode \<Rightarrow> os_files \<Rightarrow> unit res \<times> os_files" where
  "createTruncated path perm s =
     (if path = [] then (Err ErrNotExist, s)
      else case osfRefused s path of
             Some e \<Rightarrow> (Err e, s)
           | None \<Rightarrow>
               (let mode = (case osfFile s path of
                              Some (_, m) \<Rightarrow> m | None \<Rightarrow> perm AND (NOT (osfUmask s)))
                in (Ok (), s\<lparr>osfFile := (osfFile s)(path \<mapsto> ([], mode))\<rparr>)))"

definition appendFile :: "string \<Rightarrow> bytes \<Rightarrow> os_files \<Rightarrow> os_files" where
  "appendFile path contents s =
     (case osfFile s path of
        None \<Rightarrow> s
      | Some (old, m) \<Rightarrow> s\<lparr>osfFile := (osfFile s)(path \<mapsto> (old @ contents, m))\<rparr>)"

definition WriteFile :: "string \<Rightarrow> bytes \<Rightarrow> filemode \<Rightarrow> os_files \<Rightarrow> unit res \<times> os_files" where
  "WriteFile path contents perm s =
     andThen (createTruncated path perm s) (\<lambda>_ s. (Ok (), appendFile path contents s))"

definition osMakeDirs :: "string \<Rightarrow> filemode \<Rightarrow> os_files \<Rightarrow> unit res \<times> os_files" where
  "osMakeDirs path perm s = (case osfRefused s path of Some e \<Rightarrow> (Err e, s) | None \<Rightarrow> (Ok (), s))"

text \<open>The destination of a restore on these files; its handles are numbered.\<close>

definition restoreToFiles :: "os_files restore_dst" where
  "restoreToFiles =
     \<lparr>rdGetDst = \<lambda>path mode s. andThen (createTruncated path mode s)
        (\<lambda>_ s. (Ok (length (osfHandles s)), s\<lparr>osfHandles := osfHandles s @ [path]\<rparr>)),
      rdWrite = \<lambda>k contents s. (Ok (), appendFile (osfHandles s ! k) contents s),
      rdClose = \<lambda>k s. (Ok (), s),
      rdMkdirAll = osMakeDirs\<rparr>"

section \<open>Facts\<close>

lemmas os_files_defs = createTruncated_def appendFile_def osMakeDirs_def

lemma WriteFile_read:
  assumes "WriteFile path contents perm s = (Ok (), s')"
  shows "ReadFile s' path = Ok contents"
    and "q \<noteq> path \<Longrightarrow> ReadFile s' q = ReadFile s q"
    and "osfFile s path = None \<Longrightarrow> osfFile s' path = Some (contents, perm AND (NOT (osfUmask s)))"
    and "osfFile s path = Some (old, m) \<Longrightarrow> osfFile s' path = Some (contents, m)"
    and "osfRefused s' = osfRefused s" "osfUmask s' = osfUmask s"
  using assms
  by (auto simp: WriteFile_def os_files_defs ReadFile_def andThen_Ok_iff split: if_splits option.splits)

lemma osMakeDirs_state [simp]: "snd (osMakeDirs path perm s) = s"
  by (simp add: osMakeDirs_def split: option.split)

lemma osExists_read: "ReadFile s path = Ok c \<Longrightarrow> osExists s path"
  by (auto simp: ReadFile_def osExists_def split: option.splits)

end
