(* ===== verification/Commands.thy ===== *)
theory Commands
  imports Inventory Persister Keys Logging OsFiles Mtio
begin

text \<open>
  cmd/stfs: what one run of the program does. The flags have been parsed (cobra and viper): a
  record holds the values the commands read. A run works on the files of the machine: the drives,
  the metadata databases, the files of the operating system and the standard output. It makes a
  tape manager, a persister and a logger of its own, which end with it; what stays behind is the
  drive, the rows of the database and the output.
\<close>

section \<open>Flags and the machine\<close>

record flags =
  clDrive :: string
  clMetadata :: string
  clVerbose :: int
  clCompression :: string
  clEncryption :: string
  clSignature :: string
  clRecordSize :: nat
  clCompressionLevel :: string
  clRecipient :: string
  clIdentity :: string
  clPassword :: string
  clFrom :: string
  clTo :: string
  clName :: string
  clOverwrite :: bool
  clFlatten :: bool
  clPreview :: bool
  clLink :: bool
  clRecord :: int
  clBlock :: int
  clLimit :: int
  clExpression :: string

text \<open>The files a walk over a directory visits, each with the error the walk met, the target of a
  link and the outcome of opening it.\<close>

record walked =
  wkPath :: string
  wkInfo :: file_info
  wkErr :: "err option"
  wkReadlink :: "string res"
  wkOpen :: "bytes res"

text \<open>The rest of the machine: the user and the time, the text of a time, the files below a path,
  regular expressions, randomness, and the system calls on a drive. They move a tape; what a drive
  holds stays.\<close>

record machine =
  mcUser :: "os_user res"
  mcFormatTime :: "gotime \<Rightarrow> string"
  mcWalk :: "string \<Rightarrow> walked list"
  mcRegexp :: "string \<Rightarrow> (string \<Rightarrow> bool) option"
  mcRandom :: nat
  mcKernel :: "drive_file kernel"

record world =
  wdDrive :: "string \<Rightarrow> drive_file"
  wdDatabase :: "string \<Rightarrow> header list"
  wdFiles :: os_files
  wdOut :: "string list list"

section \<open>Checks before a run (root.go and every PreRunE)\<close>

definition rootPreRun :: "'a flags_scheme \<Rightarrow> unit res" where
  "rootPreRun fl =
     rbind (CheckCompressionFormat (clCompression fl)) (\<lambda>_.
     rbind (CheckEncryptionFormat (clEncryption fl)) (\<lambda>_. CheckSignatureFormat (clSignature fl)))"

text \<open>A writer encrypts for a recipient and signs with an identity; a reader the other way round.\<close>

definition writerPreRun :: "os_files \<Rightarrow> flags \<Rightarrow> unit res" where
  "writerPreRun s fl =
     rbind (CheckKeyAccessible (osExists s) (clEncryption fl) (clRecipient fl))
       (\<lambda>_. CheckKeyAccessible (osExists s) (clSignature fl) (clIdentity fl))"

definition readerPreRun :: "os_files \<Rightarrow> 'a flags_scheme \<Rightarrow> unit res" where
  "readerPreRun s fl =
     rbind (CheckKeyAccessible (osExists s) (clEncryption fl) (clIdentity fl))
       (\<lambda>_. CheckKeyAccessible (osExists s) (clSignature fl) (clRecipient fl))"

definition ReadKey :: "os_files \<Rightarrow> string \<Rightarrow> string \<Rightarrow> bytes res" where
  "ReadKey s encryptionFormat pathToKey =
     (if encryptionFormat = NoneKey then Ok [] else ReadFile s pathToKey)"

definition writerCrypto :: "external \<Rightarrow> os_files \<Rightarrow> flags \<Rightarrow> crypto_config res" where
  "writerCrypto x s fl =
     rbind (ReadKey s (clEncryption fl) (clRecipient fl)) (\<lambda>pubkey.
     rbind (ParseRecipient x (clEncryption fl) pubkey) (\<lambda>recipient.
     rbind (ReadKey s (clSignature fl) (clIdentity fl)) (\<lambda>privkey.
     rbind (ParseSignerIdentity x (clSignature fl) privkey (clPassword fl)) (\<lambda>identity.
       Ok \<lparr>Recipient = recipient, Identity = identity, Password = clPassword fl\<rparr>))))"

definition readerCrypto :: "external \<Rightarrow> os_files \<Rightarrow> 'a flags_scheme \<Rightarrow> crypto_config res" where
  "readerCrypto x s fl =
     rbind (ReadKey s (clSignature fl) (clRecipient fl)) (\<lambda>pubkey.
     rbind (ParseSignerRecipient x (clSignature fl) pubkey) (\<lambda>recipient.
     rbind (ReadKey s (clEncryption fl) (clIdentity fl)) (\<lambda>privkey.
     rbind (ParseIdentity x (clEncryption fl) privkey (clPassword fl)) (\<lambda>identity.
       Ok \<lparr>Recipient = recipient, Identity = identity, Password = clPassword fl\<rparr>))))"

section \<open>A run that uses the operations\<close>

definition flagPipes :: "'a flags_scheme \<Rightarrow> pipe_config" where
  "flagPipes fl =
     \<lparr>Compression = clCompression fl, Encryption = clEncryption fl, Signature = clSignature fl,
      RecordSize = clRecordSize fl\<rparr>"

definition flagOperations ::
  "'a flags_scheme \<Rightarrow> crypto_config \<Rightarrow> (header_event \<Rightarrow> 'e \<Rightarrow> unit res \<times> 'e) \<Rightarrow> 'e operations" where
  "flagOperations fl crypto onHeader =
     \<lparr>opPipes = flagPipes fl, opCrypto = crypto, opOnHeader = Some onHeader\<rparr>"

definition openDatabase :: "header list \<Rightarrow> unit res \<times> persister" where
  "openDatabase rs = Open (NewMetadataPersister\<lparr>rows := rs\<rparr>)"

definition withOperations ::
  "'a flags_scheme \<Rightarrow> bool \<Rightarrow> 'e
   \<Rightarrow> ((tape_manager, persister, 'e) ops_state \<Rightarrow> 'r res \<times> (tape_manager, persister, 'e) ops_state)
   \<Rightarrow> world \<Rightarrow> 'r res \<times> 'e \<times> world" where
  "withOperations fl overwrite ev f w =
     (let (opened, p) = openDatabase (wdDatabase w (clMetadata fl));
          (r, s) = andThen (opened, \<lparr>osBackend = NewTapeManager (wdDrive w (clDrive fl)) overwrite,
                                     osMetadata = p, osEvents = ev\<rparr>)
                     (\<lambda>_. f)
      in (r, osEvents s,
          w\<lparr>wdDrive := (wdDrive w)(clDrive fl := tmDrive (osBackend s)),
            wdDatabase := (wdDatabase w)(clMetadata fl := rows (osMetadata s))\<rparr>))"

text \<open>The same with the CSV logger as the environment of the operations.\<close>

definition loggedOperations ::
  "machine \<Rightarrow> flags \<Rightarrow> bool \<Rightarrow> crypto_config
   \<Rightarrow> (csv_logger operations \<Rightarrow> (tape_manager, persister, csv_logger) ops_state
        \<Rightarrow> 'r res \<times> (tape_manager, persister, csv_logger) ops_state)
   \<Rightarrow> world \<Rightarrow> unit res \<times> world" where
  "loggedOperations mc fl overwrite crypto f w =
     (let (r, l, w) = withOperations fl overwrite (NewCSVLogger (wdOut w))
            (f (flagOperations fl crypto (PrintHeaderEvent (mcFormatTime mc)))) w
      in (rbind r (\<lambda>_. Ok ()), w\<lparr>wdOut := csvOut l\<rparr>))"

section \<open>stfs operation\<close>

text \<open>A file the walk visits as a source of the operation; an error of the walk ends it.\<close>

definition walkSource :: "walked \<Rightarrow> 'e file_source" where
  "walkSource wk ev =
     (case wkErr wk of
        Some e \<Rightarrow> (Err e, ev)
      | None \<Rightarrow>
          andThen (if fiMode (wkInfo wk) AND ModeSymlink = ModeSymlink then (wkReadlink wk, ev)
                   else (Ok [], ev))
            (\<lambda>link ev.
               (Ok \<lparr>fcInfo = wkInfo wk, fcPath = ToSlash (ToSlash (wkPath wk)), fcLink = ToSlash link,
                    fcGetFile = \<lambda>ev. (rbind (wkOpen wk) (\<lambda>c. Ok (c, c)), ev),
                    fcClose = \<lambda>ev. (Ok (), ev)\<rparr>, ev)))"

definition operationArchive :: "external \<Rightarrow> machine \<Rightarrow> flags \<Rightarrow> world \<Rightarrow> unit res \<times> world" where
  "operationArchive x mc fl w =
     andThen (rbind (CheckCompressionLevel (clCompressionLevel fl)) (\<lambda>_. writerPreRun (wdFiles w) fl), w)
       (\<lambda>_ w. andThen (writerCrypto x (wdFiles w) fl, w)
          (\<lambda>crypto w. loggedOperations mc fl (clOverwrite fl) crypto
             (\<lambda>op. archive x tapeBackend sqliteMetadata op (map walkSource (mcWalk mc (clFrom fl)))
                     (clCompressionLevel fl) (clOverwrite fl) False) w))"

definition operationUpdate :: "external \<Rightarrow> machine \<Rightarrow> flags \<Rightarrow> world \<Rightarrow> unit res \<times> world" where
  "operationUpdate x mc fl w =
     andThen (rbind (CheckCompressionLevel (clCompressionLevel fl)) (\<lambda>_. writerPreRun (wdFiles w) fl), w)
       (\<lambda>_ w. andThen (writerCrypto x (wdFiles w) fl, w)
          (\<lambda>crypto w. loggedOperations mc fl False crypto
             (\<lambda>op. Update x tapeBackend sqliteMetadata op (map walkSource (mcWalk mc (clFrom fl)))
                     (clCompressionLevel fl) (clOverwrite fl) False) w))"

definition operationDelete :: "external \<Rightarrow> machine \<Rightarrow> flags \<Rightarrow> world \<Rightarrow> unit res \<times> world" where
  "operationDelete x mc fl w =
     andThen (writerPreRun (wdFiles w) fl, w)
       (\<lambda>_ w. andThen (writerCrypto x (wdFiles w) fl, w)
          (\<lambda>crypto w. loggedOperations mc fl False crypto
             (\<lambda>op. Delete x tapeBackend sqliteMetadata op (clName fl)) w))"

definition operationMove :: "external \<Rightarrow> machine \<Rightarrow> flags \<Rightarrow> world \<Rightarrow> unit res \<times> world" where
  "operationMove x mc fl w =
     andThen (writerPreRun (wdFiles w) fl, w)
       (\<lambda>_ w. andThen (writerCrypto x (wdFiles w) fl, w)
          (\<lambda>crypto w. loggedOperations mc fl False crypto
             (\<lambda>op. Move x tapeBackend sqliteMetadata op (clFrom fl) (clTo fl)) w))"

definition operationInitialize :: "external \<Rightarrow> machine \<Rightarrow> flags \<Rightarrow> world \<Rightarrow> unit res \<times> world" where
  "operationInitialize x mc fl w =
     andThen (rbind (CheckCompressionLevel (clCompressionLevel fl)) (\<lambda>_. writerPreRun (wdFiles w) fl), w)
       (\<lambda>_ w. andThen (writerCrypto x (wdFiles w) fl, w)
          (\<lambda>crypto w. loggedOperations mc fl True crypto
             (\<lambda>op. InitializeTape x tapeBackend sqliteMetadata op (mcUser mc) ''/'' ModePerm
                     (clCompressionLevel fl)) w))"

text \<open>The files the restore writes are part of its environment, next to the logger.\<close>

definition operationRestore :: "external \<Rightarrow> machine \<Rightarrow> flags \<Rightarrow> world \<Rightarrow> unit res \<times> world" where
  "operationRestore x mc fl w =
     andThen (readerPreRun (wdFiles w) fl, w)
       (\<lambda>_ w. andThen (readerCrypto x (wdFiles w) fl, w)
          (\<lambda>crypto w.
             let (r, (fs, l), w) = withOperations fl False (wdFiles w, NewCSVLogger (wdOut w))
                   (Restore x tapeBackend sqliteMetadata
                      (flagOperations fl crypto (PrintHeaderEvent (mcFormatTime mc)))
                      restoreToFiles (clFrom fl) (clTo fl) (clFlatten fl)) w
             in (r, w\<lparr>wdFiles := fs, wdOut := csvOut l\<rparr>)))"

section \<open>stfs recovery\<close>

text \<open>
  The recovery commands open the drive themselves. Where that fails they return nil, as if there
  had been nothing to do.
\<close>

definition driveMedium :: "drive_file \<Rightarrow> medium" where
  "driveMedium d = (case dfMedium d of None \<Rightarrow> [] | Some m \<Rightarrow> m)"

definition openDrive :: "drive_file \<Rightarrow> medium res" where
  "openDrive d = rbind (OpenTapeReadOnly d) (\<lambda>_. Ok (driveMedium d))"

definition withDrive ::
  "drive_file \<Rightarrow> (medium \<Rightarrow> world \<Rightarrow> unit res \<times> world) \<Rightarrow> world \<Rightarrow> unit res \<times> world" where
  "withDrive d f w = attempt (openDrive d, w) f (\<lambda>e w. (Ok (), w)) (\<lambda>w. w)"

definition recoveryIndex :: "external \<Rightarrow> machine \<Rightarrow> flags \<Rightarrow> world \<Rightarrow> unit res \<times> world" where
  "recoveryIndex x mc fl w =
     andThen (readerPreRun (wdFiles w) fl, w)
       (\<lambda>_ w. andThen (readerCrypto x (wdFiles w) fl, w)
          (\<lambda>crypto w. withDrive (wdDrive w (clDrive fl))
             (\<lambda>m w.
                let (opened, p) = openDatabase (wdDatabase w (clMetadata fl));
                    (r, (p, l)) = andThen (opened, (p, NewCSVLogger (wdOut w)))
                      (\<lambda>_. Index m sqliteMetadata (flagPipes fl) (clRecord fl) (clBlock fl)
                             (clOverwrite fl) False 0
                             (\<lambda>hdr i. DecryptHeader x hdr (clEncryption fl) (Identity crypto))
                             (\<lambda>hdr isRegular. VerifyHeader x hdr isRegular (clSignature fl)
                                                (Recipient crypto))
                             (Some (PrintHeader (mcFormatTime mc))))
                in (r, w\<lparr>wdDatabase := (wdDatabase w)(clMetadata fl := rows p),
                         wdOut := csvOut l\<rparr>)) w))"

definition recoveryQuery :: "external \<Rightarrow> machine \<Rightarrow> flags \<Rightarrow> world \<Rightarrow> unit res \<times> world" where
  "recoveryQuery x mc fl w =
     andThen (readerPreRun (wdFiles w) fl, w)
       (\<lambda>_ w. andThen (readerCrypto x (wdFiles w) fl, w)
          (\<lambda>crypto w. withDrive (wdDrive w (clDrive fl))
             (\<lambda>m w.
                let (r, l) = Query x m (flagPipes fl) crypto (clRecord fl) (clBlock fl)
                      (Some (PrintHeader (mcFormatTime mc))) (NewCSVLogger (wdOut w))
                in (rbind r (\<lambda>_. Ok ()), w\<lparr>wdOut := csvOut l\<rparr>)) w))"

definition recoveryFetch :: "external \<Rightarrow> machine \<Rightarrow> flags \<Rightarrow> world \<Rightarrow> unit res \<times> world" where
  "recoveryFetch x mc fl w =
     andThen (readerPreRun (wdFiles w) fl, w)
       (\<lambda>_ w. andThen (readerCrypto x (wdFiles w) fl, w)
          (\<lambda>crypto w. withDrive (wdDrive w (clDrive fl))
             (\<lambda>m w.
                let (r, (fs, l)) = Fetch x m (flagPipes fl) crypto restoreToFiles (clRecord fl)
                      (clBlock fl) (clTo fl) (clPreview fl)
                      (Some (PrintHeader (mcFormatTime mc))) (wdFiles w, NewCSVLogger (wdOut w))
                in (r, w\<lparr>wdFiles := fs, wdOut := csvOut l\<rparr>)) w))"

section \<open>stfs inventory\<close>

definition withInventory ::
  "flags \<Rightarrow> ((unit, persister, csv_logger) ops_state \<Rightarrow> 'r res \<times> (unit, persister, csv_logger) ops_state)
   \<Rightarrow> world \<Rightarrow> unit res \<times> world" where
  "withInventory fl f w =
     (let (opened, p) = openDatabase (wdDatabase w (clMetadata fl));
          (r, s) = andThen (opened, \<lparr>osBackend = (), osMetadata = p, osEvents = NewCSVLogger (wdOut w)\<rparr>)
                     (\<lambda>_. f)
      in (rbind r (\<lambda>_. Ok ()),
          w\<lparr>wdDatabase := (wdDatabase w)(clMetadata fl := rows (osMetadata s)),
            wdOut := csvOut (osEvents s)\<rparr>))"

definition inventoryStat :: "machine \<Rightarrow> flags \<Rightarrow> world \<Rightarrow> unit res \<times> world" where
  "inventoryStat mc fl w =
     withInventory fl
       (StatEntry sqliteMetadata (clName fl) (clLink fl) (Some (PrintHeader (mcFormatTime mc)))) w"

definition inventoryList :: "machine \<Rightarrow> flags \<Rightarrow> world \<Rightarrow> unit res \<times> world" where
  "inventoryList mc fl w =
     withInventory fl
       (ListEntries sqliteMetadata (clName fl) (clLimit fl) (Some (PrintHeader (mcFormatTime mc)))) w"

definition inventoryFind :: "machine \<Rightarrow> flags \<Rightarrow> world \<Rightarrow> unit res \<times> world" where
  "inventoryFind mc fl w =
     withInventory fl
       (Find (mcRegexp mc) sqliteMetadata (clExpression fl) (Some (PrintHeader (mcFormatTime mc)))) w"

section \<open>stfs keygen and stfs drive\<close>

definition keygenCmd :: "external \<Rightarrow> machine \<Rightarrow> flags \<Rightarrow> world \<Rightarrow> unit res \<times> world" where
  "keygenCmd x mc fl w =
     andThen (Keygen x (mcRandom mc) ((flagPipes fl)\<lparr>RecordSize := 0\<rparr>) (clPassword fl), w)
       (\<lambda>(privkey, pubkey) w.
          let (r, fs) =
            andThen (osMakeDirs (Dir (clRecipient fl)) ModePerm (wdFiles w))
              (\<lambda>_ fs. andThen (WriteFile (clRecipient fl) pubkey ModePerm fs)
              (\<lambda>_ fs. andThen (osMakeDirs (Dir (clIdentity fl)) 0x1C0 fs)
              (\<lambda>_ fs. WriteFile (clIdentity fl) privkey 0x180 fs)))
          in (r, w\<lparr>wdFiles := fs\<rparr>))"

definition driveTell :: "machine \<Rightarrow> flags \<Rightarrow> world \<Rightarrow> unit res \<times> world" where
  "driveTell mc fl w =
     (let d = wdDrive w (clDrive fl)
      in withDrive d
           (\<lambda>_ w. andThen (fst (Tell (MagneticTapeIO (mcKernel mc)) d), w)
              (\<lambda>currentRecord w. (Ok (), w\<lparr>wdOut := wdOut w @ [[Itoa currentRecord]]\<rparr>))) w)"

definition driveEject :: "machine \<Rightarrow> flags \<Rightarrow> world \<Rightarrow> unit res \<times> world" where
  "driveEject mc fl w =
     (let d = wdDrive w (clDrive fl) in withDrive d (\<lambda>_ w. (fst (Eject (MagneticTapeIO (mcKernel mc)) d), w)) w)"

section \<open>The program\<close>

datatype command =
    OperationArchive | OperationUpdate | OperationDelete | OperationMove | OperationInitialize
  | OperationRestore | RecoveryIndex | RecoveryQuery | RecoveryFetch | InventoryStat
  | InventoryList | InventoryFind | KeygenCommand | DriveTell | DriveEject

fun runE :: "external \<Rightarrow> machine \<Rightarrow> command \<Rightarrow> flags \<Rightarrow> world \<Rightarrow> unit res \<times> world" where
  "runE x mc OperationArchive fl w = operationArchive x mc fl w"
| "runE x mc OperationUpdate fl w = operationUpdate x mc fl w"
| "runE x mc OperationDelete fl w = operationDelete x mc fl w"
| "runE x mc OperationMove fl w = operationMove x mc fl w"
| "runE x mc OperationInitialize fl w = operationInitialize x mc fl w"
| "runE x mc OperationRestore fl w = operationRestore x mc fl w"
| "runE x mc RecoveryIndex fl w = recoveryIndex x mc fl w"
| "runE x mc RecoveryQuery fl w = recoveryQuery x mc fl w"
| "runE x mc RecoveryFetch fl w = recoveryFetch x mc fl w"
| "runE x mc InventoryStat fl w = inventoryStat mc fl w"
| "runE x mc InventoryList fl w = inventoryList mc fl w"
| "runE x mc InventoryFind fl w = inventoryFind mc fl w"
| "runE x mc KeygenCommand fl w = keygenCmd x mc fl w"
| "runE x mc DriveTell fl w = driveTell mc fl w"
| "runE x mc DriveEject fl w = driveEject mc fl w"

text \<open>One run: the checks of the root command, then the command.\<close>

definition stfsCommand :: "external \<Rightarrow> machine \<Rightarrow> command \<Rightarrow> flags \<Rightarrow> world \<Rightarrow> unit res \<times> world" where
  "stfsCommand x mc c fl w = andThen (rootPreRun fl, w) (\<lambda>_ w. runE x mc c fl w)"

text \<open>A sequence of runs, on a machine that may differ from one to the next.\<close>

definition stfsRuns :: "external \<Rightarrow> (machine \<times> command \<times> flags) list \<Rightarrow> world \<Rightarrow> world" where
  "stfsRuns x runs w = fold (\<lambda>(mc, c, fl) w. snd (stfsCommand x mc c fl w)) runs w"

end
