(* ===== verification/Serving.thy ===== *)
theory Serving
  imports Commands FileSystemSafety
begin

text \<open>
  The servers: stfs serve http and stfs serve ftp (cmd/stfs), the panic handler around the HTTP
  server (internal/handlers) and the driver of the FTP server (internal/ftp). The servers
  themselves are third-party: here they are any sequence of calls of the methods of the file system
  and of the files it opened. The environment of the operations is the state of the operating
  system the caches use, and the lines of the JSON logger.
\<close>

section \<open>The handlers of the servers\<close>

text \<open>
  The panic handler answers a request during which the handler inside panicked with an error, and
  logs it (internal/handlers/panic.go); \<open>text\<close> is the text of the panic.
\<close>

datatype http_answer = Answered | ServerError string

definition PanicHandler ::
  "int \<Rightarrow> string \<Rightarrow> ('s \<times> log_message list \<Rightarrow> unit res \<times> ('s \<times> log_message list))
   \<Rightarrow> 's \<times> log_message list \<Rightarrow> http_answer res \<times> ('s \<times> log_message list)" where
  "PanicHandler verbosity text serve s =
     (case serve s of
        (Panic, (s, out)) \<Rightarrow>
          (let (_, out) = LogError verbosity ''Error during HTTP request'' (JsonFields [(''err'', text)]) out
           in (Ok (ServerError text), (s, out)))
      | (Hang, s) \<Rightarrow> (Hang, s)
      | (_, s) \<Rightarrow> (Ok Answered, s))"

text \<open>The driver of the FTP server and its clients (internal/ftp/server.go); a client has an id.\<close>

record 'c ftp_server =
  ftpListenAddr :: string
  ftpClients :: "'c list"

definition GetSettings :: "'c ftp_server \<Rightarrow> string res" where
  "GetSettings driver = Ok (ftpListenAddr driver)"

definition GetTLSConfig :: "'c ftp_server \<Rightarrow> unit res" where
  "GetTLSConfig driver = Err ErrNoTLS"

definition ClientConnected :: "'c \<Rightarrow> 'c ftp_server \<Rightarrow> string res \<times> 'c ftp_server" where
  "ClientConnected cc driver = (Ok [], driver\<lparr>ftpClients := ftpClients driver @ [cc]\<rparr>)"

text \<open>The loop over the clients: the last one takes the place of the one that goes.\<close>

fun disconnectFrom :: "('c \<Rightarrow> nat) \<Rightarrow> nat \<Rightarrow> nat \<Rightarrow> 'c list \<Rightarrow> 'c list \<Rightarrow> 'c list" where
  "disconnectFrom ident gone idx [] clients = clients"
| "disconnectFrom ident gone idx (client # rest) clients =
     (if ident client = gone
      then (let lastIdx = length clients - 1 in take lastIdx (clients[idx := clients ! lastIdx]))
      else disconnectFrom ident gone (idx + 1) rest clients)"

definition ClientDisconnected :: "('c \<Rightarrow> nat) \<Rightarrow> 'c \<Rightarrow> 'c ftp_server \<Rightarrow> 'c ftp_server" where
  "ClientDisconnected ident cc driver =
     driver\<lparr>ftpClients := disconnectFrom ident (ident cc) 0 (ftpClients driver) (ftpClients driver)\<rparr>"

section \<open>The flags of the servers\<close>

record serve_flags = flags +
  clLaddr :: string
  clCacheFileSystem :: string
  clCacheDir :: string
  clCacheDuration :: int

record ftp_flags = serve_flags +
  clEncryptionIdentity :: string
  clEncryptionPassword :: string
  clEncryptionRecipient :: string
  clSignatureIdentity :: string
  clSignaturePassword :: string
  clSignatureRecipient :: string
  clCacheWrite :: string
  clReadOnly :: bool

section \<open>Setting up a file system\<close>

type_synonym 'o serve_env = "'o \<times> log_message list"

type_synonym 'o serve_state = "(tape_manager, persister, 'o serve_env) ops_state"

type_synonym 'o serve_fs = "(tape_manager, persister, 'o serve_env) stfs"

definition onLog ::
  "(log_message list \<Rightarrow> unit res \<times> log_message list) \<Rightarrow> 'o serve_env \<Rightarrow> unit res \<times> 'o serve_env" where
  "onLog f ev = (let (r, out) = f (snd ev) in (r, (fst ev, out)))"

definition onOs :: "('o \<Rightarrow> 'a res \<times> 'o) \<Rightarrow> 'o serve_env \<Rightarrow> 'a res \<times> 'o serve_env" where
  "onOs f ev = (let (r, os) = f (fst ev) in (r, (os, snd ev)))"

definition onServeEnv ::
  "('o serve_env \<Rightarrow> 'a res \<times> 'o serve_env) \<Rightarrow> 'o serve_state \<Rightarrow> 'a res \<times> 'o serve_state" where
  "onServeEnv f s = (let (r, ev) = f (osEvents s) in (r, s\<lparr>osEvents := ev\<rparr>))"

text \<open>The callbacks of the operations and of the file system.\<close>

definition debugEvent :: "'a flags_scheme \<Rightarrow> string \<Rightarrow> header_event \<Rightarrow> 'o serve_env \<Rightarrow> unit res \<times> 'o serve_env" where
  "debugEvent fl text event = onLog (LogDebug (clVerbose fl) text (JsonEvent event))"

definition traceHeader :: "'a flags_scheme \<Rightarrow> header \<Rightarrow> 'o serve_env \<Rightarrow> unit res \<times> 'o serve_env" where
  "traceHeader fl hdr = onLog (LogTrace (clVerbose fl) ''Header transform'' (JsonHeader hdr))"

text \<open>
  What both servers do with their file system: initialize it, put a cache before it, and serve the
  calls of the clients until the server ends.
\<close>

definition serveCalls ::
  "external \<Rightarrow> 'o os_env \<Rightarrow> 'a serve_flags_scheme \<Rightarrow> string \<Rightarrow> 'o serve_fs \<Rightarrow> ('w, 'o serve_env) buffers
   \<Rightarrow> client_call list \<Rightarrow> 'o serve_state \<Rightarrow> unit afero_fs res \<times> 'o serve_state" where
  "serveCalls x os fl listening stfs bufs calls s =
     andThen (InitializeFS x stfs ''/'' ModePerm s)
       (\<lambda>root s. andThen
          (onServeEnv (onOs (NewCacheFilesystem os () root (clCacheFileSystem fl) (clCacheDuration fl)
             (Join2 (clCacheDir fl) ''filesystem''))) s)
          (\<lambda>fs s. andThen
             (onServeEnv (onLog (LogInfo (clVerbose fl) listening
                (JsonFields [(''laddr'', clLaddr fl)]))) s)
             (\<lambda>_ s. (Ok fs, snd (runSession x stfs bufs calls ([], s))))))"

section \<open>stfs serve http\<close>

definition httpPreRun :: "os_files \<Rightarrow> 'a serve_flags_scheme \<Rightarrow> unit res" where
  "httpPreRun s fl =
     rbind (CheckFileSystemCacheType (clCacheFileSystem fl)) (\<lambda>_. readerPreRun s fl)"

text \<open>
  The file system is read-only: it gets neither operations for writing nor a source of buffers
  (both are nil), and uses neither; \<open>unused\<close> and the buffers stand for them.
\<close>

definition httpFileSystem ::
  "machine \<Rightarrow> 'a serve_flags_scheme \<Rightarrow> crypto_config \<Rightarrow> 'o serve_env operations \<Rightarrow> 'o serve_fs" where
  "httpFileSystem mc fl crypto unused =
     \<lparr>fsBackend = tapeBackend, fsMetadata = sqliteMetadata,
      fsReadOps = flagOperations fl crypto (debugEvent fl ''Header read''), fsWriteOps = unused,
      fsCompressionLevel = [], fsReadOnly = True, fsWritePermImpliesReadPerm = False,
      fsOnHeader = Some (traceHeader fl), fsUser = mcUser mc\<rparr>"

definition serveHTTP ::
  "external \<Rightarrow> machine \<Rightarrow> 'o os_env \<Rightarrow> 'a serve_flags_scheme \<Rightarrow> 'o serve_env operations
   \<Rightarrow> ('w, 'o serve_env) buffers \<Rightarrow> client_call list \<Rightarrow> 'o serve_env \<times> world
   \<Rightarrow> unit afero_fs res \<times> ('o serve_env \<times> world)" where
  "serveHTTP x mc os fl unused bufs calls st =
     andThen (rbind (rootPreRun fl) (\<lambda>_. httpPreRun (wdFiles (snd st)) fl), st)
       (\<lambda>_ st. andThen (readerCrypto x (wdFiles (snd st)) fl, st)
          (\<lambda>crypto st. withOperations fl False (fst st)
             (serveCalls x os fl ''HTTP server listening'' (httpFileSystem mc fl crypto unused) bufs calls)
             (snd st)))"

section \<open>stfs serve ftp\<close>

definition ftpPreRun :: "os_files \<Rightarrow> ftp_flags \<Rightarrow> unit res" where
  "ftpPreRun s fl =
     rbind (CheckFileSystemCacheType (clCacheFileSystem fl)) (\<lambda>_.
     rbind (CheckWriteCacheType (clCacheWrite fl)) (\<lambda>_.
     rbind (CheckKeyAccessible (osExists s) (clEncryption fl) (clEncryptionIdentity fl)) (\<lambda>_.
     rbind (CheckKeyAccessible (osExists s) (clEncryption fl) (clEncryptionRecipient fl)) (\<lambda>_.
     rbind (CheckKeyAccessible (osExists s) (clSignature fl) (clSignatureIdentity fl)) (\<lambda>_.
       CheckKeyAccessible (osExists s) (clSignature fl) (clSignatureRecipient fl))))))"

text \<open>The keys of both directions: those to read with, and those to write with.\<close>

definition ftpCrypto :: "external \<Rightarrow> os_files \<Rightarrow> ftp_flags \<Rightarrow> (crypto_config \<times> crypto_config) res" where
  "ftpCrypto x s fl =
     rbind (ReadKey s (clSignature fl) (clSignatureRecipient fl)) (\<lambda>signaturePubkey.
     rbind (ReadKey s (clSignature fl) (clSignatureIdentity fl)) (\<lambda>signaturePrivkey.
     rbind (ReadKey s (clEncryption fl) (clEncryptionRecipient fl)) (\<lambda>encryptionPubkey.
     rbind (ReadKey s (clEncryption fl) (clEncryptionIdentity fl)) (\<lambda>encryptionPrivkey.
     rbind (ParseSignerRecipient x (clSignature fl) signaturePubkey) (\<lambda>signatureRecipient.
     rbind (ParseSignerIdentity x (clSignature fl) signaturePrivkey (clSignaturePassword fl))
       (\<lambda>signatureIdentity.
     rbind (ParseRecipient x (clEncryption fl) encryptionPubkey) (\<lambda>encryptionRecipient.
     rbind (ParseIdentity x (clEncryption fl) encryptionPrivkey (clEncryptionPassword fl))
       (\<lambda>encryptionIdentity.
     Ok (\<lparr>Recipient = signatureRecipient, Identity = encryptionIdentity,
          Password = clEncryptionPassword fl\<rparr>,
         \<lparr>Recipient = encryptionRecipient, Identity = signatureIdentity,
          Password = clSignaturePassword fl\<rparr>)))))))))"

definition ftpFileSystem :: "machine \<Rightarrow> ftp_flags \<Rightarrow> crypto_config \<Rightarrow> crypto_config \<Rightarrow> 'o serve_fs" where
  "ftpFileSystem mc fl readCrypto writeCrypto =
     \<lparr>fsBackend = tapeBackend, fsMetadata = sqliteMetadata,
      fsReadOps = flagOperations fl readCrypto (debugEvent fl ''Header read''),
      fsWriteOps = flagOperations fl writeCrypto (debugEvent fl ''Header write''),
      fsCompressionLevel = clCompressionLevel fl, fsReadOnly = clReadOnly fl,
      fsWritePermImpliesReadPerm = True, fsOnHeader = Some (traceHeader fl), fsUser = mcUser mc\<rparr>"

definition ftpBuffers ::
  "'m filebuffer \<Rightarrow> 'o os_env \<Rightarrow> ftp_flags \<Rightarrow> ('m write_buffer, 'o serve_env) buffers" where
  "ftpBuffers fb os fl =
     \<lparr>bufCache = bufferCache fb,
      bufNew = onOs (NewCacheWrite fb os (Join2 (clCacheDir fl) ''write'') (clCacheWrite fl)),
      bufClean = \<lambda>b. onOs (cleanBuffer os b)\<rparr>"

definition serveFTP ::
  "external \<Rightarrow> machine \<Rightarrow> 'm filebuffer \<Rightarrow> 'o os_env \<Rightarrow> ftp_flags \<Rightarrow> client_call list
   \<Rightarrow> 'o serve_env \<times> world \<Rightarrow> unit afero_fs res \<times> ('o serve_env \<times> world)" where
  "serveFTP x mc fb os fl calls st =
     andThen (rbind (rootPreRun fl) (\<lambda>_. ftpPreRun (wdFiles (snd st)) fl), st)
       (\<lambda>_ st. andThen (ftpCrypto x (wdFiles (snd st)) fl, st)
          (\<lambda>(readCrypto, writeCrypto) st. withOperations fl False (fst st)
             (serveCalls x os fl ''FTP server listening'' (ftpFileSystem mc fl readCrypto writeCrypto)
                (ftpBuffers fb os fl) calls)
             (snd st)))"

end
