(* ===== verification/CommandsProps.thy ===== *)
theory CommandsProps
  imports Serving OperationsRestore
begin

text \<open>
  What the runs of the program do to the machine: which of them write to the drive, that those
  only append to it, what a run that fails leaves behind, and that what one run wrote another one
  reads back.
\<close>

section \<open>What a run leaves of the drive\<close>

lemma withOperations_kept:
  assumes "backendKept B f" "B (NewTapeManager (wdDrive w (clDrive fl)) ow)"
  obtains b where "B b" "wdDrive (snd (snd (withOperations fl ow ev f w))) = (wdDrive w)(clDrive fl := tmDrive b)"
proof -
  obtain v p where o: "openDatabase (wdDatabase w (clMetadata fl)) = (v, p)" by force
  let ?start = "\<lparr>osBackend = NewTapeManager (wdDrive w (clDrive fl)) ow, osMetadata = p, osEvents = ev\<rparr>"
  let ?s = "snd (andThen (v, ?start) (\<lambda>_. f))"
  have "B (osBackend ?s)"
    using assms(2) envKeepsD [OF assms(1), of ?start] by (cases v) simp_all
  then show ?thesis
    by (rule that) (simp add: withOperations_def o case_prod_beta Let_def)
qed

lemma loggedOperations_drive:
  "wdDrive (snd (loggedOperations mc fl ow crypto f w)) = wdDrive (snd (snd (withOperations fl ow
     (NewCSVLogger (wdOut w)) (f (flagOperations fl crypto (PrintHeaderEvent (mcFormatTime mc)))) w)))"
  by (simp add: loggedOperations_def case_prod_beta Let_def)

lemma driveMedium_log: "tmLog m = driveMedium (tmDrive m)"
  by (simp add: tmLog_def driveMedium_def)

abbreviation growsDrive :: "string \<Rightarrow> world \<Rightarrow> world \<Rightarrow> bool" where
  "growsDrive d w w' \<equiv> prefix (driveMedium (wdDrive w d)) (driveMedium (wdDrive w' d))"

lemma withOperations_appends:
  assumes "\<And>m. backendKept (\<lambda>b. tmKeeps b \<and> prefix m (tmLog b)) f" "ow \<longrightarrow> clDrive fl \<noteq> d"
  shows "growsDrive d w (snd (snd (withOperations fl ow ev f w)))"
proof (cases "clDrive fl = d")
  case True
  then have "tmKeeps (NewTapeManager (wdDrive w (clDrive fl)) ow)
      \<and> prefix (driveMedium (wdDrive w d)) (tmLog (NewTapeManager (wdDrive w (clDrive fl)) ow))"
    using assms(2) by (simp add: driveMedium_log tmKeeps_def NewTapeManager_def)
  from withOperations_kept [OF assms(1) this] True show ?thesis
    by (metis (no_types, lifting) driveMedium_log fun_upd_same)
next
  case False
  have "backendKept (\<lambda>b. True) f" by (simp add: envKeeps_def)
  from withOperations_kept [OF this TrueI] False show ?thesis
    by (metis (no_types, lifting) fun_upd_other prefix_order.refl)
qed

lemma loggedOperations_appends:
  assumes "\<And>op m. backendKept (\<lambda>b. tmKeeps b \<and> prefix m (tmLog b)) (f op)"
    and "ow \<longrightarrow> clDrive fl \<noteq> d"
  shows "growsDrive d w (snd (loggedOperations mc fl ow crypto f w))"
  unfolding loggedOperations_drive by (rule withOperations_appends [OF assms])

interpretation reading_drive: reading_kept tapeBackend "\<lambda>b. tmDrive b = d"
  by unfold_locales (simp_all add: envKeeps_def GetReader_drive CloseTape_drive)

lemma readingOperations_keep:
  assumes "\<And>d. backendKept (\<lambda>b. tmDrive b = d) f"
  shows "wdDrive (snd (snd (withOperations fl ow ev f w))) = wdDrive w"
proof -
  have "tmDrive (NewTapeManager (wdDrive w (clDrive fl)) ow) = wdDrive w (clDrive fl)"
    by (simp add: NewTapeManager_def)
  from withOperations_kept [OF assms this] show ?thesis by (metis fun_upd_triv)
qed

text \<open>The steps of a command each keep the drives.\<close>

lemma withDrive_post:
  assumes "P w" "\<And>m. P (snd (f m w))"
  shows "P (snd (withDrive d f w))"
  unfolding withDrive_def by (rule attempt_post) (use assms in auto)

fun readingCommand :: "command \<Rightarrow> bool" where
  "readingCommand OperationArchive = False"
| "readingCommand OperationUpdate = False"
| "readingCommand OperationDelete = False"
| "readingCommand OperationMove = False"
| "readingCommand OperationInitialize = False"
| "readingCommand c = True"

lemma operationRestore_keeps: "wdDrive (snd (operationRestore x mc fl w)) = wdDrive w"
  unfolding operationRestore_def
  by (intro andThen_post [where P = "\<lambda>w'. wdDrive w' = wdDrive w"])
    (auto simp: case_prod_beta Let_def readingOperations_keep [OF reading_drive.Restore_kept])

lemma recovery_keeps:
  "wdDrive (snd (recoveryIndex x mc fl w)) = wdDrive w"
  "wdDrive (snd (recoveryQuery x mc fl w)) = wdDrive w"
  "wdDrive (snd (recoveryFetch x mc fl w)) = wdDrive w"
  unfolding recoveryIndex_def recoveryQuery_def recoveryFetch_def Let_def case_prod_beta
  by (intro andThen_post [where P = "\<lambda>w'. wdDrive w' = wdDrive w"]
      withDrive_post [where P = "\<lambda>w'. wdDrive w' = wdDrive w"]; simp)+

lemma reading_run_keeps:
  assumes "readingCommand c"
  shows "wdDrive (snd (stfsCommand x mc c fl w)) = wdDrive w"
proof -
  have "wdDrive (snd (runE x mc c fl w)) = wdDrive w"
    using assms
  proof (cases c)
    case KeygenCommand
    then show ?thesis by (auto simp: keygenCmd_def case_prod_beta Let_def
        intro!: andThen_post [where P = "\<lambda>w'. wdDrive w' = wdDrive w"])
  next
    case DriveTell
    then show ?thesis by (auto simp: driveTell_def Let_def
        intro!: withDrive_post [where P = "\<lambda>w'. wdDrive w' = wdDrive w"]
          andThen_post [where P = "\<lambda>w'. wdDrive w' = wdDrive w"])
  next
    case DriveEject
    then show ?thesis by (auto simp: driveEject_def Let_def
        intro!: withDrive_post [where P = "\<lambda>w'. wdDrive w' = wdDrive w"])
  qed (simp_all add: operationRestore_keeps recovery_keeps inventoryStat_def inventoryList_def
      inventoryFind_def withInventory_def case_prod_beta Let_def)
  then show ?thesis
    unfolding stfsCommand_def by (intro andThen_post [where P = "\<lambda>w'. wdDrive w' = wdDrive w"]) auto
qed

section \<open>Sequences of runs\<close>

definition overwritesDrive :: "command \<Rightarrow> flags \<Rightarrow> bool" where
  "overwritesDrive c fl = (c = OperationInitialize \<or> c = OperationArchive \<and> clOverwrite fl)"

lemma Initialize_kept:
  "backendKept (\<lambda>b. tmKeeps b \<and> prefix m (tmLog b)) (InitializeTape x tapeBackend mp op usr name perm level)"
  unfolding InitializeTape_def Let_def by (intro keeps_intros tm.extending.operations_kept)

lemma growsDrive_refl: "wdDrive w' = wdDrive w \<Longrightarrow> growsDrive d w w'"
  by simp

lemma growsDrive_andThen:
  assumes "growsDrive d w (snd p)" "\<And>v w1. p = (Ok v, w1) \<Longrightarrow> growsDrive d w1 (snd (k v w1))"
  shows "growsDrive d w (snd (andThen p k))"
  using assms by (intro andThen_post [where P = "growsDrive d w"]) (auto intro: prefix_order.trans)

lemma run_appends:
  assumes "clDrive fl = d \<longrightarrow> \<not> overwritesDrive c fl"
  shows "growsDrive d w (snd (stfsCommand x mc c fl w))"
proof (cases "readingCommand c")
  case True
  then show ?thesis by (intro growsDrive_refl reading_run_keeps)
next
  case False
  note appends = loggedOperations_appends [OF tm.extending.operations_kept(1)]
    loggedOperations_appends [OF tm.extending.operations_kept(2)]
    loggedOperations_appends [OF tm.extending.operations_kept(3)]
    loggedOperations_appends [OF tm.extending.operations_kept(4)]
    loggedOperations_appends [OF Initialize_kept]
  have "growsDrive d w1 (snd (runE x mc c fl w1))" for w1
    using False assms
    by (cases c) (auto simp: overwritesDrive_def operationArchive_def operationUpdate_def operationDelete_def
        operationMove_def operationInitialize_def intro!: growsDrive_andThen appends)
  then show ?thesis
    unfolding stfsCommand_def by (intro growsDrive_andThen) auto
qed



section \<open>Runs that fail\<close>

text \<open>A recovery command on a drive that cannot be opened returns no error.\<close>

lemma recovery_without_drive:
  assumes "OpenTapeReadOnly (wdDrive w (clDrive fl)) = Err e"
    and "rootPreRun fl = Ok ()" "readerPreRun (wdFiles w) fl = Ok ()"
    and "readerCrypto x (wdFiles w) fl = Ok crypto"
    and "c \<in> {RecoveryIndex, RecoveryQuery, RecoveryFetch}"
  shows "stfsCommand x mc c fl w = (Ok (), w)"
  using assms by (auto simp: stfsCommand_def recoveryIndex_def recoveryQuery_def recoveryFetch_def
      withDrive_def openDrive_def)

lemma openDatabase_rows: "fst (openDatabase rs) = Ok ()" "rows (snd (openDatabase rs)) = rs"
  by (auto simp: openDatabase_def Open_def GetRootPath_def NewMetadataPersister_def attempt_def
      split: option.splits)

lemma loggedOperations_undone:
  fixes f :: "csv_logger operations \<Rightarrow> (tape_manager, persister, csv_logger) ops_state
    \<Rightarrow> 'r res \<times> (tape_manager, persister, csv_logger) ops_state"
  assumes "\<And>op ev. opPipes op = flagPipes fl \<Longrightarrow> \<exists>b q. f op \<lparr>osBackend = NewTapeManager (wdDrive w (clDrive fl)) ow,
        osMetadata = snd (openDatabase (wdDatabase w (clMetadata fl))), osEvents = ev\<rparr>
      = (Err e, \<lparr>osBackend = b, osMetadata = q, osEvents = ev\<rparr>)
      \<and> tmDrive b = wdDrive w (clDrive fl) \<and> rows q = wdDatabase w (clMetadata fl)"
  shows "loggedOperations mc fl ow crypto f w = (Err e, w)"
proof -
  let ?op = "flagOperations fl crypto (PrintHeaderEvent (mcFormatTime mc))"
  obtain p where p: "openDatabase (wdDatabase w (clMetadata fl)) = (Ok (), p)"
    using openDatabase_rows(1) by (metis prod.collapse)
  have "opPipes ?op = flagPipes fl" by (simp add: flagOperations_def)
  then obtain b q where "f ?op \<lparr>osBackend = NewTapeManager (wdDrive w (clDrive fl)) ow, osMetadata = p,
        osEvents = NewCSVLogger (wdOut w)\<rparr>
      = (Err e, \<lparr>osBackend = b, osMetadata = q, osEvents = NewCSVLogger (wdOut w)\<rparr>)"
    "tmDrive b = wdDrive w (clDrive fl)" "rows q = wdDatabase w (clMetadata fl)"
    using assms p by fastforce
  then show ?thesis
    by (simp add: loggedOperations_def withOperations_def p) (simp add: NewCSVLogger_def)
qed

lemma missing_name_state:
  assumes "tmIdle b" "\<And>rs. mpGetLastIndexedRecordAndBlock mp rs p0 = (Ok (rb rs), p0)"
    and "mpGetHeader mp name p0 = (Err ErrNoRows, p)" "mpGetHeaderByLinkname mp name p = (Err ErrNoRows, q)"
  shows "Delete x tapeBackend mp op name \<lparr>osBackend = b, osMetadata = p0, osEvents = ev\<rparr>
      = (Err ErrNoRows, \<lparr>osBackend = snd (GetWriter b), osMetadata = q, osEvents = ev\<rparr>)"
    "to \<noteq> name \<Longrightarrow> Move x tapeBackend mp op name to \<lparr>osBackend = b, osMetadata = p0, osEvents = ev\<rparr>
      = (Err ErrNoRows, \<lparr>osBackend = snd (GetWriter b), osMetadata = q, osEvents = ev\<rparr>)"
  using assms by (auto simp: Delete_def Move_def ToSlash_def Let_def lookupNameOrLink_def onMetadata_def
      onBackend_def GetWriter_idle split: prod.split)


section \<open>Keys\<close>

text \<open>What a successful \<open>stfs keygen\<close> leaves in the files.\<close>

lemma keygen_files:
  assumes "keygenCmd x mc fl w = (Ok (), w')" "clRecipient fl \<noteq> clIdentity fl"
  obtains privkey pubkey where
    "Keygen x (mcRandom mc) ((flagPipes fl)\<lparr>RecordSize := 0\<rparr>) (clPassword fl) = Ok (privkey, pubkey)"
    "ReadFile (wdFiles w') (clRecipient fl) = Ok pubkey" "ReadFile (wdFiles w') (clIdentity fl) = Ok privkey"
    "osfFile (wdFiles w) (clIdentity fl) = None \<longrightarrow>
       osfFile (wdFiles w') (clIdentity fl) = Some (privkey, 0x180 AND (NOT (osfUmask (wdFiles w))))"
proof -
  obtain privkey pubkey where k:
    "Keygen x (mcRandom mc) ((flagPipes fl)\<lparr>RecordSize := 0\<rparr>) (clPassword fl) = Ok (privkey, pubkey)"
    using assms(1) by (auto simp: keygenCmd_def andThen_Ok_iff)
  obtain s1 s2 where s: "WriteFile (clRecipient fl) pubkey ModePerm (wdFiles w) = (Ok (), s1)"
    "WriteFile (clIdentity fl) privkey 0x180 s1 = (Ok (), s2)" "wdFiles w' = s2"
    using assms(1) by (auto simp: keygenCmd_def k andThen_Ok_iff osMakeDirs_def split: prod.splits option.splits)
  note first = WriteFile_read [OF s(1)] and second = WriteFile_read [OF s(2)]
  have "ReadFile s2 (clRecipient fl) = Ok pubkey"
    using first(1) second(2) [OF assms(2)] by simp
  moreover have "osfFile s1 (clIdentity fl) = osfFile (wdFiles w) (clIdentity fl)"
    using s(1) assms(2) by (auto simp: WriteFile_def os_files_defs andThen_Ok_iff split: if_splits option.splits)
  ultimately show ?thesis
    using that [OF k] second(1,3) first(6) s(3) by simp
qed


section \<open>From one run to the next\<close>

lemma Fetch_observed:
  assumes "\<And>h ev. fst (f h ev) = Ok ()"
    and "Fetch x m pipes crypto dst rec blk to False None (d, ev) = (Ok (), (d', ev))"
  shows "\<exists>ev'. Fetch x m pipes crypto dst rec blk to False (Some f) (d, ev) = (Ok (), (d', ev'))"
proof -
  define g where "g h ev = snd (f h ev)" for h ev
  have f: "f = (\<lambda>h ev. (Ok (), g h ev))" using assms(1) by (intro ext) (simp add: g_def prod_eq_iff)
  obtain p where p: "seekPosition (RecordSize pipes) rec blk = Ok p"
    using assms(2) by (cases "seekPosition (RecordSize pipes) rec blk") (simp_all add: Fetch_def)
  obtain raw q where n: "tarNext m p = (Ok raw, q)"
    using assms(2) by (cases "tarNext m p"; cases "fst (tarNext m p)") (simp_all add: Fetch_def p)
  obtain h where h: "DecryptHeader x raw (Encryption pipes) (Identity crypto) = Ok h"
    using assms(2) by (cases "DecryptHeader x raw (Encryption pipes) (Identity crypto)") (simp_all add: Fetch_def p n)
  obtain hdr where v: "VerifyHeader x h True (Signature pipes) (Recipient crypto) = Ok hdr"
    using assms(2) by (cases "VerifyHeader x h True (Signature pipes) (Recipient crypto)") (simp_all add: Fetch_def p n h)
  note steps = Fetch_def p n h v Let_def onEvents_def onMeta_def f
  show ?thesis
  proof (cases "tTypeflag hdr = TypeDir")
    case True
    then show ?thesis using assms(2) by (auto simp: steps split: prod.splits if_splits)
  next
    case False
    obtain to' where to': "to' = (if to = [] then Base (tName hdr) else to)" by blast
    obtain k d1 where "rdGetDst dst to' (hdrMode hdr) d = (Ok k, d1)"
      using assms(2) False by (cases "rdGetDst dst to' (hdrMode hdr) d"; cases "fst (rdGetDst dst to' (hdrMode hdr) d)")
        (simp_all add: steps to')
    then show ?thesis
      using assms(2) False by (auto simp: steps to' [symmetric] andThen_Ok_iff split: prod.splits if_splits)
  qed
qed

lemma restoreToFiles_written:
  assumes "to \<noteq> []" "osfRefused s to = None"
  obtains s1 s2 where "rdGetDst restoreToFiles to mode s = (Ok (length (osfHandles s)), s1)"
    "rdWrite restoreToFiles (length (osfHandles s)) c s1 = (Ok (), s2)"
    "rdClose restoreToFiles k s2 = (Ok (), s2)" "ReadFile s2 to = Ok c"
  using assms by (auto simp: restoreToFiles_def os_files_defs ReadFile_def nth_append)

definition walkedFile :: "walked \<Rightarrow> 'e file_config" where
  "walkedFile wk =
     \<lparr>fcInfo = wkInfo wk, fcPath = ToSlash (ToSlash (wkPath wk)), fcLink = ToSlash [],
      fcGetFile = \<lambda>ev. (rbind (wkOpen wk) (\<lambda>c. Ok (c, c)), ev), fcClose = \<lambda>ev. (Ok (), ev)\<rparr>"

lemma walkSource_file:
  assumes "wkErr wk = None" "fiMode (wkInfo wk) AND ModeSymlink \<noteq> ModeSymlink"
  shows "walkSource wk = justFile (walkedFile wk)"
  using assms by (intro ext) (simp add: walkSource_def justFile_def walkedFile_def)

lemma operationArchive_Ok:
  assumes "operationArchive x mc fl w = (Ok (), w1)" "writerCrypto x (wdFiles w) fl = Ok wc"
  obtains s hdrs s' where
    "osBackend s = NewTapeManager (wdDrive w (clDrive fl)) (clOverwrite fl)"
    "archive x tapeBackend sqliteMetadata (flagOperations fl wc (PrintHeaderEvent (mcFormatTime mc)))
       (map walkSource (mcWalk mc (clFrom fl))) (clCompressionLevel fl) (clOverwrite fl) False s = (Ok hdrs, s')"
    "wdDrive w1 (clDrive fl) = tmDrive (osBackend s')" "wdFiles w1 = wdFiles w"
proof -
  let ?op = "flagOperations fl wc (PrintHeaderEvent (mcFormatTime mc))"
  obtain p where p: "openDatabase (wdDatabase w (clMetadata fl)) = (Ok (), p)"
    using openDatabase_rows(1) by (metis prod.collapse)
  define s where "s = \<lparr>osBackend = NewTapeManager (wdDrive w (clDrive fl)) (clOverwrite fl), osMetadata = p,
     osEvents = NewCSVLogger (wdOut w)\<rparr>"
  obtain r s' where a: "archive x tapeBackend sqliteMetadata ?op (map walkSource (mcWalk mc (clFrom fl)))
      (clCompressionLevel fl) (clOverwrite fl) False s = (r, s')" by force
  have "rbind r (\<lambda>_. Ok ()) = Ok ()" "wdDrive w1 (clDrive fl) = tmDrive (osBackend s')" "wdFiles w1 = wdFiles w"
    using assms a by (auto simp: operationArchive_def andThen_Ok_iff loggedOperations_def withOperations_def p s_def)
  then show ?thesis using that [of s _ s'] a by (auto simp: rbind_Ok_iff s_def)
qed

lemma archive_opens:
  assumes "archive x tapeBackend mp op srcs level ow init s = (Ok hdrs, s')"
    and "osBackend s = NewTapeManager d ow"
  shows "tmIdle (osBackend s)"
proof -
  obtain s1 where "onBackend GetWriter s = (Ok (), s1)"
    using assms(1) unfolding archive_def tapeBackend_simps by (auto simp: andThen_Ok_iff)
  then have "fst (GetWriter (NewTapeManager d ow)) = Ok ()"
    by (simp add: onBackend_def assms(2) split: prod.splits)
  then have "dfFault d = None"
    by (cases "dfFault d"; cases ow) (auto simp: manager_defs NewTapeManager_def Let_def)
  then show ?thesis by (simp add: assms(2) tmIdle_def NewTapeManager_def)
qed


section \<open>A concrete machine for the witnesses\<close>

definition exampleWalked :: walked where
  "exampleWalked =
     \<lparr>wkPath = ''/a'', wkInfo = fcInfo exampleFile, wkErr = None, wkReadlink = Ok [], wkOpen = Ok ''data''\<rparr>"

text \<open>A regular file is no tape: every \<open>ioctl\<close> fails.\<close>

definition regularKernel :: "drive_file kernel" where
  "regularKernel =
     \<lparr>kIoctlPosition = \<lambda>request pos d. ((Some (ErrExternal ''ENOTTY''), pos), d),
      kIoctlOperation = \<lambda>request opr d. ((Some (ErrExternal ''ENOTTY''), opr), d),
      kOpen = \<lambda>d. (openFile d, d), kClose = \<lambda>d. (Ok (), d),
      kRead = \<lambda>d. (case dfMedium d of None \<Rightarrow> Err ErrNotExist | Some m \<Rightarrow> Ok m, d)\<rparr>"

definition exampleMachine :: machine where
  "exampleMachine =
     \<lparr>mcUser = Ok \<lparr>ouUid = ''0'', ouGid = ''0'', ouUsername = ''root'', ouGroups = Ok [], ouNow = 0\<rparr>,
      mcFormatTime = \<lambda>t. Itoa t, mcWalk = \<lambda>path. [exampleWalked], mcRegexp = \<lambda>e. None, mcRandom = 0,
      mcKernel = regularKernel\<rparr>"

lemma exampleWalk [simp]: "mcWalk exampleMachine path = [exampleWalked]"
  by (simp add: exampleMachine_def)

text \<open>A drive that is not there yet, and no files.\<close>

definition exampleWorld :: world where
  "exampleWorld =
     \<lparr>wdDrive = \<lambda>path. \<lparr>dfMedium = None, dfFault = None\<rparr>, wdDatabase = \<lambda>path. [],
      wdFiles = \<lparr>osfFile = \<lambda>path. None, osfRefused = \<lambda>path. None, osfUmask = 0x12, osfHandles = []\<rparr>,
      wdOut = []\<rparr>"

definition exampleFlags :: flags where
  "exampleFlags =
     \<lparr>clDrive = ''drive.tar'', clMetadata = ''metadata.sqlite'', clVerbose = 2, clCompression = [],
      clEncryption = [], clSignature = [], clRecordSize = RecordSize examplePipes,
      clCompressionLevel = CompressionLevelFastestKey, clRecipient = ''key.pub'', clIdentity = ''key.priv'',
      clPassword = ''pw'', clFrom = ''/a'', clTo = ''/out'', clName = ''/b'', clOverwrite = False,
      clFlatten = False, clPreview = False, clLink = False, clRecord = 0, clBlock = 0, clLimit = - 1,
      clExpression = []\<rparr>"

lemma exampleFlags_simps [simp]:
  "clDrive exampleFlags = ''drive.tar''" "clOverwrite exampleFlags = False" "clName exampleFlags = ''/b''"
  "clFrom exampleFlags = ''/a''" "clTo exampleFlags = ''/out''" "clRecordSize exampleFlags = 20"
  "clCompressionLevel exampleFlags = CompressionLevelFastestKey" "clPreview exampleFlags = False"
  "clRecord exampleFlags = 0" "clBlock exampleFlags = 0" "clEncryption exampleFlags = []"
  "clSignature exampleFlags = []" "clRecipient exampleFlags = ''key.pub''" "clIdentity exampleFlags = ''key.priv''"
  by (simp_all add: exampleFlags_def examplePipes_def)

lemma exampleFlags_root: "rootPreRun exampleFlags = Ok ()"
  by (simp add: rootPreRun_def exampleFlags_def CheckCompressionFormat_def CheckEncryptionFormat_def
      CheckSignatureFormat_def KnownCompressionFormats_def KnownEncryptionFormats_def KnownSignatureFormats_def)

lemma exampleFlags_checks: "writerPreRun s exampleFlags = Ok ()" "readerPreRun s exampleFlags = Ok ()"
  by (simp_all add: writerPreRun_def readerPreRun_def exampleFlags_def CheckKeyAccessible_def)

definition exampleCrypto :: crypto_config where
  "exampleCrypto = \<lparr>Recipient = KBytes [], Identity = KBytes [], Password = ''pw''\<rparr>"

lemma exampleFlags_crypto:
  "writerCrypto x s exampleFlags = Ok exampleCrypto" "readerCrypto x s exampleFlags = Ok exampleCrypto"
  by (simp_all add: writerCrypto_def readerCrypto_def exampleFlags_def ReadKey_def ParseRecipient_def
      ParseSignerIdentity_def ParseSignerRecipient_def ParseIdentity_def exampleCrypto_def)

lemma exampleFlags_pipes: "flagPipes exampleFlags = examplePipes"
  by (simp add: flagPipes_def exampleFlags_def examplePipes_def)





text \<open>The run that archives the example file on a new drive.\<close>

abbreviation exampleRun :: "csv_logger operations" where
  "exampleRun \<equiv> flagOperations exampleFlags exampleCrypto (PrintHeaderEvent (mcFormatTime exampleMachine))"

lemma exampleRun_simps:
  "opPipes exampleRun = examplePipes"
  "opOnHeader exampleRun = Some (PrintHeaderEvent (mcFormatTime exampleMachine))"
  by (simp_all add: flagOperations_def exampleFlags_pipes)

lemma exampleWalked_simps:
  "fcInfo (walkedFile exampleWalked) = fcInfo exampleFile" "fcLink (walkedFile exampleWalked) = []"
  "fcPath (walkedFile exampleWalked) = ''/a''" "fcGetFile (walkedFile exampleWalked) ev = (Ok (''data'', ''data''), ev)"
  "fcClose (walkedFile exampleWalked) ev = (Ok (), ev)"
  "walkSource exampleWalked = justFile (walkedFile exampleWalked)"
proof -
  have "fiMode (fcInfo exampleFile) AND ModeSymlink \<noteq> ModeSymlink" by (simp add: exampleFile_def mode_defs)
  then show "walkSource exampleWalked = justFile (walkedFile exampleWalked)"
    by (intro walkSource_file) (simp_all add: exampleWalked_def)
qed (simp_all add: walkedFile_def exampleWalked_def ToSlash_def)

lemma exampleRun_session:
  "\<exists>l. writeSession tapeBackend (forSources (archiveFile exampleExternal exampleRun CompressionLevelFastestKey)
      [justFile (walkedFile exampleWalked)]) s
   = (Ok [exampleFileEntry], s\<lparr>osBackend := appendBlocks (tapeBlocks [[(exampleFileEntry, 0, ''data'')]]) (osBackend s),
        osEvents := l\<rparr>)"
proof -
  have "fst (announce exampleRun ty hdr w) = Ok ()" for ty hdr w
    by (simp add: announce_def onWEvents_def notify_def exampleRun_simps case_prod_beta)
  then have "\<exists>l. announce exampleRun ty hdr w = (Ok (), w\<lparr>wEvents := l\<rparr>)" for ty hdr w
    by (metis announce_Ok prod.collapse)
  then obtain l where announced: "\<And>ty hdr w. announce exampleRun ty hdr w = (Ok (), w\<lparr>wEvents := l ty hdr w\<rparr>)"
    by metis
  have h: "FileInfoHeader (fcInfo exampleFile) [] = Ok exampleFileHeader"
    using exampleFile_header by (simp add: exampleFile_def)
  show ?thesis
    by (simp add: writeSession_def archiveFile_def h example_size exampleRun_simps exampleWalked_simps exampleFile_regular
        announced Let_def writeHeader_def SignHeader_def EncryptHeader_def onTar_def twWriteHeader_def
        writeContents_def openPipes_def onWEvents_def justFile_def Encrypt_def Compress_def compression_keys crypto_keys
        runCompressor_def twWrite_def cleanupTape_def twClose_def entryBlocks_def) (rule exI, rule refl)
qed

lemma exampleRun_archived:
  "fst (stfsCommand exampleExternal exampleMachine OperationArchive exampleFlags exampleWorld) = Ok ()"
proof -
  let ?T = "[[(exampleFileEntry, 0, ''data'')]]"
  obtain l where session: "\<And>s :: (tape_manager, persister, csv_logger) ops_state. writeSession tapeBackend
      (forSources (archiveFile exampleExternal exampleRun CompressionLevelFastestKey) [justFile (walkedFile exampleWalked)]) s
    = (Ok [exampleFileEntry], s\<lparr>osBackend := appendBlocks (tapeBlocks ?T) (osBackend s), osEvents := l s\<rparr>)"
    using exampleRun_session by metis
  define start where "start = \<lparr>osBackend = NewTapeManager \<lparr>dfMedium = None, dfFault = None\<rparr> False,
      osMetadata = NewMetadataPersister, osEvents = NewCSVLogger []\<rparr>"
  have i: "tmIdle (osBackend start)" "tmStarts (osBackend start) = []"
    by (simp_all add: tmIdle_def tmStarts_def start_def NewTapeManager_def)
  have "fst (archive exampleExternal tapeBackend sqliteMetadata exampleRun [justFile (walkedFile exampleWalked)]
      CompressionLevelFastestKey False False start) = Ok [exampleFileEntry]"
    using i by (simp add: archive_def GetWriter_session session GetWriter_idle exampleRun_simps onMetadata_def
        exampleEmpty_last exampleFile_skipped [unfolded One_nat_def]
        indexAppended_def onBackend_def manager_defs deferCloseReader_def indexDrive_def
        start_def NewTapeManager_def del: tapeBlocks.simps)
  moreover have "openDatabase [] = (Ok (), NewMetadataPersister)"
    by (simp add: openDatabase_def Open_def GetRootPath_def NewMetadataPersister_def)
  ultimately show ?thesis
    using exampleFlags_checks exampleFlags_crypto exampleFlags_root
    by (simp add: stfsCommand_def operationArchive_def CheckCompressionLevel_def KnownCompressionLevels_def
        loggedOperations_def withOperations_def exampleWorld_def start_def exampleWalked_simps
        case_prod_beta exampleWalk)
qed


end
