(* ===== verification/ServingProps.thy ===== *)
theory ServingProps
  imports CommandsProps "HOL-Library.Multiset"
begin

text \<open>
  What the servers do to the drive, and the list of the clients of the FTP server.
\<close>

section \<open>The drive behind a server\<close>

lemma onServeEnv_kept: "backendKept B (onServeEnv f)"
  by (simp add: envKeeps_def onServeEnv_def case_prod_beta Let_def)

lemma serveCalls_kept:
  assumes "backendKept B (InitializeFS x stfs ''/'' ModePerm)"
    and "\<And>s. B (osBackend s) \<Longrightarrow> B (osBackend (snd (runSession x stfs bufs calls ([], s))))"
  shows "backendKept B (serveCalls x os fl t stfs bufs calls)"
  unfolding serveCalls_def
  by (intro keeps_intros onServeEnv_kept assms(1)) (simp add: envKeeps_def assms(2))

lemma serving_reads:
  assumes "fsBackend stfs = tapeBackend" "fsReadOnly stfs" "0 < RecordSize (opPipes (fsWriteOps stfs))"
  shows "backendKept (\<lambda>b. tmDrive b = d) (serveCalls x os fl t stfs bufs calls)"
proof (rule serveCalls_kept)
  show "backendKept (\<lambda>b. tmDrive b = d) (InitializeFS x stfs ''/'' ModePerm)"
    using assms by (intro reading_drive.initializing_kept) (simp_all add: envKeeps_def mknodeWithoutLocking_def)
qed (use assms in \<open>simp add: reading_drive.read_only_session_kept readingFiles_def\<close>)

lemma serving_appends:
  fixes stfs :: "'a serve_fs"
  assumes "fsBackend stfs = tapeBackend"
  shows "backendKept (\<lambda>b. tmKeeps b \<and> prefix m (tmLog b)) (serveCalls x os fl t stfs bufs calls)"
proof (rule serveCalls_kept)
  show "backendKept (\<lambda>b. tmKeeps b \<and> prefix m (tmLog b)) (InitializeFS x stfs ''/'' ModePerm)"
    using assms by (intro tm.extending.initializing_kept tm.extending.mknode_kept)
next
  fix s :: "'a serve_state"
  assume "tmKeeps (osBackend s) \<and> prefix m (tmLog (osBackend s))"
  then show "tmKeeps (osBackend (snd (runSession x stfs bufs calls ([], s))))
      \<and> prefix m (tmLog (osBackend (snd (runSession x stfs bufs calls ([], s)))))"
    using assms by (intro tm.extending.session_calls_kept) simp_all
qed

lemma serveHTTP_keeps:
  assumes "0 < RecordSize (opPipes unused)"
  shows "wdDrive (snd (snd (serveHTTP x mc os fl unused bufs calls st))) = wdDrive (snd st)"
proof -
  have "backendKept (\<lambda>b. tmDrive b = d) (serveCalls x os fl t (httpFileSystem mc fl crypto unused) bufs calls)"
    for d t crypto using assms by (intro serving_reads) (simp_all add: httpFileSystem_def)
  note keeps = readingOperations_keep [OF this]
  show ?thesis
    unfolding serveHTTP_def
    by (intro andThen_post [where P = "\<lambda>st'. wdDrive (snd st') = wdDrive (snd st)"]) (auto simp: keeps)
qed

text \<open>
  The HTTP server never writes to a drive: whatever its flags, whatever its clients call, on the
  file system and on the files it opened, and however each call ends, every drive is as it was,
  also when the index was empty and the server indexed the drive first.
\<close>

theorem http_server_reads_only:
  assumes "0 < RecordSize (opPipes unused)"
  shows "wdDrive (snd (snd (serveHTTP x mc os fl unused bufs calls (ev, w)))) = wdDrive w"
  by (simp add: serveHTTP_keeps [OF assms])

text \<open>
  C9: the FTP server only appends to its drive, whatever its clients call; with \<open>--read-only\<close> it
  leaves the drive as it is.
\<close>

theorem ftp_server_appends:
  fixes os :: "'o os_env"
  assumes "0 < clRecordSize fl"
  shows "prefix (driveMedium (wdDrive w d)) (driveMedium (wdDrive (snd (snd (serveFTP x mc fb os fl calls (ev, w)))) d))
    \<and> (clReadOnly fl \<longrightarrow> wdDrive (snd (snd (serveFTP x mc fb os fl calls (ev, w)))) = wdDrive w)"
proof -
  have fs: "fsBackend (ftpFileSystem mc fl rc wc :: 'o serve_fs) = tapeBackend"
    "fsReadOnly (ftpFileSystem mc fl rc wc :: 'o serve_fs) = clReadOnly fl"
    "0 < RecordSize (opPipes (fsWriteOps (ftpFileSystem mc fl rc wc :: 'o serve_fs)))" for rc wc
    using assms by (simp_all add: ftpFileSystem_def flagOperations_def flagPipes_def)
  let ?bufs = "ftpBuffers fb os fl"
  have "wdDrive (snd (snd (withOperations fl False e
      (serveCalls x os fl t (ftpFileSystem mc fl rc wc) ?bufs calls) w))) = wdDrive w"
    if "clReadOnly fl" for e t rc wc
    by (rule readingOperations_keep, rule serving_reads) (simp_all add: fs that)
  moreover have "growsDrive d w (snd (snd (withOperations fl False e
      (serveCalls x os fl t (ftpFileSystem mc fl rc wc) ?bufs calls) w)))" for e t rc wc
    by (rule withOperations_appends, rule serving_appends) (simp_all add: fs)
  ultimately show ?thesis
    unfolding serveFTP_def
    by (auto simp: andThen_def attempt_def split: prod.split res.split)
qed

section \<open>The clients of the FTP server\<close>

lemma disconnectFrom_mset:
  assumes "clients = seen @ rest" "idx = length seen"
  shows "mset (disconnectFrom ident gone idx rest clients)
    = mset clients - (case find (\<lambda>c. ident c = gone) rest of None \<Rightarrow> {#} | Some c \<Rightarrow> {#c#})"
  using assms
proof (induction rest arbitrary: seen idx)
  case (Cons c rest)
  show ?case
  proof (cases "ident c = gone")
    case True
    show ?thesis
    proof (cases rest rule: rev_cases)
      case Nil
      then show ?thesis using Cons.prems True by simp
    next
      case (snoc mid z)
      then show ?thesis using Cons.prems True by (simp add: nth_append list_update_append)
    qed
  next
    case False
    then show ?thesis using Cons.IH [of "seen @ [c]" "idx + 1"] Cons.prems by simp
  qed
qed simp

text \<open>
  The clients the FTP server knows: disconnecting a connected client, whatever the order, takes
  this client out of the list and no other; disconnecting one that is not connected changes nothing.
\<close>

theorem client_disconnected:
  assumes "distinct (map ident (ftpClients driver))"
  shows "set (ftpClients (ClientDisconnected ident cc driver))
      = {c \<in> set (ftpClients driver). ident c \<noteq> ident cc}
    \<and> distinct (map ident (ftpClients (ClientDisconnected ident cc driver)))"
proof -
  let ?cs = "ftpClients driver" and ?cs' = "ftpClients (ClientDisconnected ident cc driver)"
  have m: "mset ?cs' = mset ?cs - (case find (\<lambda>c. ident c = ident cc) ?cs of None \<Rightarrow> {#} | Some c \<Rightarrow> {#c#})"
    by (simp add: ClientDisconnected_def disconnectFrom_mset [of _ "[]"])
  have d: "distinct ?cs" "inj_on ident (set ?cs)" using assms by (simp_all add: distinct_map)
  show ?thesis
  proof (cases "find (\<lambda>c. ident c = ident cc) ?cs")
    case None
    then have "mset ?cs' = mset ?cs" using m by simp
    then have "set ?cs' = set ?cs" "distinct ?cs'"
      using d(1) by (auto dest: mset_eq_setD mset_eq_imp_distinct_iff)
    then show ?thesis using None d(2) by (auto simp: find_None_iff distinct_map)
  next
    case (Some c)
    then have c: "c \<in> set ?cs" "ident c = ident cc" by (auto simp: find_Some_iff)
    have eq: "mset ?cs' = mset (remove1 c ?cs)" using m Some by simp
    have "set ?cs' = set ?cs - {c}" "distinct ?cs'"
      using mset_eq_setD [OF eq] mset_eq_imp_distinct_iff [OF eq] d(1) by simp_all
    moreover have "ident b = ident cc \<longleftrightarrow> b = c" if "b \<in> set ?cs" for b
      using inj_onD [OF d(2)] c that by auto
    ultimately show ?thesis using d(2) by (auto simp: distinct_map inj_on_def)
  qed
qed

section \<open>Concrete servers for the witnesses\<close>

definition exampleOs :: "unit os_env" where
  "exampleOs =
     \<lparr>osMkdirAll = \<lambda>path s. (Ok (), s), osRemoveAll = \<lambda>path s. (Ok (), s),
      osTempFile = \<lambda>path s. (Ok (Join2 path ''tmp''), s), osRemove = \<lambda>path s. (Ok (), s)\<rparr>"

definition exampleFtpFlags :: ftp_flags where
  "exampleFtpFlags =
     \<lparr>clDrive = ''drive.tar'', clMetadata = ''metadata.sqlite'', clVerbose = 3, clCompression = [],
      clEncryption = [], clSignature = [], clRecordSize = 20,
      clCompressionLevel = CompressionLevelFastestKey, clRecipient = [], clIdentity = [], clPassword = [],
      clFrom = [], clTo = [], clName = [], clOverwrite = False, clFlatten = False, clPreview = False,
      clLink = False, clRecord = 0, clBlock = 0, clLimit = - 1, clExpression = [],
      clLaddr = '':1337'', clCacheFileSystem = [], clCacheDir = ''/tmp/stfs'', clCacheDuration = 3600,
      clEncryptionIdentity = [], clEncryptionPassword = [], clEncryptionRecipient = [],
      clSignatureIdentity = [], clSignaturePassword = [], clSignatureRecipient = [],
      clCacheWrite = WriteCacheTypeFile, clReadOnly = False\<rparr>"

definition exampleTaped :: world where
  "exampleTaped =
     exampleWorld\<lparr>wdDrive := \<lambda>path. \<lparr>dfMedium = Some (tapeBlocks [[exampleRoot]]), dfFault = None\<rparr>\<rparr>"

theorem http_server_reads_only_witness:
  "wdDrive (snd (snd (serveHTTP exampleExternal exampleMachine exampleOs exampleFtpFlags
       (flagOperations exampleFtpFlags exampleCrypto (debugEvent exampleFtpFlags ''Header write''))
       (ftpBuffers exampleFilebuffer exampleOs exampleFtpFlags) exampleCalls (((), []), exampleTaped))))
   = wdDrive exampleTaped"
  by (rule http_server_reads_only) (simp add: flagOperations_def flagPipes_def exampleFtpFlags_def)

theorem ftp_server_appends_witness:
  "prefix (tapeBlocks [[exampleRoot]]) (driveMedium (wdDrive (snd (snd (serveFTP exampleExternal exampleMachine
     exampleFilebuffer exampleOs exampleFtpFlags exampleCalls (((), []), exampleTaped)))) ''drive.tar''))"
proof -
  have "0 < clRecordSize exampleFtpFlags" by (simp add: exampleFtpFlags_def)
  from ftp_server_appends [OF this, of exampleTaped "''drive.tar''" exampleExternal exampleMachine
      exampleFilebuffer exampleOs exampleCalls "((), [])"]
  have "prefix (driveMedium (wdDrive exampleTaped ''drive.tar'')) (driveMedium (wdDrive (snd (snd (serveFTP
     exampleExternal exampleMachine exampleFilebuffer exampleOs exampleFtpFlags exampleCalls (((), []), exampleTaped))))
     ''drive.tar''))" by blast
  then show ?thesis by (simp add: exampleTaped_def driveMedium_def)
qed

definition exampleClients :: "nat ftp_server" where
  "exampleClients = \<lparr>ftpListenAddr = '':1337'', ftpClients = [1, 2, 3]\<rparr>"

theorem client_disconnected_witness:
  "set (ftpClients (ClientDisconnected id 1 exampleClients)) = {2, 3}"
proof -
  have c: "ftpClients exampleClients = [1, 2, 3]" by (simp add: exampleClients_def)
  then have "distinct (map id (ftpClients exampleClients))" by simp
  from client_disconnected [OF this, of 1]
  have "set (ftpClients (ClientDisconnected id 1 exampleClients)) = {i \<in> set [1, 2, 3]. id i \<noteq> id 1}"
    unfolding c by (rule conjunct1)
  also have "\<dots> = {2, 3}" by auto
  finally show ?thesis .
qed

end
